(* ===== verification/Prelude.thy ===== *)
theory Prelude
  imports Main "HOL-Library.Char_ord" "HOL-Library.List_Lexorder" "HOL-Library.Multiset"
begin

text \<open>
  Shared vocabulary of the development.  A Go string is a sequence of bytes, modelled by
  \<open>string\<close> (a list of 8-bit characters), so \<open>length\<close> is Go's \<open>len\<close> and the order of
  \<open>List_Lexorder\<close> over \<open>Char_ord\<close> is Go's \<open><\<close> on strings.  The functions below are
  the operations of Go's \<open>strings\<close>, \<open>strconv\<close> and \<open>sort\<close> packages that the program
  calls, with the lemmas the components share.
\<close>

named_theorems go_defs \<open>definitions that are unfolded to follow one branch of a handler\<close>
named_theorems go_inv \<open>preservation of invariants by single operations\<close>

type_synonym ('k, 'v) gomap = "'k \<Rightarrow> 'v option"

section \<open>Prefixes and substrings\<close>

text \<open>\<open>strings.HasPrefix\<close>, with the prefix as the first argument.\<close>

fun has_prefix :: "string \<Rightarrow> string \<Rightarrow> bool" where
  "has_prefix [] s = True"
| "has_prefix (p # ps) [] = False"
| "has_prefix (p # ps) (c # cs) = (p = c \<and> has_prefix ps cs)"

lemma has_prefix_append [simp]: "has_prefix p (p @ s)"
  by (induction p) auto

lemma has_prefix_iff: "has_prefix p s \<longleftrightarrow> (\<exists>t. s = p @ t)"
  by (induction p s rule: has_prefix.induct) auto

text \<open>\<open>strings.TrimPrefix\<close>.\<close>

definition trim_prefix :: "string \<Rightarrow> string \<Rightarrow> string" where
  "trim_prefix p s = (if has_prefix p s then drop (length p) s else s)"

lemma trim_prefix_append [simp]: "trim_prefix p (p @ s) = s"
  by (simp add: trim_prefix_def)

text \<open>\<open>strings.Index\<close>: the first position of the needle, \<open>None\<close> for Go's -1.\<close>

fun index_of :: "string \<Rightarrow> string \<Rightarrow> nat option" where
  "index_of needle [] = (if needle = [] then Some 0 else None)"
| "index_of needle (c # cs) =
     (if has_prefix needle (c # cs) then Some 0 else map_option Suc (index_of needle cs))"

text \<open>\<open>strings.Contains\<close>, with the needle first.\<close>

definition contains :: "string \<Rightarrow> string \<Rightarrow> bool" where
  "contains needle s \<longleftrightarrow> index_of needle s \<noteq> None"

lemma index_of_None_iff: "index_of n s = None \<longleftrightarrow> (\<nexists>a b. s = a @ n @ b)"
proof (induction s)
  case Nil
  then show ?case by auto
next
  case (Cons c cs)
  have "(\<exists>a b. c # cs = a @ n @ b) \<longleftrightarrow> has_prefix n (c # cs) \<or> (\<exists>a b. cs = a @ n @ b)"
    by (metis append_Cons append_Nil append_eq_Cons_conv has_prefix_iff)
  with Cons show ?case by auto
qed

lemma contains_iff: "contains n s \<longleftrightarrow> (\<exists>a b. s = a @ n @ b)"
  using index_of_None_iff by (auto simp: contains_def)

lemma index_of_single_None: "index_of [c] s = None \<longleftrightarrow> c \<notin> set s"
  by (induction s) auto

lemma index_of_single_append:
  "c \<notin> set a \<Longrightarrow> index_of [c] (a @ c # b) = Some (length a)"
  by (induction a) auto

text \<open>\<open>strings.LastIndex\<close> for a one-byte needle.\<close>

fun last_index :: "char \<Rightarrow> string \<Rightarrow> nat option" where
  "last_index c [] = None"
| "last_index c (x # xs) =
     (case last_index c xs of
        Some i \<Rightarrow> Some (Suc i)
      | None \<Rightarrow> if x = c then Some 0 else None)"

lemma last_index_None_iff: "last_index c s = None \<longleftrightarrow> c \<notin> set s"
  by (induction s) (auto split: option.splits)

lemma last_index_append:
  "c \<notin> set b \<Longrightarrow> last_index c (a @ c # b) = Some (length a)"
proof (induction a)
  case Nil
  then have "last_index c b = None" by (simp add: last_index_None_iff)
  then show ?case by simp
next
  case (Cons x xs)
  then show ?case by simp
qed

lemma last_index_Some_split:
  assumes "last_index c s = Some i"
  shows "s = take i s @ c # drop (Suc i) s \<and> c \<notin> set (drop (Suc i) s)"
  using assms
proof (induction s arbitrary: i)
  case Nil
  then show ?case by simp
next
  case (Cons x xs)
  show ?case
  proof (cases "last_index c xs")
    case None
    with Cons.prems have "x = c" "i = 0" by (auto split: if_splits)
    with None show ?thesis by (simp add: last_index_None_iff)
  next
    case (Some j)
    with Cons.prems have "i = Suc j" by simp
    with Cons.IH [OF Some] show ?thesis by simp
  qed
qed

section \<open>Splitting and joining\<close>

text \<open>\<open>strings.Split(s, c)\<close> for a one-byte separator: never empty, as in Go.\<close>

fun split_on :: "char \<Rightarrow> string \<Rightarrow> string list" where
  "split_on c [] = [[]]"
| "split_on c (x # xs) =
     (if x = c then [] # split_on c xs
      else (case split_on c xs of [] \<Rightarrow> [[x]] | p # ps \<Rightarrow> (x # p) # ps))"

text \<open>\<open>strings.Join\<close>.\<close>

fun join_with :: "string \<Rightarrow> string list \<Rightarrow> string" where
  "join_with sep [] = []"
| "join_with sep [p] = p"
| "join_with sep (p # q # ps) = p @ sep @ join_with sep (q # ps)"

lemma split_on_not_Nil [simp]: "split_on c s \<noteq> []"
  by (induction s) (auto split: list.splits)

lemma length_split_on_pos [simp]: "0 < length (split_on c s)"
  by simp

lemma join_with_Cons: "ps \<noteq> [] \<Longrightarrow> join_with sep (p # ps) = p @ sep @ join_with sep ps"
  by (cases ps) auto

lemma join_split_on [simp]: "join_with [c] (split_on c s) = s"
proof (induction s)
  case Nil
  show ?case by simp
next
  case (Cons x xs)
  obtain p ps where p: "split_on c xs = p # ps"
    by (cases "split_on c xs") auto
  have "join_with [c] ((x # p) # ps) = x # join_with [c] (p # ps)"
    by (cases ps) auto
  with Cons p show ?case by (auto simp: join_with_Cons)
qed

lemma split_on_no_sep: "c \<notin> set s \<Longrightarrow> split_on c s = [s]"
  by (induction s) auto

lemma split_on_append: "c \<notin> set a \<Longrightarrow> split_on c (a @ c # b) = a # split_on c b"
  by (induction a) auto

lemma split_on_pieces: "p \<in> set (split_on c s) \<Longrightarrow> c \<notin> set p"
  by (induction s arbitrary: p) (auto split: if_splits list.splits)

lemma split_join:
  "ps \<noteq> [] \<Longrightarrow> (\<And>p. p \<in> set ps \<Longrightarrow> c \<notin> set p) \<Longrightarrow> split_on c (join_with [c] ps) = ps"
proof (induction ps)
  case Nil
  then show ?case by simp
next
  case (Cons p ps)
  show ?case
  proof (cases "ps = []")
    case True
    with Cons.prems show ?thesis by (simp add: split_on_no_sep)
  next
    case False
    with Cons show ?thesis by (simp add: join_with_Cons split_on_append)
  qed
qed

lemma length_split_on: "length (split_on c s) = Suc (count_list s c)"
  by (induction s) (auto split: list.splits)

text \<open>\<open>strings.SplitN(s, c, n)\<close> for positive n: the last piece keeps its separators.\<close>

definition split_n :: "nat \<Rightarrow> char \<Rightarrow> string \<Rightarrow> string list" where
  "split_n n c s =
     (let ps = split_on c s in
      if length ps \<le> n then ps else take (n - 1) ps @ [join_with [c] (drop (n - 1) ps)])"

lemma length_split_n: "0 < n \<Longrightarrow> length (split_n n c s) \<le> n"
  by (auto simp: split_n_def Let_def)

section \<open>Truncation\<close>

text \<open>
  The idiom \<open>if len(s) > n { s = s[:n-3] + "..." }\<close>, used for release notes, dependency
  files and table cells.  The cut is on bytes, as in Go.
\<close>

definition clip :: "nat \<Rightarrow> string \<Rightarrow> string" where
  "clip n s = (if n < length s then take (n - 3) s @ ''...'' else s)"

lemma length_clip: "3 \<le> n \<Longrightarrow> length (clip n s) \<le> n"
  by (cases "n < length s") (auto simp: clip_def)

lemma clip_id: "length s \<le> n \<Longrightarrow> clip n s = s"
  by (simp add: clip_def)

section \<open>Paths\<close>

text \<open>
  \<open>filepath.Clean\<close>, \<open>filepath.Join\<close> and \<open>filepath.Dir\<close> on Unix.  The elements are kept in reverse;
  \<open>..\<close> removes the element before it and stays at the front of a relative path only.
\<close>

fun clean_elems :: "bool \<Rightarrow> string list \<Rightarrow> string list \<Rightarrow> string list" where
  "clean_elems rooted out [] = rev out"
| "clean_elems rooted out (e # es) =
     (if e = [] \<or> e = ''.'' then clean_elems rooted out es
      else if e = ''..'' then
        (case out of
           o1 # rest \<Rightarrow> if o1 \<noteq> ''..'' then clean_elems rooted rest es else clean_elems rooted (e # out) es
         | [] \<Rightarrow> if rooted then clean_elems rooted out es else clean_elems rooted [e] es)
      else clean_elems rooted (e # out) es)"

definition path_clean :: "string \<Rightarrow> string" where
  "path_clean p =
     (let rooted = has_prefix ''/'' p;
          q = (if rooted then ''/'' else []) @ join_with ''/'' (clean_elems rooted [] (split_on CHR ''/'' p))
      in if q = [] then ''.'' else q)"

definition path_join :: "string list \<Rightarrow> string" where
  "path_join ps =
     (let qs = filter (\<lambda>p. p \<noteq> []) ps in if qs = [] then [] else path_clean (join_with ''/'' qs))"

definition path_dir :: "string \<Rightarrow> string" where
  "path_dir p = path_clean (case last_index CHR ''/'' p of None \<Rightarrow> [] | Some i \<Rightarrow> take (Suc i) p)"

section \<open>Numbers\<close>

text \<open>\<open>strconv.Itoa\<close> and \<open>%d\<close>.\<close>

fun show_nat :: "nat \<Rightarrow> string" where
  "show_nat n =
     (if n < 10 then [char_of (48 + n)] else show_nat (n div 10) @ [char_of (48 + n mod 10)])"

declare show_nat.simps [simp del]

definition show_int :: "int \<Rightarrow> string" where
  "show_int i = (if i < 0 then ''-'' @ show_nat (nat (- i)) else show_nat (nat i))"

section \<open>Sorting\<close>

text \<open>
  \<open>sort.Slice\<close> promises a permutation in which no later element is less than an earlier
  one; the order of equal elements is unspecified.  The contract is a locale, so what the
  components prove of a sorted result rests on the promise and not on the algorithm; the
  model computes with a stable insertion sort, one of the results Go may give.
\<close>

definition weak_order :: "('a \<Rightarrow> 'a \<Rightarrow> bool) \<Rightarrow> bool" where
  "weak_order lt \<longleftrightarrow>
     (\<forall>x. \<not> lt x x) \<and> (\<forall>x y z. lt x y \<longrightarrow> lt y z \<longrightarrow> lt x z) \<and>
     (\<forall>x y z. \<not> lt y x \<longrightarrow> \<not> lt z y \<longrightarrow> \<not> lt z x)"

lemma weak_order_irrefl: "weak_order lt \<Longrightarrow> \<not> lt x x"
  by (simp add: weak_order_def)

lemma weak_order_asym: "weak_order lt \<Longrightarrow> lt x y \<Longrightarrow> \<not> lt y x"
  unfolding weak_order_def by blast

lemma weak_order_ntrans: "weak_order lt \<Longrightarrow> \<not> lt y x \<Longrightarrow> \<not> lt z y \<Longrightarrow> \<not> lt z x"
  unfolding weak_order_def by blast

lemma weak_order_key:
  fixes f :: "'a \<Rightarrow> 'b :: linorder"
  shows "weak_order (\<lambda>x y. f x < f y)" "weak_order (\<lambda>x y. f y < f x)"
  by (auto simp: weak_order_def)

locale slice_sorter =
  fixes sorter :: "('a \<Rightarrow> 'a \<Rightarrow> bool) \<Rightarrow> 'a list \<Rightarrow> 'a list"
  assumes mset_sorter: "mset (sorter lt xs) = mset xs"
    and sorted_sorter: "weak_order lt \<Longrightarrow> sorted_wrt (\<lambda>x y. \<not> lt y x) (sorter lt xs)"
begin

lemma set_sorter: "set (sorter lt xs) = set xs"
  by (metis mset_sorter set_mset_mset)

lemma length_sorter: "length (sorter lt xs) = length xs"
  by (metis mset_sorter size_mset)

lemma sorter_before:
  assumes "weak_order lt" "i < j" "j < length xs"
  shows "\<not> lt (sorter lt xs ! j) (sorter lt xs ! i)"
  using sorted_sorter [OF assms(1), of xs] assms(2,3)
  by (auto simp: sorted_wrt_iff_nth_less length_sorter)

lemma sorter_head_least:
  assumes "weak_order lt" "xs \<noteq> []" "y \<in> set xs"
  shows "\<not> lt y (hd (sorter lt xs))"
proof (cases "sorter lt xs")
  case Nil
  with assms(2) length_sorter [of lt xs] show ?thesis by simp
next
  case (Cons z zs)
  with sorted_sorter [OF assms(1), of xs] have "\<forall>w\<in>set zs. \<not> lt w z" by simp
  moreover have "y = z \<or> y \<in> set zs"
    using assms(3) Cons set_sorter [of lt xs] by auto
  ultimately show ?thesis
    using Cons assms(1) by (auto dest: weak_order_irrefl)
qed

end

fun insert_by :: "('a \<Rightarrow> 'a \<Rightarrow> bool) \<Rightarrow> 'a \<Rightarrow> 'a list \<Rightarrow> 'a list" where
  "insert_by lt x [] = [x]"
| "insert_by lt x (y # ys) = (if lt y x then y # insert_by lt x ys else x # y # ys)"

fun sort_slice :: "('a \<Rightarrow> 'a \<Rightarrow> bool) \<Rightarrow> 'a list \<Rightarrow> 'a list" where
  "sort_slice lt [] = []"
| "sort_slice lt (x # xs) = insert_by lt x (sort_slice lt xs)"

lemma mset_insert_by [simp]: "mset (insert_by lt x ys) = add_mset x (mset ys)"
  by (induction ys) auto

lemma set_insert_by [simp]: "set (insert_by lt x ys) = insert x (set ys)"
  by (induction ys) auto

lemma sorted_insert_by:
  assumes "weak_order lt"
  shows "sorted_wrt (\<lambda>x y. \<not> lt y x) ys \<Longrightarrow> sorted_wrt (\<lambda>x y. \<not> lt y x) (insert_by lt x ys)"
proof (induction ys)
  case Nil
  then show ?case by simp
next
  case (Cons y ys)
  show ?case
  proof (cases "lt y x")
    case True
    with Cons show ?thesis by (auto dest: weak_order_asym [OF assms])
  next
    case False
    have "\<not> lt z x" if "z \<in> set ys" for z
    proof -
      from that Cons.prems have "\<not> lt z y" by simp
      with False show ?thesis by (rule weak_order_ntrans [OF assms])
    qed
    with False Cons.prems show ?thesis by simp
  qed
qed

interpretation go_sort: slice_sorter sort_slice
proof
  fix lt :: "'a \<Rightarrow> 'a \<Rightarrow> bool" and xs :: "'a list"
  show "mset (sort_slice lt xs) = mset xs"
    by (induction xs) auto
next
  fix lt :: "'a \<Rightarrow> 'a \<Rightarrow> bool" and xs :: "'a list"
  assume "weak_order lt"
  then show "sorted_wrt (\<lambda>x y. \<not> lt y x) (sort_slice lt xs)"
    by (induction xs) (auto intro: sorted_insert_by)
qed

section \<open>Loops\<close>

lemma filter_neq_id: "k \<notin> f ` set xs \<Longrightarrow> filter (\<lambda>x. f x \<noteq> k) xs = xs"
  by (auto simp: filter_id_conv)

lemma distinct_map_neq: "distinct (map f (x # xs)) \<Longrightarrow> y \<in> set xs \<Longrightarrow> f y \<noteq> f x"
  by (auto simp: image_iff)

text \<open>
  The loop \<open>for _, x := range xs { if !seen[key(x)] { out = append(out, x); seen[key(x)] = true } }\<close>.
\<close>

fun append_unseen :: "('a \<Rightarrow> 'k) \<Rightarrow> 'a list \<Rightarrow> 'k set \<Rightarrow> 'a list \<Rightarrow> 'a list \<times> 'k set" where
  "append_unseen key out seen [] = (out, seen)"
| "append_unseen key out seen (x # xs) =
     (if key x \<in> seen then append_unseen key out seen xs
      else append_unseen key (out @ [x]) (insert (key x) seen) xs)"

lemma append_unseen_inv:
  assumes "seen = key ` set out" "distinct (map key out)"
    and "append_unseen key out seen xs = (out', seen')"
  shows "seen' = key ` set out' \<and> distinct (map key out') \<and> seen' = seen \<union> key ` set xs \<and>
    set out' \<subseteq> set out \<union> set xs \<and> (\<exists>more. out' = out @ more)"
  using assms
proof (induction xs arbitrary: out seen)
  case Nil
  then show ?case by auto
next
  case (Cons x xs)
  show ?case
  proof (cases "key x \<in> seen")
    case True
    with Cons.prems have "append_unseen key out seen xs = (out', seen')" by simp
    from Cons.IH [OF Cons.prems(1,2) this] True show ?thesis by auto
  next
    case False
    with Cons.prems have run: "append_unseen key (out @ [x]) (insert (key x) seen) xs = (out', seen')"
      by simp
    have "insert (key x) seen = key ` set (out @ [x])" "distinct (map key (out @ [x]))"
      using Cons.prems(1,2) False by auto
    from Cons.IH [OF this run] show ?thesis by auto
  qed
qed

end
