(* ===== verification/Go_Errors.thy ===== *)
theory Go_Errors
  imports Prelude
begin

text \<open>
  The error values of the program (\<open>internal/errors/errors.go\<close>) and the standard library
  constructors it builds them with: \<open>errors.New\<close> and \<open>fmt.Errorf\<close> without a verb for an
  error (\<open>Plain\<close>), \<open>fmt.Errorf("context: %w", err)\<close> (\<open>Wrapf\<close>) and \<open>errors.Join\<close>
  (\<open>JoinErr\<close>).  A Go \<open>error\<close> that may be nil is a \<open>go_error option\<close>; a function that
  returns \<open>(T, error)\<close> returns \<open>go_error + T\<close>.
\<close>

section \<open>Error values\<close>

datatype sentinel = ErrNotFound | ErrRateLimit | ErrAuth

datatype go_error =
    Sentinel sentinel
  | Plain string
  | Wrapf string go_error
  | ProviderError string int string "go_error option"
  | ConfigError string string
  | JoinErr "go_error list"

type_synonym 'a result = "go_error + 'a"

definition em_dash :: string where
  "em_dash = [CHR 0xE2, CHR 0x80, CHR 0x94]"

definition newline :: string where
  "newline = [CHR 0x0A]"

fun sentinel_text :: "sentinel \<Rightarrow> string" where
  "sentinel_text ErrNotFound = ''not found''"
| "sentinel_text ErrRateLimit = ''rate limit exceeded''"
| "sentinel_text ErrAuth = ''authentication failed''"

text \<open>The methods \<open>Error()\<close>.\<close>

fun error_text :: "go_error \<Rightarrow> string" where
  "error_text (Sentinel s) = sentinel_text s"
| "error_text (Plain m) = m"
| "error_text (Wrapf ctx e) = ctx @ '': '' @ error_text e"
| "error_text (ProviderError platform status msg cause) =
     (if status > 0 then platform @ '': HTTP '' @ show_int status @ '': '' @ msg
      else platform @ '': '' @ msg)"
| "error_text (ConfigError field msg) = ''config error: '' @ field @ '': '' @ msg"
| "error_text (JoinErr es) = join_with newline (map error_text es)"

text \<open>\<open>errors.Is(err, target)\<close> along \<open>Unwrap() error\<close> and \<open>Unwrap() []error\<close>.\<close>

fun errors_is :: "sentinel \<Rightarrow> go_error \<Rightarrow> bool" where
  "errors_is t (Sentinel s) = (s = t)"
| "errors_is t (Plain m) = False"
| "errors_is t (Wrapf ctx e) = errors_is t e"
| "errors_is t (ProviderError platform status msg None) = False"
| "errors_is t (ProviderError platform status msg (Some e)) = errors_is t e"
| "errors_is t (ConfigError field msg) = False"
| "errors_is t (JoinErr es) = (\<exists>e \<in> set es. errors_is t e)"

definition is_not_found :: "go_error \<Rightarrow> bool" where
  "is_not_found e = errors_is ErrNotFound e"

definition is_rate_limit :: "go_error \<Rightarrow> bool" where
  "is_rate_limit e = errors_is ErrRateLimit e"

definition is_auth :: "go_error \<Rightarrow> bool" where
  "is_auth e = errors_is ErrAuth e"

text \<open>\<open>errors.Join(errs...)\<close> of errors none of which is nil.\<close>

definition join_errors :: "go_error list \<Rightarrow> go_error option" where
  "join_errors es = (if es = [] then None else Some (JoinErr es))"

text \<open>\<open>NewProviderError(platform, status, url)\<close>.\<close>

definition new_provider_error :: "string \<Rightarrow> int \<Rightarrow> string \<Rightarrow> go_error" where
  "new_provider_error platform status url =
     (if status = 401 \<or> status = 403 then
        ProviderError platform status (''unauthorized '' @ em_dash @ '' check your API token'')
          (Some (Sentinel ErrAuth))
      else if status = 404 then
        ProviderError platform status (''resource not found: '' @ url) (Some (Sentinel ErrNotFound))
      else if status = 429 then
        ProviderError platform status (''rate limit exceeded '' @ em_dash @ '' try again later'')
          (Some (Sentinel ErrRateLimit))
      else ProviderError platform status (''unexpected status for '' @ url) None)"

lemmas errors_is_defs = is_not_found_def is_rate_limit_def is_auth_def

lemma errors_is_new_provider_error:
  "errors_is t (new_provider_error platform status url) \<longleftrightarrow>
     (case t of ErrAuth \<Rightarrow> status = 401 \<or> status = 403
      | ErrNotFound \<Rightarrow> status = 404 | ErrRateLimit \<Rightarrow> status = 429)"
  by (cases t) (auto simp: new_provider_error_def)

text \<open>
  Wrapping with any number of contexts keeps the class of an error: the callers of the
  providers add \<open>"list releases: "\<close>, \<open>"get latest release: "\<close> and so on, and still branch on
  \<open>IsAuth\<close>, \<open>IsNotFound\<close> and \<open>IsRateLimit\<close>.
\<close>

fun wrap_all :: "string list \<Rightarrow> go_error \<Rightarrow> go_error" where
  "wrap_all [] e = e"
| "wrap_all (c # cs) e = Wrapf c (wrap_all cs e)"

lemma errors_is_wrap_all [simp]: "errors_is t (wrap_all cs e) = errors_is t e"
  by (induction cs) auto

section \<open>Quoted text\<close>

text \<open>
  \<open>%q\<close> (\<open>strconv.Quote\<close>): quotes, backslashes and ASCII control characters are escaped.
  Bytes from 0x80 on are kept, which is what Go does for printable UTF-8.
\<close>

fun hex_digit :: "nat \<Rightarrow> char" where
  "hex_digit n = char_of (if n < 10 then 48 + n else 87 + n)"

definition quote_char :: "char \<Rightarrow> string" where
  "quote_char c =
     (if c = CHR 0x22 then [CHR 0x5C, CHR 0x22]
      else if c = CHR 0x5C then [CHR 0x5C, CHR 0x5C]
      else if c = CHR 0x07 then CHR 0x5C # ''a''
      else if c = CHR 0x08 then CHR 0x5C # ''b''
      else if c = CHR 0x0C then CHR 0x5C # ''f''
      else if c = CHR 0x0A then CHR 0x5C # ''n''
      else if c = CHR 0x0D then CHR 0x5C # ''r''
      else if c = CHR 0x09 then CHR 0x5C # ''t''
      else if c = CHR 0x0B then CHR 0x5C # ''v''
      else if (of_char c :: nat) < 32 \<or> c = CHR 0x7F then
        CHR 0x5C # ''x'' @ [hex_digit (of_char c div 16), hex_digit (of_char c mod 16)]
      else [c])"

definition quote :: "string \<Rightarrow> string" where
  "quote s = CHR 0x22 # concat (map quote_char s) @ [CHR 0x22]"

lemma quote_not_Nil [simp]: "quote s \<noteq> []"
  by (simp add: quote_def)

section \<open>Classification of provider failures\<close>

text \<open>
  However many contexts the callers wrap around it, an error made from an HTTP status is
  an authentication error for 401 and 403, a not-found error for 404, a rate-limit error for
  429, and none of the three for every other status; the classes never overlap.
\<close>

theorem provider_error_classes:
  "is_auth (wrap_all cs (new_provider_error p st url)) = (st = 401 \<or> st = 403) \<and>
   is_not_found (wrap_all cs (new_provider_error p st url)) = (st = 404) \<and>
   is_rate_limit (wrap_all cs (new_provider_error p st url)) = (st = 429)"
  by (simp add: errors_is_defs errors_is_new_provider_error)

end
