(* ===== verification/Model.thy ===== *)
theory Model
  imports Go_Errors
begin

text \<open>
  The data of \<open>internal/model/model.go\<close> and the part of Go's \<open>time\<close> package it rests on.
  A \<open>time.Time\<close> is its instant, in nanoseconds since the zero time (1 January of year 1,
  UTC), with the offset in seconds of the location it is printed in; \<open>IsZero\<close>, \<open>Before\<close>
  and \<open>After\<close> look at the instant alone, \<open>Format\<close> at the local reading.
\<close>

section \<open>Time\<close>

record gotime =
  instant :: int
  zone_offset :: int

definition zero_time :: gotime where
  "zero_time = \<lparr>instant = 0, zone_offset = 0\<rparr>"

definition is_zero_time :: "gotime \<Rightarrow> bool" where
  "is_zero_time t \<longleftrightarrow> instant t = 0"

definition time_before :: "gotime \<Rightarrow> gotime \<Rightarrow> bool" where
  "time_before t u \<longleftrightarrow> instant t < instant u"

definition time_after :: "gotime \<Rightarrow> gotime \<Rightarrow> bool" where
  "time_after t u \<longleftrightarrow> instant u < instant t"

abbreviation second :: int where "second \<equiv> 1000000000"
abbreviation minute :: int where "minute \<equiv> 60 * second"
abbreviation hour :: int where "hour \<equiv> 60 * minute"

text \<open>
  The civil date of a day number (day 0 is 1 January of year 1), in the proleptic Gregorian
  calendar Go uses: 400-year eras of 146097 days, counted from 1 March.
\<close>

definition civil_of_days :: "int \<Rightarrow> int \<times> int \<times> int" where
  "civil_of_days n =
     (let z = n + 306;
          era = z div 146097;
          doe = z mod 146097;
          yoe = (doe - doe div 1460 + doe div 36524 - doe div 146096) div 365;
          doy = doe - (365 * yoe + yoe div 4 - yoe div 100);
          mp = (5 * doy + 2) div 153;
          d = doy - (153 * mp + 2) div 5 + 1;
          m = (if mp < 10 then mp + 3 else mp - 9);
          y = yoe + era * 400 + (if m \<le> 2 then 1 else 0)
      in (y, m, d))"

definition local_seconds :: "gotime \<Rightarrow> int" where
  "local_seconds t = instant t div second + zone_offset t"

fun pad_zero :: "nat \<Rightarrow> string \<Rightarrow> string" where
  "pad_zero n s = replicate (n - length s) CHR ''0'' @ s"

text \<open>A number printed with leading zeros (\<open>appendInt\<close> of package \<open>time\<close>).\<close>

definition pad_int :: "nat \<Rightarrow> int \<Rightarrow> string" where
  "pad_int n i = (if i < 0 then ''-'' else []) @ pad_zero n (show_nat (nat \<bar>i\<bar>))"

text \<open>\<open>t.Format("2006-01-02")\<close> and \<open>t.Format("2006-01-02 15:04")\<close>.\<close>

definition format_date :: "gotime \<Rightarrow> string" where
  "format_date t =
     (case civil_of_days (local_seconds t div 86400) of
        (y, m, d) \<Rightarrow> pad_int 4 y @ ''-'' @ pad_int 2 m @ ''-'' @ pad_int 2 d)"

definition format_minute :: "gotime \<Rightarrow> string" where
  "format_minute t =
     (let s = local_seconds t mod 86400 in
      format_date t @ '' '' @ pad_int 2 (s div 3600) @ '':'' @ pad_int 2 (s mod 3600 div 60))"

text \<open>\<open>t.Format("15:04:05")\<close> and \<open>t.Format("2006-01-02 15:04:05")\<close>.\<close>

definition format_clock :: "gotime \<Rightarrow> string" where
  "format_clock t =
     (let s = local_seconds t mod 86400 in
      pad_int 2 (s div 3600) @ '':'' @ pad_int 2 (s mod 3600 div 60) @ '':'' @ pad_int 2 (s mod 60))"

definition format_second :: "gotime \<Rightarrow> string" where
  "format_second t = format_date t @ '' '' @ format_clock t"

section \<open>Records\<close>

record release =
  rel_tag :: string
  rel_name :: string
  rel_body :: string
  rel_draft :: bool
  rel_prerelease :: bool
  rel_published_at :: gotime
  rel_html_url :: string

record git_tag =
  tag_name :: string
  tag_commit :: string

record service =
  svc_name :: string
  svc_repo :: string
  svc_registry :: string
  svc_platform :: string
  svc_owner :: string
  svc_repo_name :: string

record version_status =
  vs_service :: string
  vs_latest_release :: string
  vs_deployed_version :: string
  vs_behind :: int
  vs_up_to_date :: bool

end
