(* ===== verification/Duration.thy ===== *)
theory Duration
  imports Model
begin

text \<open>
  \<open>time.ParseDuration\<close> of Go's standard library, which \<open>internal/config/config.go\<close> uses to
  accept and to read the cache TTL: an optional sign, then one or more numbers with a unit.
  The running total is a 64-bit unsigned word and every overflow check of the original is
  kept.  A fraction is rounded down exactly where Go multiplies in floating point.
\<close>

definition is_digit :: "char \<Rightarrow> bool" where
  "is_digit c \<longleftrightarrow> CHR ''0'' \<le> c \<and> c \<le> CHR ''9''"

definition digit_val :: "char \<Rightarrow> int" where
  "digit_val c = int (of_char c) - 48"

fun leading_int :: "int \<Rightarrow> string \<Rightarrow> (int \<times> string) option" where
  "leading_int x [] = Some (x, [])"
| "leading_int x (c # cs) =
     (if \<not> is_digit c then Some (x, c # cs)
      else if x > 2 ^ 63 div 10 then None
      else if x * 10 + digit_val c > 2 ^ 63 then None
      else leading_int (x * 10 + digit_val c) cs)"

fun leading_fraction :: "int \<Rightarrow> int \<Rightarrow> bool \<Rightarrow> string \<Rightarrow> int \<times> int \<times> string" where
  "leading_fraction x scale overflow [] = (x, scale, [])"
| "leading_fraction x scale overflow (c # cs) =
     (if \<not> is_digit c then (x, scale, c # cs)
      else if overflow then leading_fraction x scale True cs
      else if x > (2 ^ 63 - 1) div 10 then leading_fraction x scale True cs
      else if x * 10 + digit_val c > 2 ^ 63 then leading_fraction x scale True cs
      else leading_fraction (x * 10 + digit_val c) (scale * 10) False cs)"

definition unit_of :: "string \<Rightarrow> int option" where
  "unit_of u =
     (if u = ''ns'' then Some 1
      else if u = ''us'' \<or> u = [CHR 0xC2, CHR 0xB5, CHR ''s''] \<or> u = [CHR 0xCE, CHR 0xBC, CHR ''s'']
        then Some 1000
      else if u = ''ms'' then Some 1000000
      else if u = ''s'' then Some second
      else if u = ''m'' then Some minute
      else if u = ''h'' then Some hour
      else None)"

definition unit_char :: "char \<Rightarrow> bool" where
  "unit_char c \<longleftrightarrow> c \<noteq> CHR ''.'' \<and> \<not> is_digit c"

text \<open>One number with its unit, and the rest of the text.\<close>

definition after_int :: "string \<Rightarrow> int \<times> int \<times> string \<times> bool" where
  "after_int s =
     (case s of
        c # cs \<Rightarrow>
          if c = CHR ''.'' then
            (case leading_fraction 0 1 False cs of (f, scale, r) \<Rightarrow> (f, scale, r, length r \<noteq> length cs))
          else (0, 1, s, False)
      | [] \<Rightarrow> (0, 1, s, False))"

definition duration_part :: "string \<Rightarrow> (int \<times> string) option" where
  "duration_part s =
     (case leading_int 0 s of
        None \<Rightarrow> None
      | Some (v, s1) \<Rightarrow>
          (case after_int s1 of (f, scale, s2, post) \<Rightarrow>
             if length s1 = length s \<and> \<not> post then None
             else (case unit_of (takeWhile unit_char s2) of
                 None \<Rightarrow> None
               | Some u \<Rightarrow>
                   if v > 2 ^ 63 div u then None
                   else let w = v * u + (if f > 0 then f * u div scale else 0) in
                     if w > 2 ^ 63 then None else Some (w, dropWhile unit_char s2))))"

lemma leading_int_length: "leading_int x s = Some (v, r) \<Longrightarrow> length r \<le> length s"
  by (induction x s rule: leading_int.induct) (auto split: if_splits)

lemma leading_fraction_length:
  "leading_fraction x sc ov s = (f, sc', r) \<Longrightarrow> length r \<le> length s"
  by (induction x sc ov s rule: leading_fraction.induct) (auto split: if_splits)

lemma after_int_length: "after_int s = (f, sc, r, post) \<Longrightarrow> length r \<le> length s"
  by (auto simp: after_int_def split: list.splits if_splits prod.splits
      dest: leading_fraction_length)

lemma duration_part_length: "duration_part s = Some (v, r) \<Longrightarrow> length r < length s"
proof -
  assume h: "duration_part s = Some (v, r)"
  then obtain v1 s1 f sc s2 post u where
    s1: "leading_int 0 s = Some (v1, s1)" and s2: "after_int s1 = (f, sc, s2, post)" and
    u: "unit_of (takeWhile unit_char s2) = Some u" and r: "r = dropWhile unit_char s2"
    by (auto simp: duration_part_def Let_def split: option.splits prod.splits if_splits)
  have "takeWhile unit_char s2 \<noteq> []"
    using u by (auto simp: unit_of_def)
  then have "length (dropWhile unit_char s2) < length s2"
    by (cases s2) (auto simp: le_imp_less_Suc length_dropWhile_le split: if_splits)
  then show ?thesis
    using leading_int_length [OF s1] after_int_length [OF s2] r by simp
qed

function duration_total :: "int \<Rightarrow> string \<Rightarrow> int option" where
  "duration_total d s =
     (if s = [] then Some d
      else case duration_part s of
          None \<Rightarrow> None
        | Some (v, r) \<Rightarrow>
            let d' = (d + v) mod 2 ^ 64 in
            if d' > 2 ^ 63 then None else duration_total d' r)"
  by pat_completeness auto
termination
  by (relation "measure (\<lambda>(d, s). length s)") (auto dest: duration_part_length)

declare duration_total.simps [simp del]

definition parse_duration :: "string \<Rightarrow> int option" where
  "parse_duration orig =
     (let neg = (case orig of c # _ \<Rightarrow> c = CHR ''-'' | [] \<Rightarrow> False);
          s = (case orig of c # cs \<Rightarrow> if c = CHR ''-'' \<or> c = CHR ''+'' then cs else orig | [] \<Rightarrow> orig)
      in if s = ''0'' then Some 0
         else if s = [] then None
         else case duration_total 0 s of
             None \<Rightarrow> None
           | Some d \<Rightarrow> if neg then Some (- d) else if d > 2 ^ 63 - 1 then None else Some d)"

lemma parse_duration_15m: "parse_duration ''15m'' = Some (15 * minute)"
  by code_simp

lemma parse_duration_mixed: "parse_duration ''1h1.5s'' = Some (hour + 1500000000)"
  by code_simp

text \<open>An accepted duration fits the signed 64-bit integer of \<open>time.Duration\<close>.\<close>

lemma duration_total_bound:
  assumes "duration_total d s = Some e" "0 \<le> d" "d \<le> 2 ^ 63"
  shows "0 \<le> e \<and> e \<le> 2 ^ 63"
  using assms
proof (induction d s rule: duration_total.induct)
  case (1 d s)
  show ?case
  proof (cases "s = []")
    case True
    with 1(2-4) show ?thesis by (simp add: duration_total.simps [of d "[]"])
  next
    case False
    with 1(2) obtain v r where vr: "duration_part s = Some (v, r)"
      and small: "\<not> (d + v) mod 2 ^ 64 > 2 ^ 63"
      and rest: "duration_total ((d + v) mod 2 ^ 64) r = Some e"
      by (auto simp: duration_total.simps [of d s] Let_def split: option.splits if_splits)
    show ?thesis
      using 1(1) [OF False vr refl refl small rest] small by simp
  qed
qed

lemma parse_duration_bound:
  "parse_duration s = Some d \<Longrightarrow> - (2 ^ 63) \<le> d \<and> d < 2 ^ 63"
  by (auto simp: parse_duration_def Let_def split: if_splits option.splits
      dest!: duration_total_bound)

end
