(* ===== verification/Config.thy ===== *)
theory Config
  imports Complex_Main Duration
begin

text \<open>
  Configuration (\<open>internal/config/config.go\<close>): the records of the YAML file, validation,
  defaults, loading with the environment overrides, and \<open>ParseRepo\<close>, which every component
  that talks to a provider goes through.  The YAML library, the file system, the environment
  and the home directory are parameters of \<open>load\<close>.
\<close>

section \<open>Records\<close>

text \<open>
  The rate limits are Go \<open>float64\<close>s.  Comparisons are false on NaN, which YAML can write
  (\<open>.nan\<close>), so the special values are kept; finite values are rationals.
\<close>

datatype gofloat = FNaN | FNegInf | FPosInf | FFin rat

fun flt_less :: "gofloat \<Rightarrow> gofloat \<Rightarrow> bool" where
  "flt_less (FFin a) (FFin b) = (a < b)"
| "flt_less FNegInf (FFin b) = True"
| "flt_less FNegInf FPosInf = True"
| "flt_less (FFin a) FPosInf = True"
| "flt_less _ _ = False"

record service_config =
  sc_name :: string
  sc_repo :: string
  sc_registry :: string

record slack_config = slack_webhook_url :: string

record discord_config = discord_webhook_url :: string

record notification_config =
  nc_webhook_url :: string
  nc_enabled :: bool
  nc_slack :: slack_config
  nc_discord :: discord_config

record cache_config = cc_ttl :: string

record server_config =
  srv_port :: int
  srv_api_key :: string

record token_config =
  tok_github :: string
  tok_gitlab :: string

record rate_limit_config =
  rl_github :: gofloat
  rl_gitlab :: gofloat

record log_config =
  log_level :: string
  log_format :: string

record storage_config = st_path :: string

record daemon_config = dc_interval :: string

record github_app_config =
  ga_app_id :: int
  ga_private_key_path :: string
  ga_webhook_secret :: string

record config =
  cfg_services :: "service_config list"
  cfg_cache :: cache_config
  cfg_server :: server_config
  cfg_tokens :: token_config
  cfg_rate_limit :: rate_limit_config
  cfg_log :: log_config
  cfg_notifications :: notification_config
  cfg_storage :: storage_config
  cfg_daemon :: daemon_config
  cfg_github_app :: github_app_config

definition zero_config :: config where
  "zero_config =
     \<lparr>cfg_services = [], cfg_cache = \<lparr>cc_ttl = []\<rparr>,
      cfg_server = \<lparr>srv_port = 0, srv_api_key = []\<rparr>,
      cfg_tokens = \<lparr>tok_github = [], tok_gitlab = []\<rparr>,
      cfg_rate_limit = \<lparr>rl_github = FFin 0, rl_gitlab = FFin 0\<rparr>,
      cfg_log = \<lparr>log_level = [], log_format = []\<rparr>,
      cfg_notifications = \<lparr>nc_webhook_url = [], nc_enabled = False,
        nc_slack = \<lparr>slack_webhook_url = []\<rparr>, nc_discord = \<lparr>discord_webhook_url = []\<rparr>\<rparr>,
      cfg_storage = \<lparr>st_path = []\<rparr>, cfg_daemon = \<lparr>dc_interval = []\<rparr>,
      cfg_github_app = \<lparr>ga_app_id = 0, ga_private_key_path = [], ga_webhook_secret = []\<rparr>\<rparr>"

text \<open>\<open>TTLDuration\<close>: 15 minutes when the text is empty or not a duration.\<close>

definition ttl_duration :: "cache_config \<Rightarrow> int" where
  "ttl_duration c =
     (if cc_ttl c = [] then 15 * minute
      else case parse_duration (cc_ttl c) of None \<Rightarrow> 15 * minute | Some d \<Rightarrow> d)"

section \<open>Repository names\<close>

text \<open>\<open>ParseRepo\<close>: \<open>host/owner/repo\<close>; anything after the third part is ignored.\<close>

definition parse_repo :: "string \<Rightarrow> service result" where
  "parse_repo repo =
     (let parts = split_on CHR ''/'' repo in
      if length parts < 3 then
        Inl (Plain (''invalid repo format '' @ quote repo @ '', expected host/owner/repo''))
      else
        let host = parts ! 0;
            platform = (if contains ''github'' host then ''github''
                        else if contains ''gitlab'' host then ''gitlab''
                        else host)
        in Inr \<lparr>svc_name = [], svc_repo = repo, svc_registry = [], svc_platform = platform,
                svc_owner = parts ! 1, svc_repo_name = parts ! 2\<rparr>)"

definition repo_ok :: "string \<Rightarrow> bool" where
  "repo_ok repo \<longleftrightarrow> 3 \<le> length (split_on CHR ''/'' repo)"

lemma repo_ok_slashes: "repo_ok repo \<longleftrightarrow> 2 \<le> count_list repo CHR ''/''"
  by (simp add: repo_ok_def length_split_on)

lemma parse_repo_Inr_iff: "(\<exists>s. parse_repo repo = Inr s) \<longleftrightarrow> repo_ok repo"
  by (auto simp: parse_repo_def repo_ok_def Let_def)

lemma parse_repo_fields:
  "parse_repo repo = Inr s \<Longrightarrow> svc_repo s = repo \<and>
     svc_owner s = split_on CHR ''/'' repo ! 1 \<and> svc_repo_name s = split_on CHR ''/'' repo ! 2"
  by (auto simp: parse_repo_def Let_def split: if_splits)

text \<open>
  \<open>ParseRepo\<close> inverts the \<open>host/owner/repo\<close> notation: on a host, an owner and a
  repository name without slashes it returns exactly that owner and name, with the platform
  decided by the host alone, and it fails on exactly the texts with fewer than two slashes.
\<close>

theorem parse_repo_roundtrip:
  assumes "CHR ''/'' \<notin> set host" "CHR ''/'' \<notin> set owner" "CHR ''/'' \<notin> set name"
  shows "parse_repo (host @ ''/'' @ owner @ ''/'' @ name) =
     Inr \<lparr>svc_name = [], svc_repo = host @ ''/'' @ owner @ ''/'' @ name, svc_registry = [],
          svc_platform = (if contains ''github'' host then ''github''
                          else if contains ''gitlab'' host then ''gitlab'' else host),
          svc_owner = owner, svc_repo_name = name\<rparr>"
  using assms
  by (simp add: parse_repo_def split_on_append split_on_no_sep)

theorem parse_repo_roundtrip_witness:
  "parse_repo ''github.com/org/app'' =
     Inr \<lparr>svc_name = [], svc_repo = ''github.com/org/app'', svc_registry = [],
          svc_platform = ''github'', svc_owner = ''org'', svc_repo_name = ''app''\<rparr>"
  using parse_repo_roundtrip [of "''github.com''" "''org''" "''app''"]
  by (simp add: contains_def)

text \<open>
  A repository below a GitLab subgroup is resolved to the wrong project: of
  \<open>gitlab.com/group/subgroup/project\<close> only the first two parts after the host are kept, so
  the owner is the group and the repository name is the subgroup, for every such name, and the
  project's own name does not matter at all.
\<close>

theorem parse_repo_drops_subgroup:
  assumes "CHR ''/'' \<notin> set g" "CHR ''/'' \<notin> set sub"
  shows "map_sum id (\<lambda>s. (svc_platform s, svc_owner s, svc_repo_name s))
      (parse_repo (''gitlab.com/'' @ g @ ''/'' @ sub @ ''/'' @ project)) =
    Inr (''gitlab'', g, sub)"
  using assms
  by (simp add: parse_repo_def split_on_append contains_def)

theorem parse_repo_drops_subgroup_witness:
  "map_sum id (\<lambda>s. (svc_platform s, svc_owner s, svc_repo_name s))
      (parse_repo ''gitlab.com/acme/platform/billing'') = Inr (''gitlab'', ''acme'', ''platform'')"
  using parse_repo_drops_subgroup [of "''acme''" "''platform''" "''billing''"] by simp

section \<open>Validation\<close>

datatype config_problem =
    NameRequired nat
  | RepoRequired nat string
  | RepoFormat nat string string
  | DuplicateName nat string
  | BadTTL string
  | BadPort int
  | BadGitHubRate gofloat
  | BadGitLabRate gofloat
  | BadWebhookURL string
  | BadLogLevel string
  | BadLogFormat string

text \<open>The loop over the services, with its index and the set \<open>seen\<close>.\<close>

fun validate_services :: "nat \<Rightarrow> string set \<Rightarrow> service_config list \<Rightarrow> config_problem option" where
  "validate_services i seen [] = None"
| "validate_services i seen (s # ss) =
     (if sc_name s = [] then Some (NameRequired i)
      else if sc_repo s = [] then Some (RepoRequired i (sc_name s))
      else if length (split_on CHR ''/'' (sc_repo s)) < 3
        then Some (RepoFormat i (sc_name s) (sc_repo s))
      else if sc_name s \<in> seen then Some (DuplicateName i (sc_name s))
      else validate_services (Suc i) (insert (sc_name s) seen) ss)"

definition rate_bad :: "gofloat \<Rightarrow> bool" where
  "rate_bad r \<longleftrightarrow> flt_less r (FFin 0) \<or> flt_less (FFin 1000) r"

definition validate :: "config \<Rightarrow> config_problem option" where
  "validate c =
     (case validate_services 0 {} (cfg_services c) of
        Some p \<Rightarrow> Some p
      | None \<Rightarrow>
          if cc_ttl (cfg_cache c) \<noteq> [] \<and> parse_duration (cc_ttl (cfg_cache c)) = None
            then Some (BadTTL (cc_ttl (cfg_cache c)))
          else if srv_port (cfg_server c) < 0 \<or> srv_port (cfg_server c) > 65535
            then Some (BadPort (srv_port (cfg_server c)))
          else if rate_bad (rl_github (cfg_rate_limit c))
            then Some (BadGitHubRate (rl_github (cfg_rate_limit c)))
          else if rate_bad (rl_gitlab (cfg_rate_limit c))
            then Some (BadGitLabRate (rl_gitlab (cfg_rate_limit c)))
          else if nc_webhook_url (cfg_notifications c) \<noteq> [] \<and>
              \<not> has_prefix ''http://'' (nc_webhook_url (cfg_notifications c)) \<and>
              \<not> has_prefix ''https://'' (nc_webhook_url (cfg_notifications c))
            then Some (BadWebhookURL (nc_webhook_url (cfg_notifications c)))
          else if log_level (cfg_log c) \<noteq> [] \<and>
              log_level (cfg_log c) \<notin> {''debug'', ''info'', ''warn'', ''error''}
            then Some (BadLogLevel (log_level (cfg_log c)))
          else if log_format (cfg_log c) \<noteq> [] \<and> log_format (cfg_log c) \<notin> {''text'', ''json''}
            then Some (BadLogFormat (log_format (cfg_log c)))
          else None)"

text \<open>The error \<open>Validate\<close> returns; how \<open>%v\<close> prints a float is the parameter.\<close>

definition service_at :: "nat \<Rightarrow> string" where
  "service_at i = ''services['' @ show_nat i @ '']''"

fun problem_text :: "(gofloat \<Rightarrow> string) \<Rightarrow> config_problem \<Rightarrow> string" where
  "problem_text flt (NameRequired i) = service_at i @ '': name is required''"
| "problem_text flt (RepoRequired i n) = service_at i @ '' ('' @ n @ ''): repo is required''"
| "problem_text flt (RepoFormat i n r) =
     service_at i @ '' ('' @ n @ ''): repo must be host/owner/repo format, got '' @ quote r"
| "problem_text flt (DuplicateName i n) = service_at i @ '': duplicate service name '' @ quote n"
| "problem_text flt (BadTTL s) = ''cache.ttl: invalid duration '' @ quote s"
| "problem_text flt (BadPort n) = ''server.port: must be 0-65535, got '' @ show_int n"
| "problem_text flt (BadGitHubRate r) = ''rate_limit.github: must be 0-1000, got '' @ flt r"
| "problem_text flt (BadGitLabRate r) = ''rate_limit.gitlab: must be 0-1000, got '' @ flt r"
| "problem_text flt (BadWebhookURL u) =
     ''notifications.webhook_url: must start with http:// or https://, got '' @ quote u"
| "problem_text flt (BadLogLevel l) = ''log.level: must be debug, info, warn, or error, got '' @ quote l"
| "problem_text flt (BadLogFormat f) = ''log.format: must be text or json, got '' @ quote f"

text \<open>What the loop establishes: complete entries with pairwise distinct names.\<close>

definition entry_ok :: "service_config \<Rightarrow> bool" where
  "entry_ok s \<longleftrightarrow> sc_name s \<noteq> [] \<and> sc_repo s \<noteq> [] \<and> repo_ok (sc_repo s)"

definition services_ok :: "service_config list \<Rightarrow> bool" where
  "services_ok ss \<longleftrightarrow> list_all entry_ok ss \<and> distinct (map sc_name ss)"

lemma validate_services_None:
  "validate_services i seen ss = None \<longleftrightarrow>
     services_ok ss \<and> sc_name ` set ss \<inter> seen = {}"
proof (induction ss arbitrary: i seen)
  case Nil
  then show ?case by (simp add: services_ok_def)
next
  case (Cons s ss)
  have step: "validate_services i seen (s # ss) = None \<longleftrightarrow>
      entry_ok s \<and> sc_name s \<notin> seen \<and>
      validate_services (Suc i) (insert (sc_name s) seen) ss = None"
    by (auto simp: entry_ok_def repo_ok_def)
  show ?case
    unfolding step Cons.IH by (auto simp: services_ok_def image_iff)
qed

lemma services_ok_iff: "services_ok ss \<longleftrightarrow> validate_services 0 {} ss = None"
  by (simp add: validate_services_None)

text \<open>The index a problem of the services names.\<close>

fun problem_index :: "config_problem \<Rightarrow> nat option" where
  "problem_index (NameRequired i) = Some i"
| "problem_index (RepoRequired i n) = Some i"
| "problem_index (RepoFormat i n r) = Some i"
| "problem_index (DuplicateName i n) = Some i"
| "problem_index p = None"

lemma validate_services_first:
  "validate_services i seen ss = Some p \<Longrightarrow>
     \<exists>k < length ss. validate_services i seen (take k ss) = None \<and>
       validate_services i seen (take (Suc k) ss) = Some p \<and> problem_index p = Some (i + k)"
proof (induction ss arbitrary: i seen)
  case Nil
  then show ?case by simp
next
  case (Cons s ss)
  show ?case
  proof (cases "entry_ok s \<and> sc_name s \<notin> seen")
    case True
    then have step: "validate_services i seen (s # us) =
        validate_services (Suc i) (insert (sc_name s) seen) us" for us
      by (auto simp: entry_ok_def repo_ok_def)
    from Cons.prems step have "validate_services (Suc i) (insert (sc_name s) seen) ss = Some p"
      by simp
    from Cons.IH [OF this] obtain k where
      "k < length ss" "validate_services (Suc i) (insert (sc_name s) seen) (take k ss) = None"
      "validate_services (Suc i) (insert (sc_name s) seen) (take (Suc k) ss) = Some p"
      "problem_index p = Some (Suc i + k)"
      by blast
    then show ?thesis
      by (intro exI [of _ "Suc k"]) (simp add: step del: validate_services.simps(2))
  next
    case False
    then have "validate_services i seen (take 1 (s # ss)) = Some p" "problem_index p = Some i"
      using Cons.prems by (auto simp: entry_ok_def repo_ok_def split: if_splits)
    then show ?thesis
      by (intro exI [of _ 0]) simp
  qed
qed

text \<open>
  C1. Validation is exact on the services: it raises no problem with them precisely when
  every entry has a name and a \<open>host/owner/repo\<close> repository and no two share a name; when it
  does, the problem names the first entry that breaks the rule, all entries before it being
  fine.
\<close>

theorem validate_services_exact:
  "(validate_services 0 {} ss = None \<longleftrightarrow> services_ok ss) \<and>
   (\<forall>p. validate_services 0 {} ss = Some p \<longrightarrow>
      (\<exists>k < length ss. problem_index p = Some k \<and> services_ok (take k ss) \<and>
         \<not> services_ok (take (Suc k) ss)))"
  unfolding services_ok_iff using validate_services_first [of 0 "{}" ss] by auto

theorem validate_services_exact_witness:
  "\<exists>k < 2. problem_index (DuplicateName 1 ''api'') = Some k \<and>
     services_ok (take k [\<lparr>sc_name = ''api'', sc_repo = ''github.com/o/r'', sc_registry = []\<rparr>,
       \<lparr>sc_name = ''api'', sc_repo = ''github.com/o/s'', sc_registry = []\<rparr>])"
  using validate_services_exact [of "[\<lparr>sc_name = ''api'', sc_repo = ''github.com/o/r'', sc_registry = []\<rparr>,
       \<lparr>sc_name = ''api'', sc_repo = ''github.com/o/s'', sc_registry = []\<rparr>]"]
  by auto

lemma services_ok_Nil [simp]: "services_ok []"
  by (simp add: services_ok_def)

lemma validate_services_ok: "validate c = None \<Longrightarrow> services_ok (cfg_services c)"
  using validate_services_None [of 0 "{}" "cfg_services c"]
  by (auto simp: validate_def split: option.splits)

lemma services_ok_parse:
  "services_ok ss \<Longrightarrow> s \<in> set ss \<Longrightarrow> \<exists>r. parse_repo (sc_repo s) = Inr r"
  by (auto simp: services_ok_def entry_ok_def list_all_iff parse_repo_Inr_iff)

lemma services_ok_distinct: "services_ok ss \<Longrightarrow> distinct (map sc_name ss)"
  by (simp add: services_ok_def)

lemma rate_bad_NaN: "\<not> rate_bad FNaN"
  by (simp add: rate_bad_def)

section \<open>Defaults and loading\<close>

definition apply_defaults :: "config \<Rightarrow> config" where
  "apply_defaults c = c
     \<lparr>cfg_server := (if srv_port (cfg_server c) = 0
        then (cfg_server c)\<lparr>srv_port := 7891\<rparr> else cfg_server c),
      cfg_cache := (if cc_ttl (cfg_cache c) = []
        then (cfg_cache c)\<lparr>cc_ttl := ''15m''\<rparr> else cfg_cache c),
      cfg_rate_limit := \<lparr>
        rl_github = (if rl_github (cfg_rate_limit c) = FFin 0 then FFin 5
                     else rl_github (cfg_rate_limit c)),
        rl_gitlab = (if rl_gitlab (cfg_rate_limit c) = FFin 0 then FFin 3
                     else rl_gitlab (cfg_rate_limit c))\<rparr>,
      cfg_log := \<lparr>
        log_level = (if log_level (cfg_log c) = [] then ''info'' else log_level (cfg_log c)),
        log_format = (if log_format (cfg_log c) = [] then ''text'' else log_format (cfg_log c))\<rparr>\<rparr>"

definition default_config :: config where
  "default_config = apply_defaults zero_config"

datatype file_content = FileData string | FileMissing | FileFailed go_error

datatype load_error =
    LoadHome go_error
  | LoadRead go_error
  | LoadParse go_error
  | LoadInvalid config_problem

text \<open>\<open>DefaultConfigPath\<close> on the result of \<open>os.UserHomeDir\<close>.\<close>

definition default_config_path :: "string result \<Rightarrow> string result" where
  "default_config_path home =
     (case home of
        Inl e \<Rightarrow> Inl (Wrapf ''get home dir'' e)
      | Inr h \<Rightarrow> Inr (path_join [h, ''.config'', ''releasewave'', ''config.yaml'']))"

definition env_or :: "string \<Rightarrow> string \<Rightarrow> string" where
  "env_or t old = (if t \<noteq> [] then t else old)"

definition override_env :: "(string \<Rightarrow> string) \<Rightarrow> config \<Rightarrow> config" where
  "override_env env c = c
     \<lparr>cfg_tokens := \<lparr>
        tok_github = env_or (env ''GITHUB_TOKEN'') (tok_github (cfg_tokens c)),
        tok_gitlab = env_or (env ''GITLAB_TOKEN'') (tok_gitlab (cfg_tokens c))\<rparr>,
      cfg_server := (cfg_server c)
        \<lparr>srv_api_key := env_or (env ''RELEASEWAVE_API_KEY'') (srv_api_key (cfg_server c))\<rparr>\<rparr>"

definition load ::
  "string result \<Rightarrow> (string \<Rightarrow> file_content) \<Rightarrow> (string \<Rightarrow> config result) \<Rightarrow> (string \<Rightarrow> string) \<Rightarrow>
   string \<Rightarrow> load_error + config" where
  "load home read_file yaml env path =
     (case (if path = [] then default_config_path home else Inr path) of
        Inl e \<Rightarrow> Inl (LoadHome e)
      | Inr p \<Rightarrow>
          (case read_file p of
             FileMissing \<Rightarrow> Inr default_config
           | FileFailed e \<Rightarrow> Inl (LoadRead (Wrapf ''read config'' e))
           | FileData d \<Rightarrow>
               (case yaml d of
                  Inl e \<Rightarrow> Inl (LoadParse (Wrapf ''parse config'' e))
                | Inr c0 \<Rightarrow>
                    let c = apply_defaults c0 in
                    (case validate c of
                       Some problem \<Rightarrow> Inl (LoadInvalid problem)
                     | None \<Rightarrow> Inr (override_env env c)))))"

lemma override_env_frame [simp]:
  "cfg_services (override_env env c) = cfg_services c"
  "cfg_cache (override_env env c) = cfg_cache c"
  "srv_port (cfg_server (override_env env c)) = srv_port (cfg_server c)"
  "cfg_rate_limit (override_env env c) = cfg_rate_limit c"
  "cfg_notifications (override_env env c) = cfg_notifications c"
  "cfg_log (override_env env c) = cfg_log c"
  by (simp_all add: override_env_def)

lemma validate_override_env [simp]: "validate (override_env env c) = validate c"
  unfolding validate_def override_env_frame by (rule refl)

lemma validate_default_config: "validate default_config = None"
proof -
  have "parse_duration ''15m'' \<noteq> None" by (simp add: parse_duration_15m)
  moreover have "cfg_services default_config = []" "cc_ttl (cfg_cache default_config) = ''15m''"
    "srv_port (cfg_server default_config) = 7891" "rl_github (cfg_rate_limit default_config) = FFin 5"
    "rl_gitlab (cfg_rate_limit default_config) = FFin 3"
    "nc_webhook_url (cfg_notifications default_config) = []"
    "log_level (cfg_log default_config) = ''info''" "log_format (cfg_log default_config) = ''text''"
    by (simp_all add: default_config_def apply_defaults_def zero_config_def)
  moreover have "\<not> rate_bad (FFin 5)" "\<not> rate_bad (FFin 3)"
    by (simp_all add: rate_bad_def)
  ultimately show ?thesis
    by (simp add: validate_def)
qed

lemma load_cases:
  assumes "load home rd yaml env path = Inr c"
  shows "c = default_config \<or> (\<exists>c0. validate (apply_defaults c0) = None \<and>
     c = override_env env (apply_defaults c0))"
  using assms
  by (auto simp: load_def Let_def split: if_splits sum.splits file_content.splits option.splits)



lemma load_env_override:
  assumes "path \<noteq> []" "read_file path = FileData d" "load home read_file yaml env path = Inr c"
  shows "\<exists>c0. yaml d = Inr c0 \<and>
        tok_github (cfg_tokens c) = env_or (env ''GITHUB_TOKEN'') (tok_github (cfg_tokens c0)) \<and>
        tok_gitlab (cfg_tokens c) = env_or (env ''GITLAB_TOKEN'') (tok_gitlab (cfg_tokens c0)) \<and>
        srv_api_key (cfg_server c) =
          env_or (env ''RELEASEWAVE_API_KEY'') (srv_api_key (cfg_server c0))"
  using assms
  by (auto simp: load_def Let_def override_env_def apply_defaults_def
      split: sum.splits option.splits)

text \<open>
  Without a configuration file the environment is ignored: \<open>Load\<close> returns the plain
  defaults, with empty tokens and an empty API key, whatever \<open>GITHUB_TOKEN\<close>,
  \<open>GITLAB_TOKEN\<close> and \<open>RELEASEWAVE_API_KEY\<close> are set to.
\<close>

theorem load_missing_ignores_environment:
  assumes "path \<noteq> []" "read_file path = FileMissing"
  shows "load home read_file yaml env path = Inr default_config \<and>
      tok_github (cfg_tokens default_config) = [] \<and> tok_gitlab (cfg_tokens default_config) = [] \<and>
      srv_api_key (cfg_server default_config) = []"
  using assms
  by (simp add: load_def default_config_def apply_defaults_def zero_config_def)

theorem load_missing_ignores_environment_witness:
  "load (Inr ''/root'') (\<lambda>_. FileMissing) (\<lambda>_. Inr zero_config) (\<lambda>_. ''secret'') ''c.yaml'' =
     Inr default_config \<and> srv_api_key (cfg_server default_config) = []"
  using load_missing_ignores_environment [of "''c.yaml''" "\<lambda>_. FileMissing" "Inr ''/root''"
      "\<lambda>_. Inr zero_config" "\<lambda>_. ''secret''"]
  by simp

end
