(* ===== verification/Cache.thy ===== *)
theory Cache
  imports Prelude
begin

text \<open>
  The in-memory TTL cache of \<open>internal/cache/cache.go\<close>.  Time is the wall clock in
  nanoseconds.  The counters \<open>hits\<close> and \<open>misses\<close> are the Prometheus counter
  \<open>releasewave_cache_hits_total\<close> of \<open>internal/metrics/toolmetrics.go\<close>, by its label.

  \<open>Get\<close> is two critical sections: it reads the entry under the read lock and, when the
  entry has expired, calls \<open>Delete\<close>, which takes the write lock later.  \<open>cache_get\<close> is
  the uninterrupted call; the step relation at the end of the theory lets other calls run
  between the two sections.
\<close>

section \<open>State and operations\<close>

record 'v entry =
  entry_value :: 'v
  expires_at :: int

record 'v cache =
  entries :: "(string, 'v entry) gomap"
  ttl :: int
  hits :: nat
  misses :: nat

definition cache_new :: "int \<Rightarrow> 'v cache" where
  "cache_new d = \<lparr>entries = Map.empty, ttl = d, hits = 0, misses = 0\<rparr>"

definition cache_delete :: "string \<Rightarrow> 'v cache \<Rightarrow> 'v cache" where
  "cache_delete key c = c\<lparr>entries := (entries c)(key := None)\<rparr>"

definition cache_set :: "int \<Rightarrow> string \<Rightarrow> 'v \<Rightarrow> 'v cache \<Rightarrow> 'v cache" where
  "cache_set now key v c =
     c\<lparr>entries := (entries c)(key \<mapsto> \<lparr>entry_value = v, expires_at = now + ttl c\<rparr>)\<rparr>"

definition cache_clear :: "'v cache \<Rightarrow> 'v cache" where
  "cache_clear c = c\<lparr>entries := Map.empty\<rparr>"

definition count_miss :: "'v cache \<Rightarrow> 'v cache" where
  "count_miss c = c\<lparr>misses := Suc (misses c)\<rparr>"

definition count_hit :: "'v cache \<Rightarrow> 'v cache" where
  "count_hit c = c\<lparr>hits := Suc (hits c)\<rparr>"

definition cache_get :: "int \<Rightarrow> string \<Rightarrow> 'v cache \<Rightarrow> 'v option \<times> 'v cache" where
  "cache_get now key c =
     (case entries c key of
        None \<Rightarrow> (None, count_miss c)
      | Some e \<Rightarrow>
          if expires_at e < now then (None, count_miss (cache_delete key c))
          else (Some (entry_value e), count_hit c))"

text \<open>\<open>Key(parts...)\<close>: the loop that joins the parts with colons.\<close>

fun cache_key_from :: "nat \<Rightarrow> string \<Rightarrow> string list \<Rightarrow> string" where
  "cache_key_from i k [] = k"
| "cache_key_from i k (p # ps) = cache_key_from (Suc i) ((if 0 < i then k @ '':'' else k) @ p) ps"

definition cache_key :: "string list \<Rightarrow> string" where
  "cache_key parts = cache_key_from 0 [] parts"

lemmas cache_ops = cache_new_def cache_delete_def cache_set_def cache_clear_def
  count_miss_def count_hit_def

section \<open>Sequential laws\<close>

text \<open>What a lookup at time \<open>now\<close> would return, without its effects.\<close>

definition fresh :: "int \<Rightarrow> 'v cache \<Rightarrow> string \<Rightarrow> 'v option" where
  "fresh now c key =
     (case entries c key of
        None \<Rightarrow> None
      | Some e \<Rightarrow> if expires_at e < now then None else Some (entry_value e))"

lemma fst_cache_get: "fst (cache_get now key c) = fresh now c key"
  by (simp add: cache_get_def fresh_def split: option.splits)

lemma ttl_ops [simp]:
  "ttl (cache_set now k v c) = ttl c" "ttl (cache_delete k c) = ttl c"
  "ttl (cache_clear c) = ttl c" "ttl (snd (cache_get now k c)) = ttl c"
  by (auto simp: cache_ops cache_get_def split: option.splits)

lemma fresh_new [simp]: "fresh now (cache_new d) k = None"
  by (simp add: fresh_def cache_new_def)

lemma fresh_set:
  "fresh later (cache_set now k v c) k' =
     (if k' = k then (if later \<le> now + ttl c then Some v else None) else fresh later c k')"
  by (simp add: fresh_def cache_set_def)

lemma fresh_delete [simp]:
  "fresh now (cache_delete k c) k' = (if k' = k then None else fresh now c k')"
  by (simp add: fresh_def cache_delete_def)

lemma fresh_clear [simp]: "fresh now (cache_clear c) k = None"
  by (simp add: fresh_def cache_clear_def)

text \<open>A lookup changes nothing that a lookup at the same or a later time can see.\<close>

lemma fresh_get: "now \<le> later \<Longrightarrow> fresh later (snd (cache_get now k c)) k' = fresh later c k'"
  by (auto simp: fresh_def cache_get_def cache_ops split: option.splits)

lemma entries_get:
  "entries (snd (cache_get now k c)) k' = Some e \<Longrightarrow> entries c k' = Some e"
  by (auto simp: cache_get_def cache_ops split: option.splits if_splits)

text \<open>
  A lookup returns exactly what was last stored under the key, for as long as the TTL
  has not run out since then, and a miss counts as a miss and a hit as a hit: after
  \<open>Set(k, v)\<close> at time \<open>now\<close>, a \<open>Get(k)\<close> at time \<open>later\<close> hits when
  \<open>later \<le> now + ttl\<close> and misses (evicting the entry) otherwise, and a lookup of any other
  key gives its former answer and commutes with the store.
\<close>

theorem get_after_set:
  "cache_get later k' (cache_set now k v c) =
     (if k' = k then
        (if later \<le> now + ttl c then (Some v, count_hit (cache_set now k v c))
         else (None, count_miss (cache_delete k (cache_set now k v c))))
      else (fst (cache_get later k' c), cache_set now k v (snd (cache_get later k' c))))"
  by (auto simp: cache_get_def cache_ops fun_upd_twist split: option.splits)

section \<open>Keys\<close>

lemma cache_key_from_pos:
  "0 < i \<Longrightarrow> cache_key_from i k ps = (if ps = [] then k else k @ '':'' @ join_with '':'' ps)"
proof (induction ps arbitrary: i k)
  case Nil
  then show ?case by simp
next
  case (Cons p ps)
  then show ?case by (auto simp: join_with_Cons)
qed

lemma cache_key_join: "cache_key ps = join_with '':'' ps"
proof (cases ps)
  case Nil
  then show ?thesis by (simp add: cache_key_def)
next
  case (Cons p qs)
  then show ?thesis by (auto simp: cache_key_def cache_key_from_pos join_with_Cons)
qed

lemma split_cache_key:
  assumes "ps \<noteq> []" "\<And>p. p \<in> set ps \<Longrightarrow> CHR '':'' \<notin> set p"
  shows "split_on CHR '':'' (cache_key ps) = ps"
  using assms by (simp add: cache_key_join split_join)

text \<open>
  Cache keys built from parts without a colon are unambiguous: two such lists of parts
  with the same key are the same list, so no service ever reads the entry of another one.
\<close>

theorem cache_key_injective:
  assumes "\<forall>p \<in> set ps. CHR '':'' \<notin> set p" "\<forall>q \<in> set qs. CHR '':'' \<notin> set q"
    and "ps \<noteq> []" "qs \<noteq> []" "cache_key ps = cache_key qs"
  shows "ps = qs"
proof -
  have "ps = split_on CHR '':'' (cache_key ps)"
    using assms(1,3) by (intro split_cache_key [symmetric]) auto
  also have "\<dots> = split_on CHR '':'' (cache_key qs)"
    by (simp only: assms(5))
  also have "\<dots> = qs"
    using assms(2,4) by (intro split_cache_key) auto
  finally show ?thesis .
qed

theorem cache_key_injective_witness:
  "[''github'', ''tags'', ''org''] = split_on CHR '':'' ''github:tags:org''"
  by (rule cache_key_injective) (simp_all add: cache_key_def)

lemma cache_key_ambiguous:
  "cache_key [''github'', ''tags'', ''a:b'', ''c''] = cache_key [''github'', ''tags'', ''a'', ''b:c'']"
  by (simp add: cache_key_def)

section \<open>Interleaved calls\<close>

text \<open>
  Each goroutine runs one call at a time.  A pending \<open>Get\<close> is either about to read the
  clock, holding the entry it saw under the read lock, or about to delete the key it found
  expired.  The clock only moves forward.  The log records what the calls returned.
\<close>

datatype 'v pending =
    Idle
  | GotEntry string "'v entry option"
  | WillDelete string

datatype 'v cache_event = Stored string 'v int | Returned string "'v option" int

record 'v sys =
  shared :: "'v cache"
  clock :: int
  procs :: "nat \<Rightarrow> 'v pending"
  log :: "'v cache_event list"

inductive sys_step :: "'v sys \<Rightarrow> 'v sys \<Rightarrow> bool" where
  tick: "0 \<le> d \<Longrightarrow> sys_step s (s\<lparr>clock := clock s + d\<rparr>)"
| store_entry: "procs s i = Idle \<Longrightarrow>
     sys_step s (s\<lparr>shared := cache_set (clock s) k v (shared s),
                   log := Stored k v (clock s) # log s\<rparr>)"
| remove: "procs s i = Idle \<Longrightarrow> sys_step s (s\<lparr>shared := cache_delete k (shared s)\<rparr>)"
| clear: "procs s i = Idle \<Longrightarrow> sys_step s (s\<lparr>shared := cache_clear (shared s)\<rparr>)"
| read_entry: "procs s i = Idle \<Longrightarrow>
     sys_step s (s\<lparr>procs := (procs s)(i := GotEntry k (entries (shared s) k))\<rparr>)"
| absent: "procs s i = GotEntry k None \<Longrightarrow>
     sys_step s (s\<lparr>shared := count_miss (shared s), procs := (procs s)(i := Idle),
                   log := Returned k None (clock s) # log s\<rparr>)"
| hit: "procs s i = GotEntry k (Some e) \<Longrightarrow> \<not> expires_at e < clock s \<Longrightarrow>
     sys_step s (s\<lparr>shared := count_hit (shared s), procs := (procs s)(i := Idle),
                   log := Returned k (Some (entry_value e)) (clock s) # log s\<rparr>)"
| expired: "procs s i = GotEntry k (Some e) \<Longrightarrow> expires_at e < clock s \<Longrightarrow>
     sys_step s (s\<lparr>procs := (procs s)(i := WillDelete k)\<rparr>)"
| evict: "procs s i = WillDelete k \<Longrightarrow>
     sys_step s (s\<lparr>shared := count_miss (cache_delete k (shared s)), procs := (procs s)(i := Idle),
                   log := Returned k None (clock s) # log s\<rparr>)"

definition sys_init :: "int \<Rightarrow> int \<Rightarrow> 'v sys" where
  "sys_init d t = \<lparr>shared = cache_new d, clock = t, procs = (\<lambda>_. Idle), log = []\<rparr>"

inductive reachable :: "int \<Rightarrow> int \<Rightarrow> 'v sys \<Rightarrow> bool" for d t where
  start: "reachable d t (sys_init d t)"
| move: "reachable d t s \<Longrightarrow> sys_step s s' \<Longrightarrow> reachable d t s'"

text \<open>
  The invariant: every entry, shared or held by a call, stems from a logged store and
  expires one TTL after it, and every value a call returned was stored at most one TTL
  before the call returned it.
\<close>

definition entry_logged :: "'v cache_event list \<Rightarrow> int \<Rightarrow> string \<Rightarrow> 'v entry \<Rightarrow> bool" where
  "entry_logged l d k e \<longleftrightarrow> Stored k (entry_value e) (expires_at e - d) \<in> set l"

definition sys_inv :: "int \<Rightarrow> 'v sys \<Rightarrow> bool" where
  "sys_inv d s \<longleftrightarrow> ttl (shared s) = d \<and>
     (\<forall>k e. entries (shared s) k = Some e \<longrightarrow> entry_logged (log s) d k e) \<and>
     (\<forall>i k e. procs s i = GotEntry k (Some e) \<longrightarrow> entry_logged (log s) d k e) \<and>
     (\<forall>k v u. Returned k (Some v) u \<in> set (log s) \<longrightarrow>
        (\<exists>w. Stored k v w \<in> set (log s) \<and> u \<le> w + d))"

lemma sys_inv_init: "sys_inv d (sys_init d t)"
  by (simp add: sys_inv_def sys_init_def cache_new_def)

lemma sys_inv_step: "sys_step s s' \<Longrightarrow> sys_inv d s \<Longrightarrow> sys_inv d s'"
proof (induction rule: sys_step.induct)
  case (hit s i k e)
  then have "Stored k (entry_value e) (expires_at e - d) \<in> set (log s)"
    by (auto simp: sys_inv_def entry_logged_def)
  with hit show ?case
    by (fastforce simp: sys_inv_def entry_logged_def cache_ops
        intro!: exI [of _ "expires_at e - d"])
qed (fastforce simp: sys_inv_def entry_logged_def cache_ops split: if_splits)+

lemma reachable_sys_inv: "reachable d t s \<Longrightarrow> sys_inv d s"
  by (induction rule: reachable.induct) (auto intro: sys_inv_init sys_inv_step)

text \<open>
  The two sections of \<open>Get\<close> are not atomic: a call that saw an expired entry deletes the
  key even when another goroutine has stored a fresh value in between.  The run below starts
  with an empty cache of TTL 10, and ends, at time 11, with the value stored at time 11 gone.
\<close>

definition race_start :: "nat sys" where
  "race_start = sys_init 10 0"

definition race_stored :: "nat sys" where
  "race_stored = race_start\<lparr>shared := cache_set (clock race_start) ''k'' 1 (shared race_start),
     log := Stored ''k'' 1 (clock race_start) # log race_start\<rparr>"

definition race_read :: "nat sys" where
  "race_read = race_stored\<lparr>procs := (procs race_stored)(0 := GotEntry ''k''
     (entries (shared race_stored) ''k''))\<rparr>"

definition race_late :: "nat sys" where
  "race_late = race_read\<lparr>clock := clock race_read + 11\<rparr>"

definition race_marked :: "nat sys" where
  "race_marked = race_late\<lparr>procs := (procs race_late)(0 := WillDelete ''k'')\<rparr>"

definition race_refreshed :: "nat sys" where
  "race_refreshed = race_marked\<lparr>
     shared := cache_set (clock race_marked) ''k'' 2 (shared race_marked),
     log := Stored ''k'' 2 (clock race_marked) # log race_marked\<rparr>"

definition race_end :: "nat sys" where
  "race_end = race_refreshed\<lparr>
     shared := count_miss (cache_delete ''k'' (shared race_refreshed)),
     procs := (procs race_refreshed)(0 := Idle),
     log := Returned ''k'' None (clock race_refreshed) # log race_refreshed\<rparr>"

lemmas race_defs = race_start_def race_stored_def race_read_def race_late_def race_marked_def
  race_refreshed_def race_end_def sys_init_def cache_ops

lemma race_steps:
  "sys_step race_start race_stored" "sys_step race_stored race_read"
  "sys_step race_read race_late" "sys_step race_late race_marked"
  "sys_step race_marked race_refreshed" "sys_step race_refreshed race_end"
proof -
  show "sys_step race_start race_stored"
    unfolding race_stored_def by (rule sys_step.store_entry [where i = 1]) (simp add: race_defs)
  show "sys_step race_stored race_read"
    unfolding race_read_def by (rule sys_step.read_entry) (simp add: race_defs)
  show "sys_step race_read race_late"
    unfolding race_late_def by (rule sys_step.tick) simp
  show "sys_step race_late race_marked"
    unfolding race_marked_def
    by (rule sys_step.expired [where e = "\<lparr>entry_value = 1, expires_at = 10\<rparr>"])
      (simp_all add: race_defs)
  show "sys_step race_marked race_refreshed"
    unfolding race_refreshed_def
    by (rule sys_step.store_entry [where i = 1]) (simp add: race_defs)
  show "sys_step race_refreshed race_end"
    unfolding race_end_def by (rule sys_step.evict) (simp add: race_defs)
qed

lemma reachable_race_end: "reachable 10 0 race_end"
proof -
  have "reachable 10 0 race_start"
    unfolding race_start_def by (rule reachable.start)
  then show ?thesis
    using race_steps by (meson reachable.move)
qed

text \<open>The same reader at time 0, before the entry expires, returns the value.\<close>

definition race_served :: "nat sys" where
  "race_served = race_read\<lparr>shared := count_hit (shared race_read),
     procs := (procs race_read)(0 := Idle),
     log := Returned ''k'' (Some 1) (clock race_read) # log race_read\<rparr>"

lemma reachable_race_served: "reachable 10 0 race_served"
proof -
  have "sys_step race_read (race_read\<lparr>shared := count_hit (shared race_read),
      procs := (procs race_read)(0 := Idle),
      log := Returned ''k'' (Some (entry_value \<lparr>entry_value = 1, expires_at = 10\<rparr>))
        (clock race_read) # log race_read\<rparr>)"
    by (rule sys_step.hit) (simp_all add: race_defs)
  then have step: "sys_step race_read race_served" by (simp add: race_served_def)
  have "reachable 10 0 race_start"
    unfolding race_start_def by (rule reachable.start)
  from reachable.move [OF reachable.move [OF reachable.move [OF this race_steps(1)] race_steps(2)] step]
  show ?thesis .
qed

text \<open>
  C11. Under every interleaving of concurrent calls, a value returned by a \<open>Get\<close> was stored
  under that key by some \<open>Set\<close> no longer than one TTL before: the cache never serves an
  expired or a foreign value.
\<close>

theorem cache_never_stale:
  assumes "reachable d t s" "Returned k (Some v) u \<in> set (log s)"
  shows "\<exists>w. Stored k v w \<in> set (log s) \<and> u \<le> w + d"
  using reachable_sys_inv [OF assms(1)] assms(2) by (auto simp: sys_inv_def)

theorem cache_never_stale_witness:
  "\<exists>w. Stored ''k'' (1 :: nat) w \<in> set (log race_served) \<and> 0 \<le> w + 10"
proof -
  have "Returned ''k'' (Some 1) 0 \<in> set (log race_served)"
    by (simp add: race_served_def race_defs)
  from cache_never_stale [OF reachable_race_served this] show ?thesis .
qed

text \<open>
  A reader of an expired entry can delete a value stored after it looked: in a reachable
  state the value 2 was stored under the key at time 11, with a TTL of 10, no other call
  removed it, and yet at the same time 11 the key is absent.  The lost value costs a request to
  the provider; it never makes a wrong answer (the previous property).
\<close>

theorem expired_reader_drops_fresh_value:
  "reachable 10 0 race_end \<and> Stored ''k'' 2 11 \<in> set (log race_end) \<and> clock race_end = 11 \<and>
   fresh 11 (shared race_refreshed) ''k'' = Some 2 \<and> fresh 11 (shared race_end) ''k'' = None"
  using reachable_race_end by (simp add: race_defs fresh_def)

end
