(* ===== verification/Provider.thy ===== *)
theory Provider
  imports Cache Model
begin

text \<open>
  The provider interface (\<open>internal/provider/provider.go\<close>) and the caching decorator
  (\<open>internal/provider/cached.go\<close>).  A provider is the record of its methods; a call's
  outside world (network, time) is whatever the method returns at that call, so a provider
  that changes over time is a different record at a different call.
\<close>

section \<open>The interface\<close>

record provider =
  pv_name :: string
  pv_list_releases :: "string \<Rightarrow> string \<Rightarrow> release list result"
  pv_latest :: "string \<Rightarrow> string \<Rightarrow> release result"
  pv_list_tags :: "string \<Rightarrow> string \<Rightarrow> git_tag list result"
  pv_file :: "string \<Rightarrow> string \<Rightarrow> string \<Rightarrow> string result"

text \<open>The map of providers by platform, as every caller keeps it.\<close>

type_synonym providers = "(string, provider) gomap"

section \<open>The cached provider\<close>

text \<open>
  The cache holds values of Go type \<open>any\<close>; a type assertion on the wrong dynamic type
  panics.
\<close>

datatype cached_value =
    VReleases "release list"
  | VRelease release
  | VTags "git_tag list"
  | VBytes string

datatype 'a outcome = Panic | Return "'a result"

text \<open>
  The body the four methods share: look the key up, assert the type of what is found
  (\<open>proj\<close>), otherwise ask the inner provider and cache a successful answer (\<open>wrap\<close>).
  The inner call takes time: the lookup reads the clock at \<open>t1\<close>, the store at \<open>t2\<close>.
\<close>

definition cached_call ::
  "(cached_value \<Rightarrow> 'a option) \<Rightarrow> ('a \<Rightarrow> cached_value) \<Rightarrow> int \<Rightarrow> int \<Rightarrow> string \<Rightarrow> 'a result \<Rightarrow>
   cached_value cache \<Rightarrow> 'a outcome \<times> cached_value cache" where
  "cached_call proj wrap t1 t2 key inner c =
     (case cache_get t1 key c of
        (Some v, c1) \<Rightarrow> ((case proj v of Some x \<Rightarrow> Return (Inr x) | None \<Rightarrow> Panic), c1)
      | (None, c1) \<Rightarrow>
          (case inner of
             Inl e \<Rightarrow> (Return (Inl e), c1)
           | Inr x \<Rightarrow> (Return (Inr x), cache_set t2 key (wrap x) c1)))"

fun as_releases :: "cached_value \<Rightarrow> release list option" where
  "as_releases (VReleases rs) = Some rs"
| "as_releases _ = None"

fun as_release :: "cached_value \<Rightarrow> release option" where
  "as_release (VRelease r) = Some r"
| "as_release _ = None"

fun as_tags :: "cached_value \<Rightarrow> git_tag list option" where
  "as_tags (VTags ts) = Some ts"
| "as_tags _ = None"

fun as_bytes :: "cached_value \<Rightarrow> string option" where
  "as_bytes (VBytes b) = Some b"
| "as_bytes _ = None"

definition cached_list_releases ::
  "provider \<Rightarrow> int \<Rightarrow> int \<Rightarrow> string \<Rightarrow> string \<Rightarrow> cached_value cache \<Rightarrow>
   release list outcome \<times> cached_value cache" where
  "cached_list_releases p t1 t2 owner repo =
     cached_call as_releases VReleases t1 t2
       (cache_key [pv_name p, ''releases'', owner, repo]) (pv_list_releases p owner repo)"

definition cached_latest ::
  "provider \<Rightarrow> int \<Rightarrow> int \<Rightarrow> string \<Rightarrow> string \<Rightarrow> cached_value cache \<Rightarrow>
   release outcome \<times> cached_value cache" where
  "cached_latest p t1 t2 owner repo =
     cached_call as_release VRelease t1 t2
       (cache_key [pv_name p, ''latest'', owner, repo]) (pv_latest p owner repo)"

definition cached_list_tags ::
  "provider \<Rightarrow> int \<Rightarrow> int \<Rightarrow> string \<Rightarrow> string \<Rightarrow> cached_value cache \<Rightarrow>
   git_tag list outcome \<times> cached_value cache" where
  "cached_list_tags p t1 t2 owner repo =
     cached_call as_tags VTags t1 t2
       (cache_key [pv_name p, ''tags'', owner, repo]) (pv_list_tags p owner repo)"

definition cached_file ::
  "provider \<Rightarrow> int \<Rightarrow> int \<Rightarrow> string \<Rightarrow> string \<Rightarrow> string \<Rightarrow> cached_value cache \<Rightarrow>
   string outcome \<times> cached_value cache" where
  "cached_file p t1 t2 owner repo path =
     cached_call as_bytes VBytes t1 t2
       (cache_key [pv_name p, ''file'', owner, repo, path]) (pv_file p owner repo path)"

lemmas cached_methods = cached_list_releases_def cached_latest_def cached_list_tags_def
  cached_file_def

section \<open>The contract of the store behind the decorator\<close>

text \<open>
  What the decorator relies on: a lookup answers from the entries alone, and the only entry a
  call can add is the one it stores under its own key.  The laws are stated over any
  get/set pair and discharged for the TTL cache.
\<close>

locale value_store =
  fixes look :: "int \<Rightarrow> string \<Rightarrow> 's \<Rightarrow> 'v option \<times> 's"
    and put :: "int \<Rightarrow> string \<Rightarrow> 'v \<Rightarrow> 's \<Rightarrow> 's"
    and holds :: "'s \<Rightarrow> string \<Rightarrow> 'v \<Rightarrow> bool"
  assumes get_holds: "look t k s = (Some v, s') \<Longrightarrow> holds s k v"
    and get_keeps: "look t k s = (r, s') \<Longrightarrow> holds s' k' v \<Longrightarrow> holds s k' v"
    and set_holds: "holds (put t k v s) k' v' \<Longrightarrow> k' = k \<and> v' = v \<or> holds s k' v'"
begin

definition through :: "('v \<Rightarrow> 'a option) \<Rightarrow> ('a \<Rightarrow> 'v) \<Rightarrow> int \<Rightarrow> int \<Rightarrow> string \<Rightarrow> 'a result \<Rightarrow> 's \<Rightarrow>
    'a outcome \<times> 's" where
  "through proj wrap t1 t2 key inner s =
     (case look t1 key s of
        (Some v, s1) \<Rightarrow> ((case proj v of Some x \<Rightarrow> Return (Inr x) | None \<Rightarrow> Panic), s1)
      | (None, s1) \<Rightarrow>
          (case inner of
             Inl e \<Rightarrow> (Return (Inl e), s1)
           | Inr x \<Rightarrow> (Return (Inr x), put t2 key (wrap x) s1)))"

definition all_good :: "(string \<Rightarrow> 'v \<Rightarrow> bool) \<Rightarrow> 's \<Rightarrow> bool" where
  "all_good good s \<longleftrightarrow> (\<forall>k v. holds s k v \<longrightarrow> good k v)"

lemma all_good_set: "all_good good s \<Longrightarrow> good k v \<Longrightarrow> all_good good (put t k v s)"
  by (auto simp: all_good_def dest: set_holds)

lemma all_good_get: "all_good good s \<Longrightarrow> look t k s = (r, s') \<Longrightarrow> all_good good s'"
  unfolding all_good_def using get_keeps by metis

lemma get_good: "all_good good s \<Longrightarrow> look t k s = (Some v, s') \<Longrightarrow> good k v"
  by (auto simp: all_good_def dest: get_holds)

lemma through_good:
  assumes "all_good good s" "\<And>x. inner = Inr x \<Longrightarrow> good key (wrap x)"
  shows "all_good good (snd (through proj wrap t1 t2 key inner s))"
  using assms
  by (auto simp: through_def split: prod.splits option.splits sum.splits
      intro: all_good_get all_good_set)

lemma through_no_panic:
  assumes "all_good good s" "\<And>v. good key v \<Longrightarrow> proj v \<noteq> None"
  shows "fst (through proj wrap t1 t2 key inner s) \<noteq> Panic"
proof (cases "look t1 key s")
  case (Pair r s1)
  show ?thesis
  proof (cases r)
    case None
    with Pair show ?thesis by (simp add: through_def split: sum.splits)
  next
    case (Some v)
    with Pair have "proj v \<noteq> None" using get_good [OF assms(1)] assms(2) by simp
    with Pair Some show ?thesis by (auto simp: through_def)
  qed
qed

lemma through_exact:
  assumes "all_good good s" "\<And>v. good key v \<Longrightarrow> \<exists>x. v = wrap x \<and> inner = Inr x"
    and "\<And>x. proj (wrap x) = Some x"
  shows "fst (through proj wrap t1 t2 key inner s) = Return inner"
proof (cases "look t1 key s")
  case (Pair r s1)
  show ?thesis
  proof (cases r)
    case None
    with Pair show ?thesis by (simp add: through_def split: sum.splits)
  next
    case (Some v)
    with Pair have "good key v" using get_good [OF assms(1)] by simp
    then obtain x where "v = wrap x" "inner = Inr x" using assms(2) by blast
    with Pair Some assms(3) show ?thesis by (simp add: through_def)
  qed
qed

end

text \<open>An entry holds its value whether it has expired or not.\<close>

definition cache_holds :: "'v cache \<Rightarrow> string \<Rightarrow> 'v \<Rightarrow> bool" where
  "cache_holds c k v \<longleftrightarrow> (\<exists>e. entries c k = Some e \<and> entry_value e = v)"

interpretation ttl_store: value_store cache_get cache_set cache_holds
proof
  fix t k and s s' :: "'v cache" and v
  assume "cache_get t k s = (Some v, s')"
  then show "cache_holds s k v"
    by (auto simp: cache_get_def cache_holds_def split: option.splits if_splits)
next
  fix t k and s s' :: "'v cache" and r k' v
  assume "cache_get t k s = (r, s')" "cache_holds s' k' v"
  then show "cache_holds s k' v"
    by (auto simp: cache_get_def cache_holds_def cache_ops split: option.splits if_splits)
next
  fix t k and s :: "'v cache" and v k' v'
  assume "cache_holds (cache_set t k v s) k' v'"
  then show "k' = k \<and> v' = v \<or> cache_holds s k' v'"
    by (auto simp: cache_holds_def cache_ops split: if_splits)
qed

lemma cached_call_through: "cached_call = ttl_store.through"
  by (intro ext) (simp add: cached_call_def ttl_store.through_def)

lemma all_good_new: "ttl_store.all_good good (cache_new d)"
  by (simp add: ttl_store.all_good_def cache_holds_def cache_new_def)

section \<open>No type confusion\<close>

text \<open>
  The second part of a key names the method, so it decides the dynamic type of the entry, as
  long as the provider's own name has no colon (the program has two providers,
  \<open>"github"\<close> and \<open>"gitlab"\<close>); owner, repository and path may be any text.
\<close>

fun kind_name :: "cached_value \<Rightarrow> string" where
  "kind_name (VReleases _) = ''releases''"
| "kind_name (VRelease _) = ''latest''"
| "kind_name (VTags _) = ''tags''"
| "kind_name (VBytes _) = ''file''"

definition kind_ok :: "string \<Rightarrow> cached_value \<Rightarrow> bool" where
  "kind_ok k v \<longleftrightarrow> split_on CHR '':'' k ! 1 = kind_name v"

definition cache_typed :: "cached_value cache \<Rightarrow> bool" where
  "cache_typed c \<longleftrightarrow> (\<forall>k e. entries c k = Some e \<longrightarrow> kind_ok k (entry_value e))"

definition colon_free :: "string \<Rightarrow> bool" where
  "colon_free s \<longleftrightarrow> CHR '':'' \<notin> set s"

lemma cache_typed_good: "cache_typed c \<longleftrightarrow> ttl_store.all_good kind_ok c"
  by (auto simp: cache_typed_def ttl_store.all_good_def cache_holds_def)

lemma split_key_kind:
  assumes "colon_free n" "colon_free kind" "ps \<noteq> []"
  shows "split_on CHR '':'' (cache_key (n # kind # ps)) ! 1 = kind"
  using assms by (simp add: cache_key_join join_with_Cons split_on_append colon_free_def)

lemma kind_ok_key:
  assumes "colon_free n" "colon_free kind" "ps \<noteq> []"
  shows "kind_ok (cache_key (n # kind # ps)) v \<longleftrightarrow> kind_name v = kind"
  unfolding kind_ok_def split_key_kind [OF assms] by (rule eq_commute)

lemma colon_free_kinds [simp]:
  "colon_free ''releases''" "colon_free ''latest''" "colon_free ''tags''" "colon_free ''file''"
  by (simp_all add: colon_free_def)

lemma kind_name_eqs:
  "kind_name v = ''releases'' \<longleftrightarrow> as_releases v \<noteq> None"
  "kind_name v = ''latest'' \<longleftrightarrow> as_release v \<noteq> None"
  "kind_name v = ''tags'' \<longleftrightarrow> as_tags v \<noteq> None"
  "kind_name v = ''file'' \<longleftrightarrow> as_bytes v \<noteq> None"
  by (cases v; simp)+

lemma cached_call_typed:
  assumes "cache_typed c" "\<And>v. kind_ok key v \<longleftrightarrow> proj v \<noteq> None" "\<And>x. proj (wrap x) = Some x"
  shows "fst (cached_call proj wrap t1 t2 key inner c) \<noteq> Panic"
    and "cache_typed (snd (cached_call proj wrap t1 t2 key inner c))"
  using assms
    ttl_store.through_no_panic [of kind_ok c key proj wrap t1 t2 inner]
    ttl_store.through_good [of kind_ok c inner key wrap proj t1 t2]
  by (simp_all add: cached_call_through cache_typed_good)

text \<open>
  C10. The type assertions of the cached provider never panic.  In a cache that only cached
  providers have filled, each of the four methods returns without a panic for any owner,
  repository and path, and leaves the cache in such a state again; an empty cache is in it.
\<close>

theorem cached_methods_never_panic:
  assumes "cache_typed c" "CHR '':'' \<notin> set (pv_name p)"
  shows "fst (cached_list_releases p t1 t2 owner repo c) \<noteq> Panic \<and>
         cache_typed (snd (cached_list_releases p t1 t2 owner repo c)) \<and>
         fst (cached_latest p t1 t2 owner repo c) \<noteq> Panic \<and>
         cache_typed (snd (cached_latest p t1 t2 owner repo c)) \<and>
         fst (cached_list_tags p t1 t2 owner repo c) \<noteq> Panic \<and>
         cache_typed (snd (cached_list_tags p t1 t2 owner repo c)) \<and>
         fst (cached_file p t1 t2 owner repo path c) \<noteq> Panic \<and>
         cache_typed (snd (cached_file p t1 t2 owner repo path c)) \<and>
         cache_typed (cache_new d)"
proof -
  have n: "colon_free (pv_name p)" using assms(2) by (simp add: colon_free_def)
  have "cache_typed (cache_new d)" by (simp add: cache_typed_def cache_new_def)
  then show ?thesis
    unfolding cached_methods
    by (intro conjI cached_call_typed [OF assms(1)])
      (simp_all add: kind_ok_key n kind_name_eqs)
qed

theorem cached_methods_never_panic_witness:
  "fst (cached_latest \<lparr>pv_name = ''github'', pv_list_releases = \<lambda>_ _. Inr [],
      pv_latest = \<lambda>_ _. Inl (Plain ''offline''), pv_list_tags = \<lambda>_ _. Inr [],
      pv_file = \<lambda>_ _ _. Inr []\<rparr> 0 1 ''o'' ''r'' (cache_new 10)) \<noteq> Panic"
  using cached_methods_never_panic [of "cache_new 10"
      "\<lparr>pv_name = ''github'', pv_list_releases = \<lambda>_ _. Inr [],
      pv_latest = \<lambda>_ _. Inl (Plain ''offline''), pv_list_tags = \<lambda>_ _. Inr [],
      pv_file = \<lambda>_ _ _. Inr []\<rparr>" 0 1 "''o''" "''r''"]
  by (simp add: cache_typed_def cache_new_def)

section \<open>Transparency\<close>

text \<open>
  One cache serves every provider of the process.  It is coherent with a family of providers
  when an entry found under the key of a query is that provider's answer to that query; the
  queries are those whose owner and repository have no colon.
\<close>

datatype query =
    QReleases string string
  | QLatest string string
  | QTags string string
  | QFile string string string

fun key_of :: "provider \<Rightarrow> query \<Rightarrow> string" where
  "key_of p (QReleases o' r) = cache_key [pv_name p, ''releases'', o', r]"
| "key_of p (QLatest o' r) = cache_key [pv_name p, ''latest'', o', r]"
| "key_of p (QTags o' r) = cache_key [pv_name p, ''tags'', o', r]"
| "key_of p (QFile o' r path) = cache_key [pv_name p, ''file'', o', r, path]"

fun answer_of :: "provider \<Rightarrow> query \<Rightarrow> cached_value result" where
  "answer_of p (QReleases o' r) = map_sum id VReleases (pv_list_releases p o' r)"
| "answer_of p (QLatest o' r) = map_sum id VRelease (pv_latest p o' r)"
| "answer_of p (QTags o' r) = map_sum id VTags (pv_list_tags p o' r)"
| "answer_of p (QFile o' r path) = map_sum id VBytes (pv_file p o' r path)"

fun plain_query :: "query \<Rightarrow> bool" where
  "plain_query (QReleases o' r) = (colon_free o' \<and> colon_free r)"
| "plain_query (QLatest o' r) = (colon_free o' \<and> colon_free r)"
| "plain_query (QTags o' r) = (colon_free o' \<and> colon_free r)"
| "plain_query (QFile o' r path) = (colon_free o' \<and> colon_free r)"

definition provider_family :: "provider set \<Rightarrow> bool" where
  "provider_family P \<longleftrightarrow> (\<forall>p \<in> P. colon_free (pv_name p)) \<and> inj_on pv_name P"

definition agrees :: "provider set \<Rightarrow> string \<Rightarrow> cached_value \<Rightarrow> bool" where
  "agrees P k v \<longleftrightarrow> (\<forall>p \<in> P. \<forall>q. plain_query q \<longrightarrow> k = key_of p q \<longrightarrow> answer_of p q = Inr v)"

definition coherent :: "provider set \<Rightarrow> cached_value cache \<Rightarrow> bool" where
  "coherent P c \<longleftrightarrow> (\<forall>k e. entries c k = Some e \<longrightarrow> agrees P k (entry_value e))"

lemma coherent_good: "coherent P c \<longleftrightarrow> ttl_store.all_good (agrees P) c"
  by (auto simp: coherent_def ttl_store.all_good_def cache_holds_def)

fun query_parts :: "query \<Rightarrow> string list" where
  "query_parts (QReleases o' r) = [''releases'', o', r]"
| "query_parts (QLatest o' r) = [''latest'', o', r]"
| "query_parts (QTags o' r) = [''tags'', o', r]"
| "query_parts (QFile o' r path) = ''file'' # o' # r # split_on CHR '':'' path"

lemma split_key_of:
  assumes "colon_free (pv_name p)" "plain_query q"
  shows "split_on CHR '':'' (key_of p q) = pv_name p # query_parts q"
  using assms
  by (cases q)
    (simp_all add: cache_key_join join_with_Cons split_on_append split_on_no_sep colon_free_def)

lemma query_parts_inj: "query_parts q = query_parts q' \<Longrightarrow> q = q'"
  by (cases q; cases q') (auto dest: arg_cong [of _ _ "join_with '':''"])

lemma key_of_inj:
  assumes "provider_family P" "p \<in> P" "p' \<in> P" "plain_query q" "plain_query q'"
    and "key_of p q = key_of p' q'"
  shows "p = p' \<and> q = q'"
proof -
  have "pv_name p # query_parts q = pv_name p' # query_parts q'"
    using assms split_key_of [of p q] split_key_of [of p' q'] by (simp add: provider_family_def)
  with assms(1-3) show ?thesis
    by (auto simp: provider_family_def dest: inj_onD query_parts_inj)
qed

lemma agrees_key_of:
  assumes "provider_family P" "p \<in> P" "plain_query q"
  shows "agrees P (key_of p q) v \<longleftrightarrow> answer_of p q = Inr v"
proof
  assume "agrees P (key_of p q) v"
  then show "answer_of p q = Inr v"
    unfolding agrees_def using assms(2,3) by blast
next
  assume a: "answer_of p q = Inr v"
  show "agrees P (key_of p q) v"
    unfolding agrees_def
  proof (intro ballI allI impI)
    fix p' q'
    assume "p' \<in> P" "plain_query q'" "key_of p q = key_of p' q'"
    then have "p = p' \<and> q = q'" by (intro key_of_inj [OF assms(1,2) _ assms(3)])
    with a show "answer_of p' q' = Inr v" by simp
  qed
qed

lemma cached_call_coherent:
  assumes "provider_family P" "p \<in> P" "plain_query q" "coherent P c"
    and "answer_of p q = map_sum id wrap inner" "\<And>x. proj (wrap x) = Some x"
  shows "fst (cached_call proj wrap t1 t2 (key_of p q) inner c) = Return inner"
    and "coherent P (snd (cached_call proj wrap t1 t2 (key_of p q) inner c))"
proof -
  note ag = agrees_key_of [OF assms(1-3)]
  have good: "ttl_store.all_good (agrees P) c" using assms(4) by (simp add: coherent_good)
  show "fst (cached_call proj wrap t1 t2 (key_of p q) inner c) = Return inner"
    unfolding cached_call_through
    by (rule ttl_store.through_exact [OF good]) (use assms(5,6) in \<open>auto simp: ag\<close>, cases inner, auto)
  show "coherent P (snd (cached_call proj wrap t1 t2 (key_of p q) inner c))"
    unfolding cached_call_through coherent_good
    by (rule ttl_store.through_good [OF good]) (use assms(5) in \<open>simp add: ag\<close>)
qed

text \<open>
  C9. The cache is transparent.  While the providers' answers do not change, a cached provider
  returns exactly what the provider itself would return, errors included, for every query
  whose owner and repository have no colon, and the shared cache stays coherent for all
  providers of the process.
\<close>

theorem cached_provider_transparent:
  assumes "provider_family P" "p \<in> P" "coherent P c"
    and "CHR '':'' \<notin> set owner" "CHR '':'' \<notin> set repo"
  shows "fst (cached_list_releases p t1 t2 owner repo c) = Return (pv_list_releases p owner repo) \<and>
         fst (cached_latest p t1 t2 owner repo c) = Return (pv_latest p owner repo) \<and>
         fst (cached_list_tags p t1 t2 owner repo c) = Return (pv_list_tags p owner repo) \<and>
         fst (cached_file p t1 t2 owner repo path c) = Return (pv_file p owner repo path) \<and>
         coherent P (snd (cached_list_releases p t1 t2 owner repo c)) \<and>
         coherent P (snd (cached_latest p t1 t2 owner repo c)) \<and>
         coherent P (snd (cached_list_tags p t1 t2 owner repo c)) \<and>
         coherent P (snd (cached_file p t1 t2 owner repo path c))"
proof -
  have plain: "plain_query (QReleases owner repo)" "plain_query (QLatest owner repo)"
    "plain_query (QTags owner repo)" "plain_query (QFile owner repo path)"
    using assms(4,5) by (simp_all add: colon_free_def)
  note rel = cached_call_coherent [OF assms(1,2) plain(1) assms(3), of VReleases _ as_releases]
  note lat = cached_call_coherent [OF assms(1,2) plain(2) assms(3), of VRelease _ as_release]
  note tag = cached_call_coherent [OF assms(1,2) plain(3) assms(3), of VTags _ as_tags]
  note fil = cached_call_coherent [OF assms(1,2) plain(4) assms(3), of VBytes _ as_bytes]
  show ?thesis
    unfolding cached_methods
    by (intro conjI rel [unfolded key_of.simps] lat [unfolded key_of.simps]
        tag [unfolded key_of.simps] fil [unfolded key_of.simps]) simp_all
qed

theorem cached_provider_transparent_witness:
  "fst (cached_latest \<lparr>pv_name = ''gitlab'', pv_list_releases = \<lambda>_ _. Inr [],
      pv_latest = \<lambda>_ _. Inl (Plain ''offline''), pv_list_tags = \<lambda>_ _. Inr [],
      pv_file = \<lambda>_ _ _. Inr []\<rparr> 0 1 ''o'' ''r'' (cache_new 10)) =
   Return (Inl (Plain ''offline''))"
  using cached_provider_transparent [of "{\<lparr>pv_name = ''gitlab'', pv_list_releases = \<lambda>_ _. Inr [],
      pv_latest = \<lambda>_ _. Inl (Plain ''offline''), pv_list_tags = \<lambda>_ _. Inr [],
      pv_file = \<lambda>_ _ _. Inr []\<rparr>}" "\<lparr>pv_name = ''gitlab'', pv_list_releases = \<lambda>_ _. Inr [],
      pv_latest = \<lambda>_ _. Inl (Plain ''offline''), pv_list_tags = \<lambda>_ _. Inr [],
      pv_file = \<lambda>_ _ _. Inr []\<rparr>" "cache_new 10" "''o''" "''r''"]
  by (simp add: provider_family_def colon_free_def coherent_def cache_new_def)

end
