(* ===== verification/Store.thy ===== *)
theory Store
  imports Model
begin

text \<open>
  The SQLite persistence of \<open>internal/store/store.go\<close>.  The database is its tables: the rows
  of \<open>releases\<close> and \<open>tool_calls\<close> in row-id order and the primary-key table \<open>kv_store\<close>;
  each operation does what its SQL statement says.  A statement on a closed database fails;
  the other failures of the engine (disk, locking) are not modelled.

  The driver writes a \<open>time.Time\<close> as a text and \<open>ORDER BY\<close> compares what was written, so
  the order of \<open>GetHistory\<close> is taken along a parameter \<open>tkey\<close>, the stored form of a time.
\<close>

section \<open>Tables\<close>

record stored_release =
  sr_service :: string
  sr_tag :: string
  sr_platform :: string
  sr_url :: string
  sr_published_at :: gotime
  sr_discovered_at :: gotime

record tool_call =
  tc_tool :: string
  tc_args :: string
  tc_status :: string
  tc_duration_ms :: int
  tc_called_at :: gotime

record kv_row =
  kv_value :: string
  kv_updated_at :: gotime

record store =
  db_open :: bool
  db_releases :: "(int \<times> stored_release) list"
  db_release_seq :: int
  db_tool_calls :: "(int \<times> tool_call) list"
  db_call_seq :: int
  db_kv :: "(string, kv_row) gomap"

definition empty_store :: store where
  "empty_store = \<lparr>db_open = True, db_releases = [], db_release_seq = 0, db_tool_calls = [],
     db_call_seq = 0, db_kv = Map.empty\<rparr>"

definition db_closed :: go_error where
  "db_closed = Plain ''sql: database is closed''"

section \<open>Opening\<close>

text \<open>
  \<open>database/sql\<close>: whether a path can be opened, and what the execution of a statement fails with.
  \<open>first_failure\<close> is the loop that executes statements up to the first error.
\<close>

record sql_env =
  sq_open :: "string \<Rightarrow> go_error option"
  sq_exec :: "string \<Rightarrow> go_error option"

fun first_failure :: "(string \<Rightarrow> go_error option) \<Rightarrow> string list \<Rightarrow> (string \<times> go_error) option" where
  "first_failure exec [] = None"
| "first_failure exec (m # ms) = (case exec m of Some e \<Rightarrow> Some (m, e) | None \<Rightarrow> first_failure exec ms)"

definition tabs :: "nat \<Rightarrow> string" where
  "tabs n = replicate n (CHR 0x09)"

definition store_migrations :: "string list" where
  "store_migrations =
     [join_with newline
        [''CREATE TABLE IF NOT EXISTS releases ('',
         tabs 3 @ ''id INTEGER PRIMARY KEY AUTOINCREMENT,'',
         tabs 3 @ ''service TEXT NOT NULL,'',
         tabs 3 @ ''tag TEXT NOT NULL,'',
         tabs 3 @ ''platform TEXT NOT NULL DEFAULT '' @ [CHR 0x27, CHR 0x27] @ '','',
         tabs 3 @ ''url TEXT NOT NULL DEFAULT '' @ [CHR 0x27, CHR 0x27] @ '','',
         tabs 3 @ ''published_at DATETIME,'',
         tabs 3 @ ''discovered_at DATETIME NOT NULL DEFAULT CURRENT_TIMESTAMP,'',
         tabs 3 @ ''UNIQUE(service, tag)'',
         tabs 2 @ '')''],
      join_with newline
        [''CREATE TABLE IF NOT EXISTS tool_calls ('',
         tabs 3 @ ''id INTEGER PRIMARY KEY AUTOINCREMENT,'',
         tabs 3 @ ''tool TEXT NOT NULL,'',
         tabs 3 @ ''args TEXT NOT NULL DEFAULT '' @ [CHR 0x27, CHR 0x27] @ '','',
         tabs 3 @ ''status TEXT NOT NULL DEFAULT 'ok','',
         tabs 3 @ ''duration_ms INTEGER NOT NULL DEFAULT 0,'',
         tabs 3 @ ''called_at DATETIME NOT NULL DEFAULT CURRENT_TIMESTAMP'',
         tabs 2 @ '')''],
      join_with newline
        [''CREATE TABLE IF NOT EXISTS kv_store ('',
         tabs 3 @ ''key TEXT PRIMARY KEY,'',
         tabs 3 @ ''value TEXT NOT NULL DEFAULT '' @ [CHR 0x27, CHR 0x27] @ '','',
         tabs 3 @ ''updated_at DATETIME NOT NULL DEFAULT CURRENT_TIMESTAMP'',
         tabs 2 @ '')''],
      ''CREATE INDEX IF NOT EXISTS idx_releases_service ON releases(service)'',
      ''CREATE INDEX IF NOT EXISTS idx_tool_calls_tool ON tool_calls(tool)'',
      ''CREATE INDEX IF NOT EXISTS idx_tool_calls_called_at ON tool_calls(called_at)'']"

text \<open>\<open>New\<close>; \<open>held\<close> is what the tables at the path hold, the empty ones for a new file.\<close>

definition store_new :: "sql_env \<Rightarrow> (string \<Rightarrow> store) \<Rightarrow> string \<Rightarrow> store result" where
  "store_new sq held path =
     (case sq_open sq path of
        Some e \<Rightarrow> Inl (Wrapf ''open database'' e)
      | None \<Rightarrow>
          (case sq_exec sq ''PRAGMA journal_mode=WAL'' of
             Some e \<Rightarrow> Inl (Wrapf ''set WAL mode'' e)
           | None \<Rightarrow>
               (case first_failure (sq_exec sq) store_migrations of
                  Some (m, e) \<Rightarrow> Inl (Wrapf ''migrate'' (Wrapf (''exec '' @ quote (take 40 m)) e))
                | None \<Rightarrow> Inr ((held path)\<lparr>db_open := True\<rparr>))))"

lemma first_failure_None: "first_failure exec ms = None \<longleftrightarrow> (\<forall>m \<in> set ms. exec m = None)"
  by (induction ms) (auto split: option.splits)

section \<open>Operations\<close>

definition store_close :: "store \<Rightarrow> store" where
  "store_close s = s\<lparr>db_open := False\<rparr>"

definition release_key :: "stored_release \<Rightarrow> string \<times> string" where
  "release_key r = (sr_service r, sr_tag r)"

definition release_keys :: "store \<Rightarrow> (string \<times> string) set" where
  "release_keys s = release_key ` snd ` set (db_releases s)"

text \<open>\<open>INSERT OR IGNORE\<close> under \<open>UNIQUE(service, tag)\<close>.\<close>

definition record_release :: "stored_release \<Rightarrow> store \<Rightarrow> store result" where
  "record_release r s =
     (if \<not> db_open s then Inl db_closed
      else if release_key r \<in> release_keys s then Inr s
      else Inr (s\<lparr>db_releases := db_releases s @ [(db_release_seq s + 1, r)],
                  db_release_seq := db_release_seq s + 1\<rparr>))"

definition releases_of :: "string \<Rightarrow> store \<Rightarrow> stored_release list" where
  "releases_of service s = filter (\<lambda>r. sr_service r = service) (map snd (db_releases s))"

definition get_history :: "(gotime \<Rightarrow> 'k :: linorder) \<Rightarrow> string \<Rightarrow> int \<Rightarrow> store \<Rightarrow> stored_release list result" where
  "get_history tkey service limit s =
     (let limit' = (if limit \<le> 0 then 50 else limit) in
      if \<not> db_open s then Inl db_closed
      else Inr (take (nat limit')
        (sort_slice (\<lambda>a b. tkey (sr_discovered_at b) < tkey (sr_discovered_at a))
          (releases_of service s))))"

definition log_tool_call :: "tool_call \<Rightarrow> store \<Rightarrow> store result" where
  "log_tool_call tc s =
     (if \<not> db_open s then Inl db_closed
      else Inr (s\<lparr>db_tool_calls := db_tool_calls s @ [(db_call_seq s + 1, tc)],
                  db_call_seq := db_call_seq s + 1\<rparr>))"

text \<open>\<open>GetKV\<close> returns a value and whether a row was found.\<close>

definition get_kv :: "string \<Rightarrow> store \<Rightarrow> string option result" where
  "get_kv key s =
     (if \<not> db_open s then Inl db_closed else Inr (map_option kv_value (db_kv s key)))"

definition set_kv :: "gotime \<Rightarrow> string \<Rightarrow> string \<Rightarrow> store \<Rightarrow> store result" where
  "set_kv now key value s =
     (if \<not> db_open s then Inl db_closed
      else Inr (s\<lparr>db_kv := (db_kv s)(key \<mapsto> \<lparr>kv_value = value, kv_updated_at = now\<rparr>)\<rparr>))"

lemmas store_ops = record_release_def log_tool_call_def set_kv_def get_kv_def

section \<open>Integrity\<close>

text \<open>The constraints of the schema: unique row ids up to the sequence, unique keys.\<close>

definition store_ok :: "store \<Rightarrow> bool" where
  "store_ok s \<longleftrightarrow>
     distinct (map fst (db_releases s)) \<and> (\<forall>p \<in> set (db_releases s). fst p \<le> db_release_seq s) \<and>
     distinct (map (release_key \<circ> snd) (db_releases s)) \<and>
     distinct (map fst (db_tool_calls s)) \<and> (\<forall>p \<in> set (db_tool_calls s). fst p \<le> db_call_seq s)"

lemma store_ok_empty [go_inv]: "store_ok empty_store"
  by (simp add: store_ok_def empty_store_def)

lemma store_ok_record [go_inv]:
  assumes "store_ok s" "record_release r s = Inr s'"
  shows "store_ok s'"
proof (cases "release_key r \<in> release_keys s")
  case True
  with assms show ?thesis by (auto simp: record_release_def split: if_splits)
next
  case False
  then have new: "release_key r \<notin> (release_key \<circ> snd) ` set (db_releases s)"
    by (auto simp: release_keys_def)
  have "db_release_seq s + 1 \<notin> fst ` set (db_releases s)"
    using assms(1) by (fastforce simp: store_ok_def)
  with assms False new show ?thesis
    by (fastforce simp: record_release_def store_ok_def split: if_splits)
qed

lemma store_ok_log [go_inv]:
  assumes "store_ok s" "log_tool_call tc s = Inr s'"
  shows "store_ok s'"
proof -
  have "db_call_seq s + 1 \<notin> fst ` set (db_tool_calls s)"
    using assms(1) by (fastforce simp: store_ok_def)
  with assms show ?thesis
    by (fastforce simp: log_tool_call_def store_ok_def split: if_splits)
qed

lemma store_ok_set_kv [go_inv]: "store_ok s \<Longrightarrow> set_kv now k v s = Inr s' \<Longrightarrow> store_ok s'"
  by (simp add: set_kv_def store_ok_def split: if_splits) force

lemma record_release_keys:
  "record_release r s = Inr s' \<Longrightarrow> release_keys s' = insert (release_key r) (release_keys s)"
  by (force simp: record_release_def release_keys_def split: if_splits)

lemma record_release_idem:
  "record_release r s = Inr s' \<Longrightarrow> release_key r' = release_key r \<Longrightarrow> record_release r' s' = Inr s'"
  by (auto simp: record_release_def release_keys_def split: if_splits)

text \<open>
  C19. Recording releases keeps the schema's constraints and never overwrites: a release whose
  (service, tag) pair is already stored leaves the database unchanged, so the first discovery
  of a release, with its time, is the one the history keeps, and recording the same release
  again after that changes nothing.
\<close>

theorem record_release_first_wins:
  assumes "store_ok s" "db_open s"
  shows "\<exists>s'. record_release r s = Inr s' \<and> store_ok s' \<and>
     release_keys s' = insert (release_key r) (release_keys s) \<and>
     (release_key r \<in> release_keys s \<longrightarrow> s' = s) \<and>
     (release_key r \<notin> release_keys s \<longrightarrow> map snd (db_releases s') = map snd (db_releases s) @ [r]) \<and>
     (release_key r' = release_key r \<longrightarrow> record_release r' s' = Inr s')"
proof -
  obtain s' where s': "record_release r s = Inr s'"
    using assms(2) by (cases "release_key r \<in> release_keys s") (auto simp: record_release_def)
  moreover have "release_key r \<in> release_keys s \<longrightarrow> s' = s"
    and "release_key r \<notin> release_keys s \<longrightarrow> map snd (db_releases s') = map snd (db_releases s) @ [r]"
    using s' by (auto simp: record_release_def split: if_splits)
  ultimately show ?thesis
    using store_ok_record [OF assms(1)] record_release_keys record_release_idem by blast
qed

definition sample_release :: stored_release where
  "sample_release = \<lparr>sr_service = ''api'', sr_tag = ''v1'', sr_platform = ''github'', sr_url = [],
     sr_published_at = zero_time, sr_discovered_at = zero_time\<rparr>"

theorem record_release_first_wins_witness:
  "\<exists>s'. record_release sample_release empty_store = Inr s' \<and> store_ok s' \<and>
     record_release sample_release s' = Inr s'"
  using record_release_first_wins [OF store_ok_empty, of sample_release sample_release]
  by (auto simp: empty_store_def)

section \<open>History\<close>

lemma weak_order_tkey:
  fixes tkey :: "gotime \<Rightarrow> 'k :: linorder"
  shows "weak_order (\<lambda>a b. tkey (sr_discovered_at b) < tkey (sr_discovered_at a))"
  using weak_order_key(2) [of "\<lambda>a. tkey (sr_discovered_at a)"] .

text \<open>
  \<open>GetHistory\<close> returns stored releases of the asked service only, no more than the limit
  (50 when the limit is not positive), each (service, tag) at most once, and newest first in
  the stored form of the discovery time; it returns all of the service's releases when they do
  not exceed the limit, and a release it leaves out is never newer than one it returns.
\<close>

theorem get_history_newest_first:
  fixes tkey :: "gotime \<Rightarrow> 'k :: linorder"
  assumes "get_history tkey service limit s = Inr rs" "store_ok s"
  shows "set rs \<subseteq> set (releases_of service s) \<and>
    length rs = min (nat (if limit \<le> 0 then 50 else limit)) (length (releases_of service s)) \<and>
    distinct (map release_key rs) \<and>
    sorted_wrt (\<lambda>a b. tkey (sr_discovered_at b) \<le> tkey (sr_discovered_at a)) rs \<and>
    (\<forall>a \<in> set rs. \<forall>b \<in> set (releases_of service s) - set rs.
       tkey (sr_discovered_at b) \<le> tkey (sr_discovered_at a))"
proof -
  define mine where "mine = releases_of service s"
  define lt where "lt = (\<lambda>a b :: stored_release. tkey (sr_discovered_at b) < tkey (sr_discovered_at (a :: stored_release)))"
  define all where "all = sort_slice lt mine"
  have lt: "weak_order lt" unfolding lt_def by (rule weak_order_tkey)
  have rs: "rs = take (nat (if limit \<le> 0 then 50 else limit)) all"
    using assms(1) by (auto simp: get_history_def Let_def all_def lt_def mine_def split: if_splits)
  have sorted: "sorted_wrt (\<lambda>a b. \<not> lt b a) all"
    unfolding all_def by (rule go_sort.sorted_sorter [OF lt])
  have set_all: "set all = set mine" and len: "length all = length mine"
    unfolding all_def by (rule go_sort.set_sorter, rule go_sort.length_sorter)
  have "distinct (map release_key (map snd (db_releases s)))"
    using assms(2) by (simp add: store_ok_def)
  then have "distinct (map release_key mine)"
    unfolding mine_def releases_of_def by (rule distinct_map_filter)
  moreover have "mset (map release_key all) = mset (map release_key mine)"
    unfolding all_def by (simp add: go_sort.mset_sorter)
  ultimately have dist: "distinct (map release_key all)"
    by (metis mset_eq_imp_distinct_iff)
  have split: "all = rs @ drop (nat (if limit \<le> 0 then 50 else limit)) all"
    unfolding rs by simp
  have later: "\<not> lt b a" if "a \<in> set rs" "b \<in> set all - set rs" for a b
    using sorted that by (subst (asm) split, subst (asm) (2) split) (auto simp: sorted_wrt_append)
  show ?thesis
    using dist sorted later len set_all
    by (auto simp: rs lt_def not_less mine_def take_map [symmetric] sorted_wrt_take min_def
        dest: in_set_takeD)
qed

theorem get_history_newest_first_witness:
  "get_history instant ''api'' 0 (empty_store\<lparr>db_releases := [(1, sample_release),
      (2, sample_release\<lparr>sr_tag := ''v2'', sr_discovered_at := \<lparr>instant = 5, zone_offset = 0\<rparr>\<rparr>)],
      db_release_seq := 2\<rparr>) =
    Inr [sample_release\<lparr>sr_tag := ''v2'', sr_discovered_at := \<lparr>instant = 5, zone_offset = 0\<rparr>\<rparr>,
      sample_release] \<and>
   sorted_wrt (\<lambda>a b. instant (sr_discovered_at b) \<le> instant (sr_discovered_at a))
     [sample_release\<lparr>sr_tag := ''v2'', sr_discovered_at := \<lparr>instant = 5, zone_offset = 0\<rparr>\<rparr>,
      sample_release]"
proof -
  let ?v2 = "sample_release\<lparr>sr_tag := ''v2'', sr_discovered_at := \<lparr>instant = 5, zone_offset = 0\<rparr>\<rparr>"
  let ?s = "empty_store\<lparr>db_releases := [(1, sample_release), (2, ?v2)], db_release_seq := 2\<rparr>"
  have h: "get_history instant ''api'' 0 ?s = Inr [?v2, sample_release]"
    by (simp add: get_history_def releases_of_def empty_store_def sample_release_def zero_time_def)
  have ok: "store_ok ?s"
    by (simp add: store_ok_def empty_store_def release_key_def sample_release_def)
  show ?thesis using get_history_newest_first [OF h ok] h by simp
qed

end
