(* ===== verification/Json.thy ===== *)
theory Json
  imports Go_Errors
begin

text \<open>
  JSON values and the binding stage of \<open>encoding/json\<close>: what \<open>Unmarshal\<close> stores into the
  fields of a struct once the text has been read as a value.  Keys are matched without regard
  to ASCII case, the last matching key wins, \<open>null\<close> leaves a field as it is, unknown keys are
  ignored, and a value of the wrong kind makes the call fail.  Reading the text itself is a
  parameter \<open>parse\<close> of the definitions that need it (\<open>None\<close> for a syntax error).
\<close>

datatype json =
    JNull
  | JBool bool
  | JNum int
  | JStr string
  | JArr "json list"
  | JObj "(string \<times> json) list"

definition lower_char :: "char \<Rightarrow> char" where
  "lower_char c = (if CHR ''A'' \<le> c \<and> c \<le> CHR ''Z'' then char_of ((of_char c :: nat) + 32) else c)"

definition same_key :: "string \<Rightarrow> string \<Rightarrow> bool" where
  "same_key a b \<longleftrightarrow> map lower_char a = map lower_char b"

text \<open>Decoding one struct field from the members of an object, given its present value.\<close>

fun bind_field :: "('a \<Rightarrow> json \<Rightarrow> 'a option) \<Rightarrow> string \<Rightarrow> 'a \<Rightarrow> (string \<times> json) list \<Rightarrow> 'a option" where
  "bind_field dec name old [] = Some old"
| "bind_field dec name old ((k, v) # ms) =
     (if same_key name k then
        (if v = JNull then bind_field dec name old ms
         else case dec old v of None \<Rightarrow> None | Some new \<Rightarrow> bind_field dec name new ms)
      else bind_field dec name old ms)"

fun dec_string :: "string \<Rightarrow> json \<Rightarrow> string option" where
  "dec_string old (JStr s) = Some s"
| "dec_string old _ = None"

fun dec_bool :: "bool \<Rightarrow> json \<Rightarrow> bool option" where
  "dec_bool old (JBool b) = Some b"
| "dec_bool old _ = None"

fun dec_int64 :: "int \<Rightarrow> json \<Rightarrow> int option" where
  "dec_int64 old (JNum n) = (if - (2 ^ 63) \<le> n \<and> n < 2 ^ 63 then Some n else None)"
| "dec_int64 old _ = None"

text \<open>A slice: elements start from the zero value, \<open>null\<close> elements stay there.\<close>

fun dec_elems :: "('a \<Rightarrow> json \<Rightarrow> 'a option) \<Rightarrow> 'a \<Rightarrow> json list \<Rightarrow> 'a list option" where
  "dec_elems dec zero [] = Some []"
| "dec_elems dec zero (v # vs) =
     (case (if v = JNull then Some zero else dec zero v) of
        None \<Rightarrow> None
      | Some x \<Rightarrow> (case dec_elems dec zero vs of None \<Rightarrow> None | Some xs \<Rightarrow> Some (x # xs)))"

definition dec_list :: "('a \<Rightarrow> json \<Rightarrow> 'a option) \<Rightarrow> 'a \<Rightarrow> 'a list \<Rightarrow> json \<Rightarrow> 'a list option" where
  "dec_list dec zero old v = (case v of JArr vs \<Rightarrow> dec_elems dec zero vs | _ \<Rightarrow> None)"

text \<open>The members of an object value; any other kind cannot be decoded into a struct.\<close>

fun members :: "json \<Rightarrow> (string \<times> json) list option" where
  "members (JObj ms) = Some ms"
| "members _ = None"

text \<open>\<open>json.Unmarshal(body, \&x)\<close> at the top level: \<open>null\<close> leaves \<open>x\<close> at its zero value.\<close>

definition unmarshal :: "(string \<Rightarrow> json option) \<Rightarrow> ('a \<Rightarrow> json \<Rightarrow> 'a option) \<Rightarrow> 'a \<Rightarrow> string \<Rightarrow> 'a result" where
  "unmarshal parse dec zero body =
     (case parse body of
        None \<Rightarrow> Inl (Plain ''invalid JSON text'')
      | Some JNull \<Rightarrow> Inr zero
      | Some v \<Rightarrow> (case dec zero v of
            None \<Rightarrow> Inl (Plain ''cannot unmarshal value'') | Some x \<Rightarrow> Inr x))"

lemma dec_elems_Some_length: "dec_elems dec zero vs = Some xs \<Longrightarrow> length xs = length vs"
  by (induction vs arbitrary: xs) (auto split: option.splits if_splits)

text \<open>Fields marked \<open>omitempty\<close>.\<close>

definition omit_empty :: "string \<Rightarrow> string \<Rightarrow> (string \<times> json) list" where
  "omit_empty key v = (if v = [] then [] else [(key, JStr v)])"

end
