(* ===== verification/Notify.thy ===== *)
theory Notify
  imports Json
begin

text \<open>
  Release notifications (\<open>internal/notify\<close>): the event, the webhook, Slack and Discord
  notifiers with their payloads, the fan-out notifier and the construction from the
  configuration.  The HTTP stack is the parameter \<open>post\<close>: for a URL and a JSON body it says
  whether the request could be built, failed in transit, or was answered with a status.
  \<open>notify\<close> returns the requests it made, in order, with its error.
\<close>

section \<open>Events and requests\<close>

record event =
  ev_service_name :: string
  ev_old_version :: string
  ev_new_version :: string
  ev_release_url :: string
  ev_platform :: string

datatype post_reply = BadRequest go_error | Unreachable go_error | Status int

type_synonym poster = "string \<Rightarrow> json \<Rightarrow> post_reply"

record sent =
  sent_url :: string
  sent_headers :: "(string \<times> string) list"
  sent_body :: json

datatype notifier =
    WebhookNotifier string
  | SlackNotifier string
  | DiscordNotifier string
  | MultiNotifier "notifier list"

section \<open>Payloads\<close>

definition webhook_payload :: "event \<Rightarrow> json" where
  "webhook_payload ev = JObj
     [(''service_name'', JStr (ev_service_name ev)), (''old_version'', JStr (ev_old_version ev)),
      (''new_version'', JStr (ev_new_version ev)), (''release_url'', JStr (ev_release_url ev)),
      (''platform'', JStr (ev_platform ev))]"

definition rocket :: string where
  "rocket = [CHR 0xF0, CHR 0x9F, CHR 0x9A, CHR 0x80]"

definition right_arrow :: string where
  "right_arrow = [CHR 0xE2, CHR 0x86, CHR 0x92]"

definition mrkdwn :: "string \<Rightarrow> string \<Rightarrow> json" where
  "mrkdwn label value = JObj
     [(''type'', JStr ''mrkdwn''), (''text'', JStr (''*'' @ label @ '':*'' @ newline @ value))]"

definition slack_payload :: "event \<Rightarrow> json" where
  "slack_payload ev = JObj
     [(''blocks'', JArr
        [JObj [(''type'', JStr ''header''),
               (''text'', JObj [(''type'', JStr ''plain_text''),
                  (''text'', JStr (rocket @ '' New Release: '' @ ev_service_name ev))])],
         JObj [(''type'', JStr ''section''),
               (''fields'', JArr
                  [mrkdwn ''Service'' (ev_service_name ev), mrkdwn ''Platform'' (ev_platform ev),
                   mrkdwn ''Previous'' (ev_old_version ev), mrkdwn ''New'' (ev_new_version ev)])],
         JObj [(''type'', JStr ''actions''),
               (''elements'', JArr
                  [JObj [(''type'', JStr ''button''),
                         (''text'', JObj [(''type'', JStr ''plain_text''), (''text'', JStr ''View Release'')]),
                         (''url'', JStr (ev_release_url ev))]])]])]"

definition discord_field :: "string \<Rightarrow> string \<Rightarrow> json" where
  "discord_field name value = JObj
     [(''name'', JStr name), (''value'', JStr value), (''inline'', JBool True)]"

definition discord_payload :: "event \<Rightarrow> json" where
  "discord_payload ev = JObj
     [(''username'', JStr ''ReleaseWave''),
      (''embeds'', JArr
        [JObj [(''title'', JStr (''New Release: '' @ ev_service_name ev)),
               (''url'', JStr (ev_release_url ev)),
               (''color'', JNum 3066993),
               (''description'', JStr (''**'' @ ev_old_version ev @ ''** '' @ right_arrow @ '' **'' @
                  ev_new_version ev @ ''**'')),
               (''fields'', JArr
                  [discord_field ''Service'' (ev_service_name ev),
                   discord_field ''Platform'' (ev_platform ev),
                   discord_field ''Previous'' (ev_old_version ev),
                   discord_field ''New Version'' (ev_new_version ev)])]])]"

section \<open>Sending\<close>

definition status_ok :: "int \<Rightarrow> bool" where
  "status_ok st \<longleftrightarrow> \<not> (st < 200 \<or> st \<ge> 300)"

text \<open>
  The tail the three notifiers share: build the request, send it, check the status.  They
  differ in the payload, the headers and the texts of the errors.
\<close>

definition deliver ::
  "poster \<Rightarrow> string \<Rightarrow> string \<Rightarrow> (string \<times> string) list \<Rightarrow> string \<Rightarrow> json \<Rightarrow> sent list \<times> go_error option" where
  "deliver post request_ctx status_msg headers url payload =
     (let s = \<lparr>sent_url = url, sent_headers = headers, sent_body = payload\<rparr> in
      case post url payload of
        BadRequest e \<Rightarrow> ([], Some (Wrapf ''create request'' e))
      | Unreachable e \<Rightarrow> ([s], Some (Wrapf request_ctx e))
      | Status st \<Rightarrow>
          (if st < 200 \<or> st \<ge> 300 then ([s], Some (Plain (status_msg @ '' returned HTTP '' @ show_int st)))
           else ([s], None)))"

definition webhook_notify :: "poster \<Rightarrow> string \<Rightarrow> event \<Rightarrow> sent list \<times> go_error option" where
  "webhook_notify post url ev =
     deliver post ''webhook request'' ''webhook''
       [(''Content-Type'', ''application/json''), (''User-Agent'', ''releasewave/1.0'')]
       url (webhook_payload ev)"

definition slack_notify :: "poster \<Rightarrow> string \<Rightarrow> event \<Rightarrow> sent list \<times> go_error option" where
  "slack_notify post url ev =
     deliver post ''slack webhook request'' ''slack webhook''
       [(''Content-Type'', ''application/json'')] url (slack_payload ev)"

definition discord_notify :: "poster \<Rightarrow> string \<Rightarrow> event \<Rightarrow> sent list \<times> go_error option" where
  "discord_notify post url ev =
     deliver post ''discord webhook request'' ''discord webhook''
       [(''Content-Type'', ''application/json'')] url (discord_payload ev)"

text \<open>The method \<open>Notify\<close> of each notifier; the fan-out loop collects the errors.\<close>

fun notify :: "poster \<Rightarrow> notifier \<Rightarrow> event \<Rightarrow> sent list \<times> go_error option"
and notify_each :: "poster \<Rightarrow> notifier list \<Rightarrow> event \<Rightarrow> sent list \<times> go_error list" where
  "notify post (WebhookNotifier url) ev = webhook_notify post url ev"
| "notify post (SlackNotifier url) ev = slack_notify post url ev"
| "notify post (DiscordNotifier url) ev = discord_notify post url ev"
| "notify post (MultiNotifier ns) ev =
     (case notify_each post ns ev of (ss, errs) \<Rightarrow> (ss, join_errors errs))"
| "notify_each post [] ev = ([], [])"
| "notify_each post (n # ns) ev =
     (case notify post n ev of (s1, err) \<Rightarrow>
        case notify_each post ns ev of (s2, errs) \<Rightarrow>
          (s1 @ s2, (case err of None \<Rightarrow> errs | Some e \<Rightarrow> e # errs)))"

definition from_config :: "string \<Rightarrow> string \<Rightarrow> string \<Rightarrow> notifier option" where
  "from_config webhook_url slack_url discord_url =
     (let ns = (if webhook_url \<noteq> [] then [WebhookNotifier webhook_url] else []) @
               (if slack_url \<noteq> [] then [SlackNotifier slack_url] else []) @
               (if discord_url \<noteq> [] then [DiscordNotifier discord_url] else [])
      in case ns of
           [] \<Rightarrow> None
         | [n] \<Rightarrow> Some n
         | _ \<Rightarrow> Some (MultiNotifier ns))"

section \<open>Properties\<close>

lemma deliver_urls:
  "map sent_url (fst (deliver post ctx msg hs url payload)) =
     (case post url payload of BadRequest _ \<Rightarrow> [] | _ \<Rightarrow> [url])"
  by (simp add: deliver_def Let_def split: post_reply.splits)

definition accepted :: "post_reply \<Rightarrow> bool" where
  "accepted r \<longleftrightarrow> (case r of Status st \<Rightarrow> 200 \<le> st \<and> st < 300 | _ \<Rightarrow> False)"

lemma deliver_ok:
  "snd (deliver post ctx msg hs url payload) = None \<longleftrightarrow> accepted (post url payload)"
  by (auto simp: deliver_def Let_def accepted_def split: post_reply.splits)

text \<open>The leaves of a notifier, in the order they are tried, with what each sends where.\<close>

fun channels :: "notifier \<Rightarrow> event \<Rightarrow> (string \<times> json) list"
and channels_each :: "notifier list \<Rightarrow> event \<Rightarrow> (string \<times> json) list" where
  "channels (WebhookNotifier url) ev = [(url, webhook_payload ev)]"
| "channels (SlackNotifier url) ev = [(url, slack_payload ev)]"
| "channels (DiscordNotifier url) ev = [(url, discord_payload ev)]"
| "channels (MultiNotifier ns) ev = channels_each ns ev"
| "channels_each [] ev = []"
| "channels_each (n # ns) ev = channels n ev @ channels_each ns ev"

definition built :: "poster \<Rightarrow> string \<times> json \<Rightarrow> bool" where
  "built post c \<longleftrightarrow> (case post (fst c) (snd c) of BadRequest _ \<Rightarrow> False | _ \<Rightarrow> True)"

definition sent_pair :: "sent \<Rightarrow> string \<times> json" where
  "sent_pair s = (sent_url s, sent_body s)"

lemma deliver_pairs:
  "map sent_pair (fst (deliver post ctx msg hs url payload)) = filter (built post) [(url, payload)]"
  by (simp add: deliver_def Let_def built_def sent_pair_def split: post_reply.splits)

text \<open>
  The contract of a single channel, which the fan-out and the daemon rely on: it makes the one
  request, if that can be built, and succeeds exactly when the request is accepted.
\<close>

locale notification_channel =
  fixes send :: "poster \<Rightarrow> string \<Rightarrow> event \<Rightarrow> sent list \<times> go_error option"
    and payload :: "event \<Rightarrow> json"
  assumes sent_law: "map sent_pair (fst (send post url ev)) = filter (built post) [(url, payload ev)]"
    and ok_law: "snd (send post url ev) = None \<longleftrightarrow> accepted (post url (payload ev))"
begin

lemma accepted_built: "accepted (post url j) \<Longrightarrow> built post (url, j)"
  by (simp add: accepted_def built_def split: post_reply.splits)

lemma success_sends: "snd (send post url ev) = None \<Longrightarrow> map sent_pair (fst (send post url ev)) = [(url, payload ev)]"
  using sent_law ok_law accepted_built by simp

lemma sends_at_most_once: "length (fst (send post url ev)) \<le> 1"
  using arg_cong [OF sent_law, of length post url ev] by simp

end

interpretation webhook_channel: notification_channel webhook_notify webhook_payload
  by unfold_locales (simp_all add: webhook_notify_def deliver_pairs deliver_ok)

interpretation slack_channel: notification_channel slack_notify slack_payload
  by unfold_locales (simp_all add: slack_notify_def deliver_pairs deliver_ok)

interpretation discord_channel: notification_channel discord_notify discord_payload
  by unfold_locales (simp_all add: discord_notify_def deliver_pairs deliver_ok)

lemmas channel_laws =
  webhook_channel.sent_law webhook_channel.ok_law slack_channel.sent_law slack_channel.ok_law
  discord_channel.sent_law discord_channel.ok_law

lemma join_errors_None [simp]: "join_errors es = None \<longleftrightarrow> es = []"
  by (simp add: join_errors_def)

lemma notify_pairs:
  "map sent_pair (fst (notify post n ev)) = filter (built post) (channels n ev)"
  "map sent_pair (fst (notify_each post ns ev)) = filter (built post) (channels_each ns ev)"
  by (induction post n ev and post ns ev rule: notify_notify_each.induct)
    (auto simp: channel_laws split: prod.splits option.splits)

lemma notify_ok:
  "snd (notify post n ev) = None \<longleftrightarrow> list_all (\<lambda>c. accepted (post (fst c) (snd c))) (channels n ev)"
  "snd (notify_each post ns ev) = [] \<longleftrightarrow>
     list_all (\<lambda>c. accepted (post (fst c) (snd c))) (channels_each ns ev)"
  by (induction post n ev and post ns ev rule: notify_notify_each.induct)
    (auto simp: channel_laws split: prod.splits option.splits)

lemma from_config_channels:
  "from_config w s d = (case (if w \<noteq> [] then [WebhookNotifier w] else []) @
       (if s \<noteq> [] then [SlackNotifier s] else []) @ (if d \<noteq> [] then [DiscordNotifier d] else [])
     of [] \<Rightarrow> None | [n] \<Rightarrow> Some n | ns \<Rightarrow> Some (MultiNotifier ns))"
  by (simp add: from_config_def Let_def split: list.splits)

definition config_channels :: "string \<Rightarrow> string \<Rightarrow> string \<Rightarrow> event \<Rightarrow> (string \<times> json) list" where
  "config_channels w s d ev =
     filter (\<lambda>c. fst c \<noteq> []) [(w, webhook_payload ev), (s, slack_payload ev), (d, discord_payload ev)]"

lemma from_config_None: "from_config w s d = None \<longleftrightarrow> w = [] \<and> s = [] \<and> d = []"
  by (auto simp: from_config_def)

lemma channels_from_config:
  "from_config w s d = Some n \<Longrightarrow> channels n ev = config_channels w s d ev"
  by (auto simp: from_config_def config_channels_def split: if_splits)

text \<open>
  The notifier made from the configuration tries every configured channel, webhook, Slack
  and Discord in this order, exactly once and with that channel's own payload: the requests it
  makes are those whose request could be built, a failing channel never keeps a later one from
  being tried, and the result is free of errors exactly when every configured channel answered
  with a status from 200 to 299.  There is no notifier exactly when no channel is configured.
\<close>

theorem configured_notifier_reaches_all:
  "(case from_config w s d of
      None \<Rightarrow> w = [] \<and> s = [] \<and> d = []
    | Some n \<Rightarrow>
        map sent_pair (fst (notify post n ev)) = filter (built post) (config_channels w s d ev) \<and>
        (snd (notify post n ev) = None \<longleftrightarrow>
           list_all (\<lambda>c. accepted (post (fst c) (snd c))) (config_channels w s d ev)))"
  by (auto simp: from_config_None notify_pairs notify_ok channels_from_config
      split: option.splits)

end
