(* ===== verification/Daemon.thy ===== *)
theory Daemon
  imports Config Provider Store Notify
begin

text \<open>
  The polling daemon (\<open>internal/daemon/daemon.go\<close>).  \<open>check_service\<close> is one service's check,
  composed of the steps a goroutine of \<open>poll\<close> runs; a poll here checks one service after the
  other.  The interleavings of its goroutines and the life cycle with \<open>Start\<close> and \<open>Stop\<close> are
  the next two theories.
\<close>

section \<open>State\<close>

record announcement =
  an_service :: string
  an_old :: string
  an_new :: string
  an_url :: string

record daemon =
  d_known :: "(string, string) gomap"
  d_store :: "store option"
  d_announced :: "announcement list"
  d_sent :: "sent list"

text \<open>What a daemon is created with, and the outside world of one poll.\<close>

record daemon_env =
  de_services :: "service_config list"
  de_providers :: providers
  de_notifier :: "notifier option"
  de_post :: poster

definition daemon_new :: "store option \<Rightarrow> daemon" where
  "daemon_new st = \<lparr>d_known = Map.empty, d_store = st, d_announced = [], d_sent = []\<rparr>"

definition version_key :: "string \<Rightarrow> string" where
  "version_key name = ''version:'' @ name"

lemma version_key_inj [simp]: "version_key a = version_key b \<longleftrightarrow> a = b"
  by (simp add: version_key_def)

section \<open>The steps of one check\<close>

text \<open>Parsing, provider lookup and the request; \<open>None\<close> is an early return.\<close>

definition fetch :: "daemon_env \<Rightarrow> service_config \<Rightarrow> (string \<times> release) option" where
  "fetch env svc =
     (case parse_repo (sc_repo svc) of
        Inl e \<Rightarrow> None
      | Inr parsed \<Rightarrow>
          (case de_providers env (svc_platform parsed) of
             None \<Rightarrow> None
           | Some p \<Rightarrow>
               (case pv_latest p (svc_owner parsed) (svc_repo_name parsed) of
                  Inl e \<Rightarrow> None
                | Inr release \<Rightarrow> Some (svc_platform parsed, release))))"

text \<open>The critical section under \<open>d.mu\<close>; the old value is read before the write.\<close>

definition learn :: "service_config \<Rightarrow> release \<Rightarrow> daemon \<Rightarrow> daemon" where
  "learn svc r d = d\<lparr>d_known := (d_known d)(sc_name svc \<mapsto> rel_tag r)\<rparr>"

text \<open>The two writes to the store; an error is logged and otherwise ignored.\<close>

definition keep_store :: "(store \<Rightarrow> store result) \<Rightarrow> daemon \<Rightarrow> daemon" where
  "keep_store f d =
     (case d_store d of
        None \<Rightarrow> d
      | Some s \<Rightarrow> (case f s of Inl e \<Rightarrow> d | Inr s' \<Rightarrow> d\<lparr>d_store := Some s'\<rparr>))"

definition persist_version :: "gotime \<Rightarrow> service_config \<Rightarrow> release \<Rightarrow> daemon \<Rightarrow> daemon" where
  "persist_version now svc r = keep_store (set_kv now (version_key (sc_name svc)) (rel_tag r))"

definition discovered :: "gotime \<Rightarrow> service_config \<Rightarrow> string \<Rightarrow> release \<Rightarrow> stored_release" where
  "discovered now svc platform r =
     \<lparr>sr_service = sc_name svc, sr_tag = rel_tag r, sr_platform = platform,
      sr_url = rel_html_url r, sr_published_at = rel_published_at r, sr_discovered_at = now\<rparr>"

definition persist_release ::
  "gotime \<Rightarrow> service_config \<Rightarrow> string \<Rightarrow> release \<Rightarrow> daemon \<Rightarrow> daemon" where
  "persist_release now svc platform r = keep_store (record_release (discovered now svc platform r))"

text \<open>\<open>isNew := seen \&\& old != release.Tag\<close>, the printed line and the notification.\<close>

definition is_new :: "string option \<Rightarrow> release \<Rightarrow> bool" where
  "is_new old r \<longleftrightarrow> (case old of None \<Rightarrow> False | Some v \<Rightarrow> v \<noteq> rel_tag r)"

definition announcements :: "service_config \<Rightarrow> string option \<Rightarrow> release \<Rightarrow> announcement list" where
  "announcements svc old r =
     (if is_new old r
      then [\<lparr>an_service = sc_name svc, an_old = the old, an_new = rel_tag r, an_url = rel_html_url r\<rparr>]
      else [])"

definition release_event :: "service_config \<Rightarrow> string \<Rightarrow> string \<Rightarrow> release \<Rightarrow> event" where
  "release_event svc platform old r =
     \<lparr>ev_service_name = sc_name svc, ev_old_version = old, ev_new_version = rel_tag r,
      ev_release_url = rel_html_url r, ev_platform = platform\<rparr>"

definition notifications ::
  "daemon_env \<Rightarrow> service_config \<Rightarrow> string \<Rightarrow> string option \<Rightarrow> release \<Rightarrow> sent list" where
  "notifications env svc platform old r =
     (if is_new old r then
        (case de_notifier env of
           None \<Rightarrow> []
         | Some n \<Rightarrow> fst (notify (de_post env) n (release_event svc platform (the old) r)))
      else [])"

definition announce ::
  "daemon_env \<Rightarrow> service_config \<Rightarrow> string \<Rightarrow> string option \<Rightarrow> release \<Rightarrow> daemon \<Rightarrow> daemon" where
  "announce env svc platform old r d =
     d\<lparr>d_announced := d_announced d @ announcements svc old r,
       d_sent := d_sent d @ notifications env svc platform old r\<rparr>"

definition check_service :: "daemon_env \<Rightarrow> gotime \<Rightarrow> service_config \<Rightarrow> daemon \<Rightarrow> daemon" where
  "check_service env now svc d =
     (case fetch env svc of
        None \<Rightarrow> d
      | Some (platform, r) \<Rightarrow>
          announce env svc platform (d_known d (sc_name svc)) r
            (persist_release now svc platform r
              (persist_version now svc r (learn svc r d))))"

text \<open>\<open>loadKnownVersions\<close>, \<open>poll\<close> in the order of the services, and \<open>RunOnce\<close>.\<close>

definition load_version :: "service_config \<Rightarrow> daemon \<Rightarrow> daemon" where
  "load_version svc d =
     (case d_store d of
        None \<Rightarrow> d
      | Some s \<Rightarrow>
          (case get_kv (version_key (sc_name svc)) s of
             Inr (Some val) \<Rightarrow> d\<lparr>d_known := (d_known d)(sc_name svc \<mapsto> val)\<rparr>
           | _ \<Rightarrow> d))"

definition load_known_versions :: "daemon_env \<Rightarrow> daemon \<Rightarrow> daemon" where
  "load_known_versions env d = fold load_version (de_services env) d"

definition poll :: "daemon_env \<Rightarrow> gotime \<Rightarrow> daemon \<Rightarrow> daemon" where
  "poll env now d = fold (check_service env now) (de_services env) d"

definition run_once :: "daemon_env \<Rightarrow> gotime \<Rightarrow> daemon \<Rightarrow> daemon" where
  "run_once env now d = poll env now (load_known_versions env d)"

lemmas daemon_steps = learn_def keep_store_def persist_version_def persist_release_def announce_def

section \<open>What a step changes\<close>

lemma keep_store_frame [simp]:
  "d_known (keep_store f d) = d_known d" "d_announced (keep_store f d) = d_announced d"
  "d_sent (keep_store f d) = d_sent d"
  by (simp_all add: keep_store_def split: option.splits sum.splits)

lemma step_frames [simp]:
  "d_known (persist_version now svc r d) = d_known d"
  "d_announced (persist_version now svc r d) = d_announced d"
  "d_sent (persist_version now svc r d) = d_sent d"
  "d_known (persist_release now svc pf r d) = d_known d"
  "d_announced (persist_release now svc pf r d) = d_announced d"
  "d_sent (persist_release now svc pf r d) = d_sent d"
  "d_known (learn svc r d) = (d_known d)(sc_name svc \<mapsto> rel_tag r)"
  "d_store (learn svc r d) = d_store d"
  "d_announced (learn svc r d) = d_announced d" "d_sent (learn svc r d) = d_sent d"
  "d_known (announce env svc pf old r d) = d_known d"
  "d_store (announce env svc pf old r d) = d_store d"
  "d_announced (announce env svc pf old r d) = d_announced d @ announcements svc old r"
  "d_sent (announce env svc pf old r d) = d_sent d @ notifications env svc pf old r"
  by (simp_all add: persist_version_def persist_release_def learn_def announce_def)

text \<open>The saved version of a service, as far as the store is there to be read.\<close>

definition saved :: "daemon \<Rightarrow> string \<Rightarrow> string option" where
  "saved d name =
     (case d_store d of
        None \<Rightarrow> None
      | Some s \<Rightarrow> (case get_kv (version_key name) s of Inr v \<Rightarrow> v | Inl e \<Rightarrow> None))"

definition writable :: "daemon \<Rightarrow> bool" where
  "writable d \<longleftrightarrow> (case d_store d of None \<Rightarrow> False | Some s \<Rightarrow> db_open s)"

lemma writable_steps [simp]:
  "writable (learn svc r d) = writable d"
  "writable (persist_version now svc r d) = writable d"
  "writable (persist_release now svc pf r d) = writable d"
  "writable (announce env svc pf old r d) = writable d"
  by (auto simp: writable_def daemon_steps store_ops split: option.splits)

lemma saved_steps [simp]:
  "saved (learn svc r d) = saved d"
  "saved (persist_version now svc r d) =
     (if writable d then (saved d)(sc_name svc \<mapsto> rel_tag r) else saved d)"
  "saved (persist_release now svc pf r d) = saved d"
  "saved (announce env svc pf old r d) = saved d"
  by (auto simp: saved_def writable_def daemon_steps store_ops fun_eq_iff split: option.splits)

section \<open>One check after the other\<close>

text \<open>The version a service's provider reports, when the check gets that far.\<close>

definition reported :: "daemon_env \<Rightarrow> service_config \<Rightarrow> string option" where
  "reported env svc = map_option (\<lambda>(pf, r). rel_tag r) (fetch env svc)"

lemma check_service_known:
  "d_known (check_service env now svc d) =
     (case reported env svc of None \<Rightarrow> d_known d | Some v \<Rightarrow> (d_known d)(sc_name svc \<mapsto> v))"
  by (auto simp: check_service_def reported_def split: option.splits)

lemma check_service_saved:
  "writable d \<Longrightarrow> saved (check_service env now svc d) =
     (case reported env svc of None \<Rightarrow> saved d | Some v \<Rightarrow> (saved d)(sc_name svc \<mapsto> v))"
  by (auto simp: check_service_def reported_def split: option.splits)

lemma check_service_writable [simp]: "writable (check_service env now svc d) = writable d"
  by (auto simp: check_service_def split: option.splits)

text \<open>What a check of a service announces when it starts from a given known version.\<close>

definition check_announces :: "daemon_env \<Rightarrow> string option \<Rightarrow> service_config \<Rightarrow> announcement list" where
  "check_announces env old svc =
     (case fetch env svc of None \<Rightarrow> [] | Some (pf, r) \<Rightarrow> announcements svc old r)"

definition check_sends :: "daemon_env \<Rightarrow> string option \<Rightarrow> service_config \<Rightarrow> sent list" where
  "check_sends env old svc =
     (case fetch env svc of None \<Rightarrow> [] | Some (pf, r) \<Rightarrow> notifications env svc pf old r)"

lemma check_service_announced:
  "d_announced (check_service env now svc d) =
     d_announced d @ check_announces env (d_known d (sc_name svc)) svc"
  "d_sent (check_service env now svc d) =
     d_sent d @ check_sends env (d_known d (sc_name svc)) svc"
  by (auto simp: check_service_def check_announces_def check_sends_def split: option.splits)

lemma check_announces_iff:
  "check_announces env old svc \<noteq> [] \<longleftrightarrow>
     (\<exists>v w. old = Some v \<and> reported env svc = Some w \<and> v \<noteq> w)"
  by (auto simp: check_announces_def reported_def announcements_def is_new_def split: option.splits)

lemma check_announces_reported: "check_announces env (reported env svc) svc = []"
  using check_announces_iff [of env "reported env svc" svc] by auto

lemma check_announces_first: "check_announces env None svc = []"
  using check_announces_iff [of env None svc] by auto

lemma check_sends_quiet: "check_announces env old svc = [] \<Longrightarrow> check_sends env old svc = []"
  by (auto simp: check_announces_def check_sends_def announcements_def notifications_def
      split: option.splits if_splits)

text \<open>A poll of services with distinct names: every service is checked against what was known
  before the poll.\<close>

lemma fold_check_known_other:
  "k \<notin> sc_name ` set ss \<Longrightarrow> d_known (fold (check_service env now) ss d) k = d_known d k"
  by (induction ss arbitrary: d) (auto simp: check_service_known split: option.splits)

lemma fold_check_announced:
  assumes "distinct (map sc_name ss)"
  shows "d_announced (fold (check_service env now) ss d) =
      d_announced d @ concat (map (\<lambda>s. check_announces env (d_known d (sc_name s)) s) ss) \<and>
    d_sent (fold (check_service env now) ss d) =
      d_sent d @ concat (map (\<lambda>s. check_sends env (d_known d (sc_name s)) s) ss)"
  using assms
proof (induction ss arbitrary: d)
  case Nil
  then show ?case by simp
next
  case (Cons s ss)
  have same: "d_known (check_service env now s d) (sc_name t) = d_known d (sc_name t)"
    if "t \<in> set ss" for t
    using distinct_map_neq [OF Cons.prems that] by (simp add: check_service_known split: option.splits)
  have "map (\<lambda>t. check_announces env (d_known (check_service env now s d) (sc_name t)) t) ss =
      map (\<lambda>t. check_announces env (d_known d (sc_name t)) t) ss"
    "map (\<lambda>t. check_sends env (d_known (check_service env now s d) (sc_name t)) t) ss =
      map (\<lambda>t. check_sends env (d_known d (sc_name t)) t) ss"
    by (simp_all add: same cong: map_cong)
  with Cons.IH [of "check_service env now s d"] Cons.prems show ?case
    by (simp add: check_service_announced)
qed

lemma fold_check_known:
  assumes "distinct (map sc_name ss)" "s \<in> set ss"
  shows "d_known (fold (check_service env now) ss d) (sc_name s) =
     (case reported env s of None \<Rightarrow> d_known d (sc_name s) | Some v \<Rightarrow> Some v)"
  using assms
proof (induction ss arbitrary: d)
  case Nil
  then show ?case by simp
next
  case (Cons t ss)
  show ?case
  proof (cases "s = t")
    case True
    with Cons.prems show ?thesis
      by (auto simp: fold_check_known_other check_service_known split: option.splits)
  next
    case False
    with Cons.prems(2) have "s \<in> set ss" by simp
    with distinct_map_neq [OF Cons.prems(1)] have "sc_name s \<noteq> sc_name t" by blast
    with Cons \<open>s \<in> set ss\<close> show ?thesis
      by (auto simp: check_service_known split: option.splits)
  qed
qed


definition demo_release :: "string \<Rightarrow> release" where
  "demo_release tag = \<lparr>rel_tag = tag, rel_name = [], rel_body = [], rel_draft = False,
     rel_prerelease = False, rel_published_at = zero_time, rel_html_url = ''u''\<rparr>"

definition demo_provider :: "string \<Rightarrow> provider" where
  "demo_provider tag = \<lparr>pv_name = ''github'', pv_list_releases = \<lambda>_ _. Inr [demo_release tag],
     pv_latest = \<lambda>_ _. Inr (demo_release tag), pv_list_tags = \<lambda>_ _. Inr [],
     pv_file = \<lambda>_ _ _. Inl (Plain ''none'')\<rparr>"

definition demo_service :: service_config where
  "demo_service = \<lparr>sc_name = ''api'', sc_repo = ''github.com/o/r'', sc_registry = []\<rparr>"

definition demo_env :: "string \<Rightarrow> daemon_env" where
  "demo_env tag = \<lparr>de_services = [demo_service],
     de_providers = [''github'' \<mapsto> demo_provider tag], de_notifier = Some (WebhookNotifier ''http://h''),
     de_post = \<lambda>_ _. Status 200\<rparr>"

lemma demo_fetch: "fetch (demo_env tag) demo_service = Some (''github'', demo_release tag)"
  by (simp add: fetch_def demo_env_def demo_service_def demo_provider_def parse_repo_def
      contains_def)

lemma demo_reported: "reported (demo_env tag) demo_service = Some tag"
  by (simp add: reported_def demo_fetch demo_release_def)


section \<open>Across polls and restarts\<close>

lemma poll_known:
  assumes "distinct (map sc_name (de_services env))" "s \<in> set (de_services env)"
  shows "d_known (poll env now d) (sc_name s) =
     (case reported env s of None \<Rightarrow> d_known d (sc_name s) | Some v \<Rightarrow> Some v)"
  unfolding poll_def by (rule fold_check_known [OF assms])

lemma concat_map_Nil: "(\<And>x. x \<in> set xs \<Longrightarrow> f x = []) \<Longrightarrow> concat (map f xs) = []"
  by (induction xs) auto

lemma check_announces_known:
  assumes "old = (case reported env svc of None \<Rightarrow> old' | Some v \<Rightarrow> Some v)"
  shows "check_announces env old svc = []"
  using check_announces_iff [of env old svc] assms by (auto split: option.splits)

text \<open>
  A release is announced once.  Polling again while the providers report the same versions
  announces nothing and sends nothing, and it leaves the known versions as they are.
\<close>

theorem second_poll_is_quiet:
  assumes "distinct (map sc_name (de_services env))"
  shows "d_announced (poll env now' (poll env now d)) = d_announced (poll env now d) \<and>
    d_sent (poll env now' (poll env now d)) = d_sent (poll env now d) \<and>
    (\<forall>s \<in> set (de_services env).
       d_known (poll env now' (poll env now d)) (sc_name s) = d_known (poll env now d) (sc_name s))"
proof -
  let ?d = "poll env now d"
  have quiet: "check_announces env (d_known ?d (sc_name s)) s = []" if "s \<in> set (de_services env)" for s
    by (rule check_announces_known, rule poll_known [OF assms that])
  have "concat (map (\<lambda>s. check_announces env (d_known ?d (sc_name s)) s) (de_services env)) = []"
    by (rule concat_map_Nil) (rule quiet)
  moreover have "concat (map (\<lambda>s. check_sends env (d_known ?d (sc_name s)) s) (de_services env)) = []"
    by (rule concat_map_Nil) (rule check_sends_quiet [OF quiet])
  moreover have "d_known (poll env now' ?d) (sc_name s) = d_known ?d (sc_name s)"
    if "s \<in> set (de_services env)" for s
    using poll_known [OF assms that] by (auto split: option.splits)
  ultimately show ?thesis
    using fold_check_announced [OF assms, of env now' ?d] by (simp add: poll_def)
qed

theorem second_poll_is_quiet_witness:
  "d_announced (poll (demo_env ''v2'') zero_time (poll (demo_env ''v2'') zero_time (daemon_new None))) =
   d_announced (poll (demo_env ''v2'') zero_time (daemon_new None))"
proof -
  have "distinct (map sc_name (de_services (demo_env ''v2'')))"
    by (simp add: demo_env_def)
  then show ?thesis by (rule second_poll_is_quiet [THEN conjunct1])
qed

text \<open>What a poll saves, and what a later process finds.\<close>

lemma fold_check_writable [simp]: "writable (fold (check_service env now) ss d) = writable d"
  by (induction ss arbitrary: d) auto

lemma fold_check_saved:
  assumes "distinct (map sc_name ss)" "s \<in> set ss" "writable d"
  shows "saved (fold (check_service env now) ss d) (sc_name s) =
     (case reported env s of None \<Rightarrow> saved d (sc_name s) | Some v \<Rightarrow> Some v)"
  using assms
proof (induction ss arbitrary: d)
  case Nil
  then show ?case by simp
next
  case (Cons t ss)
  have other: "k \<notin> sc_name ` set us \<Longrightarrow> writable e \<Longrightarrow>
      saved (fold (check_service env now) us e) k = saved e k" for k us e
    by (induction us arbitrary: e) (auto simp: check_service_saved split: option.splits)
  show ?case
  proof (cases "s = t")
    case True
    with Cons.prems show ?thesis
      by (auto simp: other check_service_saved split: option.splits)
  next
    case False
    with Cons.prems(2) have "s \<in> set ss" by simp
    with distinct_map_neq [OF Cons.prems(1)] have "sc_name s \<noteq> sc_name t" by blast
    with Cons \<open>s \<in> set ss\<close> show ?thesis
      by (auto simp: check_service_saved split: option.splits)
  qed
qed

lemma load_version_simps [simp]:
  "d_store (load_version svc d) = d_store d" "d_announced (load_version svc d) = d_announced d"
  "d_known (load_version svc d) =
     (case saved d (sc_name svc) of None \<Rightarrow> d_known d | Some v \<Rightarrow> (d_known d)(sc_name svc \<mapsto> v))"
  by (auto simp: load_version_def saved_def split: option.splits sum.splits)

lemma saved_store: "d_store d = d_store e \<Longrightarrow> saved d = saved e"
  by (simp add: saved_def fun_eq_iff)

lemma fold_load_frame [simp]:
  "d_store (fold load_version ss d) = d_store d"
  "d_announced (fold load_version ss d) = d_announced d"
  by (induction ss arbitrary: d) auto

lemma fold_load_known:
  "d_known (fold load_version ss d) k =
     (if k \<in> sc_name ` set ss \<and> saved d k \<noteq> None then saved d k else d_known d k)"
proof (induction ss arbitrary: d)
  case Nil
  then show ?case by simp
next
  case (Cons s ss)
  have "saved (load_version s d) = saved d" by (rule saved_store) simp
  with Cons show ?case by (auto split: option.splits)
qed

text \<open>
  C4. Nothing is lost across a restart.  When a daemon with a usable store has polled and a new
  process with the same services later runs once on the store it left, the new process
  announces, in order, exactly the services whose provider now reports a version different
  from the one the first process saw last (or had loaded, when its own request failed).
\<close>

theorem restart_announces_missed_changes:
  assumes "distinct (map sc_name (de_services env))" "writable d"
    and "de_services env' = de_services env"
  shows "d_announced (run_once env' now' (daemon_new (d_store (poll env now d)))) =
    concat (map (\<lambda>s. check_announces env'
      (case reported env s of None \<Rightarrow> saved d (sc_name s) | Some v \<Rightarrow> Some v) s) (de_services env))"
proof -
  define left_store where "left_store = d_store (poll env now d)"
  let ?e = "load_known_versions env' (daemon_new left_store)"
  have saved: "saved (daemon_new left_store) = saved (poll env now d)"
    by (rule saved_store) (simp add: daemon_new_def left_store_def)
  have known: "d_known ?e (sc_name s) =
      (case reported env s of None \<Rightarrow> saved d (sc_name s) | Some v \<Rightarrow> Some v)"
    if "s \<in> set (de_services env)" for s
  proof -
    have "saved (daemon_new left_store) (sc_name s) =
        (case reported env s of None \<Rightarrow> saved d (sc_name s) | Some v \<Rightarrow> Some v)"
      using fold_check_saved [OF assms(1) that assms(2), of env now] by (simp add: saved poll_def)
    moreover have "d_known (daemon_new left_store) = Map.empty" by (simp add: daemon_new_def)
    ultimately show ?thesis
      using that by (auto simp: load_known_versions_def assms(3) fold_load_known)
  qed
  have "distinct (map sc_name (de_services env'))" using assms(1,3) by simp
  from fold_check_announced [OF this, of env' now' ?e]
  show ?thesis
    unfolding left_store_def [symmetric]
    using known by (simp add: run_once_def poll_def assms(3) load_known_versions_def
        daemon_new_def cong: map_cong)
qed

theorem restart_announces_missed_changes_witness:
  "d_announced (run_once (demo_env ''v2'') zero_time
      (daemon_new (d_store (poll (demo_env ''v1'') zero_time (daemon_new (Some empty_store)))))) =
   [\<lparr>an_service = ''api'', an_old = ''v1'', an_new = ''v2'', an_url = ''u''\<rparr>]"
proof -
  have svcs: "de_services (demo_env v) = [demo_service]" for v by (simp add: demo_env_def)
  have "distinct (map sc_name (de_services (demo_env ''v1'')))" by (simp add: svcs)
  moreover have "writable (daemon_new (Some empty_store))"
    by (simp add: writable_def daemon_new_def empty_store_def)
  moreover have "de_services (demo_env ''v2'') = de_services (demo_env ''v1'')" by (simp add: svcs)
  ultimately have "d_announced (run_once (demo_env ''v2'') zero_time
      (daemon_new (d_store (poll (demo_env ''v1'') zero_time (daemon_new (Some empty_store)))))) =
    check_announces (demo_env ''v2'') (Some ''v1'') demo_service"
    using restart_announces_missed_changes [of "demo_env ''v1''" "daemon_new (Some empty_store)"
        "demo_env ''v2''" zero_time zero_time]
    by (simp add: svcs demo_reported)
  moreover have "check_announces (demo_env ''v2'') (Some ''v1'') demo_service =
      announcements demo_service (Some ''v1'') (demo_release ''v2'')"
    by (simp add: check_announces_def demo_fetch)
  ultimately show ?thesis
    by (simp add: announcements_def is_new_def demo_release_def demo_service_def)
qed

end
