(* ===== verification/Daemon_Concurrent.thy ===== *)
theory Daemon_Concurrent
  imports Daemon
begin

text \<open>
  The goroutines of \<open>poll\<close> (one per service, \<open>internal/daemon/daemon.go\<close>), interleaved step by
  step: \<open>poll_step\<close> is one step of one goroutine, so a run of it is an interleaving of all the
  goroutines of a poll.
\<close>

section \<open>Interleaved checks\<close>

text \<open>
  The program counter of a goroutine.  After the critical section it carries the platform, the
  release and the old version it read there.
\<close>

datatype pc =
    Ready
  | Learned string release "string option"
  | Versioned string release "string option"
  | Recorded string release "string option"
  | Finished

record poll_state =
  pcs :: "nat \<Rightarrow> pc"
  pstate :: daemon

text \<open>
  One step of goroutine \<open>i\<close>, which checks service \<open>i\<close> of the list.  The clock reading of its
  \<open>time.Now()\<close> is \<open>tm i\<close>.
\<close>

inductive poll_step :: "daemon_env \<Rightarrow> (nat \<Rightarrow> gotime) \<Rightarrow> poll_state \<Rightarrow> poll_state \<Rightarrow> bool"
  for env tm where
  give_up: "i < length (de_services env) \<Longrightarrow> pcs s i = Ready \<Longrightarrow>
     fetch env (de_services env ! i) = None \<Longrightarrow>
     poll_step env tm s (s\<lparr>pcs := (pcs s)(i := Finished)\<rparr>)"
| learn_version: "i < length (de_services env) \<Longrightarrow> pcs s i = Ready \<Longrightarrow>
     fetch env (de_services env ! i) = Some (pf, r) \<Longrightarrow>
     poll_step env tm s
       (s\<lparr>pcs := (pcs s)(i := Learned pf r (d_known (pstate s) (sc_name (de_services env ! i)))),
          pstate := learn (de_services env ! i) r (pstate s)\<rparr>)"
| save_version: "i < length (de_services env) \<Longrightarrow> pcs s i = Learned pf r old \<Longrightarrow>
     poll_step env tm s
       (s\<lparr>pcs := (pcs s)(i := Versioned pf r old),
          pstate := persist_version (tm i) (de_services env ! i) r (pstate s)\<rparr>)"
| save_release: "i < length (de_services env) \<Longrightarrow> pcs s i = Versioned pf r old \<Longrightarrow>
     poll_step env tm s
       (s\<lparr>pcs := (pcs s)(i := Recorded pf r old),
          pstate := persist_release (tm i) (de_services env ! i) pf r (pstate s)\<rparr>)"
| tell: "i < length (de_services env) \<Longrightarrow> pcs s i = Recorded pf r old \<Longrightarrow>
     poll_step env tm s
       (s\<lparr>pcs := (pcs s)(i := Finished),
          pstate := announce env (de_services env ! i) pf old r (pstate s)\<rparr>)"

definition poll_start :: "daemon \<Rightarrow> poll_state" where
  "poll_start d = \<lparr>pcs = (\<lambda>_. Ready), pstate = d\<rparr>"

inductive poll_run :: "daemon_env \<Rightarrow> (nat \<Rightarrow> gotime) \<Rightarrow> daemon \<Rightarrow> poll_state \<Rightarrow> bool"
  for env tm d where
  begin_poll: "poll_run env tm d (poll_start d)"
| go_on: "poll_run env tm d s \<Longrightarrow> poll_step env tm s t \<Longrightarrow> poll_run env tm d t"

text \<open>\<open>wg.Wait()\<close> returns when every goroutine has finished.\<close>

definition poll_done :: "daemon_env \<Rightarrow> poll_state \<Rightarrow> bool" where
  "poll_done env s \<longleftrightarrow> (\<forall>i < length (de_services env). pcs s i = Finished)"

text \<open>How far a goroutine is; each step of any goroutine brings the whole poll one nearer.\<close>

fun steps_left :: "pc \<Rightarrow> nat" where
  "steps_left Ready = 4"
| "steps_left (Learned _ _ _) = 3"
| "steps_left (Versioned _ _ _) = 2"
| "steps_left (Recorded _ _ _) = 1"
| "steps_left Finished = 0"

definition work_left :: "daemon_env \<Rightarrow> poll_state \<Rightarrow> nat" where
  "work_left env s = (\<Sum>i < length (de_services env). steps_left (pcs s i))"

lemma sum_upd_other:
  fixes f g :: "nat \<Rightarrow> 'a :: comm_monoid_add"
  assumes "i < n" "\<And>j. j \<noteq> i \<Longrightarrow> f j = g j"
  shows "(\<Sum>j<n. f j) = f i + (\<Sum>j \<in> {..<n} - {i}. g j)"
proof -
  have "(\<Sum>j<n. f j) = f i + (\<Sum>j \<in> {..<n} - {i}. f j)"
    using assms(1) by (intro sum.remove) auto
  also have "(\<Sum>j \<in> {..<n} - {i}. f j) = (\<Sum>j \<in> {..<n} - {i}. g j)"
    using assms(2) by (intro sum.cong) auto
  finally show ?thesis .
qed

lemma poll_step_work: "poll_step env tm s t \<Longrightarrow> work_left env t < work_left env s"
proof -
  have main: "work_left env (s\<lparr>pcs := (pcs s)(i := p), pstate := d\<rparr>) < work_left env s"
    if "i < length (de_services env)" "steps_left p < steps_left (pcs s i)" for i p d
    unfolding work_left_def
    using that sum_upd_other [of i "length (de_services env)" "\<lambda>j. steps_left (pcs s j)" "\<lambda>j. steps_left (pcs s j)"]
      sum_upd_other [of i "length (de_services env)" "\<lambda>j. steps_left (((pcs s)(i := p)) j)" "\<lambda>j. steps_left (pcs s j)"]
    by simp
  have only_pc: "s\<lparr>pcs := f\<rparr> = s\<lparr>pcs := f, pstate := pstate s\<rparr>" for f by simp
  assume "poll_step env tm s t"
  then show ?thesis
    by cases (auto simp: main intro: main [where d = "pstate s", simplified])
qed

lemma poll_progress:
  assumes "\<not> poll_done env s"
  shows "\<exists>t. poll_step env tm s t"
proof -
  from assms obtain i where i: "i < length (de_services env)" "pcs s i \<noteq> Finished"
    by (auto simp: poll_done_def)
  show ?thesis
  proof (cases "pcs s i")
    case Ready
    then show ?thesis
      using i give_up learn_version by (cases "fetch env (de_services env ! i)") (fastforce+)
  qed (use i save_version save_release tell in \<open>fastforce+\<close>)
qed

section \<open>All interleavings agree\<close>

text \<open>The parts of the daemon's state that an observer can compare.\<close>

definition stored_rows :: "daemon \<Rightarrow> stored_release multiset" where
  "stored_rows d = (case d_store d of None \<Rightarrow> {#} | Some s \<Rightarrow> mset (map snd (db_releases s)))"

definition svc :: "daemon_env \<Rightarrow> nat \<Rightarrow> service_config" where
  "svc env i = de_services env ! i"

abbreviation nsvc :: "daemon_env \<Rightarrow> nat" where
  "nsvc env \<equiv> length (de_services env)"

definition or_reported :: "daemon_env \<Rightarrow> nat \<Rightarrow> string option \<Rightarrow> string option" where
  "or_reported env i old = (case reported env (svc env i) of None \<Rightarrow> old | Some v \<Rightarrow> Some v)"

fun past_learn :: "pc \<Rightarrow> bool" where
  "past_learn Ready = False" | "past_learn _ = True"

fun past_save :: "pc \<Rightarrow> bool" where
  "past_save Ready = False" | "past_save (Learned _ _ _) = False" | "past_save _ = True"

fun past_record :: "pc \<Rightarrow> bool" where
  "past_record (Recorded _ _ _) = True" | "past_record Finished = True" | "past_record _ = False"

text \<open>A running goroutine carries what it fetched and the version known before the poll.\<close>

fun pc_ok :: "daemon_env \<Rightarrow> daemon \<Rightarrow> nat \<Rightarrow> pc \<Rightarrow> bool" where
  "pc_ok env d0 i (Learned pf r old) =
     (fetch env (svc env i) = Some (pf, r) \<and> old = d_known d0 (sc_name (svc env i)))"
| "pc_ok env d0 i (Versioned pf r old) =
     (fetch env (svc env i) = Some (pf, r) \<and> old = d_known d0 (sc_name (svc env i)))"
| "pc_ok env d0 i (Recorded pf r old) =
     (fetch env (svc env i) = Some (pf, r) \<and> old = d_known d0 (sc_name (svc env i)))"
| "pc_ok env d0 i _ = True"

definition new_row :: "daemon_env \<Rightarrow> (nat \<Rightarrow> gotime) \<Rightarrow> daemon \<Rightarrow> nat \<Rightarrow> stored_release multiset" where
  "new_row env tm d0 i =
     (case fetch env (svc env i) of
        None \<Rightarrow> {#}
      | Some (pf, r) \<Rightarrow>
          let x = discovered (tm i) (svc env i) pf r in
          if writable d0 \<and> release_key x \<notin> release_key ` set_mset (stored_rows d0) then {#x#} else {#})"

definition told :: "daemon_env \<Rightarrow> daemon \<Rightarrow> nat \<Rightarrow> announcement multiset" where
  "told env d0 i = mset (check_announces env (d_known d0 (sc_name (svc env i))) (svc env i))"

definition posted :: "daemon_env \<Rightarrow> daemon \<Rightarrow> nat \<Rightarrow> sent multiset" where
  "posted env d0 i = mset (check_sends env (d_known d0 (sc_name (svc env i))) (svc env i))"

text \<open>What the goroutines that are past a point have contributed.\<close>

definition contributed :: "(pc \<Rightarrow> bool) \<Rightarrow> (nat \<Rightarrow> 'a multiset) \<Rightarrow> nat \<Rightarrow> (nat \<Rightarrow> pc) \<Rightarrow> 'a multiset" where
  "contributed past f n ps = (\<Sum>i<n. if past (ps i) then f i else {#})"

lemma contributed_same:
  assumes "past p = past (ps i)"
  shows "contributed past f n (ps(i := p)) = contributed past f n ps"
  unfolding contributed_def using assms by (intro sum.cong) auto

lemma contributed_new:
  assumes "i < n" "past p" "\<not> past (ps i)"
  shows "contributed past f n (ps(i := p)) = contributed past f n ps + f i"
proof -
  let ?g = "\<lambda>ps j. if past (ps j) then f j else {#}"
  have "(\<Sum>j<n. ?g (ps(i := p)) j) = f i + (\<Sum>j \<in> {..<n} - {i}. ?g ps j)"
    using assms sum_upd_other [of i n "?g (ps(i := p))" "?g ps"] by simp
  moreover have "(\<Sum>j<n. ?g ps j) = (\<Sum>j \<in> {..<n} - {i}. ?g ps j)"
    using assms sum_upd_other [of i n "?g ps" "?g ps"] by simp
  ultimately show ?thesis by (simp add: contributed_def)
qed

lemma contributed_none: "(\<And>i. \<not> past (ps i)) \<Longrightarrow> contributed past f n ps = {#}"
  by (simp add: contributed_def)

lemma contributed_elem:
  "x \<in># contributed past f n ps \<longleftrightarrow> (\<exists>i<n. past (ps i) \<and> x \<in># f i)"
  by (auto simp: contributed_def set_mset_sum split: if_splits)

definition is_finished :: "pc \<Rightarrow> bool" where
  "is_finished p \<longleftrightarrow> p = Finished"

definition poll_inv :: "daemon_env \<Rightarrow> (nat \<Rightarrow> gotime) \<Rightarrow> daemon \<Rightarrow> poll_state \<Rightarrow> bool" where
  "poll_inv env tm d0 s \<longleftrightarrow>
     (\<forall>i < nsvc env. pc_ok env d0 i (pcs s i)) \<and>
     (\<forall>i < nsvc env. d_known (pstate s) (sc_name (svc env i)) =
        (if past_learn (pcs s i) then or_reported env i (d_known d0 (sc_name (svc env i)))
         else d_known d0 (sc_name (svc env i)))) \<and>
     (\<forall>k. k \<notin> sc_name ` set (de_services env) \<longrightarrow> d_known (pstate s) k = d_known d0 k) \<and>
     writable (pstate s) = writable d0 \<and>
     (\<forall>i < nsvc env. saved (pstate s) (sc_name (svc env i)) =
        (if past_save (pcs s i) \<and> writable d0
         then or_reported env i (saved d0 (sc_name (svc env i)))
         else saved d0 (sc_name (svc env i)))) \<and>
     (\<forall>k. k \<notin> sc_name ` set (de_services env) \<longrightarrow> saved (pstate s) k = saved d0 k) \<and>
     stored_rows (pstate s) = stored_rows d0 + contributed past_record (new_row env tm d0) (nsvc env) (pcs s) \<and>
     mset (d_announced (pstate s)) =
       mset (d_announced d0) + contributed is_finished (told env d0) (nsvc env) (pcs s) \<and>
     mset (d_sent (pstate s)) =
       mset (d_sent d0) + contributed is_finished (posted env d0) (nsvc env) (pcs s)"

lemma poll_inv_start: "poll_inv env tm d (poll_start d)"
  by (auto simp: poll_inv_def poll_start_def is_finished_def contributed_none)

lemma svc_name_neq:
  assumes "distinct (map sc_name (de_services env))" "i < nsvc env" "j < nsvc env" "i \<noteq> j"
  shows "sc_name (svc env i) \<noteq> sc_name (svc env j)"
  using assms nth_eq_iff_index_eq [OF assms(1), of i j] by (simp add: svc_def)

lemma svc_in: "i < nsvc env \<Longrightarrow> sc_name (svc env i) \<in> sc_name ` set (de_services env)"
  by (simp add: svc_def)

lemma stored_rows_frames [simp]:
  "stored_rows (learn s r d) = stored_rows d" "stored_rows (announce env s pf old r d) = stored_rows d"
  "stored_rows (persist_version now s r d) = stored_rows d"
  by (auto simp: stored_rows_def learn_def announce_def persist_version_def keep_store_def set_kv_def
      split: option.splits)

lemma stored_rows_persist:
  "stored_rows (persist_release now s pf r d) =
     (let x = discovered now s pf r in
      if writable d \<and> release_key x \<notin> release_key ` set_mset (stored_rows d)
      then stored_rows d + {#x#} else stored_rows d)"
  by (auto simp: stored_rows_def persist_release_def keep_store_def record_release_def writable_def
      release_keys_def Let_def split: option.splits)

lemma new_row_service: "x \<in># new_row env tm d0 i \<Longrightarrow> sr_service x = sc_name (svc env i)"
  by (auto simp: new_row_def discovered_def Let_def split: option.splits if_splits)

text \<open>Whether a release is stored already does not depend on the other goroutines.\<close>

lemma key_unaffected:
  assumes "distinct (map sc_name (de_services env))" "i < nsvc env" "\<not> past_record (ps i)"
    and "fst k = sc_name (svc env i)"
  shows "k \<in> release_key ` set_mset
      (stored_rows d0 + contributed past_record (new_row env tm d0) (nsvc env) ps) \<longleftrightarrow> k \<in> release_key ` set_mset (stored_rows d0)"
proof -
  have "fst (release_key x) \<noteq> fst k"
    if "x \<in># contributed past_record (new_row env tm d0) (nsvc env) ps" for x
  proof -
    from that obtain j where j: "j < nsvc env" "past_record (ps j)" "x \<in># new_row env tm d0 j"
      by (auto simp: contributed_elem)
    with assms(3) have "j \<noteq> i" by auto
    with svc_name_neq [OF assms(1) j(1) assms(2)] new_row_service [OF j(3)] assms(4)
    show ?thesis by (simp add: release_key_def)
  qed
  then show ?thesis by (auto simp: image_iff)
qed

lemma poll_inv_step:
  assumes names: "distinct (map sc_name (de_services env))"
    and step: "poll_step env tm s t" and inv: "poll_inv env tm d0 s"
  shows "poll_inv env tm d0 t"
  using step
proof cases
  case (give_up i)
  with inv show ?thesis
    by (auto simp: poll_inv_def is_finished_def contributed_same contributed_new or_reported_def
        reported_def svc_def [symmetric] new_row_def told_def posted_def check_announces_def
        check_sends_def)
next
  case (learn_version i pf r)
  then show ?thesis
    using inv svc_name_neq [OF names]
    by (auto simp: poll_inv_def is_finished_def contributed_same or_reported_def
        reported_def svc_def [symmetric] svc_in)
next
  case (save_version i pf r old)
  then show ?thesis
    using inv svc_name_neq [OF names]
    by (auto simp: poll_inv_def is_finished_def contributed_same or_reported_def
        reported_def svc_def [symmetric] svc_in)
next
  case (save_release i pf r old)
  have pc: "\<not> past_record (pcs s i)" "fetch env (svc env i) = Some (pf, r)"
    using inv save_release by (auto simp: poll_inv_def)
  let ?k = "release_key (discovered (tm i) (svc env i) pf r)"
  have "?k \<in> release_key ` set_mset (stored_rows (pstate s)) \<longleftrightarrow>
      ?k \<in> release_key ` set_mset (stored_rows d0)"
    using inv key_unaffected [of env i "pcs s" ?k d0 tm, OF names save_release(2) pc(1)]
    by (simp add: poll_inv_def release_key_def discovered_def)
  then show ?thesis
    using inv save_release pc
    by (auto simp: poll_inv_def is_finished_def contributed_same contributed_new svc_def [symmetric]
        stored_rows_persist new_row_def Let_def release_key_def discovered_def)
next
  case (tell i pf r old)
  then show ?thesis
    using inv
    by (auto simp: poll_inv_def is_finished_def contributed_same contributed_new svc_def [symmetric]
        told_def posted_def check_announces_def check_sends_def)
qed

lemma poll_run_inv:
  assumes "poll_run env tm d s" "distinct (map sc_name (de_services env))"
  shows "poll_inv env tm d s"
  using assms by (induction rule: poll_run.induct) (auto intro: poll_inv_start poll_inv_step)

lemma contributed_done:
  assumes "poll_done env s" "past Finished"
  shows "contributed past f (nsvc env) (pcs s) = (\<Sum>i < nsvc env. f i)"
  unfolding contributed_def using assms by (intro sum.cong) (auto simp: poll_done_def)

lemma name_cases:
  assumes "\<And>i. i < nsvc env \<Longrightarrow> P (sc_name (svc env i))"
    and "\<And>k. k \<notin> sc_name ` set (de_services env) \<Longrightarrow> P k"
  shows "P k"
proof (cases "k \<in> sc_name ` set (de_services env)")
  case True
  then obtain i where "i < nsvc env" "k = sc_name (svc env i)"
    by (auto simp: in_set_conv_nth svc_def)
  with assms(1) show ?thesis by simp
qed (rule assms(2))

definition same_outcome :: "daemon \<Rightarrow> daemon \<Rightarrow> bool" where
  "same_outcome d e \<longleftrightarrow> d_known d = d_known e \<and> saved d = saved e \<and> stored_rows d = stored_rows e \<and>
     mset (d_announced d) = mset (d_announced e) \<and> mset (d_sent d) = mset (d_sent e)"

lemma complete_runs_agree:
  assumes "distinct (map sc_name (de_services env))"
    and "poll_run env tm d s" "poll_done env s" "poll_run env tm d t" "poll_done env t"
  shows "same_outcome (pstate s) (pstate t)"
proof -
  have s: "poll_inv env tm d s" and t: "poll_inv env tm d t"
    using assms poll_run_inv by blast+
  have fin: "pcs s i = Finished" "pcs t i = Finished" if "i < nsvc env" for i
    using assms(3,5) that by (auto simp: poll_done_def)
  have "d_known (pstate s) k = d_known (pstate t) k \<and> saved (pstate s) k = saved (pstate t) k" for k
    by (rule name_cases [of env]) (use s t fin in \<open>simp_all add: poll_inv_def\<close>)
  moreover have past: "is_finished Finished" "past_record Finished"
    by (simp_all add: is_finished_def)
  ultimately show ?thesis
    using s t
    by (simp add: same_outcome_def poll_inv_def fun_eq_iff contributed_done [OF assms(3)]
        contributed_done [OF assms(5)])
qed

text \<open>Running the goroutines one after the other is one of the interleavings.\<close>

lemma run_one:
  assumes run: "poll_run env tm d s" and i: "i < nsvc env" and ready: "pcs s i = Ready"
  shows "poll_run env tm d \<lparr>pcs = (pcs s)(i := Finished),
      pstate = check_service env (tm i) (svc env i) (pstate s)\<rparr>"
proof (cases "fetch env (svc env i)")
  case None
  with poll_run.go_on [OF run poll_step.give_up [OF i ready]] show ?thesis
    by (cases s) (simp add: svc_def check_service_def)
next
  case (Some x)
  then obtain pf r where f: "fetch env (de_services env ! i) = Some (pf, r)"
    by (cases x) (auto simp: svc_def)
  note s1 = poll_run.go_on [OF run poll_step.learn_version [OF i ready f]]
  note s2 = poll_run.go_on [OF s1 poll_step.save_version [where i = i, OF i], simplified]
  note s3 = poll_run.go_on [OF s2 poll_step.save_release [where i = i, OF i], simplified]
  note s4 = poll_run.go_on [OF s3 poll_step.tell [where i = i, OF i], simplified]
  from s4 f show ?thesis
    by (cases s) (simp add: svc_def check_service_def)
qed

lemma run_prefix:
  "k \<le> nsvc env \<Longrightarrow> poll_run env tm d \<lparr>pcs = (\<lambda>j. if j < k then Finished else Ready),
     pstate = fold (\<lambda>i. check_service env (tm i) (svc env i)) [0..<k] d\<rparr>"
proof (induction k)
  case 0
  show ?case using poll_run.begin_poll [of env tm d] by (simp add: poll_start_def)
next
  case (Suc k)
  have "(\<lambda>j. if j < Suc k then Finished else Ready) =
      (\<lambda>j. if j < k then Finished else Ready)(k := Finished)"
    by (auto simp: fun_eq_iff)
  with run_one [OF Suc.IH, of k] Suc.prems show ?case by simp
qed

lemma fold_nth: "fold (\<lambda>i. f (xs ! i)) [0..<length xs] = fold f xs"
proof -
  have "fold f (map ((!) xs) [0..<length xs]) = fold (\<lambda>i. f (xs ! i)) [0..<length xs]"
    by (simp add: fold_map comp_def)
  then show ?thesis by (simp add: map_nth)
qed

lemma sequential_poll_is_a_run:
  "\<exists>s. poll_run env (\<lambda>_. now) d s \<and> poll_done env s \<and> pstate s = poll env now d"
proof -
  have "fold (\<lambda>i. check_service env now (svc env i)) [0..<nsvc env] d = poll env now d"
    unfolding svc_def poll_def by (rule fun_cong [OF fold_nth])
  with run_prefix [of "nsvc env" env "\<lambda>_. now" d] show ?thesis
    by (intro exI conjI) (assumption | simp add: poll_done_def)+
qed

text \<open>
  C5. A poll is independent of scheduling.  Whatever way the goroutines of a poll are
  interleaved, once they have all finished, the known versions, the saved versions, the stored
  releases, the announcements and the requests sent are those of the sequential poll, up to
  the order of the last three; services are only required to have distinct names.
\<close>

theorem poll_interleavings_agree:
  assumes "distinct (map sc_name (de_services env))"
    and "poll_run env (\<lambda>_. now) d s" "poll_done env s"
  shows "same_outcome (pstate s) (poll env now d)"
proof -
  obtain t where "poll_run env (\<lambda>_. now) d t" "poll_done env t" "pstate t = poll env now d"
    using sequential_poll_is_a_run by blast
  with complete_runs_agree [OF assms] show ?thesis by fastforce
qed

theorem poll_interleavings_agree_witness:
  "\<exists>s. poll_run (demo_env ''v2'') (\<lambda>_. zero_time) (daemon_new None) s \<and>
     same_outcome (pstate s) (poll (demo_env ''v2'') zero_time (daemon_new None))"
proof -
  obtain s where s: "poll_run (demo_env ''v2'') (\<lambda>_. zero_time) (daemon_new None) s"
    "poll_done (demo_env ''v2'') s"
    using sequential_poll_is_a_run by blast
  have "distinct (map sc_name (de_services (demo_env ''v2'')))" by (simp add: demo_env_def)
  from poll_interleavings_agree [OF this s] s(1) show ?thesis by blast
qed



end
