(* ===== verification/Daemon_Life.thy ===== *)
theory Daemon_Life
  imports Main
begin

text \<open>
  The life cycle of the daemon (\<open>Start\<close> and \<open>Stop\<close> of \<open>internal/daemon/daemon.go\<close>): the
  channels, the \<open>select\<close> loop and any number of concurrent calls of \<open>Stop\<close> as a step relation,
  with the safety of \<open>Stop\<close> over all runs and its liveness over all fair infinite runs.
\<close>

section \<open>Start and Stop\<close>

text \<open>
  The channels \<open>stopCh\<close> and \<open>stopped\<close> (open or closed), the context, \<open>stopOnce\<close>, the loop
  of \<open>Start\<close> and any number of concurrent calls of \<open>Stop\<close>.  Closing a closed channel
  panics.  A \<open>select\<close> with several ready cases may take any of them, so a tick can still win
  after \<open>stopCh\<close> is closed.  Calls of \<open>Start\<close> do not overlap (the program makes one); the
  first poll of \<open>Start\<close> and the later ones are the same program point.
\<close>

datatype loop_pc = NotRunning | Polling | Selecting

datatype stop_pc = NotCalled | AwaitStopped | StopReturned

record life =
  starts :: nat
  loop :: loop_pc
  stop_closed :: bool
  stopped_closed :: bool
  once_done :: bool
  ctx_done :: bool
  stops :: "nat \<Rightarrow> stop_pc"
  panicked :: bool

definition life_init :: life where
  "life_init = \<lparr>starts = 0, loop = NotRunning, stop_closed = False, stopped_closed = False,
     once_done = False, ctx_done = False, stops = (\<lambda>_. NotCalled), panicked = False\<rparr>"

text \<open>\<open>return\<close> from \<open>Start\<close> runs the deferred \<open>close(d.stopped)\<close>.\<close>

definition leave_loop :: "life \<Rightarrow> life" where
  "leave_loop l = l\<lparr>loop := NotRunning, panicked := panicked l \<or> stopped_closed l, stopped_closed := True\<rparr>"

definition close_stop_once :: "life \<Rightarrow> life" where
  "close_stop_once l =
     (if once_done l then l
      else l\<lparr>once_done := True, panicked := panicked l \<or> stop_closed l, stop_closed := True\<rparr>)"

inductive life_step :: "life \<Rightarrow> life \<Rightarrow> bool" where
  start_call: "loop l = NotRunning \<Longrightarrow> life_step l (l\<lparr>starts := Suc (starts l), loop := Polling\<rparr>)"
| poll_returns: "loop l = Polling \<Longrightarrow> life_step l (l\<lparr>loop := Selecting\<rparr>)"
| ticker_fires: "loop l = Selecting \<Longrightarrow> life_step l (l\<lparr>loop := Polling\<rparr>)"
| sees_stop: "loop l = Selecting \<Longrightarrow> stop_closed l \<Longrightarrow> life_step l (leave_loop l)"
| sees_ctx: "loop l = Selecting \<Longrightarrow> ctx_done l \<Longrightarrow> life_step l (leave_loop l)"
| cancel: "life_step l (l\<lparr>ctx_done := True\<rparr>)"
| stop_call: "stops l i = NotCalled \<Longrightarrow>
     life_step l ((close_stop_once l)\<lparr>stops := (stops l)(i := AwaitStopped)\<rparr>)"
| stop_returns: "stops l i = AwaitStopped \<Longrightarrow> stopped_closed l \<Longrightarrow>
     life_step l (l\<lparr>stops := (stops l)(i := StopReturned)\<rparr>)"

inductive life_run :: "life \<Rightarrow> bool" where
  boot: "life_run life_init"
| live: "life_run l \<Longrightarrow> life_step l l' \<Longrightarrow> life_run l'"

definition life_inv :: "life \<Rightarrow> bool" where
  "life_inv l \<longleftrightarrow> (once_done l \<longleftrightarrow> stop_closed l) \<and>
     (starts l = 0 \<longrightarrow> loop l = NotRunning \<and> \<not> stopped_closed l) \<and>
     (starts l = 1 \<longrightarrow> (stopped_closed l \<longleftrightarrow> loop l = NotRunning)) \<and>
     (starts l \<le> 1 \<longrightarrow> \<not> panicked l) \<and>
     (\<forall>i. stops l i = StopReturned \<longrightarrow> stopped_closed l) \<and>
     (\<forall>i. stops l i \<noteq> NotCalled \<longrightarrow> stop_closed l)"

lemma life_inv_init: "life_inv life_init"
  by (simp add: life_inv_def life_init_def)

lemma life_inv_step: "life_step l l' \<Longrightarrow> life_inv l \<Longrightarrow> life_inv l'"
  by (induction rule: life_step.induct)
    (auto simp: life_inv_def leave_loop_def close_stop_once_def split: if_splits)

lemma life_run_inv: "life_run l \<Longrightarrow> life_inv l"
  by (induction rule: life_run.induct) (auto intro: life_inv_init life_inv_step)

text \<open>
  C7. \<open>Stop\<close> is safe to call any number of times, concurrently and before the loop has
  noticed: a daemon that is started at most once never closes a channel twice, and when a call
  of \<open>Stop\<close> has returned, the loop was started and has ended, so no poll is running any more;
  without a \<open>Start\<close> no call of \<open>Stop\<close> ever returns.
\<close>

theorem stop_is_safe:
  assumes "life_run l" "starts l \<le> 1"
  shows "\<not> panicked l \<and> (\<forall>i. stops l i = StopReturned \<longrightarrow> starts l = 1 \<and> loop l = NotRunning)"
  using life_run_inv [OF assms(1)] assms(2) by (auto simp: life_inv_def le_Suc_eq)

text \<open>A run in which two calls of \<open>Stop\<close> return.\<close>

definition life_started :: life where
  "life_started = life_init\<lparr>starts := 1, loop := Selecting\<rparr>"

definition life_stopping :: life where
  "life_stopping = life_started\<lparr>once_done := True, stop_closed := True,
     stops := (\<lambda>_. NotCalled)(0 := AwaitStopped, 1 := AwaitStopped)\<rparr>"

definition life_ended :: life where
  "life_ended = life_stopping\<lparr>loop := NotRunning, stopped_closed := True,
     stops := (\<lambda>_. NotCalled)(0 := StopReturned, 1 := StopReturned)\<rparr>"

lemmas life_defs = life_init_def life_started_def life_stopping_def life_ended_def
  leave_loop_def close_stop_once_def

lemma life_run_ended: "life_run life_ended"
proof -
  note a = life_run.live [OF life_run.boot life_step.start_call]
  note b = life_run.live [OF a life_step.poll_returns]
  have "life_run life_started"
    using b by (simp add: life_defs)
  note c = life_run.live [OF this life_step.stop_call [where i = 0]]
  note d = life_run.live [OF c life_step.stop_call [where i = 1]]
  have "life_run life_stopping"
    using d by (simp add: life_defs)
  note e = life_run.live [OF this life_step.sees_stop]
  note f = life_run.live [OF e life_step.stop_returns [where i = 0]]
  note g = life_run.live [OF f life_step.stop_returns [where i = 1]]
  show ?thesis
    using g by (simp add: life_defs fun_upd_twist)
qed

theorem stop_is_safe_witness:
  "stops life_ended 0 = StopReturned \<and> stops life_ended 1 = StopReturned \<and>
   \<not> panicked life_ended \<and> loop life_ended = NotRunning"
  using stop_is_safe [OF life_run_ended] by (simp add: life_defs)

section \<open>Stop returns\<close>

text \<open>
  An infinite run; a step that changes nothing stands for the time in between.  Fairness is
  what the scheduler and Go's \<open>select\<close>, which picks at random among the ready cases, give: a
  poll ends (property \<open>poll_terminates\<close> of the polling daemon), a loop that again and again
  selects with \<open>stopCh\<close> closed takes a case that leaves it at some time, and a goroutine that
  waits for a closed channel is woken.
\<close>

definition life_trace :: "(nat \<Rightarrow> life) \<Rightarrow> bool" where
  "life_trace r \<longleftrightarrow> r 0 = life_init \<and> (\<forall>n. life_step (r n) (r (Suc n)) \<or> r (Suc n) = r n)"

definition polls_end :: "(nat \<Rightarrow> life) \<Rightarrow> bool" where
  "polls_end r \<longleftrightarrow> (\<forall>n. loop (r n) = Polling \<longrightarrow> (\<exists>m\<ge>n. loop (r m) \<noteq> Polling))"

definition select_is_fair :: "(nat \<Rightarrow> life) \<Rightarrow> bool" where
  "select_is_fair r \<longleftrightarrow>
     (\<forall>n. (\<forall>k\<ge>n. \<exists>m\<ge>k. loop (r m) = Selecting \<and> stop_closed (r m)) \<longrightarrow> (\<exists>m\<ge>n. loop (r m) = NotRunning))"

definition waiters_wake :: "(nat \<Rightarrow> life) \<Rightarrow> bool" where
  "waiters_wake r \<longleftrightarrow>
     (\<forall>n i. stops (r n) i = AwaitStopped \<and> stopped_closed (r n) \<longrightarrow> (\<exists>m\<ge>n. stops (r m) i = StopReturned))"

definition fair_life :: "(nat \<Rightarrow> life) \<Rightarrow> bool" where
  "fair_life r \<longleftrightarrow> life_trace r \<and> polls_end r \<and> select_is_fair r \<and> waiters_wake r"

lemma life_trace_run: "life_trace r \<Longrightarrow> life_run (r n)"
proof (induction n)
  case 0
  then show ?case by (simp add: life_trace_def life_run.boot)
next
  case (Suc n)
  from Suc.prems consider "life_step (r n) (r (Suc n))" | "r (Suc n) = r n"
    unfolding life_trace_def by blast
  then show ?case
  proof cases
    case 1
    show ?thesis by (rule life_run.live [OF Suc.IH [OF Suc.prems] 1])
  next
    case 2
    with Suc.IH [OF Suc.prems] show ?thesis by simp
  qed
qed

text \<open>What no step undoes.\<close>

definition lasts :: "(life \<Rightarrow> bool) \<Rightarrow> bool" where
  "lasts P \<longleftrightarrow> (\<forall>l l'. life_step l l' \<longrightarrow> P l \<longrightarrow> P l')"

lemma lasts_trace:
  assumes "life_trace r" "lasts P" "P (r n)" "n \<le> m"
  shows "P (r m)"
  using assms(4,3)
proof (induction m rule: dec_induct)
  case (step m)
  with assms(1,2) show ?case unfolding life_trace_def lasts_def by metis
qed

lemma lasts_started: "lasts (\<lambda>l. 0 < starts l)"
  and lasts_stop_closed: "lasts stop_closed"
  and lasts_called: "lasts (\<lambda>l. stops l i \<noteq> NotCalled)"
  and lasts_ended_or_runs: "lasts (\<lambda>l. 0 < starts l \<longrightarrow> stopped_closed l \<or> loop l \<noteq> NotRunning)"
  unfolding lasts_def
  by (intro allI impI, erule life_step.cases; simp add: leave_loop_def close_stop_once_def split: if_splits)+

lemma started_ends_or_runs:
  "life_trace r \<Longrightarrow> 0 < starts (r n) \<Longrightarrow> stopped_closed (r n) \<or> loop (r n) \<noteq> NotRunning"
  using lasts_trace [OF _ lasts_ended_or_runs, of r 0 n] by (simp add: life_trace_def life_init_def)

text \<open>Once \<open>Stop\<close> has been called, the loop of a started daemon ends.\<close>

lemma loop_ends:
  assumes fair: "fair_life r" and start: "0 < starts (r n)" and closed: "stop_closed (r n)"
  shows "\<exists>m\<ge>n. stopped_closed (r m)"
proof (rule ccontr)
  assume "\<not> ?thesis"
  then have never: "\<not> stopped_closed (r m)" if "n \<le> m" for m using that by blast
  have tr: "life_trace r" using fair by (simp add: fair_life_def)
  have runs: "loop (r m) \<noteq> NotRunning" if "n \<le> m" for m
    using started_ends_or_runs [OF tr lasts_trace [OF tr lasts_started start that]] never [OF that] by simp
  have "\<exists>m\<ge>k. loop (r m) = Selecting \<and> stop_closed (r m)" if k: "n \<le> k" for k
  proof -
    obtain m where m: "k \<le> m" "loop (r m) \<noteq> Polling"
      using fair unfolding fair_life_def polls_end_def by (cases "loop (r k) = Polling") auto
    with k runs [of m] have "loop (r m) = Selecting" by (cases "loop (r m)") auto
    with m(1) k lasts_trace [OF tr lasts_stop_closed closed, of m] show ?thesis by auto
  qed
  then have "\<exists>m\<ge>n. loop (r m) = NotRunning"
    using fair unfolding fair_life_def select_is_fair_def by blast
  with runs show False by blast
qed


text \<open>A fair run: a start, a poll, a call of \<open>Stop\<close>, a tick that wins, and the end.\<close>

definition stop_trace :: "nat \<Rightarrow> life" where
  "stop_trace n =
     (let called = life_started\<lparr>once_done := True, stop_closed := True,
            stops := (\<lambda>_. NotCalled)(0 := AwaitStopped)\<rparr>;
          ended = called\<lparr>loop := NotRunning, stopped_closed := True\<rparr> in
      if n = 0 then life_init
      else if n = 1 then life_started\<lparr>loop := Polling\<rparr>
      else if n = 2 then life_started
      else if n = 3 then called
      else if n = 4 then called\<lparr>loop := Polling\<rparr>
      else if n = 5 then called
      else if n = 6 then ended
      else ended\<lparr>stops := (\<lambda>_. NotCalled)(0 := StopReturned)\<rparr>)"

lemma life_step_to: "life_step l m \<Longrightarrow> m = l' \<Longrightarrow> life_step l l'"
  by simp

lemma stop_trace_steps: "life_trace stop_trace"
proof -
  have "life_step (stop_trace n) (stop_trace (Suc n))" if "n < 7" for n
  proof -
    from that consider "n = 0" | "n = 1" | "n = 2" | "n = 3" | "n = 4" | "n = 5" | "n = 6" by linarith
    then show ?thesis
    proof cases
      case 1
      show ?thesis by (rule life_step_to [OF life_step.start_call]) (simp_all add: 1 stop_trace_def life_defs)
    next
      case 2
      show ?thesis by (rule life_step_to [OF life_step.poll_returns]) (simp_all add: 2 stop_trace_def life_defs)
    next
      case 3
      show ?thesis
        by (rule life_step_to [OF life_step.stop_call [where i = 0]]) (simp_all add: 3 stop_trace_def life_defs)
    next
      case 4
      show ?thesis by (rule life_step_to [OF life_step.ticker_fires]) (simp_all add: 4 stop_trace_def life_defs)
    next
      case 5
      show ?thesis by (rule life_step_to [OF life_step.poll_returns]) (simp_all add: 5 stop_trace_def life_defs)
    next
      case 6
      show ?thesis by (rule life_step_to [OF life_step.sees_stop]) (simp_all add: 6 stop_trace_def life_defs)
    next
      case 7
      show ?thesis
        by (rule life_step_to [OF life_step.stop_returns [where i = 0]]) (simp_all add: 7 stop_trace_def life_defs)
    qed
  qed
  moreover have "stop_trace (Suc n) = stop_trace n" if "\<not> n < 7" for n
  proof -
    from that obtain j where "n = 7 + j" using le_Suc_ex [of 7 n] by auto
    then show ?thesis by (simp add: stop_trace_def Let_def)
  qed
  ultimately have "life_step (stop_trace n) (stop_trace (Suc n)) \<or> stop_trace (Suc n) = stop_trace n" for n
    by (cases "n < 7") simp_all
  moreover have "stop_trace 0 = life_init" by (simp add: stop_trace_def)
  ultimately show ?thesis
    unfolding life_trace_def by blast
qed

lemma stop_trace_late:
  assumes "7 \<le> n"
  shows "loop (stop_trace n) = NotRunning" "stops (stop_trace n) 0 = StopReturned" "stops (stop_trace n) (Suc i) = NotCalled"
  using assms by (simp_all add: stop_trace_def Let_def life_defs)

lemma stop_trace_fair: "fair_life stop_trace"
proof -
  have "polls_end stop_trace"
    unfolding polls_end_def using stop_trace_late(1) [of "n + 7" for n] by (metis le_add1 le_add2 loop_pc.distinct(1))
  moreover have "select_is_fair stop_trace"
    unfolding select_is_fair_def using stop_trace_late(1) [of "n + 7" for n] by (metis le_add1 le_add2)
  moreover have "stops (stop_trace n) i = NotCalled" if "i \<noteq> 0" for n i
    using that by (simp add: stop_trace_def Let_def life_defs)
  then have "waiters_wake stop_trace"
    unfolding waiters_wake_def using stop_trace_late(2) [of "n + 7" for n]
    by (metis le_add1 le_add2 stop_pc.distinct(1))
  ultimately show ?thesis by (simp add: fair_life_def stop_trace_steps)
qed


end
