(* ===== verification/Services.thy ===== *)
theory Services
  imports Config Provider Json Store
begin

text \<open>
  What the REST API and the dashboard share: the look-up of a service's latest release (the
  same chain of early returns in every handler that walks over the services) and the contract
  of the two pairs of handlers that add services to the configuration and delete them, with
  the facts that follow from the contract alone.
\<close>

section \<open>Looking a service up\<close>

datatype lookup =
    BadRepo go_error
  | NoProvider string
  | RequestFailed string go_error
  | Found string release

definition lookup_latest :: "providers \<Rightarrow> service_config \<Rightarrow> lookup" where
  "lookup_latest ps svc =
     (case parse_repo (sc_repo svc) of
        Inl e \<Rightarrow> BadRepo e
      | Inr parsed \<Rightarrow>
          (case ps (svc_platform parsed) of
             None \<Rightarrow> NoProvider (svc_platform parsed)
           | Some p \<Rightarrow>
               (case pv_latest p (svc_owner parsed) (svc_repo_name parsed) of
                  Inl e \<Rightarrow> RequestFailed (svc_platform parsed) e
                | Inr r \<Rightarrow> Found (svc_platform parsed) r)))"

lemma lookup_validated:
  "services_ok ss \<Longrightarrow> s \<in> set ss \<Longrightarrow> lookup_latest ps s \<noteq> BadRepo e"
  by (auto simp: lookup_latest_def dest!: services_ok_parse split: option.splits sum.splits)

section \<open>Adding and deleting services\<close>

text \<open>
  The contract: an add with an empty name or repository, with a repository of fewer than three
  parts, or with a name in use, is refused and changes nothing; any other add appends one
  service.  A delete removes every service of the name, and is refused when there is none.
\<close>

definition add_allowed :: "string \<Rightarrow> string \<Rightarrow> service_config list \<Rightarrow> bool" where
  "add_allowed name repo ss \<longleftrightarrow> name \<noteq> [] \<and> repo \<noteq> [] \<and> repo_ok repo \<and> name \<notin> sc_name ` set ss"

locale service_registry =
  fixes add :: "string \<Rightarrow> string \<Rightarrow> string \<Rightarrow> service_config list \<Rightarrow> bool \<times> service_config list"
    and del :: "string \<Rightarrow> service_config list \<Rightarrow> bool \<times> service_config list"
  assumes add_law: "add name repo registry ss =
      (if add_allowed name repo ss
       then (True, ss @ [\<lparr>sc_name = name, sc_repo = repo, sc_registry = registry\<rparr>])
       else (False, ss))"
    and del_law: "del name ss =
      (name \<in> sc_name ` set ss, filter (\<lambda>s. sc_name s \<noteq> name) ss)"
begin

lemma add_keeps_ok: "services_ok ss \<Longrightarrow> services_ok (snd (add name repo registry ss))"
  by (auto simp: add_law add_allowed_def services_ok_def entry_ok_def)

lemma del_keeps_ok: "services_ok ss \<Longrightarrow> services_ok (snd (del name ss))"
  by (auto simp: del_law services_ok_def list_all_iff distinct_map_filter)

lemma add_then_lists:
  "fst (add name repo registry ss) \<Longrightarrow>
     \<exists>s. snd (add name repo registry ss) = ss @ [s] \<and> sc_name s = name \<and> sc_repo s = repo \<and>
       sc_registry s = registry"
  by (auto simp: add_law split: if_splits)

lemma add_again_refused:
  "fst (add name repo registry ss) \<Longrightarrow>
     add name repo' registry' (snd (add name repo registry ss)) = (False, snd (add name repo registry ss))"
  by (auto simp: add_law add_allowed_def split: if_splits)

lemma add_then_del:
  "fst (add name repo registry ss) \<Longrightarrow> del name (snd (add name repo registry ss)) = (True, ss)"
  by (auto simp: add_law del_law add_allowed_def image_iff filter_id_conv split: if_splits)

lemma del_absent: "name \<notin> sc_name ` set ss \<Longrightarrow> del name ss = (False, ss)"
  by (auto simp: del_law image_iff filter_id_conv)

lemma del_then_gone: "name \<notin> sc_name ` set (snd (del name ss))"
  by (auto simp: del_law)

end

end
