(* ===== verification/Api.thy ===== *)
theory Api
  imports Services
begin

text \<open>
  The REST API (\<open>internal/api/api.go\<close>) and its middleware (\<open>internal/api/middleware.go\<close>).
  A handler is a function of the configuration, the providers, the store and the request; the
  write handlers hold the handler's mutex for their whole effect and return the new
  configuration.  The goroutines of \<open>listServices\<close> write disjoint elements of one slice, so
  their result is a map over the services.
\<close>

section \<open>Responses\<close>

record response =
  rs_status :: int
  rs_headers :: "(string \<times> string) list"
  rs_body :: json

definition write_json :: "int \<Rightarrow> json \<Rightarrow> response" where
  "write_json status v =
     \<lparr>rs_status = status, rs_headers = [(''Content-Type'', ''application/json'')], rs_body = v\<rparr>"

definition json_error :: "string \<Rightarrow> json" where
  "json_error msg = JObj [(''error'', JStr msg)]"

section \<open>Reading\<close>

record svc_info =
  si_name :: string
  si_repo :: string
  si_registry :: string
  si_latest :: string
  si_error :: string

definition svc_info_of :: "providers \<Rightarrow> service_config \<Rightarrow> svc_info" where
  "svc_info_of ps svc =
     (let info = \<lparr>si_name = sc_name svc, si_repo = sc_repo svc, si_registry = sc_registry svc,
                  si_latest = [], si_error = []\<rparr> in
      case lookup_latest ps svc of
        BadRepo e \<Rightarrow> info\<lparr>si_error := error_text e\<rparr>
      | NoProvider platform \<Rightarrow> info\<lparr>si_error := ''unsupported platform''\<rparr>
      | RequestFailed platform e \<Rightarrow> info\<lparr>si_error := error_text e\<rparr>
      | Found platform r \<Rightarrow> info\<lparr>si_latest := rel_tag r\<rparr>)"

definition json_of_info :: "svc_info \<Rightarrow> json" where
  "json_of_info i = JObj
     ([(''name'', JStr (si_name i)), (''repo'', JStr (si_repo i))] @
      omit_empty ''registry'' (si_registry i) @ omit_empty ''latest_release'' (si_latest i) @
      omit_empty ''error'' (si_error i))"

definition list_services :: "config \<Rightarrow> providers \<Rightarrow> response" where
  "list_services cfg ps =
     (let services = map (svc_info_of ps) (cfg_services cfg) in
      write_json 200 (JObj
        [(''services'', JArr (map json_of_info services)), (''total'', JNum (int (length services)))]))"

text \<open>A Go map is printed with its keys in ascending order.  A \<open>time.Time\<close> in JSON, through \<open>MarshalText\<close>, is a parameter \<open>jtime\<close>.\<close>

definition json_of_stored :: "(gotime \<Rightarrow> string) \<Rightarrow> stored_release \<Rightarrow> json" where
  "json_of_stored jtime r = JObj
     [(''service'', JStr (sr_service r)), (''tag'', JStr (sr_tag r)),
      (''platform'', JStr (sr_platform r)), (''url'', JStr (sr_url r)),
      (''published_at'', JStr (jtime (sr_published_at r))),
      (''discovered_at'', JStr (jtime (sr_discovered_at r)))]"

text \<open>A nil slice is written as \<open>null\<close>; \<open>GetHistory\<close> returns nil when there is no row.\<close>

definition json_slice :: "('a \<Rightarrow> json) \<Rightarrow> 'a list \<Rightarrow> json" where
  "json_slice f xs = (if xs = [] then JNull else JArr (map f xs))"

definition get_service_releases ::
  "(gotime \<Rightarrow> 'k :: linorder) \<Rightarrow> (gotime \<Rightarrow> string) \<Rightarrow> store option \<Rightarrow> string \<Rightarrow> response" where
  "get_service_releases tkey jtime st name =
     (case st of
        None \<Rightarrow> write_json 503 (json_error ''no storage configured'')
      | Some s \<Rightarrow>
          (case get_history tkey name 100 s of
             Inl e \<Rightarrow> write_json 500 (json_error ''failed to query history'')
           | Inr history \<Rightarrow>
               write_json 200 (JObj
                 [(''releases'', json_slice (json_of_stored jtime) history), (''service'', JStr name),
                  (''total'', JNum (int (length history)))])))"

record timeline_entry =
  te_service :: string
  te_tag :: string
  te_platform :: string
  te_url :: string
  te_published_at :: gotime

definition timeline_entry_of :: "stored_release \<Rightarrow> timeline_entry" where
  "timeline_entry_of r =
     \<lparr>te_service = sr_service r, te_tag = sr_tag r, te_platform = sr_platform r,
      te_url = sr_url r, te_published_at = sr_published_at r\<rparr>"

definition json_of_timeline :: "(gotime \<Rightarrow> string) \<Rightarrow> timeline_entry \<Rightarrow> json" where
  "json_of_timeline jtime t = JObj
     [(''service'', JStr (te_service t)), (''tag'', JStr (te_tag t)),
      (''platform'', JStr (te_platform t)), (''url'', JStr (te_url t)),
      (''published_at'', JStr (jtime (te_published_at t)))]"

text \<open>The loop of \<open>getTimeline\<close>: the histories of the services, one after the other.\<close>

fun timeline_of :: "(gotime \<Rightarrow> 'k :: linorder) \<Rightarrow> store \<Rightarrow> service_config list \<Rightarrow> timeline_entry list" where
  "timeline_of tkey s [] = []"
| "timeline_of tkey s (svc # svcs) =
     (case get_history tkey (sc_name svc) 20 s of
        Inl e \<Rightarrow> timeline_of tkey s svcs
      | Inr history \<Rightarrow> map timeline_entry_of history @ timeline_of tkey s svcs)"

definition get_timeline ::
  "(gotime \<Rightarrow> 'k :: linorder) \<Rightarrow> (gotime \<Rightarrow> string) \<Rightarrow> config \<Rightarrow> store option \<Rightarrow> response" where
  "get_timeline tkey jtime cfg st =
     (case st of
        None \<Rightarrow> write_json 503 (json_error ''no storage configured'')
      | Some s \<Rightarrow>
          let timeline = timeline_of tkey s (cfg_services cfg) in
          write_json 200 (JObj
            [(''timeline'', json_slice (json_of_timeline jtime) timeline),
             (''total'', JNum (int (length timeline)))]))"

section \<open>Writing\<close>

record add_request =
  rq_name :: string
  rq_repo :: string
  rq_registry :: string

definition empty_request :: add_request where
  "empty_request = \<lparr>rq_name = [], rq_repo = [], rq_registry = []\<rparr>"

definition dec_add_request :: "add_request \<Rightarrow> json \<Rightarrow> add_request option" where
  "dec_add_request old v =
     (case members v of
        None \<Rightarrow> None
      | Some ms \<Rightarrow>
          (case (bind_field dec_string ''name'' (rq_name old) ms,
                 bind_field dec_string ''repo'' (rq_repo old) ms,
                 bind_field dec_string ''registry'' (rq_registry old) ms) of
             (Some n, Some r, Some g) \<Rightarrow> Some \<lparr>rq_name = n, rq_repo = r, rq_registry = g\<rparr>
           | _ \<Rightarrow> None))"

text \<open>
  \<open>addService\<close>.  The body is cut at 1 MB by \<open>MaxBytesReader\<close>; \<open>parse\<close> reads the first JSON
  value of what is left.
\<close>

definition add_service :: "(string \<Rightarrow> json option) \<Rightarrow> string \<Rightarrow> config \<Rightarrow> config \<times> response" where
  "add_service parse body cfg =
     (case unmarshal parse dec_add_request empty_request (take (2 ^ 20) body) of
        Inl e \<Rightarrow> (cfg, write_json 400 (json_error ''invalid JSON''))
      | Inr req \<Rightarrow>
          if rq_name req = [] \<or> rq_repo req = [] then
            (cfg, write_json 400 (json_error ''name and repo are required''))
          else if length (split_on CHR ''/'' (rq_repo req)) < 3 then
            (cfg, write_json 400 (json_error ''repo must be host/owner/repo format''))
          else if \<exists>svc \<in> set (cfg_services cfg). sc_name svc = rq_name req then
            (cfg, write_json 409 (json_error ''service already exists''))
          else
            (cfg\<lparr>cfg_services := cfg_services cfg @
                [\<lparr>sc_name = rq_name req, sc_repo = rq_repo req, sc_registry = rq_registry req\<rparr>]\<rparr>,
             write_json 201 (JObj [(''name'', JStr (rq_name req)), (''status'', JStr ''created'')])))"

text \<open>The loop of \<open>deleteService\<close>: whether the name was found, and the services kept.\<close>

fun remove_named :: "string \<Rightarrow> bool \<Rightarrow> service_config list \<Rightarrow> service_config list \<Rightarrow>
    bool \<times> service_config list" where
  "remove_named name found kept [] = (found, kept)"
| "remove_named name found kept (svc # svcs) =
     (if sc_name svc = name then remove_named name True kept svcs
      else remove_named name found (kept @ [svc]) svcs)"

definition delete_service :: "string \<Rightarrow> config \<Rightarrow> config \<times> response" where
  "delete_service name cfg =
     (case remove_named name False [] (cfg_services cfg) of (found, services) \<Rightarrow>
        if \<not> found then (cfg, write_json 404 (json_error ''service not found''))
        else (cfg\<lparr>cfg_services := services\<rparr>,
              write_json 200 (JObj [(''name'', JStr name), (''status'', JStr ''deleted'')])))"

section \<open>Middleware\<close>

definition cors_headers :: "(string \<times> string) list" where
  "cors_headers =
     [(''Access-Control-Allow-Origin'', ''*''),
      (''Access-Control-Allow-Methods'', ''GET, POST, DELETE, OPTIONS''),
      (''Access-Control-Allow-Headers'', ''Content-Type, Authorization, X-API-Key'')]"

text \<open>A handler as a function of the request method on a state; CORS answers OPTIONS itself.\<close>

definition cors :: "(string \<Rightarrow> 's \<Rightarrow> 's \<times> response) \<Rightarrow> string \<Rightarrow> 's \<Rightarrow> 's \<times> response" where
  "cors next meth s =
     (if meth = ''OPTIONS'' then (s, \<lparr>rs_status = 204, rs_headers = cors_headers, rs_body = JNull\<rparr>)
      else (case next meth s of (s', r) \<Rightarrow> (s', r\<lparr>rs_headers := cors_headers @ rs_headers r\<rparr>)))"

section \<open>The write handlers keep the contract\<close>

lemma remove_named_filter:
  "remove_named name found kept ss =
     (found \<or> name \<in> sc_name ` set ss, kept @ filter (\<lambda>s. sc_name s \<noteq> name) ss)"
  by (induction ss arbitrary: found kept) auto

text \<open>The handlers as operations on the list of services.\<close>

definition api_add :: "string \<Rightarrow> string \<Rightarrow> string \<Rightarrow> service_config list \<Rightarrow> bool \<times> service_config list" where
  "api_add name repo registry ss =
     (let v = JObj [(''name'', JStr name), (''repo'', JStr repo), (''registry'', JStr registry)];
          (cfg, r) = add_service (\<lambda>_. Some v) [] (zero_config\<lparr>cfg_services := ss\<rparr>)
      in (rs_status r = 201, cfg_services cfg))"

definition api_delete :: "string \<Rightarrow> service_config list \<Rightarrow> bool \<times> service_config list" where
  "api_delete name ss =
     (let (cfg, r) = delete_service name (zero_config\<lparr>cfg_services := ss\<rparr>)
      in (rs_status r = 200, cfg_services cfg))"

lemma same_key_simps [simp]:
  "same_key ''name'' ''name''" "same_key ''repo'' ''repo''" "same_key ''registry'' ''registry''"
  "\<not> same_key ''name'' ''repo''" "\<not> same_key ''name'' ''registry''" "\<not> same_key ''repo'' ''name''"
  "\<not> same_key ''repo'' ''registry''" "\<not> same_key ''registry'' ''name''" "\<not> same_key ''registry'' ''repo''"
  by (simp_all add: same_key_def lower_char_def)

lemma dec_add_request_plain:
  "dec_add_request empty_request
     (JObj [(''name'', JStr n), (''repo'', JStr r), (''registry'', JStr g)]) =
   Some \<lparr>rq_name = n, rq_repo = r, rq_registry = g\<rparr>"
  by (simp add: dec_add_request_def empty_request_def)

lemma write_json_status [simp]: "rs_status (write_json st v) = st"
  by (simp add: write_json_def)

interpretation api_reg: service_registry api_add api_delete
proof
  fix name repo registry ss
  show "api_add name repo registry ss =
      (if add_allowed name repo ss
       then (True, ss @ [\<lparr>sc_name = name, sc_repo = repo, sc_registry = registry\<rparr>])
       else (False, ss))"
    by (auto simp: api_add_def add_service_def unmarshal_def dec_add_request_plain
        add_allowed_def repo_ok_def)
next
  fix name ss
  show "api_delete name ss = (name \<in> sc_name ` set ss, filter (\<lambda>s. sc_name s \<noteq> name) ss)"
    by (simp add: api_delete_def delete_service_def remove_named_filter filter_neq_id)
qed

lemma add_service_cases:
  obtains "fst (add_service parse body cfg) = cfg" "rs_status (snd (add_service parse body cfg)) \<in> {400, 409}"
  | req where "unmarshal parse dec_add_request empty_request (take (2 ^ 20) body) = Inr req"
      "add_allowed (rq_name req) (rq_repo req) (cfg_services cfg)"
      "fst (add_service parse body cfg) = cfg\<lparr>cfg_services :=
         snd (api_add (rq_name req) (rq_repo req) (rq_registry req) (cfg_services cfg))\<rparr>"
      "rs_status (snd (add_service parse body cfg)) = 201"
proof (cases "unmarshal parse dec_add_request empty_request (take (2 ^ 20) body)")
  case (Inl e)
  with that(1) show ?thesis by (simp add: add_service_def)
next
  case (Inr req)
  show ?thesis
  proof (cases "add_allowed (rq_name req) (rq_repo req) (cfg_services cfg)")
    case True
    have "\<not> (\<exists>svc\<in>set (cfg_services cfg). sc_name svc = rq_name req)"
      using True by (auto simp: add_allowed_def image_iff)
    with Inr True have eq: "add_service parse body cfg =
        (cfg\<lparr>cfg_services := cfg_services cfg @
           [\<lparr>sc_name = rq_name req, sc_repo = rq_repo req, sc_registry = rq_registry req\<rparr>]\<rparr>,
         write_json 201 (JObj [(''name'', JStr (rq_name req)), (''status'', JStr ''created'')]))"
      by (simp add: add_service_def add_allowed_def repo_ok_def)
    show ?thesis
      by (rule that(2) [OF Inr True]) (simp_all add: eq api_reg.add_law True)
  next
    case False
    have "(\<exists>svc\<in>set (cfg_services cfg). sc_name svc = rq_name req) \<longleftrightarrow>
        rq_name req \<in> sc_name ` set (cfg_services cfg)" by force
    with Inr False have "fst (add_service parse body cfg) = cfg \<and>
        rs_status (snd (add_service parse body cfg)) \<in> {400, 409}"
      by (auto simp: add_service_def add_allowed_def repo_ok_def)
    with that(1) show ?thesis by blast
  qed
qed

lemma delete_service_eq:
  "fst (delete_service name cfg) = cfg\<lparr>cfg_services := snd (api_delete name (cfg_services cfg))\<rparr>"
  by (simp add: delete_service_def remove_named_filter api_reg.del_law filter_neq_id)

lemma validate_with_services:
  assumes "validate cfg = None" and "services_ok ss"
  shows "validate (cfg\<lparr>cfg_services := ss\<rparr>) = None"
proof -
  have now: "validate_services 0 {} (cfg_services cfg) = None"
    using validate_services_ok [OF assms(1)] by (simp add: services_ok_iff)
  have new: "validate_services 0 {} ss = None" using assms(2) by (simp add: services_ok_iff)
  have "validate (cfg\<lparr>cfg_services := ss\<rparr>) = validate cfg"
    by (simp add: validate_def now new)
  with assms(1) show ?thesis by (rule trans [rotated])
qed

lemma api_keeps_config:
  assumes "validate cfg = None"
  shows "validate (fst (add_service parse body cfg)) = None \<and>
    validate (fst (delete_service name cfg)) = None \<and>
    (fst (add_service parse body cfg))\<lparr>cfg_services := []\<rparr> = cfg\<lparr>cfg_services := []\<rparr> \<and>
    (fst (delete_service name cfg))\<lparr>cfg_services := []\<rparr> = cfg\<lparr>cfg_services := []\<rparr>"
proof -
  have ok: "services_ok (cfg_services cfg)" by (rule validate_services_ok [OF assms])
  have "validate (fst (add_service parse body cfg)) = None \<and>
      (fst (add_service parse body cfg))\<lparr>cfg_services := []\<rparr> = cfg\<lparr>cfg_services := []\<rparr>"
    by (cases rule: add_service_cases [of parse body cfg])
      (simp_all add: assms validate_with_services [OF assms] api_reg.add_keeps_ok [OF ok])
  then show ?thesis
    by (simp add: delete_service_eq validate_with_services [OF assms] api_reg.del_keeps_ok [OF ok])
qed

definition demo_body :: json where
  "demo_body = JObj [(''name'', JStr ''api''), (''repo'', JStr ''github.com/o/r''), (''registry'', JStr [])]"

text \<open>
  \<open>POST /v1/services\<close> answers 201 exactly for a body that decodes to a new, complete
  service, which it appends, and refuses everything else without an effect: 400 for bad JSON,
  a missing name or repository or a repository of fewer than three parts, 409 for a name in
  use.  A service just created is refused when posted again, and deleting it restores the
  former list of services.
\<close>

theorem api_add_delete_roundtrip:
  assumes "rs_status (snd (add_service parse body cfg)) = 201"
  shows "(\<exists>req. unmarshal parse dec_add_request empty_request (take (2 ^ 20) body) = Inr req \<and>
      add_allowed (rq_name req) (rq_repo req) (cfg_services cfg) \<and>
      cfg_services (fst (add_service parse body cfg)) = cfg_services cfg @
        [\<lparr>sc_name = rq_name req, sc_repo = rq_repo req, sc_registry = rq_registry req\<rparr>] \<and>
      rs_status (snd (delete_service (rq_name req) (fst (add_service parse body cfg)))) = 200 \<and>
      fst (delete_service (rq_name req) (fst (add_service parse body cfg))) = cfg) \<and>
    rs_status (snd (add_service parse body (fst (add_service parse body cfg)))) = 409"
proof (cases rule: add_service_cases [of parse body cfg])
  case 1
  with assms show ?thesis by auto
next
  case (2 req)
  let ?cfg = "fst (add_service parse body cfg)"
  have list: "cfg_services ?cfg = cfg_services cfg @
      [\<lparr>sc_name = rq_name req, sc_repo = rq_repo req, sc_registry = rq_registry req\<rparr>]"
    using 2(2,3) by (simp add: api_reg.add_law)
  have gone: "filter (\<lambda>s. sc_name s \<noteq> rq_name req) (cfg_services cfg) = cfg_services cfg"
    using 2(2) by (intro filter_neq_id) (simp add: add_allowed_def)
  have "delete_service (rq_name req) ?cfg = (cfg, write_json 200
      (JObj [(''name'', JStr (rq_name req)), (''status'', JStr ''deleted'')]))"
    using list gone 2(3) by (simp add: delete_service_def remove_named_filter)
  moreover have "rs_status (snd (add_service parse body ?cfg)) = 409"
    using 2(1,2) list by (auto simp: add_service_def add_allowed_def repo_ok_def)
  ultimately show ?thesis using 2 list by auto
qed

theorem api_add_delete_roundtrip_witness:
  "rs_status (snd (add_service (\<lambda>_. Some demo_body) ''{}'' (fst (add_service (\<lambda>_. Some demo_body) ''{}'' zero_config)))) = 409"
proof -
  have "rs_status (snd (add_service (\<lambda>_. Some demo_body) ''{}'' zero_config)) = 201"
    by (simp add: add_service_def unmarshal_def demo_body_def dec_add_request_plain zero_config_def)
  from api_add_delete_roundtrip [OF this] show ?thesis by blast
qed

section \<open>Reads\<close>

lemma svc_info_of_frame [simp]:
  "si_name (svc_info_of ps s) = sc_name s" "si_repo (svc_info_of ps s) = sc_repo s"
  by (simp_all add: svc_info_of_def Let_def split: lookup.splits)

lemma timeline_of_append: "timeline_of tkey s (a @ b) = timeline_of tkey s a @ timeline_of tkey s b"
  by (induction a) (auto split: sum.splits)

lemma length_history:
  "get_history tkey service limit s = Inr rs \<Longrightarrow> length rs \<le> nat (if limit \<le> 0 then 50 else limit)"
  by (auto simp: get_history_def Let_def split: if_splits)

lemma length_timeline: "length (timeline_of tkey s svcs) \<le> 20 * length svcs"
  by (induction svcs) (auto split: sum.splits dest: length_history)

lemma timeline_service:
  assumes "t \<in> set (timeline_of tkey s svcs)"
  shows "\<exists>svc \<in> set svcs. te_service t = sc_name svc"
  using assms
proof (induction svcs)
  case Nil
  then show ?case by simp
next
  case (Cons svc svcs)
  have "sr_service r = sc_name svc" if "get_history tkey (sc_name svc) 20 s = Inr h" "r \<in> set h" for h r
    using that by (auto simp: get_history_def releases_of_def Let_def go_sort.set_sorter
        dest!: in_set_takeD split: if_splits)
  with Cons show ?case
    by (auto simp: timeline_entry_of_def split: sum.splits)
qed

lemma grouped_example:
  "map te_published_at (timeline_of instant
     (empty_store\<lparr>db_releases := [(1, sample_release),
        (2, sample_release\<lparr>sr_service := ''web'', sr_discovered_at := \<lparr>instant = 5, zone_offset = 0\<rparr>,
             sr_published_at := \<lparr>instant = 5, zone_offset = 0\<rparr>\<rparr>)]\<rparr>)
     [\<lparr>sc_name = ''api'', sc_repo = [], sc_registry = []\<rparr>, \<lparr>sc_name = ''web'', sc_repo = [], sc_registry = []\<rparr>]) =
   [zero_time, \<lparr>instant = 5, zone_offset = 0\<rparr>]"
  by (simp add: get_history_def releases_of_def empty_store_def sample_release_def
      timeline_entry_of_def)

text \<open>
  \<open>GET /v1/timeline\<close> shows releases of configured services only, at most 20 for each, and
  groups them by service in configuration order: the timeline of a configuration is the
  concatenation of the timelines of its services, so it is newest-first within each service
  but not across services, although its comment promises "newest first".
\<close>

theorem timeline_is_grouped_by_service:
  "timeline_of tkey s svcs = concat (map (\<lambda>svc. timeline_of tkey s [svc]) svcs) \<and>
   length (timeline_of tkey s svcs) \<le> 20 * length svcs \<and>
   te_service ` set (timeline_of tkey s svcs) \<subseteq> sc_name ` set svcs \<and>
   map te_published_at (timeline_of instant
     (empty_store\<lparr>db_releases := [(1, sample_release),
        (2, sample_release\<lparr>sr_service := ''web'', sr_discovered_at := \<lparr>instant = 5, zone_offset = 0\<rparr>,
             sr_published_at := \<lparr>instant = 5, zone_offset = 0\<rparr>\<rparr>)]\<rparr>)
     [\<lparr>sc_name = ''api'', sc_repo = [], sc_registry = []\<rparr>, \<lparr>sc_name = ''web'', sc_repo = [], sc_registry = []\<rparr>]) =
   [zero_time, \<lparr>instant = 5, zone_offset = 0\<rparr>]"
proof -
  have "timeline_of tkey s svcs = concat (map (\<lambda>svc. timeline_of tkey s [svc]) svcs)"
    by (induction svcs) (auto split: sum.splits)
  moreover have "te_service ` set (timeline_of tkey s svcs) \<subseteq> sc_name ` set svcs"
    using timeline_service by blast
  moreover note length_timeline [of tkey s svcs] grouped_example
  ultimately show ?thesis by blast
qed

end
