(* ===== verification/Kubernetes.thy ===== *)
theory Kubernetes
  imports Config
begin

text \<open>
  Reading a Kubernetes cluster: the deployed services and their versions
  (\<open>internal/k8s/k8s.go\<close>) and the discovery of services from annotations and image names
  (\<open>internal/discovery/discovery.go\<close>).  The cluster's API is a parameter: what it lists of
  deployments and stateful sets in a namespace.
\<close>

section \<open>The cluster\<close>

text \<open>Of the container of a pod the code reads the image only.\<close>

record container =
  ct_image :: string

record workload =
  wl_name :: string
  wl_namespace :: string
  wl_annotations :: "(string, string) gomap"
  wl_labels :: "(string, string) gomap"
  wl_containers :: "container list"
  wl_replicas :: "int option"
  wl_ready :: int

record cluster =
  cl_deployments :: "string \<Rightarrow> workload list result"
  cl_statefulsets :: "string \<Rightarrow> workload list result"
  cl_deployment :: "string \<Rightarrow> string \<Rightarrow> workload result"

record deployed_service =
  dp_name :: string
  dp_namespace :: string
  dp_kind :: string
  dp_images :: "string list"
  dp_replicas :: int
  dp_ready :: int
  dp_labels :: "(string, string) gomap"
  dp_app_version :: string

text \<open>
  \<open>New\<close>: the client library loads the configuration of a path and a context and makes the client;
  \<open>home\<close> is the home directory, empty when there is none.
\<close>

definition kubeconfig_path :: "string \<Rightarrow> string \<Rightarrow> string" where
  "kubeconfig_path home kubeconfig =
     (if kubeconfig = [] \<and> home \<noteq> [] then path_join [home, ''.kube'', ''config''] else kubeconfig)"

definition k8s_new ::
  "string \<Rightarrow> (string \<Rightarrow> string \<Rightarrow> 'c result) \<Rightarrow> ('c \<Rightarrow> cluster result) \<Rightarrow> string \<Rightarrow> string \<Rightarrow> cluster result" where
  "k8s_new home load_config client kubeconfig kctx =
     (case load_config (kubeconfig_path home kubeconfig) kctx of
        Inl e \<Rightarrow> Inl (Wrapf ''load kubeconfig'' e)
      | Inr c \<Rightarrow> (case client c of Inl e \<Rightarrow> Inl (Wrapf ''create k8s client'' e) | Inr cl \<Rightarrow> Inr cl))"

section \<open>Versions\<close>

text \<open>The first of the labels that is set and not empty.\<close>

fun label_version :: "(string, string) gomap \<Rightarrow> string list \<Rightarrow> string option" where
  "label_version labels [] = None"
| "label_version labels (key # keys) =
     (case labels key of
        Some v \<Rightarrow> if v \<noteq> [] then Some v else label_version labels keys
      | None \<Rightarrow> label_version labels keys)"

fun tag_version :: "string list \<Rightarrow> string" where
  "tag_version [] = []"
| "tag_version (img # imgs) =
     (case last_index CHR '':'' img of
        Some idx \<Rightarrow>
          let tag = drop (idx + 1) img in
          if tag \<noteq> ''latest'' \<and> tag \<noteq> [] then tag else tag_version imgs
      | None \<Rightarrow> tag_version imgs)"

definition version_labels :: "string list" where
  "version_labels = [''app.kubernetes.io/version'', ''version'', ''app-version'']"

definition extract_version :: "string list \<Rightarrow> (string, string) gomap \<Rightarrow> string" where
  "extract_version images labels =
     (case label_version labels version_labels of
        Some v \<Rightarrow> v
      | None \<Rightarrow> tag_version images)"

section \<open>Listing\<close>

fun extract_images :: "container list \<Rightarrow> string list" where
  "extract_images [] = []"
| "extract_images (c # containers) = ct_image c # extract_images containers"

lemma extract_images_map [simp]: "extract_images cs = map ct_image cs"
  by (induction cs) simp_all

definition deployed_of :: "string \<Rightarrow> workload \<Rightarrow> deployed_service" where
  "deployed_of kind w =
     (let images = extract_images (wl_containers w);
          replicas = (case wl_replicas w of None \<Rightarrow> 0 | Some n \<Rightarrow> n)
      in \<lparr>dp_name = wl_name w, dp_namespace = wl_namespace w, dp_kind = kind, dp_images = images,
          dp_replicas = replicas, dp_ready = wl_ready w, dp_labels = wl_labels w,
          dp_app_version = extract_version images (wl_labels w)\<rparr>)"

definition list_deployments :: "cluster \<Rightarrow> string \<Rightarrow> deployed_service list result" where
  "list_deployments cl ns =
     (case cl_deployments cl ns of
        Inl e \<Rightarrow> Inl (Wrapf ''list deployments'' e)
      | Inr items \<Rightarrow> Inr (map (deployed_of ''Deployment'') items))"

definition list_stateful_sets :: "cluster \<Rightarrow> string \<Rightarrow> deployed_service list result" where
  "list_stateful_sets cl ns =
     (case cl_statefulsets cl ns of
        Inl e \<Rightarrow> Inl (Wrapf ''list statefulsets'' e)
      | Inr items \<Rightarrow> Inr (map (deployed_of ''StatefulSet'') items))"

definition list_all_workloads :: "cluster \<Rightarrow> string \<Rightarrow> deployed_service list result" where
  "list_all_workloads cl ns =
     (case list_deployments cl ns of
        Inl e \<Rightarrow> Inl e
      | Inr deps \<Rightarrow>
          (case list_stateful_sets cl ns of
             Inl e \<Rightarrow> Inl e
           | Inr sets \<Rightarrow> Inr (deps @ sets)))"

definition get_deployment :: "cluster \<Rightarrow> string \<Rightarrow> string \<Rightarrow> deployed_service result" where
  "get_deployment cl ns name =
     (case cl_deployment cl ns name of
        Inl e \<Rightarrow> Inl (Wrapf (''get deployment '' @ ns @ ''/'' @ name) e)
      | Inr d \<Rightarrow> Inr (deployed_of ''Deployment'' d))"

section \<open>Image references\<close>

definition image_without_tag :: "string \<Rightarrow> string" where
  "image_without_tag img =
     (let img = (case index_of ''@'' img of Some i \<Rightarrow> take i img | None \<Rightarrow> img) in
      case last_index CHR '':'' img of
        Some i \<Rightarrow> if contains ''/'' (drop (i + 1) img) then img else take i img
      | None \<Rightarrow> img)"

text \<open>The empty string stands for a registry no repository is known for.\<close>

definition infer_repo_from_image :: "string \<Rightarrow> string" where
  "infer_repo_from_image img =
     (let parts = split_on CHR ''/'' (image_without_tag img) in
      if length parts < 3 then []
      else
        let registry = parts ! 0; owner = parts ! 1; repo_name = parts ! 2 in
        if contains ''ghcr.io'' registry then ''github.com/'' @ owner @ ''/'' @ repo_name
        else if contains ''gitlab'' registry then ''gitlab.com/'' @ owner @ ''/'' @ repo_name
        else if contains ''docker.io'' registry then ''github.com/'' @ owner @ ''/'' @ repo_name
        else [])"

section \<open>Discovery\<close>

definition display_name :: "string \<Rightarrow> (string, string) gomap \<Rightarrow> string" where
  "display_name name annotations =
     (case annotations ''releasewave.io/name'' of
        Some n \<Rightarrow> if n \<noteq> [] then n else name
      | None \<Rightarrow> name)"

fun infer_services :: "string \<Rightarrow> container list \<Rightarrow> service_config list" where
  "infer_services shown [] = []"
| "infer_services shown (c # containers) =
     (let repo = infer_repo_from_image (ct_image c) in
      if repo = [] then infer_services shown containers
      else \<lparr>sc_name = shown, sc_repo = repo, sc_registry = image_without_tag (ct_image c)\<rparr> #
        infer_services shown containers)"

definition discover_from_workload :: "string \<Rightarrow> (string, string) gomap \<Rightarrow> container list \<Rightarrow> service_config list" where
  "discover_from_workload name annotations containers =
     (case annotations ''releasewave.io/repo'' of
        Some repo \<Rightarrow>
          if repo \<noteq> []
          then [\<lparr>sc_name = display_name name annotations, sc_repo = repo, sc_registry = []\<rparr>]
          else infer_services (display_name name annotations) containers
      | None \<Rightarrow> infer_services (display_name name annotations) containers)"

definition workload_services :: "workload \<Rightarrow> service_config list" where
  "workload_services w = discover_from_workload (wl_name w) (wl_annotations w) (wl_containers w)"

text \<open>The two loops of \<open>Discover\<close>, which share the list and the set of names seen.\<close>

definition discover :: "cluster result \<Rightarrow> string \<Rightarrow> service_config list result" where
  "discover client ns =
     (case client of
        Inl e \<Rightarrow> Inl (Wrapf ''connect to k8s'' e)
      | Inr cl \<Rightarrow>
          (case cl_deployments cl ns of
             Inl e \<Rightarrow> Inl (Wrapf ''list deployments'' e)
           | Inr deps \<Rightarrow>
               (case append_unseen sc_name [] {} (concat (map workload_services deps)) of
                  (services, seen) \<Rightarrow>
                    (case cl_statefulsets cl ns of
                       Inl e \<Rightarrow> Inl (Wrapf ''list statefulsets'' e)
                     | Inr sets \<Rightarrow>
                         Inr (fst (append_unseen sc_name services seen
                           (concat (map workload_services sets))))))))"

section \<open>Facts about references\<close>

lemma image_without_tag_plain:
  assumes "CHR ''@'' \<notin> set ref" "CHR ''@'' \<notin> set tag" "CHR '':'' \<notin> set tag" "CHR ''/'' \<notin> set tag"
  shows "image_without_tag (ref @ '':'' @ tag) = ref"
proof -
  have "index_of ''@'' (ref @ '':'' @ tag) = None"
    using assms by (simp add: index_of_single_None)
  moreover have "last_index CHR '':'' (ref @ '':'' @ tag) = Some (length ref)"
    using last_index_append [OF assms(3), of ref] by simp
  moreover have "\<not> contains ''/'' tag"
    using assms(4) by (simp add: contains_def index_of_single_None)
  ultimately show ?thesis by (simp add: image_without_tag_def)
qed

lemma image_without_tag_digest:
  assumes "CHR ''@'' \<notin> set img"
  shows "image_without_tag (img @ ''@'' @ digest) = image_without_tag img"
proof -
  have "index_of ''@'' (img @ ''@'' @ digest) = Some (length img)"
    using index_of_single_append [OF assms, of digest] by simp
  moreover have "index_of ''@'' img = None"
    using assms by (simp add: index_of_single_None)
  ultimately show ?thesis by (simp add: image_without_tag_def)
qed

lemma tag_version_tagged:
  assumes "CHR '':'' \<notin> set tag" "tag \<noteq> []" "tag \<noteq> ''latest''"
  shows "tag_version ((ref @ '':'' @ tag) # imgs) = tag"
  using last_index_append [OF assms(1), of ref] assms by simp

text \<open>
  An image reference with a tag is read back: the version of a workload without a
  version label is the tag of its first image, and the registry recorded for it the reference
  without tag and digest.  The tag of an image that also has a digest is not seen, since the
  last colon is the one of the digest; and the port of a registry is taken for the tag of an
  image without one.
\<close>

theorem image_reference_is_read:
  assumes "CHR ''@'' \<notin> set ref" "CHR ''@'' \<notin> set tag" "CHR '':'' \<notin> set tag" "CHR ''/'' \<notin> set tag"
    and "tag \<noteq> []" "tag \<noteq> ''latest''"
    and "label_version labels version_labels = None" "CHR '':'' \<notin> set hash" "hash \<noteq> []" "hash \<noteq> ''latest''"
    and "CHR '':'' \<notin> set path" "CHR '':'' \<notin> set port"
    and "port \<noteq> []"
  shows "extract_version ((ref @ '':'' @ tag) # imgs) labels = tag \<and>
    image_without_tag (ref @ '':'' @ tag) = ref \<and>
    image_without_tag (ref @ '':'' @ tag @ ''@sha256:'' @ hash) = ref \<and>
    extract_version ((ref @ '':'' @ tag @ ''@sha256:'' @ hash) # imgs) labels = hash \<and>
    extract_version ((host @ '':'' @ port @ ''/'' @ path) # imgs) labels = port @ ''/'' @ path"
proof -
  have "tag_version ((ref @ '':'' @ tag @ ''@sha256:'' @ hash) # imgs) = hash"
    using tag_version_tagged [of hash "ref @ '':'' @ tag @ ''@sha256''" imgs] assms(8-10) by simp
  moreover have "tag_version ((host @ '':'' @ port @ ''/'' @ path) # imgs) = port @ ''/'' @ path"
  proof -
    have "CHR ''/'' \<in> set (port @ ''/'' @ path)" "CHR ''/'' \<notin> set ''latest''" by simp_all
    then have "port @ ''/'' @ path \<noteq> ''latest''" by metis
    then show ?thesis
      using tag_version_tagged [of "port @ ''/'' @ path" host imgs] assms(11,12) by simp
  qed
  moreover have "image_without_tag (ref @ '':'' @ tag @ ''@sha256:'' @ hash) = ref"
    using image_without_tag_digest [of "ref @ '':'' @ tag" "''sha256:'' @ hash"]
      image_without_tag_plain [OF assms(1-4)] assms(1,2) by simp
  ultimately show ?thesis
    using image_without_tag_plain [OF assms(1-4)] tag_version_tagged [OF assms(3,5,6), of ref imgs] assms(7)
    by (simp add: extract_version_def)
qed

theorem image_reference_is_read_witness:
  "extract_version [''ghcr.io/o/app:1.2''] Map.empty = ''1.2'' \<and>
   extract_version [''localhost:5000/app''] Map.empty = ''5000/app''"
  using image_reference_is_read [of "''ghcr.io/o/app''" "''1.2''" Map.empty "''ab''" "''app''" "''5000''" "[]" "''localhost''"]
  by (simp add: version_labels_def)

section \<open>What discovery finds\<close>

definition candidates :: "workload list \<Rightarrow> workload list \<Rightarrow> service_config list" where
  "candidates deps sets = concat (map workload_services (deps @ sets))"

lemma append_unseen_append:
  "append_unseen key out seen (xs @ ys) =
     (case append_unseen key out seen xs of (out', seen') \<Rightarrow> append_unseen key out' seen' ys)"
  by (induction xs arbitrary: out seen) auto

lemma discover_eq:
  "discover client ns =
     (case client of
        Inl e \<Rightarrow> Inl (Wrapf ''connect to k8s'' e)
      | Inr cl \<Rightarrow>
          (case (cl_deployments cl ns, cl_statefulsets cl ns) of
             (Inl e, _) \<Rightarrow> Inl (Wrapf ''list deployments'' e)
           | (Inr deps, Inl e) \<Rightarrow> Inl (Wrapf ''list statefulsets'' e)
           | (Inr deps, Inr sets) \<Rightarrow> Inr (fst (append_unseen sc_name [] {} (candidates deps sets)))))"
  by (simp add: discover_def candidates_def append_unseen_append split_beta split: sum.splits)

lemma infer_services_entry:
  "s \<in> set (infer_services shown cs) \<Longrightarrow> sc_name s = shown \<and> sc_repo s \<noteq> [] \<and> repo_ok (sc_repo s)"
proof (induction cs)
  case (Cons c cs)
  have "repo_ok (infer_repo_from_image (ct_image c))" if "infer_repo_from_image (ct_image c) \<noteq> []"
  proof -
    have host: "split_on CHR ''/'' (h @ ''/'' @ rest) = h # split_on CHR ''/'' rest"
      if "CHR ''/'' \<notin> set h" for h rest
      using split_on_append [OF that, of rest] by simp
    have "3 \<le> length (split_on CHR ''/'' (h @ ''/'' @ a @ ''/'' @ b))"
      if "CHR ''/'' \<notin> set h" for h a b
      by (simp add: length_split_on count_list_append)
    from this [of "''github.com''"] this [of "''gitlab.com''"] \<open>infer_repo_from_image (ct_image c) \<noteq> []\<close>
    show ?thesis
      by (auto simp: infer_repo_from_image_def repo_ok_def Let_def split: if_splits)
  qed
  with Cons show ?case by (auto simp: Let_def split: if_splits)
qed simp

text \<open>A workload as the cluster guarantees it, whose annotation, if any, has the documented form.\<close>

definition workload_ok :: "workload \<Rightarrow> bool" where
  "workload_ok w \<longleftrightarrow> wl_name w \<noteq> [] \<and>
     (case wl_annotations w ''releasewave.io/repo'' of None \<Rightarrow> True | Some r \<Rightarrow> r = [] \<or> repo_ok r)"

lemma workload_services_entry:
  "workload_ok w \<Longrightarrow> s \<in> set (workload_services w) \<Longrightarrow> entry_ok s"
  using infer_services_entry [of s "display_name (wl_name w) (wl_annotations w)" "wl_containers w"]
  by (auto simp: workload_services_def discover_from_workload_def workload_ok_def entry_ok_def
      display_name_def split: option.splits if_splits)


definition demo_workload :: workload where
  "demo_workload = \<lparr>wl_name = ''api'', wl_namespace = ''default'', wl_annotations = Map.empty,
     wl_labels = Map.empty, wl_containers = [\<lparr>ct_image = ''ghcr.io/o/r:v1''\<rparr>], wl_replicas = Some 1, wl_ready = 1\<rparr>"

definition demo_cluster :: cluster where
  "demo_cluster = \<lparr>cl_deployments = (\<lambda>_. Inr [demo_workload]), cl_statefulsets = (\<lambda>_. Inr []),
     cl_deployment = (\<lambda>_ _. Inr demo_workload)\<rparr>"


end
