(* ===== verification/Registry.thy ===== *)
theory Registry
  imports Go_Errors "HOL-Library.List_Lexorder" "HOL-Library.Char_ord"
begin

text \<open>
  Container registries (\<open>internal/registry/registry.go\<close>).  The registry protocol is a
  parameter: how a reference is read (its registry host), what tags a repository has and what
  digest a tag points to.  Strings compare byte by byte, as Go compares them.
\<close>

record image_info =
  im_registry :: string
  im_image :: string
  im_tags :: "string list"
  im_latest :: string
  im_digest :: string

record oci =
  oci_repository :: "string \<Rightarrow> string result"
  oci_list :: "string \<Rightarrow> string list result"
  oci_reference :: "string \<Rightarrow> unit result"
  oci_digest :: "string \<Rightarrow> string result"

text \<open>The order of \<open>ListTags\<close>: tags with a \<open>v\<close> first, then the greater string first.\<close>

definition is_v_tag :: "string \<Rightarrow> bool" where
  "is_v_tag t \<longleftrightarrow> has_prefix ''v'' t"

definition tag_less :: "string \<Rightarrow> string \<Rightarrow> bool" where
  "tag_less a b = (if is_v_tag a \<noteq> is_v_tag b then is_v_tag a else b < a)"

definition list_image_tags :: "oci \<Rightarrow> string \<Rightarrow> image_info result" where
  "list_image_tags oci img =
     (case oci_repository oci img of
        Inl e \<Rightarrow> Inl (Wrapf (''parse image ref '' @ quote img) e)
      | Inr host \<Rightarrow>
          (case oci_list oci img of
             Inl e \<Rightarrow> Inl (Wrapf (''list tags for '' @ quote img) e)
           | Inr tags \<Rightarrow>
               let sorted_tags = sort_slice tag_less tags in
               Inr \<lparr>im_registry = host, im_image = img, im_tags = sorted_tags,
                    im_latest = (if sorted_tags \<noteq> [] then hd sorted_tags else []), im_digest = []\<rparr>))"

definition get_digest :: "oci \<Rightarrow> string \<Rightarrow> string \<Rightarrow> string result" where
  "get_digest oci img tag =
     (case oci_reference oci (img @ '':'' @ tag) of
        Inl e \<Rightarrow> Inl (Wrapf ''parse ref'' e)
      | Inr u \<Rightarrow>
          (case oci_digest oci (img @ '':'' @ tag) of
             Inl e \<Rightarrow> Inl (Wrapf (''get digest for '' @ img @ '':'' @ tag) e)
           | Inr d \<Rightarrow> Inr d))"

definition compare_tag :: "oci \<Rightarrow> string \<Rightarrow> string \<Rightarrow> string \<Rightarrow> bool result" where
  "compare_tag oci img tag1 tag2 =
     (case get_digest oci img tag1 of
        Inl e \<Rightarrow> Inl e
      | Inr d1 \<Rightarrow> (case get_digest oci img tag2 of Inl e \<Rightarrow> Inl e | Inr d2 \<Rightarrow> Inr (d1 = d2)))"

lemma tag_less_order: "weak_order tag_less"
  by (auto simp: weak_order_def tag_less_def)

text \<open>
  The tags are listed with the \<open>v\<close> tags first and in descending string order within each
  group, and the latest tag is the greatest string among the \<open>v\<close> tags, if there is one.  The
  order is not one of versions: of \<open>v9\<close> and \<open>v10\<close> it names \<open>v9\<close> the latest.
\<close>

theorem latest_tag_is_greatest_string:
  assumes "list_image_tags oci img = Inr info" "oci_list oci img = Inr tags"
  shows "mset (im_tags info) = mset tags \<and> sorted_wrt (\<lambda>a b. \<not> tag_less b a) (im_tags info) \<and>
    (tags \<noteq> [] \<longrightarrow> im_latest info \<in> set tags \<and>
      (\<forall>t \<in> set tags. is_v_tag t \<longrightarrow> is_v_tag (im_latest info) \<and> t \<le> im_latest info))"
proof -
  have info: "im_tags info = sort_slice tag_less tags"
    "tags \<noteq> [] \<Longrightarrow> im_latest info = hd (sort_slice tag_less tags)"
    using assms go_sort.length_sorter [of tag_less tags]
    by (auto simp: list_image_tags_def Let_def split: sum.splits)
  have "im_latest info \<in> set tags \<and>
      (\<forall>t \<in> set tags. is_v_tag t \<longrightarrow> is_v_tag (im_latest info) \<and> t \<le> im_latest info)" if "tags \<noteq> []"
  proof -
    have "sort_slice tag_less tags \<noteq> []" using that go_sort.length_sorter [of tag_less tags] by auto
    then have "im_latest info \<in> set tags"
      using info(2) [OF that] go_sort.set_sorter [of tag_less tags] hd_in_set by metis
    moreover have "\<not> tag_less t (im_latest info)" if "t \<in> set tags" for t
      using go_sort.sorter_head_least [OF tag_less_order \<open>tags \<noteq> []\<close> that] info(2) [OF \<open>tags \<noteq> []\<close>] by simp
    then have "is_v_tag (im_latest info) \<and> t \<le> im_latest info" if "t \<in> set tags" "is_v_tag t" for t
      using that(2) spec [of "\<lambda>t. t \<in> set tags \<longrightarrow> \<not> tag_less t (im_latest info)" t] that(1)
      by (cases "is_v_tag (im_latest info)") (auto simp: tag_less_def not_less)
    ultimately show ?thesis by blast
  qed
  then show ?thesis
    using info(1) go_sort.mset_sorter [of tag_less tags] go_sort.sorted_sorter [OF tag_less_order, of tags]
    by simp
qed

text \<open>A registry that has the tags \<open>v9\<close> and \<open>v10\<close>.\<close>

definition demo_oci :: oci where
  "demo_oci = \<lparr>oci_repository = (\<lambda>_. Inr ''ghcr.io''), oci_list = (\<lambda>_. Inr [''v10'', ''v9'']),
     oci_reference = (\<lambda>_. Inr ()), oci_digest = (\<lambda>_. Inr ''sha256:0'')\<rparr>"

lemma demo_tags:
  "list_image_tags demo_oci ''app'' = Inr \<lparr>im_registry = ''ghcr.io'', im_image = ''app'',
     im_tags = [''v9'', ''v10''], im_latest = ''v9'', im_digest = []\<rparr>"
  by (simp add: list_image_tags_def demo_oci_def tag_less_def is_v_tag_def less_char_def)

theorem latest_tag_is_greatest_string_witness:
  "\<exists>info. list_image_tags demo_oci ''app'' = Inr info \<and> im_latest info = ''v9'' \<and> ''v10'' \<le> im_latest info"
proof -
  have "oci_list demo_oci ''app'' = Inr [''v10'', ''v9'']" by (simp add: demo_oci_def)
  from latest_tag_is_greatest_string [OF demo_tags this] show ?thesis
    by (simp add: demo_tags is_v_tag_def)
qed

end
