(* ===== verification/Osv.thy ===== *)
theory Osv
  imports Json
begin

text \<open>
  Security advisories from OSV.dev (\<open>internal/security/osv.go\<close>).  The HTTP client is a
  parameter: what a \<open>POST\<close> of a JSON value to a URL gives, a status and a body or an error;
  so is the reading of a JSON text.
\<close>

record vulnerability =
  vu_id :: string
  vu_summary :: string
  vu_severity :: string
  vu_aliases :: "string list"
  vu_url :: string
  vu_fixed :: string

record osv_severity =
  os_type :: string
  os_score :: string

record osv_event =
  ov_introduced :: string
  ov_fixed :: string

record osv_range =
  og_type :: string
  og_events :: "osv_event list"

record osv_affected =
  oa_ranges :: "osv_range list"

record osv_ref =
  or_type :: string
  or_url :: string

record osv_vuln =
  ou_id :: string
  ou_summary :: string
  ou_aliases :: "string list"
  ou_severity :: "osv_severity list"
  ou_affected :: "osv_affected list"
  ou_references :: "osv_ref list"

section \<open>Decoding\<close>

text \<open>A struct of two string fields, as the API has several.\<close>

definition dec_pair :: "string \<Rightarrow> string \<Rightarrow> string \<times> string \<Rightarrow> json \<Rightarrow> (string \<times> string) option" where
  "dec_pair k1 k2 old v =
     (case members v of
        None \<Rightarrow> None
      | Some ms \<Rightarrow>
          (case (bind_field dec_string k1 (fst old) ms, bind_field dec_string k2 (snd old) ms) of
             (Some a, Some b) \<Rightarrow> Some (a, b)
           | _ \<Rightarrow> None))"

definition dec_severity :: "osv_severity \<Rightarrow> json \<Rightarrow> osv_severity option" where
  "dec_severity old v = map_option (\<lambda>(a, b). \<lparr>os_type = a, os_score = b\<rparr>)
     (dec_pair ''type'' ''score'' (os_type old, os_score old) v)"

definition dec_event :: "osv_event \<Rightarrow> json \<Rightarrow> osv_event option" where
  "dec_event old v = map_option (\<lambda>(a, b). \<lparr>ov_introduced = a, ov_fixed = b\<rparr>)
     (dec_pair ''introduced'' ''fixed'' (ov_introduced old, ov_fixed old) v)"

definition dec_ref :: "osv_ref \<Rightarrow> json \<Rightarrow> osv_ref option" where
  "dec_ref old v = map_option (\<lambda>(a, b). \<lparr>or_type = a, or_url = b\<rparr>)
     (dec_pair ''type'' ''url'' (or_type old, or_url old) v)"

definition dec_range :: "osv_range \<Rightarrow> json \<Rightarrow> osv_range option" where
  "dec_range old v =
     (case members v of
        None \<Rightarrow> None
      | Some ms \<Rightarrow>
          (case (bind_field dec_string ''type'' (og_type old) ms,
                 bind_field (dec_list dec_event \<lparr>ov_introduced = [], ov_fixed = []\<rparr>) ''events'' (og_events old) ms) of
             (Some t, Some es) \<Rightarrow> Some \<lparr>og_type = t, og_events = es\<rparr>
           | _ \<Rightarrow> None))"

definition dec_affected :: "osv_affected \<Rightarrow> json \<Rightarrow> osv_affected option" where
  "dec_affected old v =
     (case members v of
        None \<Rightarrow> None
      | Some ms \<Rightarrow> map_option (\<lambda>rs. \<lparr>oa_ranges = rs\<rparr>)
          (bind_field (dec_list dec_range \<lparr>og_type = [], og_events = []\<rparr>) ''ranges'' (oa_ranges old) ms))"

definition empty_vuln :: osv_vuln where
  "empty_vuln = \<lparr>ou_id = [], ou_summary = [], ou_aliases = [], ou_severity = [], ou_affected = [],
     ou_references = []\<rparr>"

definition dec_vuln :: "osv_vuln \<Rightarrow> json \<Rightarrow> osv_vuln option" where
  "dec_vuln old v =
     (case members v of
        None \<Rightarrow> None
      | Some ms \<Rightarrow>
          (case (bind_field dec_string ''id'' (ou_id old) ms, bind_field dec_string ''summary'' (ou_summary old) ms,
                 bind_field (dec_list dec_string []) ''aliases'' (ou_aliases old) ms,
                 bind_field (dec_list dec_severity \<lparr>os_type = [], os_score = []\<rparr>) ''severity'' (ou_severity old) ms,
                 bind_field (dec_list dec_affected \<lparr>oa_ranges = []\<rparr>) ''affected'' (ou_affected old) ms,
                 bind_field (dec_list dec_ref \<lparr>or_type = [], or_url = []\<rparr>) ''references'' (ou_references old) ms) of
             (Some i, Some s, Some al, Some sv, Some af, Some rf) \<Rightarrow>
               Some \<lparr>ou_id = i, ou_summary = s, ou_aliases = al, ou_severity = sv, ou_affected = af,
                     ou_references = rf\<rparr>
           | _ \<Rightarrow> None))"

definition dec_osv_response :: "osv_vuln list \<Rightarrow> json \<Rightarrow> osv_vuln list option" where
  "dec_osv_response old v =
     (case members v of
        None \<Rightarrow> None
      | Some ms \<Rightarrow> bind_field (dec_list dec_vuln empty_vuln) ''vulns'' old ms)"

section \<open>Queries\<close>

datatype osv_reply = OsvBadRequest go_error | OsvUnreachable go_error | OsvReply int "string result"

type_synonym osv_post = "string \<Rightarrow> json \<Rightarrow> osv_reply"

definition osv_api_url :: string where
  "osv_api_url = ''https://api.osv.dev/v1''"

text \<open>The loops of \<open>QueryByPackage\<close> over the references and over the fix events.\<close>

fun advisory_url :: "osv_ref list \<Rightarrow> string" where
  "advisory_url [] = []"
| "advisory_url (r # rs) =
     (if or_type r = ''ADVISORY'' \<or> or_type r = ''WEB'' then or_url r else advisory_url rs)"

fun last_fixed :: "string \<Rightarrow> osv_event list \<Rightarrow> string" where
  "last_fixed fixed [] = fixed"
| "last_fixed fixed (ev # evs) = last_fixed (if ov_fixed ev \<noteq> [] then ov_fixed ev else fixed) evs"

definition all_events :: "osv_vuln \<Rightarrow> osv_event list" where
  "all_events v = concat (map og_events (concat (map oa_ranges (ou_affected v))))"

definition vuln_page :: "string \<Rightarrow> string" where
  "vuln_page i = ''https://osv.dev/vulnerability/'' @ i"

definition vulnerability_of :: "osv_vuln \<Rightarrow> vulnerability" where
  "vulnerability_of v =
     \<lparr>vu_id = ou_id v, vu_summary = ou_summary v,
      vu_severity = (case ou_severity v of [] \<Rightarrow> [] | s # _ \<Rightarrow> os_score s),
      vu_aliases = ou_aliases v,
      vu_url = (if advisory_url (ou_references v) = [] then vuln_page (ou_id v)
                else advisory_url (ou_references v)),
      vu_fixed = last_fixed [] (all_events v)\<rparr>"

definition query_body :: "string \<Rightarrow> string \<Rightarrow> string \<Rightarrow> json" where
  "query_body ecosystem pkg version = JObj
     ((''package'', JObj [(''name'', JStr pkg), (''ecosystem'', JStr ecosystem)]) #
      omit_empty ''version'' version)"

definition query_by_package ::
  "osv_post \<Rightarrow> (string \<Rightarrow> json option) \<Rightarrow> string \<Rightarrow> string \<Rightarrow> string \<Rightarrow> vulnerability list result" where
  "query_by_package post parse ecosystem pkg version =
     (case post (osv_api_url @ ''/query'') (query_body ecosystem pkg version) of
        OsvBadRequest e \<Rightarrow> Inl (Wrapf ''create request'' e)
      | OsvUnreachable e \<Rightarrow> Inl (Wrapf ''osv query'' e)
      | OsvReply status body \<Rightarrow>
          if status \<noteq> 200 then Inl (Plain (''osv query failed: HTTP '' @ show_int status))
          else
            (case body of
               Inl e \<Rightarrow> Inl (Wrapf ''read response'' e)
             | Inr text \<Rightarrow>
                 (case unmarshal parse dec_osv_response [] text of
                    Inl e \<Rightarrow> Inl (Wrapf ''parse response'' e)
                  | Inr vs \<Rightarrow> Inr (map vulnerability_of vs))))"

definition query_by_git_commit ::
  "osv_post \<Rightarrow> (string \<Rightarrow> json option) \<Rightarrow> string \<Rightarrow> string \<Rightarrow> vulnerability list result" where
  "query_by_git_commit post parse repo_url commit =
     (case post (osv_api_url @ ''/query'') (JObj [(''commit'', JStr commit)]) of
        OsvBadRequest e \<Rightarrow> Inl e
      | OsvUnreachable e \<Rightarrow> Inl e
      | OsvReply status body \<Rightarrow>
          if status \<noteq> 200 then Inl (Plain (''osv commit query: HTTP '' @ show_int status))
          else
            (case body of
               Inl e \<Rightarrow> Inl (Wrapf ''read commit response'' e)
             | Inr text \<Rightarrow>
                 (case unmarshal parse dec_osv_response [] text of
                    Inl e \<Rightarrow> Inl e
                  | Inr vs \<Rightarrow> Inr (map (\<lambda>v. \<lparr>vu_id = ou_id v, vu_summary = ou_summary v, vu_severity = [],
                      vu_aliases = ou_aliases v, vu_url = vuln_page (ou_id v), vu_fixed = []\<rparr>) vs))))"

section \<open>Facts\<close>

lemma last_fixed_Cons:
  "last_fixed fixed evs = (case filter (\<lambda>ev. ov_fixed ev \<noteq> []) evs of [] \<Rightarrow> fixed | es \<Rightarrow> ov_fixed (last es))"
  by (induction evs arbitrary: fixed) (auto split: list.splits)

lemma query_by_package_length:
  "query_by_package post parse ecosystem pkg version = Inr vs \<Longrightarrow> post (osv_api_url @ ''/query'')
     (query_body ecosystem pkg version) = OsvReply 200 (Inr text) \<Longrightarrow>
   \<exists>os. unmarshal parse dec_osv_response [] text = Inr os \<and> map vu_id vs = map ou_id os"
  by (auto simp: query_by_package_def vulnerability_of_def split: sum.splits)

end
