(* ===== verification/Mcp.thy ===== *)
theory Mcp
  imports Api Notify Kubernetes Registry Osv
begin

text \<open>
  The MCP server's tools (\<open>internal/mcpserver/server.go\<close> and the direct tools of
  \<open>tools_extended.go\<close>).  The protocol library reads the arguments of a call: the request is a
  parameter, \<open>GetString\<close> and \<open>GetInt\<close> of a name and a default.  A tool's result is a text, an
  error text or the JSON value that \<open>marshalResult\<close> prints; the keys of a Go map are printed in
  ascending order.  The time of a JSON value is printed by the parameter \<open>jtime\<close>.
\<close>

section \<open>Server and calls\<close>

record tool_request =
  tq_string :: "string \<Rightarrow> string \<Rightarrow> string"
  tq_int :: "string \<Rightarrow> int \<Rightarrow> int"

datatype tool_result = ToolText string | ToolError string | ToolJson json

record mcp_server =
  ms_config :: config
  ms_providers :: providers
  ms_store :: "store option"
  ms_known :: "(string, string) gomap"

text \<open>Where a tool looks: clusters by kubeconfig and context, registries, OSV, and the clock.\<close>

record tool_env =
  tv_cluster :: "string \<Rightarrow> string \<Rightarrow> cluster result"
  tv_oci :: oci
  tv_osv :: osv_post
  tv_parse :: "string \<Rightarrow> json option"
  tv_post :: poster
  tv_now :: gotime

definition unsupported_platform :: "string \<Rightarrow> string" where
  "unsupported_platform platform =
     ''unsupported platform: '' @ platform @ '' (supported: github, gitlab)''"

definition get_provider :: "providers \<Rightarrow> string \<Rightarrow> string + provider" where
  "get_provider ps platform =
     (let platform = (if platform = [] then ''github'' else platform) in
      case ps platform of
        None \<Rightarrow> Inl (unsupported_platform platform)
      | Some p \<Rightarrow> Inr p)"

section \<open>JSON of the results\<close>

definition json_of_release :: "(gotime \<Rightarrow> string) \<Rightarrow> release \<Rightarrow> json" where
  "json_of_release jtime r = JObj
     [(''tag'', JStr (rel_tag r)), (''name'', JStr (rel_name r)), (''body'', JStr (rel_body r)),
      (''draft'', JBool (rel_draft r)), (''prerelease'', JBool (rel_prerelease r)),
      (''published_at'', JStr (jtime (rel_published_at r))), (''html_url'', JStr (rel_html_url r))]"

definition json_of_tag :: "git_tag \<Rightarrow> json" where
  "json_of_tag t = JObj [(''name'', JStr (tag_name t)), (''commit'', JStr (tag_commit t))]"

text \<open>A label map is printed with its keys in order; \<open>keys\<close> lists them.\<close>

definition json_of_deployed :: "((string, string) gomap \<Rightarrow> string list) \<Rightarrow> deployed_service \<Rightarrow> json" where
  "json_of_deployed keys d = JObj
     ([(''name'', JStr (dp_name d)), (''namespace'', JStr (dp_namespace d)), (''kind'', JStr (dp_kind d)),
       (''images'', JArr (map JStr (dp_images d))), (''replicas'', JNum (dp_replicas d)),
       (''ready'', JNum (dp_ready d))] @
      (if keys (dp_labels d) = [] then []
       else [(''labels'', JObj (map (\<lambda>k. (k, JStr (case dp_labels d k of Some v \<Rightarrow> v | None \<Rightarrow> [])))
               (keys (dp_labels d))))]) @
      omit_empty ''app_version'' (dp_app_version d))"

definition json_of_image :: "image_info \<Rightarrow> json" where
  "json_of_image i = JObj
     ([(''registry'', JStr (im_registry i)), (''image'', JStr (im_image i)),
       (''tags'', JArr (map JStr (im_tags i))), (''latest_tag'', JStr (im_latest i))] @
      omit_empty ''digest'' (im_digest i))"

definition json_of_vulnerability :: "vulnerability \<Rightarrow> json" where
  "json_of_vulnerability v = JObj
     ([(''id'', JStr (vu_id v)), (''summary'', JStr (vu_summary v))] @
      omit_empty ''severity'' (vu_severity v) @
      (if vu_aliases v = [] then [] else [(''aliases'', JArr (map JStr (vu_aliases v)))]) @
      [(''url'', JStr (vu_url v))] @ omit_empty ''fixed'' (vu_fixed v))"

definition json_of_service_config :: "service_config \<Rightarrow> json" where
  "json_of_service_config s = JObj
     [(''Name'', JStr (sc_name s)), (''Repo'', JStr (sc_repo s)), (''Registry'', JStr (sc_registry s))]"

section \<open>Tools on one repository\<close>

text \<open>
  The common start of the repository tools: the arguments are checked, then the platform is
  looked up.  \<open>required\<close> lists the arguments that must not be empty.
\<close>

definition with_repository ::
  "mcp_server \<Rightarrow> tool_request \<Rightarrow> string list \<Rightarrow> string \<Rightarrow> (provider \<Rightarrow> tool_result) \<Rightarrow> tool_result" where
  "with_repository s req required message k =
     (if list_ex (\<lambda>a. tq_string req a [] = []) required then ToolError message
      else case get_provider (ms_providers s) (tq_string req ''platform'' ''github'') of
        Inl e \<Rightarrow> ToolError e
      | Inr p \<Rightarrow> k p)"

definition tool_failed :: "string \<Rightarrow> go_error \<Rightarrow> tool_result" where
  "tool_failed what e = ToolError (what @ '': '' @ error_text e)"

definition handle_list_releases :: "(gotime \<Rightarrow> string) \<Rightarrow> mcp_server \<Rightarrow> tool_request \<Rightarrow> tool_result" where
  "handle_list_releases jtime s req =
     with_repository s req [''owner'', ''repo''] ''owner and repo are required'' (\<lambda>p.
       case pv_list_releases p (tq_string req ''owner'' []) (tq_string req ''repo'' []) of
         Inl e \<Rightarrow> tool_failed ''failed to list releases'' e
       | Inr rs \<Rightarrow> ToolJson (JArr (map (json_of_release jtime) rs)))"

definition handle_get_latest_release :: "(gotime \<Rightarrow> string) \<Rightarrow> mcp_server \<Rightarrow> tool_request \<Rightarrow> tool_result" where
  "handle_get_latest_release jtime s req =
     with_repository s req [''owner'', ''repo''] ''owner and repo are required'' (\<lambda>p.
       case pv_latest p (tq_string req ''owner'' []) (tq_string req ''repo'' []) of
         Inl e \<Rightarrow> tool_failed ''failed to get latest release'' e
       | Inr r \<Rightarrow> ToolJson (json_of_release jtime r))"

definition handle_list_tags :: "mcp_server \<Rightarrow> tool_request \<Rightarrow> tool_result" where
  "handle_list_tags s req =
     with_repository s req [''owner'', ''repo''] ''owner and repo are required'' (\<lambda>p.
       case pv_list_tags p (tq_string req ''owner'' []) (tq_string req ''repo'' []) of
         Inl e \<Rightarrow> tool_failed ''failed to list tags'' e
       | Inr ts \<Rightarrow> ToolJson (JArr (map json_of_tag ts)))"

definition handle_get_repo_file :: "mcp_server \<Rightarrow> tool_request \<Rightarrow> tool_result" where
  "handle_get_repo_file s req =
     (let owner = tq_string req ''owner'' []; repo = tq_string req ''repo'' []; path = tq_string req ''path'' [] in
      with_repository s req [''owner'', ''repo'', ''path''] ''owner, repo, and path are required'' (\<lambda>p.
        case pv_file p owner repo path of
          Inl e \<Rightarrow> tool_failed ''failed to get file'' e
        | Inr content \<Rightarrow> ToolJson (JObj
            [(''content'', JStr content), (''path'', JStr path),
             (''platform'', JStr (tq_string req ''platform'' ''github'')),
             (''repository'', JStr (owner @ ''/'' @ repo))])))"

section \<open>Tools on all services\<close>

text \<open>
  The start of every goroutine over the services: the repository is parsed and its provider
  found, else the platform known so far and the error are reported.
\<close>

definition resolve :: "mcp_server \<Rightarrow> service_config \<Rightarrow> (string \<times> string) + (service \<times> provider)" where
  "resolve s svc =
     (case parse_repo (sc_repo svc) of
        Inl e \<Rightarrow> Inl ([], error_text e)
      | Inr parsed \<Rightarrow>
          (case get_provider (ms_providers s) (svc_platform parsed) of
             Inl e \<Rightarrow> Inl (svc_platform parsed, e)
           | Inr p \<Rightarrow> Inr (parsed, p)))"

definition resolve_latest :: "mcp_server \<Rightarrow> service_config \<Rightarrow> (string \<times> string) + (string \<times> release)" where
  "resolve_latest s svc =
     (case resolve s svc of
        Inl pe \<Rightarrow> Inl pe
      | Inr (parsed, p) \<Rightarrow>
          (case pv_latest p (svc_owner parsed) (svc_repo_name parsed) of
             Inl e \<Rightarrow> Inl (svc_platform parsed, error_text e)
           | Inr r \<Rightarrow> Inr (svc_platform parsed, r)))"

record check_result =
  cr_name :: string
  cr_platform :: string
  cr_latest :: string
  cr_url :: string
  cr_error :: string

definition check_result_of :: "mcp_server \<Rightarrow> service_config \<Rightarrow> check_result" where
  "check_result_of s svc =
     (case resolve_latest s svc of
        Inl (platform, e) \<Rightarrow>
          \<lparr>cr_name = sc_name svc, cr_platform = platform, cr_latest = [], cr_url = [], cr_error = e\<rparr>
      | Inr (platform, r) \<Rightarrow>
          \<lparr>cr_name = sc_name svc, cr_platform = platform, cr_latest = rel_tag r,
           cr_url = rel_html_url r, cr_error = []\<rparr>)"

definition json_of_check :: "check_result \<Rightarrow> json" where
  "json_of_check c = JObj
     ([(''name'', JStr (cr_name c)), (''platform'', JStr (cr_platform c)),
       (''latest_release'', JStr (cr_latest c)), (''url'', JStr (cr_url c))] @
      omit_empty ''error'' (cr_error c))"

definition check_results :: "mcp_server \<Rightarrow> check_result list" where
  "check_results s = map (check_result_of s) (cfg_services (ms_config s))"

definition handle_check_services :: "mcp_server \<Rightarrow> tool_result" where
  "handle_check_services s =
     (if cfg_services (ms_config s) = []
      then ToolText ''No services configured. Add services to ~/.config/releasewave/config.yaml''
      else ToolJson (JArr (map json_of_check (check_results s))))"

definition handle_find_outdated :: "mcp_server \<Rightarrow> tool_result" where
  "handle_find_outdated s =
     (if cfg_services (ms_config s) = [] then ToolText ''No services configured.''
      else ToolJson (JArr (map json_of_check (check_results s))))"

section \<open>Registries, clusters, advisories and the store\<close>

definition handle_list_image_tags :: "tool_env \<Rightarrow> tool_request \<Rightarrow> tool_result" where
  "handle_list_image_tags env req =
     (let img = tq_string req ''image'' [] in
      if img = [] then ToolError ''image is required''
      else case list_image_tags (tv_oci env) img of
        Inl e \<Rightarrow> tool_failed ''failed to list image tags'' e
      | Inr info \<Rightarrow> ToolJson (json_of_image (info\<lparr>im_tags := take 50 (im_tags info)\<rparr>)))"

definition handle_compare_image_tags :: "tool_env \<Rightarrow> tool_request \<Rightarrow> tool_result" where
  "handle_compare_image_tags env req =
     (let img = tq_string req ''image'' []; tag1 = tq_string req ''tag1'' []; tag2 = tq_string req ''tag2'' [] in
      if img = [] \<or> tag1 = [] \<or> tag2 = [] then ToolError ''image, tag1, and tag2 are required''
      else case compare_tag (tv_oci env) img tag1 tag2 of
        Inl e \<Rightarrow> tool_failed ''comparison failed'' e
      | Inr same \<Rightarrow> ToolJson (JObj [(''image'', JStr img), (''same_image'', JBool same),
          (''tag1'', JStr tag1), (''tag2'', JStr tag2)]))"

definition handle_list_k8s_deployments ::
  "((string, string) gomap \<Rightarrow> string list) \<Rightarrow> tool_env \<Rightarrow> tool_request \<Rightarrow> tool_result" where
  "handle_list_k8s_deployments keys env req =
     (case tv_cluster env (tq_string req ''kubeconfig'' []) (tq_string req ''context'' []) of
        Inl e \<Rightarrow> tool_failed ''k8s connection failed'' e
      | Inr cl \<Rightarrow>
          (case list_all_workloads cl (tq_string req ''namespace'' []) of
             Inl e \<Rightarrow> tool_failed ''failed to list deployments'' e
           | Inr ds \<Rightarrow> ToolJson (json_slice (json_of_deployed keys) ds)))"

definition handle_security_advisories :: "tool_env \<Rightarrow> tool_request \<Rightarrow> tool_result" where
  "handle_security_advisories env req =
     (let ecosystem = tq_string req ''ecosystem'' []; pkg = tq_string req ''package'' [];
          version = tq_string req ''version'' [] in
      if ecosystem = [] \<or> pkg = [] \<or> version = [] then ToolError ''ecosystem, package, and version are required''
      else case query_by_package (tv_osv env) (tv_parse env) ecosystem pkg version of
        Inl e \<Rightarrow> tool_failed ''vulnerability check failed'' e
      | Inr vulns \<Rightarrow> ToolJson (JObj
          [(''ecosystem'', JStr ecosystem), (''package'', JStr pkg),
           (''status'', JStr (if vulns = [] then ''no known vulnerabilities''
              else show_int (int (length vulns)) @ '' vulnerabilities found'')),
           (''total_vulns'', JNum (int (length vulns))), (''version'', JStr version),
           (''vulnerabilities'', JArr (map json_of_vulnerability vulns))]))"

definition handle_release_history ::
  "(gotime \<Rightarrow> int) \<Rightarrow> (gotime \<Rightarrow> string) \<Rightarrow> mcp_server \<Rightarrow> tool_request \<Rightarrow> tool_result" where
  "handle_release_history tkey jtime s req =
     (let name = tq_string req ''service'' []; limit = tq_int req ''limit'' 50 in
      if name = [] then ToolError ''service is required''
      else case ms_store s of
        None \<Rightarrow> ToolError (''no storage configured '' @ em_dash @ '' set storage.path in config'')
      | Some st \<Rightarrow>
          (case get_history tkey name limit st of
             Inl e \<Rightarrow> tool_failed ''query history'' e
           | Inr history \<Rightarrow> ToolJson (JObj
               [(''releases'', json_slice (json_of_stored jtime) history), (''service'', JStr name),
                (''total'', JNum (int (length history)))])))"

definition handle_discover_services :: "tool_env \<Rightarrow> tool_request \<Rightarrow> tool_result" where
  "handle_discover_services env req =
     (case discover (tv_cluster env (tq_string req ''kubeconfig'' []) (tq_string req ''context'' []))
         (tq_string req ''namespace'' []) of
        Inl e \<Rightarrow> tool_failed ''discovery failed'' e
      | Inr ss \<Rightarrow>
          if ss = [] then ToolText ''No services discovered.''
          else ToolJson (JObj [(''discovered'', JNum (int (length ss))),
            (''services'', JArr (map json_of_service_config ss))]))"

end
