(* ===== verification/Analysis.thy ===== *)
theory Analysis
  imports Mcp Daemon
begin

text \<open>
  The MCP tools that compare versions (\<open>internal/mcpserver/tools_extended.go\<close>): deployed
  against released versions, changelogs, the difference of a service's versions and the
  timeline.  The goroutines over the services write disjoint elements of a
  slice, so their result is a map over the services; the ones that append to a shared slice
  do it in the order of the services here, and the slice is sorted afterwards.
\<close>

section \<open>Versions\<close>

definition same_version :: "string \<Rightarrow> string \<Rightarrow> bool" where
  "same_version deployed tag \<longleftrightarrow> deployed \<noteq> [] \<and>
     (deployed = tag \<or> ''v'' @ deployed = tag \<or> deployed = trim_prefix ''v'' tag)"

text \<open>The map of deployed versions: a later workload of a name replaces an earlier one.\<close>

definition deployed_versions :: "deployed_service list \<Rightarrow> (string, string) gomap" where
  "deployed_versions ds = fold (\<lambda>d m. m(dp_name d \<mapsto> dp_app_version d)) ds Map.empty"

definition map_get :: "('k, string) gomap \<Rightarrow> 'k \<Rightarrow> string" where
  "map_get m k = (case m k of Some v \<Rightarrow> v | None \<Rightarrow> [])"

record comparison =
  cm_service :: string
  cm_platform :: string
  cm_latest :: string
  cm_deployed :: string
  cm_up_to_date :: bool
  cm_error :: string

definition compare_service :: "mcp_server \<Rightarrow> (string, string) gomap \<Rightarrow> service_config \<Rightarrow> comparison" where
  "compare_service s deployed svc =
     (case resolve_latest s svc of
        Inl (platform, e) \<Rightarrow>
          \<lparr>cm_service = sc_name svc, cm_platform = platform, cm_latest = [], cm_deployed = [],
           cm_up_to_date = False, cm_error = e\<rparr>
      | Inr (platform, r) \<Rightarrow>
          \<lparr>cm_service = sc_name svc, cm_platform = platform, cm_latest = rel_tag r,
           cm_deployed = map_get deployed (sc_name svc),
           cm_up_to_date = same_version (map_get deployed (sc_name svc)) (rel_tag r), cm_error = []\<rparr>)"

definition json_of_comparison :: "comparison \<Rightarrow> json" where
  "json_of_comparison c = JObj
     ([(''service'', JStr (cm_service c)), (''platform'', JStr (cm_platform c)),
       (''latest_release'', JStr (cm_latest c)), (''deployed_version'', JStr (cm_deployed c)),
       (''up_to_date'', JBool (cm_up_to_date c))] @ omit_empty ''error'' (cm_error c))"

definition handle_compare_release_vs_deployed :: "tool_env \<Rightarrow> mcp_server \<Rightarrow> tool_request \<Rightarrow> tool_result" where
  "handle_compare_release_vs_deployed env s req =
     (if cfg_services (ms_config s) = [] then ToolText ''No services configured.''
      else case tv_cluster env (tq_string req ''kubeconfig'' []) (tq_string req ''context'' []) of
        Inl e \<Rightarrow> tool_failed ''k8s connection failed'' e
      | Inr cl \<Rightarrow>
          (case list_all_workloads cl (tq_string req ''namespace'' ''default'') of
             Inl e \<Rightarrow> tool_failed ''failed to list deployments'' e
           | Inr ds \<Rightarrow> ToolJson (JArr (map (json_of_comparison \<circ> compare_service s (deployed_versions ds))
               (cfg_services (ms_config s))))))"

section \<open>Changelogs\<close>

record changelog_entry =
  ce_tag :: string
  ce_name :: string
  ce_date :: string
  ce_notes :: "string option"

definition changelog_entry_of :: "nat \<Rightarrow> release \<Rightarrow> changelog_entry" where
  "changelog_entry_of limit r =
     \<lparr>ce_tag = rel_tag r, ce_name = rel_name r, ce_date = format_date (rel_published_at r),
      ce_notes = (if rel_body r \<noteq> [] then Some (clip limit (rel_body r)) else None)\<rparr>"

definition json_of_changelog :: "changelog_entry \<Rightarrow> json" where
  "json_of_changelog c = JObj
     ([(''date'', JStr (ce_date c)), (''name'', JStr (ce_name c))] @
      (case ce_notes c of None \<Rightarrow> [] | Some n \<Rightarrow> [(''notes'', JStr n)]) @
      [(''tag'', JStr (ce_tag c))])"

text \<open>
  The loop both changelog tools run over the releases: \<open>in_range\<close> is set at the tag
  \<open>to\<close>, and the loop ends after the first tag that \<open>is_last\<close> holds of.
\<close>

fun changelog_range ::
  "nat \<Rightarrow> string \<Rightarrow> (string \<Rightarrow> bool) \<Rightarrow> bool \<Rightarrow> release list \<Rightarrow> changelog_entry list" where
  "changelog_range limit to is_last in_range [] = []"
| "changelog_range limit to is_last in_range (r # rs) =
     (let in_range = (in_range \<or> rel_tag r = to);
          entries = (if in_range then [changelog_entry_of limit r] else [])
      in if is_last (rel_tag r) then entries
         else entries @ changelog_range limit to is_last in_range rs)"

definition handle_changelog_between_versions :: "mcp_server \<Rightarrow> tool_request \<Rightarrow> tool_result" where
  "handle_changelog_between_versions s req =
     (let owner = tq_string req ''owner'' []; repo = tq_string req ''repo'' [];
          from_tag = tq_string req ''from'' []; to_tag = tq_string req ''to'' [] in
      with_repository s req [''owner'', ''repo'', ''from'', ''to''] ''owner, repo, from, and to are required'' (\<lambda>p.
        case pv_list_releases p owner repo of
          Inl e \<Rightarrow> tool_failed ''failed to list releases'' e
        | Inr releases \<Rightarrow>
            let changelog = changelog_range 500 to_tag (\<lambda>tag. tag = from_tag) False releases in
            if changelog = [] then
              ToolText (''No releases found between '' @ from_tag @ '' and '' @ to_tag)
            else ToolJson (JObj
              [(''changelog'', JArr (map json_of_changelog changelog)), (''from'', JStr from_tag),
               (''releases'', JNum (int (length changelog))), (''repository'', JStr (owner @ ''/'' @ repo)),
               (''to'', JStr to_tag)])))"

text \<open>\<open>release_diff\<close>: the first workload of the name counts; the cluster may be missing.\<close>

fun find_service :: "string \<Rightarrow> service_config list \<Rightarrow> service_config option" where
  "find_service name [] = None"
| "find_service name (svc # svcs) = (if sc_name svc = name then Some svc else find_service name svcs)"

fun first_deployed :: "string \<Rightarrow> deployed_service list \<Rightarrow> string" where
  "first_deployed name [] = []"
| "first_deployed name (d # ds) = (if dp_name d = name then dp_app_version d else first_deployed name ds)"

definition deployed_in :: "tool_env \<Rightarrow> tool_request \<Rightarrow> deployed_service list" where
  "deployed_in env req =
     (case tv_cluster env (tq_string req ''kubeconfig'' []) (tq_string req ''context'' []) of
        Inl e \<Rightarrow> []
      | Inr cl \<Rightarrow>
          (case list_all_workloads cl (tq_string req ''namespace'' ''default'') of
             Inl e \<Rightarrow> [] | Inr ds \<Rightarrow> ds))"

definition is_deployed_tag :: "string \<Rightarrow> string \<Rightarrow> bool" where
  "is_deployed_tag deployed tag \<longleftrightarrow>
     tag = deployed \<or> tag = ''v'' @ deployed \<or> trim_prefix ''v'' tag = deployed"

definition handle_release_diff :: "tool_env \<Rightarrow> mcp_server \<Rightarrow> tool_request \<Rightarrow> tool_result" where
  "handle_release_diff env s req =
     (let name = tq_string req ''service'' [] in
      if name = [] then ToolError ''service is required''
      else case find_service name (cfg_services (ms_config s)) of
        None \<Rightarrow> ToolError (''service '' @ quote name @ '' not found in config'')
      | Some svc \<Rightarrow>
          (case resolve s svc of
             Inl (platform, e) \<Rightarrow> ToolError e
           | Inr (parsed, p) \<Rightarrow>
               (case pv_latest p (svc_owner parsed) (svc_repo_name parsed) of
                  Inl e \<Rightarrow> tool_failed ''failed to get latest release'' e
                | Inr latest \<Rightarrow>
                    let deployed = first_deployed name (deployed_in env req);
                        base = [(''deployed_version'', JStr deployed), (''latest_release'', JStr (rel_tag latest)),
                          (''release_url'', JStr (rel_html_url latest)), (''service'', JStr name)]
                    in if deployed \<noteq> [] \<and> deployed \<noteq> rel_tag latest then
                         (case pv_list_releases p (svc_owner parsed) (svc_repo_name parsed) of
                            Inl e \<Rightarrow> ToolJson (JObj base)
                          | Inr releases \<Rightarrow>
                              let changelog = changelog_range 300 (rel_tag latest) (is_deployed_tag deployed) False releases
                              in ToolJson (JObj ((''changelog'', json_slice json_of_changelog changelog) # base @
                                   [(''versions_behind'', JNum (int (length changelog)))])))
                       else if deployed = rel_tag latest then
                         ToolJson (JObj (base @ [(''status'', JStr ''up to date'')]))
                       else ToolJson (JObj (base @
                         [(''status'', JStr ''deployed version unknown (no K8s connection or deployment not found)'')])))))"

section \<open>The timeline\<close>

record timeline_row =
  tr_date :: string
  tr_service :: string
  tr_tag :: string
  tr_name :: string
  tr_url :: string

definition timeline_row_of :: "service_config \<Rightarrow> release \<Rightarrow> timeline_row" where
  "timeline_row_of svc r =
     \<lparr>tr_date = format_minute (rel_published_at r), tr_service = sc_name svc, tr_tag = rel_tag r,
      tr_name = rel_name r, tr_url = rel_html_url r\<rparr>"

definition json_of_timeline_row :: "timeline_row \<Rightarrow> json" where
  "json_of_timeline_row t = JObj
     [(''date'', JStr (tr_date t)), (''service'', JStr (tr_service t)), (''tag'', JStr (tr_tag t)),
      (''name'', JStr (tr_name t)), (''url'', JStr (tr_url t))]"

text \<open>The loop over one service's releases, which ends at the first one before the cutoff.\<close>

fun recent_rows :: "gotime \<Rightarrow> service_config \<Rightarrow> release list \<Rightarrow> timeline_row list" where
  "recent_rows cutoff svc [] = []"
| "recent_rows cutoff svc (r # rs) =
     (if time_before (rel_published_at r) cutoff then []
      else timeline_row_of svc r # recent_rows cutoff svc rs)"

definition service_rows :: "mcp_server \<Rightarrow> gotime \<Rightarrow> service_config \<Rightarrow> timeline_row list" where
  "service_rows s cutoff svc =
     (case resolve s svc of
        Inl pe \<Rightarrow> []
      | Inr (parsed, p) \<Rightarrow>
          (case pv_list_releases p (svc_owner parsed) (svc_repo_name parsed) of
             Inl e \<Rightarrow> []
           | Inr releases \<Rightarrow> recent_rows cutoff svc releases))"

definition add_days :: "int \<Rightarrow> gotime \<Rightarrow> gotime" where
  "add_days n t = t\<lparr>instant := instant t + n * (24 * hour)\<rparr>"

definition later_date :: "timeline_row \<Rightarrow> timeline_row \<Rightarrow> bool" where
  "later_date a b \<longleftrightarrow> tr_date b < tr_date a"

definition timeline_rows :: "mcp_server \<Rightarrow> gotime \<Rightarrow> timeline_row list" where
  "timeline_rows s cutoff =
     sort_slice later_date (concat (map (service_rows s cutoff) (cfg_services (ms_config s))))"

definition handle_release_timeline :: "tool_env \<Rightarrow> mcp_server \<Rightarrow> tool_request \<Rightarrow> tool_result" where
  "handle_release_timeline env s req =
     (let days = tq_int req ''days'' 30 in
      if cfg_services (ms_config s) = [] then ToolText ''No services configured.''
      else
        let rows = timeline_rows s (add_days (- days) (tv_now env)) in
        ToolJson (JObj
          [(''period'', JStr (''last '' @ show_int days @ '' days'')),
           (''timeline'', json_slice json_of_timeline_row rows), (''total'', JNum (int (length rows)))]))"

section \<open>Facts about changelogs\<close>

lemma changelog_range_on:
  "\<not> list_ex (is_last \<circ> rel_tag) mid \<Longrightarrow> is_last (rel_tag f) \<Longrightarrow>
     changelog_range limit to is_last True (mid @ f # rest) = map (changelog_entry_of limit) (mid @ [f])"
  by (induction mid) auto

lemma changelog_range_off:
  "\<not> list_ex (\<lambda>r. is_last (rel_tag r) \<or> rel_tag r = to) newer \<Longrightarrow>
     changelog_range limit to is_last False (newer @ rs) = changelog_range limit to is_last False rs"
  by (induction newer) auto

lemma changelog_range_all:
  "\<not> list_ex (is_last \<circ> rel_tag) rs \<Longrightarrow>
     changelog_range limit to is_last True rs = map (changelog_entry_of limit) rs"
  by (induction rs) auto

lemma changelog_range_early:
  "\<not> list_ex (\<lambda>r. rel_tag r = to) newer \<Longrightarrow> rel_tag f \<noteq> to \<Longrightarrow> is_last (rel_tag f) \<Longrightarrow>
     changelog_range limit to is_last False (newer @ f # rest) = []"
  by (induction newer) auto

text \<open>
  C22. The changelog between two versions is the stretch of the newest-first release list
  from the newer version down to and including the older one.  When the newer tag is named as
  the older one (the arguments are swapped) the tool reports that there are no releases in
  between; when the older tag is unknown, everything from the newer version on is listed.
\<close>

theorem changelog_is_the_stretch_between:
  assumes "get_provider (ms_providers s) (tq_string req ''platform'' ''github'') = Inr p"
    and "pv_list_releases p (tq_string req ''owner'' []) (tq_string req ''repo'' []) = Inr (newer @ t # mid @ f # older)"
    and "distinct (map rel_tag (newer @ t # mid @ f # older))"
    and "tq_string req ''owner'' [] \<noteq> []" "tq_string req ''repo'' [] \<noteq> []"
    and "rel_tag t \<noteq> []" "rel_tag f \<noteq> []"
  shows "(tq_string req ''from'' [] = rel_tag f \<and> tq_string req ''to'' [] = rel_tag t \<longrightarrow>
      handle_changelog_between_versions s req = ToolJson (JObj
        [(''changelog'', JArr (map (json_of_changelog \<circ> changelog_entry_of 500) (t # mid @ [f]))),
         (''from'', JStr (rel_tag f)), (''releases'', JNum (int (length mid) + 2)),
         (''repository'', JStr (tq_string req ''owner'' [] @ ''/'' @ tq_string req ''repo'' [])),
         (''to'', JStr (rel_tag t))])) \<and>
    (tq_string req ''from'' [] = rel_tag t \<and> tq_string req ''to'' [] = rel_tag f \<longrightarrow>
      handle_changelog_between_versions s req =
        ToolText (''No releases found between '' @ rel_tag t @ '' and '' @ rel_tag f)) \<and>
    (tq_string req ''from'' [] \<noteq> [] \<and> tq_string req ''to'' [] = rel_tag t \<and>
        tq_string req ''from'' [] \<notin> rel_tag ` set (newer @ t # mid @ f # older) \<longrightarrow>
      handle_changelog_between_versions s req = ToolJson (JObj
        [(''changelog'', JArr (map (json_of_changelog \<circ> changelog_entry_of 500) (t # mid @ f # older))),
         (''from'', JStr (tq_string req ''from'' [])), (''releases'', JNum (int (length (t # mid @ f # older)))),
         (''repository'', JStr (tq_string req ''owner'' [] @ ''/'' @ tq_string req ''repo'' [])),
         (''to'', JStr (rel_tag t))]))"
proof -
  have off: "\<not> list_ex (\<lambda>r. rel_tag r = rel_tag f \<or> rel_tag r = rel_tag t) newer"
    "\<not> list_ex (\<lambda>r. rel_tag r = rel_tag f) newer"
    "\<not> list_ex ((\<lambda>tag. tag = rel_tag f) \<circ> rel_tag) mid" "rel_tag t \<noteq> rel_tag f"
    using assms(3) by (auto simp: list_ex_iff image_iff)
  have stretch: "changelog_range 500 (rel_tag t) (\<lambda>tag. tag = rel_tag f) False (newer @ t # mid @ f # older) =
      map (changelog_entry_of 500) (t # mid @ [f])"
    using changelog_range_off [of "\<lambda>tag. tag = rel_tag f" "rel_tag t" newer 500 "t # mid @ f # older"] off
      changelog_range_on [of "\<lambda>tag. tag = rel_tag f" mid f 500 "rel_tag t" older]
    by simp
  have swapped: "changelog_range 500 (rel_tag f) (\<lambda>tag. tag = rel_tag t) False (newer @ t # mid @ f # older) = []"
    using off by (intro changelog_range_early) auto
  have unknown: "changelog_range 500 (rel_tag t) (\<lambda>tag. tag = x) False (newer @ t # mid @ f # older) =
      map (changelog_entry_of 500) (t # mid @ f # older)"
    if "x \<notin> rel_tag ` set (newer @ t # mid @ f # older)" for x
  proof -
    have "\<not> list_ex (\<lambda>r. rel_tag r = x \<or> rel_tag r = rel_tag t) newer"
      using that assms(3) by (auto simp: list_ex_iff image_iff)
    moreover have "\<not> list_ex ((\<lambda>tag. tag = x) \<circ> rel_tag) (mid @ f # older)"
      using that by (auto simp: list_ex_iff image_iff)
    ultimately show ?thesis
      using changelog_range_off [of "\<lambda>tag. tag = x" "rel_tag t" newer 500 "t # mid @ f # older"]
        changelog_range_all [of "\<lambda>tag. tag = x" "mid @ f # older" 500 "rel_tag t"] that
      by auto
  qed
  show ?thesis
    using assms stretch swapped unknown
    by (auto simp: handle_changelog_between_versions_def with_repository_def Let_def)
qed

definition request_of :: "(string \<times> string) list \<Rightarrow> tool_request" where
  "request_of args = \<lparr>tq_string = (\<lambda>k d. case map_of args k of Some v \<Rightarrow> v | None \<Rightarrow> d), tq_int = (\<lambda>k d. d)\<rparr>"

definition history_provider :: "release list \<Rightarrow> provider" where
  "history_provider rs = \<lparr>pv_name = ''github'', pv_list_releases = (\<lambda>_ _. Inr rs),
     pv_latest = (\<lambda>_ _. Inr (hd rs)), pv_list_tags = (\<lambda>_ _. Inr []), pv_file = (\<lambda>_ _ _. Inr [])\<rparr>"

definition history_server :: "release list \<Rightarrow> mcp_server" where
  "history_server rs = \<lparr>ms_config = default_config, ms_providers = [''github'' \<mapsto> history_provider rs],
     ms_store = None, ms_known = Map.empty\<rparr>"

theorem changelog_is_the_stretch_between_witness:
  "handle_changelog_between_versions (history_server [demo_release ''v3'', demo_release ''v2'', demo_release ''v1''])
     (request_of [(''owner'', ''o''), (''repo'', ''r''), (''from'', ''v2''), (''to'', ''v3'')]) =
   ToolJson (JObj
     [(''changelog'', JArr (map (json_of_changelog \<circ> changelog_entry_of 500) [demo_release ''v3'', demo_release ''v2''])),
      (''from'', JStr ''v2''), (''releases'', JNum 2), (''repository'', JStr ''o/r''), (''to'', JStr ''v3'')])"
  using changelog_is_the_stretch_between [of "history_server [demo_release ''v3'', demo_release ''v2'', demo_release ''v1'']"
      "request_of [(''owner'', ''o''), (''repo'', ''r''), (''from'', ''v2''), (''to'', ''v3'')]"
      "history_provider [demo_release ''v3'', demo_release ''v2'', demo_release ''v1'']"
      "[]" "demo_release ''v3''" "[]" "demo_release ''v2''" "[demo_release ''v1'']"]
  by (simp add: history_server_def history_provider_def request_of_def get_provider_def demo_release_def)

text \<open>
  \<open>versions_behind\<close> of \<open>release_diff\<close> counts the deployed version itself.  For a service
  whose deployed version is in the list, with \<open>mid\<close> between it and the latest release at the
  head, the service is one release more than \<open>mid\<close> behind, and the tool reports two more.
\<close>

theorem versions_behind_counts_deployed:
  assumes "tq_string req ''service'' [] \<noteq> []"
    and "find_service (tq_string req ''service'' []) (cfg_services (ms_config s)) = Some svc"
    and "resolve s svc = Inr (parsed, p)"
    and "pv_latest p (svc_owner parsed) (svc_repo_name parsed) = Inr t"
    and "pv_list_releases p (svc_owner parsed) (svc_repo_name parsed) = Inr (t # mid @ f # older)"
    and "first_deployed (tq_string req ''service'' []) (deployed_in env req) = rel_tag f" "rel_tag f \<noteq> []"
    and "\<not> list_ex (\<lambda>r. is_deployed_tag (rel_tag f) (rel_tag r)) (t # mid)"
  shows "\<exists>fields. handle_release_diff env s req = ToolJson (JObj (fields @
      [(''versions_behind'', JNum (int (length (t # mid)) + 1))]))"
proof -
  have neq: "rel_tag f \<noteq> rel_tag t" using assms(8) by (auto simp: is_deployed_tag_def)
  have "changelog_range 300 (rel_tag t) (is_deployed_tag (rel_tag f)) False (t # mid @ f # older) =
      map (changelog_entry_of 300) (t # mid @ [f])"
    using assms(8) changelog_range_on [of "is_deployed_tag (rel_tag f)" mid f 300 "rel_tag t" older]
    by (simp add: is_deployed_tag_def comp_def)
  with neq show ?thesis
    using assms by (simp add: handle_release_diff_def Let_def)
qed

definition demo_tool_env :: "string \<Rightarrow> tool_env" where
  "demo_tool_env tag = \<lparr>tv_cluster = (\<lambda>_ _. Inr (demo_cluster\<lparr>cl_deployments :=
       (\<lambda>_. Inr [demo_workload\<lparr>wl_containers := [\<lparr>ct_image = ''ghcr.io/o/r:'' @ tag\<rparr>]\<rparr>])\<rparr>)),
     tv_oci = demo_oci, tv_osv = (\<lambda>_ _. OsvReply 404 (Inr [])), tv_parse = (\<lambda>_. None),
     tv_post = (\<lambda>_ _. Status 200), tv_now = zero_time\<rparr>"

theorem versions_behind_counts_deployed_witness:
  "\<exists>fields. handle_release_diff (demo_tool_env ''v1'')
     ((history_server [demo_release ''v2'', demo_release ''v1''])
        \<lparr>ms_config := default_config\<lparr>cfg_services := [demo_service]\<rparr>\<rparr>)
     (request_of [(''service'', sc_name demo_service)]) =
   ToolJson (JObj (fields @ [(''versions_behind'', JNum 2)]))"
proof -
  let ?rs = "[demo_release ''v2'', demo_release ''v1'']"
  let ?s = "(history_server ?rs)\<lparr>ms_config := default_config\<lparr>cfg_services := [demo_service]\<rparr>\<rparr>"
  let ?req = "request_of [(''service'', sc_name demo_service)]"
  have "first_deployed (tq_string ?req ''service'' []) (deployed_in (demo_tool_env ''v1'') ?req) = ''v1''"
    by (simp add: request_of_def demo_service_def deployed_in_def demo_tool_env_def demo_cluster_def
        demo_workload_def list_all_workloads_def list_deployments_def list_stateful_sets_def deployed_of_def
        extract_version_def version_labels_def)
  moreover obtain parsed where "resolve ?s demo_service = Inr (parsed, history_provider ?rs)"
    by (simp add: resolve_def demo_service_def parse_repo_def Let_def contains_def get_provider_def
        history_server_def)
  ultimately show ?thesis
    using versions_behind_counts_deployed [of ?req ?s demo_service parsed "history_provider ?rs"
        "demo_release ''v2''" "[]" "demo_release ''v1''" "[]" "demo_tool_env ''v1''"]
    by (simp add: request_of_def demo_service_def history_provider_def demo_release_def is_deployed_tag_def
        trim_prefix_def)
qed

end
