(* ===== verification/Deps.thy ===== *)
theory Deps
  imports Analysis "HOL-Library.AList"
begin

text \<open>
  Dependency files (\<open>parseDeps\<close> and \<open>handleDependencyMatrix\<close> of
  \<open>internal/mcpserver/tools_extended.go\<close>): reading \<open>go.mod\<close>, \<open>package.json\<close> and
  \<open>requirements.txt\<close>, and the matrix of the files of all services.  A map of dependencies is an
  association list without duplicate keys, so that its length is the length of the Go map.
\<close>

section \<open>White space\<close>

text \<open>
  The code points \<open>unicode.IsSpace\<close> accepts, in UTF-8.  A byte sequence of the list is a space
  wherever it begins: its first byte is never inside another code point.
\<close>

definition space_runes :: "string list" where
  "space_runes =
     map (\<lambda>c. [c]) [CHR 0x09, CHR 0x0A, CHR 0x0B, CHR 0x0C, CHR 0x0D, CHR 0x20] @
     [[CHR 0xC2, CHR 0x85], [CHR 0xC2, CHR 0xA0], [CHR 0xE1, CHR 0x9A, CHR 0x80]] @
     map (\<lambda>n. [CHR 0xE2, CHR 0x80, char_of (n :: nat)]) ([0x80..<0x8B] @ [0xA8, 0xA9, 0xAF]) @
     [[CHR 0xE2, CHR 0x81, CHR 0x9F], [CHR 0xE3, CHR 0x80, CHR 0x80]]"

definition first_of :: "string list \<Rightarrow> string \<Rightarrow> string option" where
  "first_of ws s = List.find (\<lambda>w. w \<noteq> [] \<and> has_prefix w s) ws"

lemma first_of_shorter:
  assumes "first_of ws s = Some w"
  shows "length s - length w < length s"
proof -
  have "w \<noteq> []" "has_prefix w s"
    using assms by (auto simp: first_of_def find_Some_iff)
  then show ?thesis by (auto simp: has_prefix_iff)
qed

function trim_by :: "string list \<Rightarrow> string \<Rightarrow> string" where
  "trim_by ws s = (case first_of ws s of None \<Rightarrow> s | Some w \<Rightarrow> trim_by ws (drop (length w) s))"
  by auto
termination by (relation "measure (length \<circ> snd)") (simp_all add: first_of_shorter)

text \<open>\<open>strings.TrimSpace\<close>: the right end is trimmed on the reversed string.\<close>

definition trim_space :: "string \<Rightarrow> string" where
  "trim_space s = rev (trim_by (map rev space_runes) (rev (trim_by space_runes s)))"

text \<open>\<open>strings.Fields\<close>, with the bytes of the present field in reverse.\<close>

function fields_from :: "string \<Rightarrow> string \<Rightarrow> string list" where
  "fields_from cur [] = (if cur = [] then [] else [rev cur])"
| "fields_from cur (c # s) =
     (case first_of space_runes (c # s) of
        None \<Rightarrow> fields_from (c # cur) s
      | Some w \<Rightarrow> (if cur = [] then [] else [rev cur]) @ fields_from [] (drop (length w) (c # s)))"
  by pat_completeness auto
termination
proof (relation "measure (length \<circ> snd)", simp, simp)
  fix cur c s w
  assume "first_of space_runes (c # s) = Some w"
  then show "(([], drop (length w) (c # s)), cur, c # s) \<in> measure (length \<circ> snd)"
    using first_of_shorter [of space_runes "c # s" w] by simp
qed

declare trim_by.simps [simp del] fields_from.simps [simp del]

definition fields :: "string \<Rightarrow> string list" where
  "fields s = fields_from [] s"

section \<open>Reading dependency files\<close>

type_synonym deps = "(string \<times> string) list"

definition line_feed :: char where
  "line_feed = CHR 0x0A"

definition mod_line :: "string \<Rightarrow> bool \<times> deps \<Rightarrow> bool \<times> deps" where
  "mod_line raw = (\<lambda>(in_require, deps).
     let line = trim_space raw; parts = fields line in
     if line = ''require ('' then (True, deps)
     else if in_require \<and> line = '')'' then (False, deps)
     else
       let deps = (if in_require \<and> 2 \<le> length parts \<and> \<not> has_prefix ''//'' (parts ! 0)
                   then AList.update (parts ! 0) (parts ! 1) deps else deps);
           deps = (if has_prefix ''require '' line \<and> \<not> contains ''('' line \<and> 3 \<le> length parts
                   then AList.update (parts ! 1) (parts ! 2) deps else deps)
       in (in_require, deps))"

text \<open>Decoding \<open>map[string]string\<close>: a \<open>null\<close> element is the empty string, a \<open>null\<close> map is empty.\<close>

fun put_strings :: "deps \<Rightarrow> (string \<times> json) list \<Rightarrow> deps option" where
  "put_strings m [] = Some m"
| "put_strings m ((k, v) # kvs) =
     (case v of
        JNull \<Rightarrow> put_strings (AList.update k [] m) kvs
      | JStr s \<Rightarrow> put_strings (AList.update k s m) kvs
      | _ \<Rightarrow> None)"

fun bind_string_map :: "string \<Rightarrow> deps \<Rightarrow> (string \<times> json) list \<Rightarrow> deps option" where
  "bind_string_map name old [] = Some old"
| "bind_string_map name old ((k, v) # ms) =
     (if same_key name k then
        (case v of
           JNull \<Rightarrow> bind_string_map name [] ms
         | JObj kvs \<Rightarrow>
             (case put_strings old kvs of None \<Rightarrow> None | Some new \<Rightarrow> bind_string_map name new ms)
         | _ \<Rightarrow> None)
      else bind_string_map name old ms)"

definition dec_package :: "deps \<times> deps \<Rightarrow> json \<Rightarrow> (deps \<times> deps) option" where
  "dec_package old v =
     (case members v of
        None \<Rightarrow> None
      | Some ms \<Rightarrow>
          (case (bind_string_map ''dependencies'' (fst old) ms, bind_string_map ''devDependencies'' (snd old) ms) of
             (Some a, Some b) \<Rightarrow> Some (a, b)
           | _ \<Rightarrow> None))"

definition package_deps :: "(string \<Rightarrow> json option) \<Rightarrow> string \<Rightarrow> deps" where
  "package_deps parse content =
     (case unmarshal parse dec_package ([], []) content of
        Inl e \<Rightarrow> []
      | Inr (a, b) \<Rightarrow> fold (\<lambda>(k, v). AList.update k v) b (fold (\<lambda>(k, v). AList.update k v) a []))"

definition separators :: "string list" where
  "separators = [''=='', ''>='', ''<='', ''~='', ''!='']"

text \<open>The loop over the separators: the first one that occurs after the first byte.\<close>

fun constraint_at :: "string \<Rightarrow> string list \<Rightarrow> nat option" where
  "constraint_at line [] = None"
| "constraint_at line (sep # seps) =
     (case index_of sep line of
        Some i \<Rightarrow> if 0 < i then Some i else constraint_at line seps
      | None \<Rightarrow> constraint_at line seps)"

definition requirement_line :: "string \<Rightarrow> deps \<Rightarrow> deps" where
  "requirement_line raw deps =
     (let line = trim_space raw in
      if line = [] \<or> has_prefix ''#'' line then deps
      else
        let deps = (case constraint_at line separators of
                      Some i \<Rightarrow> AList.update (take i line) (drop i line) deps
                    | None \<Rightarrow> deps)
        in if map_of deps line = None \<and> \<not> list_ex (\<lambda>c. c \<in> set ''=<>~!'') line
           then AList.update line ''*'' deps else deps)"

definition parse_deps :: "(string \<Rightarrow> json option) \<Rightarrow> string \<Rightarrow> string \<Rightarrow> deps" where
  "parse_deps parse filename content =
     (if filename = ''go.mod'' then snd (fold mod_line (split_on line_feed content) (False, []))
      else if filename = ''package.json'' then package_deps parse content
      else if filename = ''requirements.txt'' then fold requirement_line (split_on line_feed content) []
      else [])"

section \<open>Words and lines\<close>

text \<open>A word: printable ASCII without spaces, as module names and versions are.\<close>

definition plain_char :: "char \<Rightarrow> bool" where
  "plain_char c \<longleftrightarrow> CHR ''!'' \<le> c \<and> c \<le> CHR ''~''"

definition plain_word :: "string \<Rightarrow> bool" where
  "plain_word w \<longleftrightarrow> w \<noteq> [] \<and> list_all plain_char w"

lemma space_rune_ends:
  "list_all (\<lambda>w. w \<noteq> [] \<and> \<not> plain_char (hd w) \<and> \<not> plain_char (last w)) space_runes"
  by code_simp

lemma first_of_plain:
  assumes "plain_char c" "list_all (\<lambda>w. w \<noteq> [] \<and> \<not> plain_char (hd w)) ws"
  shows "first_of ws (c # s) = None"
proof -
  have "\<not> (w \<noteq> [] \<and> has_prefix w (c # s))" if "w \<in> set ws" for w
  proof -
    from that assms(2) have "w \<noteq> []" "\<not> plain_char (hd w)" by (auto simp: list_all_iff)
    with assms(1) show ?thesis by (cases w) auto
  qed
  then show ?thesis by (auto simp: first_of_def find_None_iff)
qed

lemma no_space_at:
  assumes "plain_char c"
  shows "first_of space_runes (c # s) = None" "first_of (map rev space_runes) (c # s) = None"
  using space_rune_ends
  by (auto intro!: first_of_plain [OF assms] simp: list_all_iff hd_rev)

lemma trim_by_Nil [simp]: "trim_by ws [] = []"
proof -
  have "first_of ws [] = None" by (auto simp: first_of_def find_None_iff neq_Nil_conv)
  then show ?thesis by (simp add: trim_by.simps)
qed

lemma trim_by_plain: "plain_char c \<Longrightarrow> trim_by space_runes (c # s) = c # s"
  by (simp add: trim_by.simps no_space_at)

lemma trim_by_rev_plain: "plain_char c \<Longrightarrow> trim_by (map rev space_runes) (c # s) = c # s"
  by (simp add: trim_by.simps no_space_at)

text \<open>A text between two plain characters is trimmed to itself.\<close>

lemma trim_space_plain:
  assumes "s \<noteq> []" "plain_char (hd s)" "plain_char (last s)"
  shows "trim_space s = s"
proof -
  have "trim_by space_runes s = s"
    using assms(1,2) trim_by_plain by (cases s) auto
  moreover have "trim_by (map rev space_runes) (rev s) = rev s"
    using assms(1,3) trim_by_rev_plain [of "last s" "rev (butlast s)"]
    by (metis append_butlast_last_id rev.simps(2) rev_rev_ident)
  ultimately show ?thesis by (simp add: trim_space_def)
qed

lemma first_of_tab: "first_of space_runes (CHR 0x09 # s) = Some [CHR 0x09]"
  by (simp add: first_of_def space_runes_def)

lemma first_of_blank: "first_of space_runes (CHR '' '' # s) = Some '' ''"
  by (simp add: first_of_def space_runes_def)

lemma trim_space_tab: "trim_space (CHR 0x09 # s) = trim_space s"
  by (simp add: trim_space_def trim_by.simps [of space_runes "CHR 0x09 # s"] first_of_tab)

lemma fields_from_word:
  "list_all plain_char w \<Longrightarrow> fields_from cur (w @ s) = fields_from (rev w @ cur) s"
  by (induction w arbitrary: cur) (simp_all add: fields_from.simps no_space_at)

lemma fields_from_blank:
  "fields_from cur (CHR '' '' # s) = (if cur = [] then [] else [rev cur]) @ fields_from [] s"
  by (simp add: fields_from.simps first_of_blank)

lemma fields_word: "plain_word w \<Longrightarrow> fields w = [w]"
  using fields_from_word [of w "[]" "[]"] by (simp add: fields_def plain_word_def fields_from.simps)

lemma fields_words: "plain_word w \<Longrightarrow> fields (w @ CHR '' '' # s) = w # fields s"
  by (simp add: fields_def plain_word_def fields_from_word fields_from_blank)

lemma plain_not_newline: "list_all plain_char w \<Longrightarrow> line_feed \<notin> set w"
proof -
  have "\<not> plain_char line_feed" by code_simp
  then show "list_all plain_char w \<Longrightarrow> line_feed \<notin> set w" by (auto simp: list_all_iff)
qed

lemma plain_ends:
  "plain_word w \<Longrightarrow> w \<noteq> [] \<and> plain_char (hd w) \<and> plain_char (last w)"
  by (auto simp: plain_word_def list_all_iff)

section \<open>Round trips\<close>

text \<open>Keys of a map stay distinct, and a new key goes to its end.\<close>

lemma distinct_keys_update: "distinct (map fst m) \<Longrightarrow> distinct (map fst (AList.update k v m))"
  by (rule distinct_update)

lemma update_new: "k \<notin> fst ` set m \<Longrightarrow> AList.update k v m = m @ [(k, v)]"
  by (induction m) auto

lemma put_strings_distinct:
  "put_strings m kvs = Some m' \<Longrightarrow> distinct (map fst m) \<Longrightarrow> distinct (map fst m')"
  by (induction m kvs rule: put_strings.induct)
    (auto split: json.splits intro: distinct_keys_update)

lemma fold_update_distinct:
  "distinct (map fst m) \<Longrightarrow> distinct (map fst (fold (\<lambda>(k, v). AList.update k v) kvs m))"
  by (induction kvs arbitrary: m) (auto intro: distinct_keys_update)

lemma mod_line_distinct:
  "distinct (map fst (snd st)) \<Longrightarrow> distinct (map fst (snd (mod_line raw st)))"
  by (auto simp: mod_line_def Let_def split: prod.splits intro!: distinct_keys_update)

lemma requirement_line_distinct:
  "distinct (map fst m) \<Longrightarrow> distinct (map fst (requirement_line raw m))"
  by (auto simp: requirement_line_def Let_def split: option.splits intro!: distinct_keys_update)

lemma fold_keeps: "(\<And>x s. P s \<Longrightarrow> P (f x s)) \<Longrightarrow> P s \<Longrightarrow> P (fold f xs s)"
  by (induction xs arbitrary: s) simp_all

lemma parse_deps_distinct: "distinct (map fst (parse_deps parse filename content))"
proof -
  have "distinct (map fst (snd (fold mod_line ls (False, []))))" for ls
    by (rule fold_keeps [where P = "\<lambda>st. distinct (map fst (snd st))"]) (simp_all add: mod_line_distinct)
  moreover have "distinct (map fst (fold requirement_line ls []))" for ls
    by (rule fold_keeps [where P = "\<lambda>m. distinct (map fst m)"]) (simp_all add: requirement_line_distinct)
  moreover have "distinct (map fst (package_deps parse content))"
    by (auto simp: package_deps_def intro!: fold_update_distinct split: sum.splits)
  ultimately show ?thesis by (simp add: parse_deps_def)
qed

text \<open>A \<open>go.mod\<close> file with one block of requirements.\<close>

definition mod_file :: "string \<Rightarrow> deps \<Rightarrow> string" where
  "mod_file name reqs = join_with [line_feed]
     ([''module '' @ name, [], ''require (''] @
      map (\<lambda>(m, v). CHR 0x09 # m @ CHR '' '' # v) reqs @ ['')'', []])"

definition module_path :: "string \<Rightarrow> bool" where
  "module_path m \<longleftrightarrow> plain_word m \<and> \<not> has_prefix ''//'' m \<and> m \<noteq> ''require''"

lemma mod_line_other:
  assumes "plain_word m"
  shows "mod_line (''module '' @ m) (False, d) = (False, d)" "mod_line [] (r, d) = (r, d)"
proof -
  have "trim_space (''module '' @ m) = ''module '' @ m"
    using plain_ends [OF assms] by (intro trim_space_plain) (simp_all add: plain_char_def)
  then show "mod_line (''module '' @ m) (False, d) = (False, d)" by (simp add: mod_line_def)
  show "mod_line [] (r, d) = (r, d)"
    by (simp add: mod_line_def trim_space_def fields_def fields_from.simps)
qed

lemma trim_space_words:
  "plain_word m \<Longrightarrow> plain_word v \<Longrightarrow> trim_space (m @ CHR '' '' # v) = m @ CHR '' '' # v"
  using plain_ends [of m] plain_ends [of v] by (intro trim_space_plain) simp_all

lemma first_split_unique:
  "c \<notin> set a \<Longrightarrow> c \<notin> set b \<Longrightarrow> a @ c # v = b @ c # w \<longleftrightarrow> a = b \<and> v = w"
proof (induction a arbitrary: b)
  case Nil
  then show ?case by (cases b) auto
next
  case (Cons x a)
  then show ?case by (cases b) auto
qed

lemma append_blank_eq:
  assumes "plain_word m" "list_all plain_char n"
  shows "m @ CHR '' '' # v = n @ CHR '' '' # w \<longleftrightarrow> m = n \<and> v = w"
proof -
  have "\<not> plain_char (CHR '' '')" by code_simp
  with assms have "CHR '' '' \<notin> set m" "CHR '' '' \<notin> set n"
    by (auto simp: plain_word_def list_all_iff)
  then show ?thesis by (rule first_split_unique)
qed

lemma mod_line_requirement:
  assumes "module_path m" "plain_word v"
  shows "mod_line (CHR 0x09 # m @ CHR '' '' # v) (True, d) = (True, AList.update m v d)"
proof -
  let ?line = "m @ CHR '' '' # v"
  have m: "plain_word m" "\<not> has_prefix ''//'' m" "m \<noteq> ''require''"
    using assms(1) by (auto simp: module_path_def)
  have trim: "trim_space (CHR 0x09 # ?line) = ?line"
    by (simp add: trim_space_tab trim_space_words [OF m(1) assms(2)])
  have parts: "fields ?line = [m, v]"
    by (simp add: fields_words [OF m(1)] fields_word [OF assms(2)])
  have not: "?line \<noteq> ''require '' @ w" for w
    using append_blank_eq [OF m(1), of "''require''" v w] m(3) by (auto simp: plain_char_def)
  then have "?line \<noteq> ''require (''" "\<not> has_prefix ''require '' ?line"
    using not [of "''(''"] by (auto simp: has_prefix_iff)
  moreover have "?line \<noteq> '')''" by (cases m) auto
  ultimately show ?thesis
    using m(2) by (simp add: mod_line_def trim parts)
qed

lemma fold_mod_lines:
  "list_all (\<lambda>(m, v). module_path m \<and> plain_word v) reqs \<Longrightarrow> distinct (map fst (d @ reqs)) \<Longrightarrow>
   fold mod_line (map (\<lambda>(m, v). CHR 0x09 # m @ CHR '' '' # v) reqs) (True, d) = (True, d @ reqs)"
proof (induction reqs arbitrary: d)
  case Nil
  then show ?case by simp
next
  case (Cons r reqs)
  obtain m v where r: "r = (m, v)" by (cases r)
  have "AList.update m v d = d @ [(m, v)]"
    using Cons.prems(2) r by (intro update_new) auto
  with Cons.IH [of "d @ [(m, v)]"] Cons.prems r show ?case
    by (simp add: mod_line_requirement)
qed

lemma mod_line_open: "mod_line ''require ('' (r, d) = (True, d)"
  and mod_line_close: "mod_line '')'' (True, d) = (False, d)"
proof -
  have "trim_space ''require ('' = ''require (''" "trim_space '')'' = '')''"
    by (simp_all add: trim_space_plain plain_char_def)
  then show "mod_line ''require ('' (r, d) = (True, d)" "mod_line '')'' (True, d) = (False, d)"
    by (simp_all add: mod_line_def)
qed

lemma go_mod_roundtrip:
  assumes "plain_word name" "list_all (\<lambda>(m, v). module_path m \<and> plain_word v) reqs" "distinct (map fst reqs)"
  shows "parse_deps parse ''go.mod'' (mod_file name reqs) = reqs"
proof -
  let ?lines = "[''module '' @ name, [], ''require (''] @
      map (\<lambda>(m, v). CHR 0x09 # m @ CHR '' '' # v) reqs @ ['')'', []]"
  have "line_feed \<notin> set w" if "plain_word w" for w
    using that plain_not_newline by (simp add: plain_word_def)
  moreover have "line_feed \<notin> {CHR 0x09, CHR '' ''}" "line_feed \<notin> set ''module ''" "line_feed \<notin> set ''require (''"
    "line_feed \<noteq> CHR '')''"
    by (simp_all add: line_feed_def)
  ultimately have "line_feed \<notin> set l" if "l \<in> set ?lines" for l
    using that assms(1,2) by (fastforce simp: list_all_iff module_path_def)
  then have "split_on line_feed (mod_file name reqs) = ?lines"
    unfolding mod_file_def by (intro split_join) simp_all
  then show ?thesis
    using assms fold_mod_lines [of reqs "[]"]
    by (simp add: parse_deps_def mod_line_other(2) mod_line_other(1) [simplified] mod_line_open mod_line_close)
qed

text \<open>A \<open>requirements.txt\<close> file with one constraint, or none, on each line.\<close>

definition requirement_text :: "string \<times> string \<Rightarrow> string" where
  "requirement_text = (\<lambda>(name, c). if c = ''*'' then name else name @ c)"

definition requirements_file :: "deps \<Rightarrow> string" where
  "requirements_file reqs = join_with [line_feed] (map requirement_text reqs)"

definition name_char :: "char \<Rightarrow> bool" where
  "name_char c \<longleftrightarrow> plain_char c \<and> c \<notin> set ''=<>~!#''"

definition package_name :: "string \<Rightarrow> bool" where
  "package_name n \<longleftrightarrow> n \<noteq> [] \<and> list_all name_char n"

definition constraint :: "string \<Rightarrow> bool" where
  "constraint c \<longleftrightarrow> c = ''*'' \<or>
     list_ex (\<lambda>sep. has_prefix sep c \<and> package_name (drop (length sep) c)) separators"

lemma name_char_simps: "name_char c \<Longrightarrow> plain_char c \<and> c \<notin> set ''=<>~!#''"
  by (simp add: name_char_def)

lemma package_name_plain:
  "package_name n \<Longrightarrow> plain_word n \<and> set n \<inter> set ''=<>~!#'' = {}"
  by (auto simp: package_name_def plain_word_def list_all_iff name_char_def)

lemma separator_shape:
  "sep \<in> set separators \<Longrightarrow> \<exists>a. sep = [a, CHR ''=''] \<and> a \<in> set ''=><~!''"
  by (auto simp: separators_def)

text \<open>In a line with one constraint, that constraint's operator is the only separator.\<close>

lemma other_separator:
  assumes "sep \<in> set separators" "sep' \<in> set separators" "sep' \<noteq> sep"
    and "set n \<inter> set ''=<>~!#'' = {}" "set v \<inter> set ''=<>~!#'' = {}"
  shows "index_of sep' (n @ sep @ v) = None"
proof -
  obtain a where a: "sep = [a, CHR ''='']" "a \<in> set ''=><~!''" using separator_shape [OF assms(1)] by auto
  obtain b where b: "sep' = [b, CHR ''='']" "b \<in> set ''=><~!''" using separator_shape [OF assms(2)] by auto
  have neq: "a \<noteq> b" using a b assms(3) by auto
  have "n @ sep @ v \<noteq> x @ sep' @ y" for x y
  proof
    assume eq: "n @ sep @ v = x @ sep' @ y"
    then have "b \<in> set (n @ sep @ v)" by (simp add: b(1))
    with b(2) assms(4,5) neq a(1) have eqb: "b = CHR ''=''" by auto
    have one: "count_list (n @ sep @ v) (CHR ''='') = 1"
      using assms(4,5) a(1) neq eqb by (auto simp: count_list_0_iff)
    have "2 \<le> count_list (x @ sep' @ y) (CHR ''='')" using b(1) eqb by simp
    with one show False unfolding eq by linarith
  qed
  then show ?thesis by (auto simp: index_of_None_iff)
qed

lemma index_of_here:
  assumes "set n \<inter> set ''=<>~!#'' = {}" "sep \<in> set separators"
  shows "index_of sep (n @ sep @ v) = Some (length n)"
  using assms(1)
proof (induction n)
  case Nil
  then show ?case using separator_shape [OF assms(2)] by auto
next
  case (Cons c n)
  obtain a where a: "sep = [a, CHR ''='']" "a \<in> set ''=><~!''" using separator_shape [OF assms(2)] by auto
  have "\<not> has_prefix sep ((c # n) @ sep @ v)" using Cons.prems a by auto
  with Cons show ?case by simp
qed

lemma constraint_at_here:
  assumes "set n \<inter> set ''=<>~!#'' = {}" "n \<noteq> []" "sep \<in> set separators" "set v \<inter> set ''=<>~!#'' = {}"
    and "set seps \<subseteq> set separators" "sep \<in> set seps"
  shows "constraint_at (n @ sep @ v) seps = Some (length n)"
  using assms(5,6)
proof (induction seps)
  case (Cons s seps)
  then show ?case
    using other_separator [OF assms(3) _ _ assms(1,4), of s] index_of_here [OF assms(1,3), of v] assms(2)
    by (cases "s = sep") auto
qed simp

lemma constraint_at_none:
  assumes "set n \<inter> set ''=<>~!#'' = {}" "set seps \<subseteq> set separators"
  shows "constraint_at n seps = None"
  using assms(2)
proof (induction seps)
  case (Cons s seps)
  obtain a where a: "s = [a, CHR ''='']" "a \<in> set ''=><~!''"
    using separator_shape [of s] Cons.prems by auto
  have "n \<noteq> x @ s @ y" for x y using assms(1) a by auto
  then have "index_of s n = None" by (auto simp: index_of_None_iff)
  with Cons show ?case by simp
qed simp

lemma requirement_line_read:
  assumes "package_name n" "constraint c" "n \<notin> fst ` set d"
  shows "requirement_line (requirement_text (n, c)) d = d @ [(n, c)]"
proof -
  note n = package_name_plain [OF assms(1)]
  have ends: "n \<noteq> []" "plain_char (hd n)" "plain_char (last n)" using plain_ends n by auto
  have no_hash: "\<not> has_prefix ''#'' (n @ s)" for s using n ends(1) by (cases n) auto
  have d: "map_of d n = None" by (simp add: map_of_eq_None_iff assms(3))
  show ?thesis
  proof (cases "c = ''*''")
    case True
    have "\<not> list_ex (\<lambda>x. x \<in> set ''=<>~!'') n" using n by (auto simp: list_ex_iff)
    with True n d no_hash [of "[]"] ends assms(3) show ?thesis
      by (simp add: requirement_line_def requirement_text_def trim_space_plain constraint_at_none update_new)
  next
    case False
    then obtain sep v where sep: "sep \<in> set separators" "c = sep @ v" "package_name v"
      using assms(2) by (auto simp: constraint_def list_ex_iff has_prefix_iff)
    note v = package_name_plain [OF sep(3)]
    obtain a where "sep = [a, CHR ''='']" using separator_shape [OF sep(1)] by blast
    then have "CHR ''='' \<in> set (n @ sep @ v)" by simp
    moreover have "CHR ''='' \<in> set ''=<>~!''" by simp
    ultimately have eq: "list_ex (\<lambda>x. x \<in> set ''=<>~!'') (n @ sep @ v)" unfolding list_ex_iff by blast
    have "trim_space (n @ sep @ v) = n @ sep @ v"
      using ends v plain_ends by (intro trim_space_plain) simp_all
    moreover have "constraint_at (n @ sep @ v) separators = Some (length n)"
      using n v ends(1) sep(1) by (intro constraint_at_here) auto
    ultimately show ?thesis
      using False sep(2) eq no_hash [of "sep @ v"] ends(1) assms(3)
      by (simp add: requirement_line_def requirement_text_def update_new del: list_ex_append)
  qed
qed

lemma fold_requirement_lines:
  "list_all (\<lambda>(n, c). package_name n \<and> constraint c) reqs \<Longrightarrow> distinct (map fst (d @ reqs)) \<Longrightarrow>
     fold requirement_line (map requirement_text reqs) d = d @ reqs"
proof (induction reqs arbitrary: d)
  case (Cons r reqs)
  obtain n c where r: "r = (n, c)" by (cases r)
  have "n \<notin> fst ` set d" using Cons.prems(2) r by auto
  with Cons.IH [of "d @ [(n, c)]"] Cons.prems r show ?case
    by (simp add: requirement_line_read)
qed simp

lemma requirement_no_newline:
  assumes "package_name n" "constraint c"
  shows "line_feed \<notin> set (requirement_text (n, c))"
proof -
  have word: "line_feed \<notin> set w" if "package_name w" for w
    using package_name_plain [OF that] plain_not_newline by (simp add: plain_word_def)
  have "line_feed \<notin> set sep" if "sep \<in> set separators" for sep
    using that by (auto simp: separators_def line_feed_def)
  moreover have "c = ''*'' \<or> (\<exists>sep v. c = sep @ v \<and> sep \<in> set separators \<and> package_name v)"
    using assms(2) by (auto simp: constraint_def list_ex_iff has_prefix_iff)
  ultimately show ?thesis
    using word assms(1) unfolding requirement_text_def by (auto split: if_splits)
qed

lemma requirements_roundtrip:
  assumes "reqs \<noteq> []" "list_all (\<lambda>(n, c). package_name n \<and> constraint c) reqs" "distinct (map fst reqs)"
  shows "parse_deps parse ''requirements.txt'' (requirements_file reqs) = reqs"
proof -
  have "line_feed \<notin> set l" if "l \<in> set (map requirement_text reqs)" for l
  proof -
    from that obtain n c where "(n, c) \<in> set reqs" "l = requirement_text (n, c)" by auto
    with assms(2) requirement_no_newline [of n c] show ?thesis by (auto simp: list_all_iff)
  qed
  then have "split_on line_feed (requirements_file reqs) = map requirement_text reqs"
    unfolding requirements_file_def using assms(1) by (intro split_join) auto
  with fold_requirement_lines [of reqs "[]"] assms show ?thesis
    by (simp add: parse_deps_def)
qed

lemma put_strings_plain:
  "put_strings m (map (\<lambda>(k, v). (k, JStr v)) kvs) = Some (fold (\<lambda>(k, v). AList.update k v) kvs m)"
  by (induction kvs arbitrary: m) auto

lemma map_of_fold_update:
  "map_of (fold (\<lambda>(k, v). AList.update k v) kvs m) = map_of m ++ map_of (rev kvs)"
  by (induction kvs arbitrary: m) (auto simp: update_conv' fun_eq_iff map_add_def split: option.splits)

lemma map_of_rev_distinct:
  assumes "distinct (map fst m)"
  shows "map_of (rev m) = map_of m"
proof
  fix k
  have "distinct (map fst (rev m))" using assms by (simp add: rev_map [symmetric])
  then show "map_of (rev m) k = map_of m k"
    using assms map_of_eq_None_iff [of m k] map_of_eq_None_iff [of "rev m" k]
    by (cases "map_of m k") (auto simp: map_of_eq_Some_iff)
qed

lemma package_json_merge:
  assumes "parse content = Some (JObj
      [(''dependencies'', JObj (map (\<lambda>(k, v). (k, JStr v)) a)),
       (''devDependencies'', JObj (map (\<lambda>(k, v). (k, JStr v)) b))])"
  shows "map_of (parse_deps parse ''package.json'' content) = map_of (rev a) ++ map_of (rev b)"
proof -
  have keys: "same_key ''dependencies'' ''dependencies''" "same_key ''devDependencies'' ''devDependencies''"
    "\<not> same_key ''dependencies'' ''devDependencies''" "\<not> same_key ''devDependencies'' ''dependencies''"
    by (simp_all add: same_key_def lower_char_def)
  let ?up = "fold (\<lambda>(k, v). AList.update k v)"
  have "dec_package ([], []) (JObj
      [(''dependencies'', JObj (map (\<lambda>(k, v). (k, JStr v)) a)),
       (''devDependencies'', JObj (map (\<lambda>(k, v). (k, JStr v)) b))]) = Some (?up a [], ?up b [])"
    by (simp add: dec_package_def keys put_strings_plain)
  then have "parse_deps parse ''package.json'' content = ?up (?up b []) (?up (?up a []) [])"
    using assms by (simp add: parse_deps_def package_deps_def unmarshal_def)
  moreover have "map_of (rev (?up m [])) = map_of (rev m)" for m :: deps
    by (subst map_of_rev_distinct) (simp_all add: fold_update_distinct map_of_fold_update)
  ultimately show ?thesis by (simp add: map_of_fold_update)
qed

text \<open>
  C29. Dependency files are read back.  The requirements of a \<open>go.mod\<close> block and of a
  \<open>requirements.txt\<close> file with one constraint or none on a line come back exactly and in order,
  and \<open>package.json\<close> gives both its maps together, \<open>devDependencies\<close> winning.  Names are
  printable words; a Go module is not a comment and not named \<open>require\<close>.
\<close>

theorem dependency_files_roundtrip:
  assumes "distinct (map fst reqs)"
  shows "(plain_word name \<and> list_all (\<lambda>(m, v). module_path m \<and> plain_word v) reqs \<longrightarrow>
      parse_deps parse ''go.mod'' (mod_file name reqs) = reqs) \<and>
    (reqs \<noteq> [] \<and> list_all (\<lambda>(n, c). package_name n \<and> constraint c) reqs \<longrightarrow>
      parse_deps parse ''requirements.txt'' (requirements_file reqs) = reqs) \<and>
    (parse content = Some (JObj
        [(''dependencies'', JObj (map (\<lambda>(k, v). (k, JStr v)) reqs)),
         (''devDependencies'', JObj (map (\<lambda>(k, v). (k, JStr v)) dev))]) \<longrightarrow>
      map_of (parse_deps parse ''package.json'' content) = map_of reqs ++ map_of (rev dev))"
  using go_mod_roundtrip [OF _ _ assms] requirements_roundtrip [OF _ _ assms]
    package_json_merge [of parse content reqs dev] map_of_rev_distinct [OF assms] by auto

theorem dependency_files_roundtrip_witness:
  "parse_deps (\<lambda>_. None) ''go.mod'' (mod_file ''app'' [(''golang.org/x/net'', ''v0.9.0''), (''a.b/c'', ''v1'')]) =
     [(''golang.org/x/net'', ''v0.9.0''), (''a.b/c'', ''v1'')] \<and>
   parse_deps (\<lambda>_. None) ''requirements.txt'' (requirements_file [(''django'', ''>=4.2''), (''flask'', ''*'')]) =
     [(''django'', ''>=4.2''), (''flask'', ''*'')] \<and>
   map_of (parse_deps (\<lambda>_. Some (JObj
       [(''dependencies'', JObj (map (\<lambda>(k, v). (k, JStr v)) [(''react'', ''18'')])),
        (''devDependencies'', JObj (map (\<lambda>(k, v). (k, JStr v)) [(''jest'', ''29'')]))])) ''package.json'' []) ''jest'' =
     Some ''29''"
proof -
  let ?a = "[(''golang.org/x/net'', ''v0.9.0''), (''a.b/c'', ''v1'')]"
  let ?b = "[(''django'', ''>=4.2''), (''flask'', ''*'')]"
  let ?c = "[(''react'', ''18'')]"
  have "list_all (\<lambda>(m, v). module_path m \<and> plain_word v) ?a \<and> plain_word ''app'' \<and>
      list_all (\<lambda>(n, c). package_name n \<and> constraint c) ?b" by code_simp
  then show ?thesis
    using dependency_files_roundtrip [of ?a "''app''"] dependency_files_roundtrip [of ?b]
      dependency_files_roundtrip [where reqs = ?c and dev = "[(''jest'', ''29'')]" and content = "[]"]
    by auto
qed

text \<open>
  The separators are tried in a fixed order, not from the left: a second constraint with an
  earlier separator becomes the version, and the first one part of the name.
\<close>

lemma second_constraint_splits_name:
  "parse_deps parse ''requirements.txt'' ''foo!=1,>=2'' = [(''foo!=1,'', ''>=2'')]"
proof -
  have "trim_space ''foo!=1,>=2'' = ''foo!=1,>=2''"
    by (intro trim_space_plain) (simp_all add: plain_char_def)
  then show ?thesis
    by (simp add: parse_deps_def line_feed_def requirement_line_def separators_def)
qed

section \<open>The dependency matrix\<close>

definition dep_files :: "string list" where
  "dep_files = [''go.mod'', ''package.json'', ''requirements.txt'']"

record dep_info =
  di_service :: string
  di_file :: string
  di_content :: string
  di_error :: string
  di_platform :: string

text \<open>The loop over \<open>depFiles\<close>: the first file the provider returns, with its name.\<close>

fun first_file :: "provider \<Rightarrow> service \<Rightarrow> string list \<Rightarrow> (string \<times> string) option" where
  "first_file p svc [] = None"
| "first_file p svc (f # fs) =
     (case pv_file p (svc_owner svc) (svc_repo_name svc) f of
        Inl e \<Rightarrow> first_file p svc fs
      | Inr content \<Rightarrow> Some (f, content))"

text \<open>What the goroutine of a service appends: one row, or none when no file is found.\<close>

definition dep_rows :: "mcp_server \<Rightarrow> service_config \<Rightarrow> dep_info list" where
  "dep_rows s svc =
     (case resolve s svc of
        Inl (platform, e) \<Rightarrow>
          [\<lparr>di_service = sc_name svc, di_file = [], di_content = [], di_error = e, di_platform = platform\<rparr>]
      | Inr (parsed, p) \<Rightarrow>
          (case first_file p parsed dep_files of
             None \<Rightarrow> []
           | Some (f, content) \<Rightarrow>
               [\<lparr>di_service = sc_name svc, di_file = f, di_content = clip 5000 content, di_error = [],
                 di_platform = svc_platform parsed\<rparr>]))"

definition dep_matrix :: "mcp_server \<Rightarrow> dep_info list" where
  "dep_matrix s =
     sort_slice (\<lambda>a b. di_service a < di_service b) (concat (map (dep_rows s) (cfg_services (ms_config s))))"

definition json_of_dep_info :: "dep_info \<Rightarrow> json" where
  "json_of_dep_info d = JObj
     ([(''service'', JStr (di_service d)), (''file'', JStr (di_file d))] @
      omit_empty ''content'' (di_content d) @ omit_empty ''error'' (di_error d) @
      [(''platform'', JStr (di_platform d))])"

definition handle_dependency_matrix :: "mcp_server \<Rightarrow> tool_result" where
  "handle_dependency_matrix s =
     (if cfg_services (ms_config s) = [] then ToolText ''No services configured.''
      else ToolJson (JObj
        [(''dependency_files'', JArr (map JStr dep_files)),
         (''results'', json_slice json_of_dep_info (dep_matrix s)),
         (''services'', JNum (int (length (cfg_services (ms_config s)))))]))"

lemma service_order: "weak_order (\<lambda>a b. di_service a < di_service b)"
  by (rule weak_order_key)

lemma first_file_Some:
  "first_file p svc fs = Some (f, content) \<Longrightarrow>
     \<exists>before after. fs = before @ f # after \<and> pv_file p (svc_owner svc) (svc_repo_name svc) f = Inr content \<and>
       list_all (\<lambda>g. \<exists>e. pv_file p (svc_owner svc) (svc_repo_name svc) g = Inl e) before"
proof (induction fs)
  case (Cons g fs)
  show ?case
  proof (cases "pv_file p (svc_owner svc) (svc_repo_name svc) g")
    case (Inl e)
    with Cons obtain before after where "fs = before @ f # after"
      "pv_file p (svc_owner svc) (svc_repo_name svc) f = Inr content"
      "list_all (\<lambda>g. \<exists>e. pv_file p (svc_owner svc) (svc_repo_name svc) g = Inl e) before" by auto
    with Inl show ?thesis by (intro exI [of _ "g # before"] exI [of _ after]) simp
  next
    case (Inr c)
    with Cons.prems show ?thesis by (intro exI [of _ "[]"] exI [of _ fs]) simp
  qed
qed simp

lemma resolve_error: "resolve s svc = Inl (platform, e) \<Longrightarrow> e \<noteq> []"
  by (auto simp: resolve_def parse_repo_def get_provider_def unsupported_platform_def Let_def
      split: sum.splits option.splits if_splits)

lemma dep_rows_found:
  assumes "d \<in> set (dep_rows s svc)" "di_error d = []"
  shows "\<exists>parsed p f content. resolve s svc = Inr (parsed, p) \<and>
    first_file p parsed dep_files = Some (f, content) \<and>
    d = \<lparr>di_service = sc_name svc, di_file = f, di_content = clip 5000 content, di_error = [],
         di_platform = svc_platform parsed\<rparr>"
proof (cases "resolve s svc")
  case (Inl pe)
  with assms resolve_error [of s svc "fst pe" "snd pe"] show ?thesis
    by (cases pe) (simp add: dep_rows_def)
next
  case (Inr x)
  obtain parsed p where x: "x = (parsed, p)" by (cases x)
  show ?thesis
  proof (cases "first_file p parsed dep_files")
    case None
    with Inr x assms(1) show ?thesis by (simp add: dep_rows_def)
  next
    case (Some fc)
    with Inr x assms(1) show ?thesis by (cases fc) (simp add: dep_rows_def)
  qed
qed

lemma length_dep_rows: "length (dep_rows s svc) \<le> 1"
  by (auto simp: dep_rows_def split: sum.splits option.splits prod.splits)

lemma length_concat_rows:
  "length (concat (map (dep_rows s) svcs)) \<le> length svcs"
proof (induction svcs)
  case (Cons svc svcs)
  with length_dep_rows [of s svc] show ?case by simp
qed simp


definition file_server :: "(string \<Rightarrow> string \<Rightarrow> string result) \<Rightarrow> service_config list \<Rightarrow> mcp_server" where
  "file_server files svcs = \<lparr>ms_config = default_config\<lparr>cfg_services := svcs\<rparr>,
     ms_providers = [''github'' \<mapsto> (demo_provider ''v1'')\<lparr>pv_file := (\<lambda>_. files)\<rparr>],
     ms_store = None, ms_known = Map.empty\<rparr>"

definition one_file :: "string \<Rightarrow> string \<Rightarrow> string \<Rightarrow> string result" where
  "one_file repo name f =
     (if f = name then Inr (repo @ '' requires x'') else Inl (Plain ''none''))"


end
