(* ===== verification/Service_Graph.thy ===== *)
theory Service_Graph
  imports Deps
begin

text \<open>
  The service graph (\<open>handleServiceGraph\<close> of \<open>internal/mcpserver/tools_extended.go\<close>): which
  services share which dependencies.  Go maps that are ranged over are association lists
  without duplicate keys; Go leaves the order of the range open, and the properties do not
  depend on it.
\<close>

section \<open>The dependencies of the services\<close>

record svc_deps =
  sd_name :: string
  sd_platform :: string
  sd_file :: string
  sd_deps :: deps
  sd_error :: string

definition svc_deps_of :: "(string \<Rightarrow> json option) \<Rightarrow> mcp_server \<Rightarrow> service_config \<Rightarrow> svc_deps" where
  "svc_deps_of parse s svc =
     (case resolve s svc of
        Inl (platform, e) \<Rightarrow>
          \<lparr>sd_name = sc_name svc, sd_platform = platform, sd_file = [], sd_deps = [], sd_error = e\<rparr>
      | Inr (parsed, p) \<Rightarrow>
          (case first_file p parsed dep_files of
             Some (f, content) \<Rightarrow>
               \<lparr>sd_name = sc_name svc, sd_platform = svc_platform parsed, sd_file = f,
                sd_deps = parse_deps parse f content, sd_error = []\<rparr>
           | None \<Rightarrow>
               \<lparr>sd_name = sc_name svc, sd_platform = svc_platform parsed, sd_file = [], sd_deps = [],
                sd_error = ''no dependency file found''\<rparr>))"

definition all_svc_deps :: "(string \<Rightarrow> json option) \<Rightarrow> mcp_server \<Rightarrow> svc_deps list" where
  "all_svc_deps parse s = map (svc_deps_of parse s) (cfg_services (ms_config s))"

section \<open>Shared dependencies and edges\<close>

text \<open>\<open>depToServices\<close>: for each dependency the services that use it, with their versions.\<close>

type_synonym dep_users = "(string \<times> (string \<times> string) list) list"

definition users_in :: "dep_users \<Rightarrow> string \<Rightarrow> (string \<times> string) list" where
  "users_in m dep = (case map_of m dep of Some us \<Rightarrow> us | None \<Rightarrow> [])"

definition add_users :: "svc_deps \<Rightarrow> dep_users \<Rightarrow> dep_users" where
  "add_users r = fold (\<lambda>(dep, ver) m. AList.update dep (users_in m dep @ [(sd_name r, ver)]) m) (sd_deps r)"

definition dep_to_services :: "svc_deps list \<Rightarrow> dep_users" where
  "dep_to_services rs = fold add_users rs []"

definition shared_deps :: "svc_deps list \<Rightarrow> dep_users" where
  "shared_deps rs = filter (\<lambda>(dep, us). 2 \<le> length us) (dep_to_services rs)"

record graph_edge =
  ge_service1 :: string
  ge_service2 :: string
  ge_shared :: "string list"

text \<open>The nested loops over \<open>i < j\<close>.\<close>

fun pairs :: "'a list \<Rightarrow> ('a \<times> 'a) list" where
  "pairs [] = []"
| "pairs (x # xs) = map (Pair x) xs @ pairs xs"

definition in_order :: "string \<times> string \<Rightarrow> string \<times> string" where
  "in_order = (\<lambda>(a, b). if b < a then (b, a) else (a, b))"

definition edge_key :: "string \<times> string \<Rightarrow> string" where
  "edge_key p = fst p @ ''|'' @ snd p"

definition add_edge :: "string \<times> string \<times> string \<Rightarrow> (string \<times> graph_edge) list \<Rightarrow> (string \<times> graph_edge) list" where
  "add_edge = (\<lambda>(dep, p) m.
     let q = in_order p in
     case map_of m (edge_key q) of
       Some e \<Rightarrow> AList.update (edge_key q) (e\<lparr>ge_shared := ge_shared e @ [dep]\<rparr>) m
     | None \<Rightarrow> AList.update (edge_key q) \<lparr>ge_service1 = fst q, ge_service2 = snd q, ge_shared = [dep]\<rparr> m)"

definition edge_links :: "dep_users \<Rightarrow> (string \<times> string \<times> string) list" where
  "edge_links common = concat (map (\<lambda>(dep, us). map (Pair dep) (pairs (map fst us))) common)"

definition sort_strings :: "string list \<Rightarrow> string list" where
  "sort_strings = sort_slice (<)"

definition graph_edges :: "dep_users \<Rightarrow> graph_edge list" where
  "graph_edges common =
     sort_slice (\<lambda>a b. length (ge_shared b) < length (ge_shared a))
       (map (\<lambda>(k, e). e\<lparr>ge_shared := sort_strings (ge_shared e)\<rparr>) (fold add_edge (edge_links common) []))"

section \<open>The handler\<close>

definition json_of_node :: "svc_deps \<Rightarrow> json" where
  "json_of_node r = JObj
     ([(''name'', JStr (sd_name r)), (''platform'', JStr (sd_platform r))] @
      omit_empty ''dep_file'' (sd_file r) @
      [(''dep_count'', JNum (int (length (sd_deps r))))] @ omit_empty ''error'' (sd_error r))"

definition json_of_edge :: "graph_edge \<Rightarrow> json" where
  "json_of_edge e = JObj
     [(''service1'', JStr (ge_service1 e)), (''service2'', JStr (ge_service2 e)),
      (''shared_deps'', JArr (map JStr (ge_shared e)))]"

definition json_of_shared :: "dep_users \<Rightarrow> json" where
  "json_of_shared m = JObj (map (\<lambda>(dep, us). (dep, JArr (map (\<lambda>(svc, ver).
       JObj [(''service'', JStr svc), (''version'', JStr ver)]) us)))
     (sort_slice (\<lambda>a b. fst a < fst b) m))"

definition handle_service_graph :: "(string \<Rightarrow> json option) \<Rightarrow> mcp_server \<Rightarrow> tool_result" where
  "handle_service_graph parse s =
     (if cfg_services (ms_config s) = [] then ToolText ''No services configured.''
      else
        let rs = all_svc_deps parse s; common = shared_deps rs; edges = graph_edges common in
        ToolJson (JObj
          [(''edges'', JArr (map json_of_edge edges)),
           (''nodes'', JArr (map json_of_node rs)),
           (''service_connections'', JNum (int (length edges))),
           (''services'', JNum (int (length rs))),
           (''shared_deps'', JNum (int (length common))),
           (''shared_libraries'', json_of_shared common)]))"

section \<open>Which services use a dependency\<close>

definition uses_dep :: "svc_deps \<Rightarrow> string \<Rightarrow> bool" where
  "uses_dep r dep \<longleftrightarrow> dep \<in> fst ` set (sd_deps r)"

lemma fold_users:
  assumes "distinct (map fst ds)"
  shows "map fst (users_in (fold (\<lambda>(dep, ver) m. AList.update dep (users_in m dep @ [(name, ver)]) m) ds m) dep) =
    map fst (users_in m dep) @ (if dep \<in> fst ` set ds then [name] else [])"
  using assms
proof (induction ds arbitrary: m)
  case Nil
  then show ?case by simp
next
  case (Cons d ds)
  obtain k v where d: "d = (k, v)" by (cases d)
  have "users_in (AList.update k (users_in m k @ [(name, v)]) m) dep =
      (if dep = k then users_in m k @ [(name, v)] else users_in m dep)"
    by (simp add: users_in_def update_conv')
  with Cons d show ?case by auto
qed

lemma users_add:
  "distinct (map fst (sd_deps r)) \<Longrightarrow>
     map fst (users_in (add_users r m) dep) =
     map fst (users_in m dep) @ (if uses_dep r dep then [sd_name r] else [])"
  by (simp add: add_users_def fold_users uses_dep_def)

definition user_names :: "svc_deps list \<Rightarrow> string \<Rightarrow> string list" where
  "user_names rs dep = map sd_name (filter (\<lambda>r. uses_dep r dep) rs)"

lemma dep_to_services_users:
  assumes "list_all (\<lambda>r. distinct (map fst (sd_deps r))) rs"
  shows "map fst (users_in (dep_to_services rs) dep) = user_names rs dep"
proof -
  have "map fst (users_in (fold add_users rs m) dep) = map fst (users_in m dep) @ user_names rs dep" for m
    using assms by (induction rs arbitrary: m) (auto simp: users_add user_names_def)
  from this [of "[]"] show ?thesis by (simp add: dep_to_services_def users_in_def)
qed

lemma dep_to_services_distinct: "distinct (map fst (dep_to_services rs))"
  unfolding dep_to_services_def add_users_def
  by (rule fold_keeps [where P = "\<lambda>m. distinct (map fst m)"], rule fold_keeps [where P = "\<lambda>m. distinct (map fst m)"])
    (auto intro: distinct_keys_update)

text \<open>The shared dependencies with the names of their users.\<close>

lemma shared_deps_users:
  assumes "list_all (\<lambda>r. distinct (map fst (sd_deps r))) rs" "(dep, us) \<in> set (shared_deps rs)"
  shows "map fst us = user_names rs dep \<and> 2 \<le> length (user_names rs dep)"
proof -
  from assms(2) have us: "(dep, us) \<in> set (dep_to_services rs)" "2 \<le> length us"
    by (auto simp: shared_deps_def)
  then have "users_in (dep_to_services rs) dep = us"
    using dep_to_services_distinct by (simp add: users_in_def map_of_is_SomeI)
  with us(2) dep_to_services_users [OF assms(1), of dep] show ?thesis
    by (metis length_map)
qed

lemma shared_deps_complete:
  assumes "list_all (\<lambda>r. distinct (map fst (sd_deps r))) rs" "2 \<le> length (user_names rs dep)"
  shows "dep \<in> fst ` set (shared_deps rs)"
proof -
  have "2 \<le> length (users_in (dep_to_services rs) dep)"
    using dep_to_services_users [OF assms(1), of dep] assms(2) by (metis length_map)
  then obtain us where "map_of (dep_to_services rs) dep = Some us" "2 \<le> length us"
    by (auto simp: users_in_def split: option.splits)
  then have "(dep, us) \<in> set (shared_deps rs)"
    by (auto simp: shared_deps_def dest: map_of_SomeD)
  then show ?thesis by force
qed

lemma shared_deps_distinct: "distinct (map fst (shared_deps rs))"
  unfolding shared_deps_def by (rule distinct_map_filter [OF dep_to_services_distinct])

section \<open>The edges\<close>

lemma in_order_eq:
  assumes "a < b"
  shows "in_order (x, y) = (a, b) \<longleftrightarrow> x = a \<and> y = b \<or> x = b \<and> y = a"
  using assms by (auto simp: in_order_def)

text \<open>Each unordered pair of distinct names is met exactly once.\<close>

lemma filter_one:
  "distinct xs \<Longrightarrow> map (\<lambda>_. c) (filter ((=) y) xs) = (if y \<in> set xs then [c] else [])"
  by (induction xs) auto

lemma pairs_once:
  assumes "a < b" "distinct ns"
  shows "map (\<lambda>_. c) (filter (\<lambda>p. in_order p = (a, b)) (pairs ns)) = (if a \<in> set ns \<and> b \<in> set ns then [c] else [])"
  using assms(2)
proof (induction ns)
  case Nil
  then show ?case by simp
next
  case (Cons x ns)
  have "filter (\<lambda>p. in_order p = (a, b)) (map (Pair x) ns) =
      map (Pair x) (filter (\<lambda>y. x = a \<and> y = b \<or> x = b \<and> y = a) ns)"
    by (simp add: filter_map comp_def in_order_eq [OF assms(1)])
  moreover have "filter (\<lambda>y. x = a \<and> y = b \<or> x = b \<and> y = a) ns =
      (if x = a then filter ((=) b) ns else if x = b then filter ((=) a) ns else [])"
    using assms(1) by (auto intro!: filter_cong)
  ultimately have "map (\<lambda>_. c) (filter (\<lambda>p. in_order p = (a, b)) (map (Pair x) ns)) =
      (if x = a \<and> b \<in> set ns \<or> x = b \<and> a \<in> set ns then [c] else [])"
    using Cons.prems assms(1) by (auto simp: comp_def filter_one filter_empty_conv)
  with Cons assms(1) show ?case by auto
qed

definition deps_of_link :: "(string \<times> string \<times> string) list \<Rightarrow> string \<times> string \<Rightarrow> string list" where
  "deps_of_link ls q = map fst (filter (\<lambda>l. in_order (snd l) = q) ls)"

definition edge_of :: "(string \<times> string \<times> string) list \<Rightarrow> string \<times> string \<Rightarrow> graph_edge" where
  "edge_of ls q = \<lparr>ge_service1 = fst q, ge_service2 = snd q, ge_shared = deps_of_link ls q\<rparr>"

lemma edge_key_inj:
  "CHR ''|'' \<notin> set (fst q) \<Longrightarrow> CHR ''|'' \<notin> set (fst r) \<Longrightarrow> edge_key q = edge_key r \<longleftrightarrow> q = r"
  by (simp add: edge_key_def first_split_unique prod_eq_iff)

lemma add_edge_eq:
  "add_edge (dep, p) m = AList.update (edge_key (in_order p))
     (case map_of m (edge_key (in_order p)) of
        Some e \<Rightarrow> e\<lparr>ge_shared := ge_shared e @ [dep]\<rparr>
      | None \<Rightarrow> \<lparr>ge_service1 = fst (in_order p), ge_service2 = snd (in_order p), ge_shared = [dep]\<rparr>) m"
  by (simp add: add_edge_def Let_def split: option.splits)

text \<open>
  The map of edges after all links, when no name contains the separator of the keys: one entry
  for every pair that was linked, with the dependencies in the order of the links.
\<close>

lemma edge_map:
  assumes "\<And>q. q \<in> in_order ` snd ` set ls \<Longrightarrow> CHR ''|'' \<notin> set (fst q)"
  shows "distinct (map fst (fold add_edge ls [])) \<and>
    (\<forall>k e. map_of (fold add_edge ls []) k = Some e \<longleftrightarrow>
      (\<exists>q \<in> in_order ` snd ` set ls. k = edge_key q \<and> e = edge_of ls q))"
  using assms
proof (induction ls rule: rev_induct)
  case Nil
  then show ?case by simp
next
  case (snoc l ls)
  obtain dep p where l: "l = (dep, p)" by (cases l)
  let ?m = "fold add_edge ls []" and ?q = "in_order p"
  have bar: "CHR ''|'' \<notin> set (fst q)" if "q = ?q \<or> q \<in> in_order ` snd ` set ls" for q
    using snoc.prems that l by auto
  have IH: "distinct (map fst ?m)" "\<And>k e. map_of ?m k = Some e \<longleftrightarrow>
      (\<exists>q \<in> in_order ` snd ` set ls. k = edge_key q \<and> e = edge_of ls q)"
    using snoc.IH snoc.prems by auto
  have same: "edge_of (ls @ [l]) q = edge_of ls q" if "q \<noteq> ?q" for q
    using that l by (simp add: edge_of_def deps_of_link_def)
  have step: "add_edge l ?m = AList.update (edge_key ?q) (edge_of (ls @ [l]) ?q) ?m"
  proof (cases "map_of ?m (edge_key ?q)")
    case None
    have "?q \<notin> in_order ` snd ` set ls"
    proof
      assume "?q \<in> in_order ` snd ` set ls"
      then have "map_of ?m (edge_key ?q) = Some (edge_of ls ?q)" unfolding IH(2) by blast
      with None show False by simp
    qed
    then have "filter (\<lambda>l. in_order (snd l) = ?q) ls = []" by (force simp: filter_empty_conv image_iff)
    with None l show ?thesis by (simp add: add_edge_eq edge_of_def deps_of_link_def)
  next
    case (Some e)
    then obtain r where "r \<in> in_order ` snd ` set ls" "edge_key ?q = edge_key r" "e = edge_of ls r"
      unfolding IH(2) by blast
    then have "e = edge_of ls ?q" using edge_key_inj [of ?q r] bar by simp
    with Some l show ?thesis by (simp add: add_edge_eq edge_of_def deps_of_link_def)
  qed
  have "map_of (add_edge l ?m) k = Some e \<longleftrightarrow>
      (\<exists>q \<in> in_order ` snd ` set (ls @ [l]). k = edge_key q \<and> e = edge_of (ls @ [l]) q)" for k e
  proof (cases "k = edge_key ?q")
    case True
    have unique: "q = ?q" if "q \<in> insert ?q (in_order ` snd ` set ls)" "k = edge_key q" for q
    proof -
      have "q = ?q \<or> q \<in> in_order ` snd ` set ls" using that(1) by blast
      then show ?thesis using edge_key_inj [OF bar bar [of ?q], of q] that(2) True by simp
    qed
    have set: "in_order ` snd ` set (ls @ [l]) = insert ?q (in_order ` snd ` set ls)" using l by simp
    have "map_of (add_edge l ?m) k = Some (edge_of (ls @ [l]) ?q)"
      using True by (simp only: step update_conv' fun_upd_same)
    then show ?thesis
      unfolding set using True unique by (metis insertI1 option.inject)
  next
    case False
    then have "map_of (add_edge l ?m) k = map_of ?m k" unfolding step update_conv' by simp
    moreover have "(\<exists>q \<in> in_order ` snd ` set ls. k = edge_key q \<and> e = edge_of ls q) \<longleftrightarrow>
        (\<exists>q \<in> insert ?q (in_order ` snd ` set ls). k = edge_key q \<and> e = edge_of (ls @ [l]) q)"
      using False same by (metis insert_iff)
    moreover have "in_order ` snd ` set (ls @ [l]) = insert ?q (in_order ` snd ` set ls)" using l by simp
    ultimately show ?thesis using IH(2) by simp
  qed
  moreover have "distinct (map fst (add_edge l ?m))"
    unfolding step by (rule distinct_keys_update [OF IH(1)])
  ultimately show ?case by simp
qed

lemma deps_of_edge_links:
  assumes "a < b" "list_all (\<lambda>(dep, us). distinct (map fst us)) common"
  shows "deps_of_link (edge_links common) (a, b) =
    map fst (filter (\<lambda>(dep, us). a \<in> fst ` set us \<and> b \<in> fst ` set us) common)"
  using assms(2)
proof (induction common)
  case Nil
  then show ?case by (simp add: deps_of_link_def edge_links_def)
next
  case (Cons d common)
  obtain dep us where d: "d = (dep, us)" by (cases d)
  have "deps_of_link (edge_links (d # common)) (a, b) =
      map (\<lambda>_. dep) (filter (\<lambda>p. in_order p = (a, b)) (pairs (map fst us))) @
      deps_of_link (edge_links common) (a, b)"
    by (simp add: deps_of_link_def edge_links_def d filter_map comp_def)
  with Cons d show ?case by (simp add: pairs_once [OF assms(1)])
qed

lemma set_pairs_distinct:
  "distinct ns \<Longrightarrow> p \<in> set (pairs ns) \<Longrightarrow> fst p \<noteq> snd p \<and> fst p \<in> set ns \<and> snd p \<in> set ns"
  by (induction ns) auto

lemma in_order_distinct: "fst p \<noteq> snd p \<Longrightarrow> fst (in_order p) < snd (in_order p)"
  by (auto simp: in_order_def split: prod.splits)

lemma edge_links_ordered:
  assumes "list_all (\<lambda>(dep, us). distinct (map fst us)) common" "q \<in> in_order ` snd ` set (edge_links common)"
  shows "fst q < snd q \<and> (\<exists>(dep, us) \<in> set common. fst q \<in> fst ` set us \<and> snd q \<in> fst ` set us)"
proof -
  obtain dep us p where p: "(dep, us) \<in> set common" "p \<in> set (pairs (map fst us))" "q = in_order p"
    using assms(2) by (auto simp: edge_links_def)
  have "distinct (map fst us)" using p(1) assms(1) by (auto simp: list_all_iff)
  from set_pairs_distinct [OF this p(2)]
  have "fst p \<noteq> snd p" "fst p \<in> fst ` set us" "snd p \<in> fst ` set us" by simp_all
  then have "fst q < snd q" "fst q \<in> fst ` set us" "snd q \<in> fst ` set us"
    using p(3) in_order_distinct [of p] by (auto simp: in_order_def split: prod.splits)
  with p(1) show ?thesis by blast
qed

lemma edge_links_has:
  assumes "a < b" "list_all (\<lambda>(dep, us). distinct (map fst us)) common"
    and "(dep, us) \<in> set common" "a \<in> fst ` set us" "b \<in> fst ` set us"
  shows "(a, b) \<in> in_order ` snd ` set (edge_links common)"
proof -
  have "dep \<in> set (deps_of_link (edge_links common) (a, b))"
    unfolding deps_of_edge_links [OF assms(1,2)] using assms(3-5) by force
  then show ?thesis by (force simp: deps_of_link_def)
qed

section \<open>The graph is exact\<close>

definition common_deps :: "svc_deps \<Rightarrow> svc_deps \<Rightarrow> string set" where
  "common_deps r r' = fst ` set (sd_deps r) \<inter> fst ` set (sd_deps r')"

text \<open>What the edges must be: a pair of services in order with all they share, sorted.\<close>

definition edge_spec :: "svc_deps list \<Rightarrow> graph_edge \<Rightarrow> bool" where
  "edge_spec rs e \<longleftrightarrow>
     (\<exists>r \<in> set rs. \<exists>r' \<in> set rs. sd_name r < sd_name r' \<and> common_deps r r' \<noteq> {} \<and>
        e = \<lparr>ge_service1 = sd_name r, ge_service2 = sd_name r', ge_shared = sorted_list_of_set (common_deps r r')\<rparr>)"

lemma sort_strings_set:
  assumes "distinct xs"
  shows "sort_strings xs = sorted_list_of_set (set xs)"
proof -
  have "weak_order ((<) :: string \<Rightarrow> string \<Rightarrow> bool)" by (auto simp: weak_order_def)
  then have "sorted (sort_strings xs)"
    using go_sort.sorted_sorter [of "(<)" xs] by (simp add: sort_strings_def not_less)
  moreover have "set (sort_strings xs) = set xs"
    unfolding sort_strings_def by (rule go_sort.set_sorter)
  moreover have "distinct (sort_strings xs)"
    using mset_eq_imp_distinct_iff [OF go_sort.mset_sorter] assms unfolding sort_strings_def by blast
  ultimately show ?thesis by (simp add: sorted_distinct_set_unique)
qed

definition graph_ok :: "svc_deps list \<Rightarrow> bool" where
  "graph_ok rs \<longleftrightarrow> distinct (map sd_name rs) \<and>
     list_all (\<lambda>r. distinct (map fst (sd_deps r)) \<and> CHR ''|'' \<notin> set (sd_name r)) rs"

lemma user_names_mem:
  assumes "distinct (map sd_name rs)" "r \<in> set rs"
  shows "sd_name r \<in> set (user_names rs dep) \<longleftrightarrow> uses_dep r dep"
  using assms by (auto simp: user_names_def distinct_map inj_on_def)

lemma graph_shared_ok:
  assumes "graph_ok rs"
  shows "list_all (\<lambda>(dep, us). distinct (map fst us)) (shared_deps rs)"
    and "(dep, us) \<in> set (shared_deps rs) \<Longrightarrow> fst ` set us = set (user_names rs dep)"
proof -
  have keys: "list_all (\<lambda>r. distinct (map fst (sd_deps r))) rs"
    using assms by (auto simp: graph_ok_def list_all_iff)
  have names: "map fst us = user_names rs dep" if "(dep, us) \<in> set (shared_deps rs)" for dep us
    using shared_deps_users [OF keys that] by simp
  have "distinct (user_names rs dep)" for dep
    using assms by (auto simp: graph_ok_def user_names_def intro!: distinct_map_filter)
  then show "list_all (\<lambda>(dep, us). distinct (map fst us)) (shared_deps rs)"
    unfolding list_all_iff using names by (metis (mono_tags, lifting) case_prodI2)
  show "(dep, us) \<in> set (shared_deps rs) \<Longrightarrow> fst ` set us = set (user_names rs dep)"
    by (drule names) (simp flip: set_map)
qed

lemma two_users:
  assumes "r \<in> set rs" "r' \<in> set rs" "sd_name r \<noteq> sd_name r'" "uses_dep r dep" "uses_dep r' dep"
  shows "2 \<le> length (user_names rs dep)"
proof -
  have "{sd_name r, sd_name r'} \<subseteq> set (user_names rs dep)"
    using assms by (auto simp: user_names_def)
  then have "card {sd_name r, sd_name r'} \<le> card (set (user_names rs dep))"
    by (intro card_mono) simp_all
  with assms(3) card_length [of "user_names rs dep"] show ?thesis by simp
qed

lemma graph_links_shared:
  assumes ok: "graph_ok rs" and r: "r \<in> set rs" "r' \<in> set rs" "sd_name r < sd_name r'"
  shows "distinct (deps_of_link (edge_links (shared_deps rs)) (sd_name r, sd_name r'))"
    and "set (deps_of_link (edge_links (shared_deps rs)) (sd_name r, sd_name r')) = common_deps r r'"
proof -
  let ?both = "\<lambda>us. sd_name r \<in> fst ` set us \<and> sd_name r' \<in> fst ` set us"
  have links: "deps_of_link (edge_links (shared_deps rs)) (sd_name r, sd_name r') =
      map fst (filter (\<lambda>(dep, us). ?both us) (shared_deps rs))"
    by (rule deps_of_edge_links [OF r(3) graph_shared_ok(1) [OF ok]])
  show "distinct (deps_of_link (edge_links (shared_deps rs)) (sd_name r, sd_name r'))"
    unfolding links by (rule distinct_map_filter [OF shared_deps_distinct])
  have names: "distinct (map sd_name rs)" and keys: "list_all (\<lambda>r. distinct (map fst (sd_deps r))) rs"
    using ok by (auto simp: graph_ok_def list_all_iff)
  have both: "?both us \<longleftrightarrow> uses_dep r dep \<and> uses_dep r' dep" if "(dep, us) \<in> set (shared_deps rs)" for dep us
    unfolding graph_shared_ok(2) [OF ok that] using user_names_mem [OF names] r(1,2) by blast
  have "dep \<in> fst ` set (shared_deps rs)" if "uses_dep r dep" "uses_dep r' dep" for dep
    using shared_deps_complete [OF keys two_users [OF r(1,2) _ that]] r(3) by simp
  then have "dep \<in> fst ` {x \<in> set (shared_deps rs). ?both (snd x)} \<longleftrightarrow> uses_dep r dep \<and> uses_dep r' dep" for dep
    using both by (fastforce simp: image_iff)
  moreover have "fst ` {x \<in> set (shared_deps rs). ?both (snd x)} =
      set (deps_of_link (edge_links (shared_deps rs)) (sd_name r, sd_name r'))"
    unfolding links by (simp add: case_prod_unfold)
  ultimately show "set (deps_of_link (edge_links (shared_deps rs)) (sd_name r, sd_name r')) = common_deps r r'"
    by (auto simp: common_deps_def uses_dep_def)
qed

lemma linked_names:
  assumes ok: "graph_ok rs" and q: "q \<in> in_order ` snd ` set (edge_links (shared_deps rs))"
  shows "\<exists>r \<in> set rs. \<exists>r' \<in> set rs. q = (sd_name r, sd_name r') \<and> sd_name r < sd_name r' \<and> common_deps r r' \<noteq> {}"
proof -
  have names: "distinct (map sd_name rs)" using ok by (simp add: graph_ok_def)
  obtain dep us where q': "fst q < snd q" "(dep, us) \<in> set (shared_deps rs)" "fst q \<in> fst ` set us" "snd q \<in> fst ` set us"
    using edge_links_ordered [OF graph_shared_ok(1) [OF ok] q] by blast
  have "fst q \<in> set (user_names rs dep)" "snd q \<in> set (user_names rs dep)"
    using q'(3,4) graph_shared_ok(2) [OF ok q'(2)] by simp_all
  then obtain r r' where "r \<in> set rs" "r' \<in> set rs" "fst q = sd_name r" "snd q = sd_name r'"
    "uses_dep r dep" "uses_dep r' dep" by (auto simp: user_names_def)
  moreover from this have "dep \<in> common_deps r r'" by (simp add: common_deps_def uses_dep_def)
  ultimately show ?thesis using q'(1) by (intro bexI [of _ r] bexI [of _ r']) (auto simp: prod_eq_iff)
qed

lemma linked_pair:
  assumes ok: "graph_ok rs" and r: "r \<in> set rs" "r' \<in> set rs" "sd_name r < sd_name r'" "common_deps r r' \<noteq> {}"
  shows "(sd_name r, sd_name r') \<in> in_order ` snd ` set (edge_links (shared_deps rs))"
proof -
  obtain dep where "dep \<in> set (deps_of_link (edge_links (shared_deps rs)) (sd_name r, sd_name r'))"
    using graph_links_shared(2) [OF ok r(1-3)] r(4) by blast
  then show ?thesis by (force simp: deps_of_link_def)
qed

definition unsorted_edges :: "svc_deps list \<Rightarrow> (string \<times> graph_edge) list" where
  "unsorted_edges rs = fold add_edge (edge_links (shared_deps rs)) []"

definition finish_edge :: "string \<times> graph_edge \<Rightarrow> graph_edge" where
  "finish_edge = (\<lambda>(k, e). e\<lparr>ge_shared := sort_strings (ge_shared e)\<rparr>)"

lemma graph_edges_eq:
  "graph_edges (shared_deps rs) =
     sort_slice (\<lambda>a b. length (ge_shared b) < length (ge_shared a)) (map finish_edge (unsorted_edges rs))"
  by (simp add: graph_edges_def unsorted_edges_def finish_edge_def)

lemma unsorted_edges_map:
  assumes "graph_ok rs"
  shows "distinct (map fst (unsorted_edges rs))"
    and "(k, e) \<in> set (unsorted_edges rs) \<longleftrightarrow>
      (\<exists>q \<in> in_order ` snd ` set (edge_links (shared_deps rs)). k = edge_key q \<and> e = edge_of (edge_links (shared_deps rs)) q)"
proof -
  have "CHR ''|'' \<notin> set (fst q)" if "q \<in> in_order ` snd ` set (edge_links (shared_deps rs))" for q
    using linked_names [OF assms that] assms by (auto simp: graph_ok_def list_all_iff)
  then have m: "distinct (map fst (unsorted_edges rs)) \<and> (\<forall>k e. map_of (unsorted_edges rs) k = Some e \<longleftrightarrow>
      (\<exists>q \<in> in_order ` snd ` set (edge_links (shared_deps rs)).
        k = edge_key q \<and> e = edge_of (edge_links (shared_deps rs)) q))"
    unfolding unsorted_edges_def by (rule edge_map)
  show d: "distinct (map fst (unsorted_edges rs))" by (rule conjunct1 [OF m])
  have "(k, e) \<in> set (unsorted_edges rs) \<longleftrightarrow> map_of (unsorted_edges rs) k = Some e"
    using map_of_eq_Some_iff [OF d] by simp
  also have "\<dots> \<longleftrightarrow> (\<exists>q \<in> in_order ` snd ` set (edge_links (shared_deps rs)).
      k = edge_key q \<and> e = edge_of (edge_links (shared_deps rs)) q)"
    by (rule conjunct2 [OF m, rule_format])
  finally show "(k, e) \<in> set (unsorted_edges rs) \<longleftrightarrow>
      (\<exists>q \<in> in_order ` snd ` set (edge_links (shared_deps rs)). k = edge_key q \<and> e = edge_of (edge_links (shared_deps rs)) q)" .
qed

lemma finish_edge_spec:
  assumes "graph_ok rs"
  shows "finish_edge ` set (unsorted_edges rs) = {e. edge_spec rs e}"
proof -
  let ?ls = "edge_links (shared_deps rs)"
  have fin: "finish_edge (k, edge_of ?ls (sd_name r, sd_name r')) =
      \<lparr>ge_service1 = sd_name r, ge_service2 = sd_name r', ge_shared = sorted_list_of_set (common_deps r r')\<rparr>"
    if "r \<in> set rs" "r' \<in> set rs" "sd_name r < sd_name r'" for k r r'
    using graph_links_shared [OF assms that] by (simp add: finish_edge_def edge_of_def sort_strings_set)
  show ?thesis
  proof (intro set_eqI iffI)
    fix e
    assume "e \<in> finish_edge ` set (unsorted_edges rs)"
    then obtain k e0 where "(k, e0) \<in> set (unsorted_edges rs)" and e: "e = finish_edge (k, e0)"
      by (metis imageE surj_pair)
    from this(1) have "\<exists>q \<in> in_order ` snd ` set ?ls. k = edge_key q \<and> e0 = edge_of ?ls q"
      unfolding unsorted_edges_map(2) [OF assms] .
    with e obtain q where q: "q \<in> in_order ` snd ` set ?ls" "e = finish_edge (edge_key q, edge_of ?ls q)"
      by blast
    obtain r r' where r: "r \<in> set rs" "r' \<in> set rs" "q = (sd_name r, sd_name r')" "sd_name r < sd_name r'"
      "common_deps r r' \<noteq> {}" using linked_names [OF assms q(1)] by blast
    then show "e \<in> {e. edge_spec rs e}"
      using fin [OF r(1,2,4)] q(2) unfolding edge_spec_def by blast
  next
    fix e
    assume "e \<in> {e. edge_spec rs e}"
    then obtain r r' where r: "r \<in> set rs" "r' \<in> set rs" "sd_name r < sd_name r'" "common_deps r r' \<noteq> {}"
      and e: "e = \<lparr>ge_service1 = sd_name r, ge_service2 = sd_name r', ge_shared = sorted_list_of_set (common_deps r r')\<rparr>"
      unfolding edge_spec_def by blast
    let ?q = "(sd_name r, sd_name r')"
    have "(edge_key ?q, edge_of ?ls ?q) \<in> set (unsorted_edges rs)"
      unfolding unsorted_edges_map(2) [OF assms] using linked_pair [OF assms r] by blast
    then show "e \<in> finish_edge ` set (unsorted_edges rs)"
      unfolding e using fin [OF r(1-3)] by (metis image_eqI)
  qed
qed

definition edge_pair :: "graph_edge \<Rightarrow> string \<times> string" where
  "edge_pair e = (ge_service1 e, ge_service2 e)"

lemma edge_pairs_distinct:
  assumes "graph_ok rs"
  shows "distinct (map (edge_pair \<circ> finish_edge) (unsorted_edges rs))"
proof -
  have "fst x = edge_key (edge_pair (finish_edge x))" if "x \<in> set (unsorted_edges rs)" for x
    using that unsorted_edges_map(2) [OF assms, of "fst x" "snd x"]
    by (auto simp: edge_pair_def finish_edge_def edge_of_def split: prod.splits)
  then have "map fst (unsorted_edges rs) = map edge_key (map (edge_pair \<circ> finish_edge) (unsorted_edges rs))"
    by simp
  then have "distinct (map edge_key (map (edge_pair \<circ> finish_edge) (unsorted_edges rs)))"
    using unsorted_edges_map(1) [OF assms] by (rule subst)
  then show ?thesis unfolding distinct_map [of edge_key] by (rule conjunct1)
qed

lemma all_svc_deps_ok:
  assumes "distinct (map sc_name (cfg_services (ms_config s)))"
    and "list_all (\<lambda>svc. CHR ''|'' \<notin> set (sc_name svc)) (cfg_services (ms_config s))"
  shows "graph_ok (all_svc_deps parse s)"
proof -
  have name: "sd_name (svc_deps_of parse s svc) = sc_name svc" for svc
    by (simp add: svc_deps_of_def split: sum.split option.split prod.split)
  have keys: "distinct (map fst (sd_deps (svc_deps_of parse s svc)))" for svc
    by (simp add: svc_deps_of_def parse_deps_distinct split: sum.split option.split prod.split)
  have "map sd_name (all_svc_deps parse s) = map sc_name (cfg_services (ms_config s))"
    by (simp add: all_svc_deps_def name)
  moreover have "CHR ''|'' \<notin> set (sd_name r)" "distinct (map fst (sd_deps r))" if "r \<in> set (all_svc_deps parse s)" for r
    using that assms(2) name keys by (auto simp: all_svc_deps_def list_all_iff)
  ultimately show ?thesis using assms(1) by (simp add: graph_ok_def list_all_iff)
qed

text \<open>
  C28. The service graph is exact.  For services with distinct names, none of which contains the
  character that joins the keys of the edge map, the edges are exactly the pairs of services
  that have a dependency in common, each pair once and in the order of the names, with all
  their common dependencies sorted; edges with more of them come first.
\<close>

theorem service_graph_is_exact:
  fixes parse s
  assumes "distinct (map sc_name (cfg_services (ms_config s)))"
    and "list_all (\<lambda>svc. CHR ''|'' \<notin> set (sc_name svc)) (cfg_services (ms_config s))"
  defines "rs \<equiv> all_svc_deps parse s"
  defines "edges \<equiv> graph_edges (shared_deps rs)"
  shows "set edges = {e. edge_spec rs e} \<and> distinct (map edge_pair edges) \<and>
    sorted_wrt (\<lambda>e e'. length (ge_shared e') \<le> length (ge_shared e)) edges"
proof -
  let ?lt = "\<lambda>a b. length (ge_shared b) < length (ge_shared a)"
  have ok: "graph_ok rs" unfolding rs_def by (rule all_svc_deps_ok [OF assms(1,2)])
  have edges: "edges = sort_slice ?lt (map finish_edge (unsorted_edges rs))"
    unfolding edges_def by (rule graph_edges_eq)
  have "set edges = {e. edge_spec rs e}"
    unfolding edges go_sort.set_sorter by (simp add: finish_edge_spec [OF ok])
  moreover have "mset (map edge_pair edges) = mset (map (edge_pair \<circ> finish_edge) (unsorted_edges rs))"
    unfolding edges by (simp only: mset_map go_sort.mset_sorter map_map [symmetric])
  then have "distinct (map edge_pair edges)"
    using edge_pairs_distinct [OF ok] mset_eq_imp_distinct_iff by blast
  moreover have "weak_order ?lt" by (auto simp: weak_order_def)
  then have "sorted_wrt (\<lambda>e e'. \<not> ?lt e' e) edges"
    unfolding edges by (rule go_sort.sorted_sorter)
  ultimately show ?thesis by (simp add: not_less)
qed

text \<open>Two services that require the same package.\<close>

definition graph_server :: mcp_server where
  "graph_server = file_server
     (\<lambda>r f. if f = ''requirements.txt'' then Inr (requirements_file [(''flask'', ''*'')]) else Inl (Plain ''none''))
     [\<lparr>sc_name = ''a'', sc_repo = ''github.com/o/a'', sc_registry = []\<rparr>,
      \<lparr>sc_name = ''b'', sc_repo = ''github.com/o/b'', sc_registry = []\<rparr>]"

lemma graph_server_deps:
  "all_svc_deps parse graph_server =
     [\<lparr>sd_name = ''a'', sd_platform = ''github'', sd_file = ''requirements.txt'', sd_deps = [(''flask'', ''*'')], sd_error = []\<rparr>,
      \<lparr>sd_name = ''b'', sd_platform = ''github'', sd_file = ''requirements.txt'', sd_deps = [(''flask'', ''*'')], sd_error = []\<rparr>]"
proof -
  have "list_all (\<lambda>(n, c). package_name n \<and> constraint c) [(''flask'', ''*'')]" by code_simp
  then have "parse_deps parse ''requirements.txt'' (requirements_file [(''flask'', ''*'')]) = [(''flask'', ''*'')]"
    by (intro requirements_roundtrip) simp_all
  then show ?thesis
    by (simp add: all_svc_deps_def svc_deps_of_def graph_server_def file_server_def resolve_def parse_repo_def
        contains_def get_provider_def dep_files_def)
qed

theorem service_graph_is_exact_witness:
  "\<lparr>ge_service1 = ''a'', ge_service2 = ''b'', ge_shared = [''flask'']\<rparr> \<in>
     set (graph_edges (shared_deps (all_svc_deps (\<lambda>_. None) graph_server)))"
proof -
  let ?rs = "all_svc_deps (\<lambda>_. None) graph_server"
  have names: "distinct (map sc_name (cfg_services (ms_config graph_server)))"
    "list_all (\<lambda>svc. CHR ''|'' \<notin> set (sc_name svc)) (cfg_services (ms_config graph_server))"
    by (simp_all add: graph_server_def file_server_def)
  have "edge_spec ?rs \<lparr>ge_service1 = ''a'', ge_service2 = ''b'', ge_shared = [''flask'']\<rparr>"
    by (simp add: edge_spec_def graph_server_deps common_deps_def)
  then show ?thesis using service_graph_is_exact [OF names, of "\<lambda>_. None"] by blast
qed

text \<open>Names that contain the separator: two pairs of services are one entry of the edge map.\<close>

lemma edge_keys_collide:
  "length (graph_edges [(''x'', [(''a|b'', ''1''), (''c'', ''1'')]), (''y'', [(''a'', ''1''), (''b|c'', ''1'')])]) = 1"
  by (simp add: graph_edges_def edge_links_def add_edge_eq in_order_def edge_key_def)

end
