(* ===== verification/Sha256.thy ===== *)
theory Sha256
  imports Go_Errors "HOL-Library.Word"
begin

unbundle bit_operations_syntax

text \<open>
  What the program uses of \<open>crypto/sha256\<close>, \<open>crypto/hmac\<close> and \<open>encoding/hex\<close>: the SHA-256 digest
  of FIPS 180-4 on 32-bit words, the HMAC of RFC 2104 over it and lower-case hexadecimal
  text.  A string is its bytes.
\<close>

type_synonym word32 = "32 word"

text \<open>
  The constants as the standard defines them: the first 32 bits of the fractional parts of the
  square roots of the first 8 primes and of the cube roots of the first 64.  \<open>root_floor k n\<close>
  is the k-th root of a number below \<open>(2 ^ 36) ^ k\<close>, bit by bit.
\<close>

definition root_step :: "nat \<Rightarrow> int \<Rightarrow> nat \<Rightarrow> int \<Rightarrow> int" where
  "root_step k n i r = (if (r + 2 ^ i) ^ k \<le> n then r + 2 ^ i else r)"

fun root_bits :: "nat \<Rightarrow> int \<Rightarrow> nat \<Rightarrow> int \<Rightarrow> int" where
  "root_bits k n 0 r = r"
| "root_bits k n (Suc i) r = root_bits k n i (root_step k n i r)"

definition root_floor :: "nat \<Rightarrow> int \<Rightarrow> int" where
  "root_floor k n = root_bits k n 36 0"

lemma root_bits_between:
  "r ^ k \<le> n \<Longrightarrow> n < (r + 2 ^ i) ^ k \<Longrightarrow>
     root_bits k n i r ^ k \<le> n \<and> n < (root_bits k n i r + 1) ^ k"
proof (induction i arbitrary: r)
  case (Suc i)
  have "r + 2 ^ Suc i = r + 2 ^ i + 2 ^ i" by simp
  with Suc.prems have "root_step k n i r ^ k \<le> n" "n < (root_step k n i r + 2 ^ i) ^ k"
    by (auto simp: root_step_def algebra_simps)
  with Suc.IH show ?case by simp
qed simp

lemma root_floor_exact:
  "0 < k \<Longrightarrow> 0 \<le> n \<Longrightarrow> n < (2 ^ 36) ^ k \<Longrightarrow> root_floor k n ^ k \<le> n \<and> n < (root_floor k n + 1) ^ k"
  unfolding root_floor_def by (rule root_bits_between) (simp_all add: zero_power)

definition small_primes :: "int list" where
  "small_primes = filter (\<lambda>n. list_all (\<lambda>d. n mod d \<noteq> 0) [2..n - 1]) [2..311]"

definition root_bits32 :: "nat \<Rightarrow> int \<Rightarrow> word32" where
  "root_bits32 k p = word_of_int (root_floor k (p * 2 ^ (32 * k)))"

definition initial_hash :: "word32 list" where
  "initial_hash = map (root_bits32 2) [2, 3, 5, 7, 11, 13, 17, 19]"

definition round_constants :: "word32 list" where
  "round_constants = map (root_bits32 3) small_primes"

definition ch :: "word32 \<Rightarrow> word32 \<Rightarrow> word32 \<Rightarrow> word32" where
  "ch x y z = (x AND y) XOR (NOT x AND z)"

definition maj :: "word32 \<Rightarrow> word32 \<Rightarrow> word32 \<Rightarrow> word32" where
  "maj x y z = (x AND y) XOR (x AND z) XOR (y AND z)"

definition big_sigma0 :: "word32 \<Rightarrow> word32" where
  "big_sigma0 x = word_rotr 2 x XOR word_rotr 13 x XOR word_rotr 22 x"

definition big_sigma1 :: "word32 \<Rightarrow> word32" where
  "big_sigma1 x = word_rotr 6 x XOR word_rotr 11 x XOR word_rotr 25 x"

definition small_sigma0 :: "word32 \<Rightarrow> word32" where
  "small_sigma0 x = word_rotr 7 x XOR word_rotr 18 x XOR drop_bit 3 x"

definition small_sigma1 :: "word32 \<Rightarrow> word32" where
  "small_sigma1 x = word_rotr 17 x XOR word_rotr 19 x XOR drop_bit 10 x"

text \<open>The message schedule, newest word first, extended by \<open>n\<close> words.\<close>

fun schedule :: "nat \<Rightarrow> word32 list \<Rightarrow> word32 list" where
  "schedule 0 ws = ws"
| "schedule (Suc n) ws =
     schedule n ((small_sigma1 (ws ! 1) + ws ! 6 + small_sigma0 (ws ! 14) + ws ! 15) # ws)"

type_synonym working = "word32 \<times> word32 \<times> word32 \<times> word32 \<times> word32 \<times> word32 \<times> word32 \<times> word32"

fun round_step :: "working \<Rightarrow> word32 \<times> word32 \<Rightarrow> working" where
  "round_step (a, b, c, d, e, f, g, h) (k, w) =
     (let t1 = h + big_sigma1 e + ch e f g + k + w;
          t2 = big_sigma0 a + maj a b c
      in (t1 + t2, a, b, c, d + t1, e, f, g))"

definition compress :: "word32 list \<Rightarrow> word32 list \<Rightarrow> word32 list" where
  "compress hs block =
     (case foldl round_step (hs ! 0, hs ! 1, hs ! 2, hs ! 3, hs ! 4, hs ! 5, hs ! 6, hs ! 7)
         (zip round_constants (rev (schedule 48 (rev block)))) of
       (a, b, c, d, e, f, g, h) \<Rightarrow> map2 (+) hs [a, b, c, d, e, f, g, h])"

fun big_endian :: "string \<Rightarrow> word32 list" where
  "big_endian (a # b # c # d # rest) =
     word_of_int (((of_char a * 256 + of_char b) * 256 + of_char c) * 256 + of_char d) # big_endian rest"
| "big_endian _ = []"

definition byte_at :: "nat \<Rightarrow> int \<Rightarrow> char" where
  "byte_at i n = char_of (n div 256 ^ i mod 256)"

definition padding :: "nat \<Rightarrow> string" where
  "padding len = CHR 0x80 # replicate ((119 - len mod 64) mod 64) (CHR 0x00) @
     map (\<lambda>i. byte_at i (int (8 * len))) [7, 6, 5, 4, 3, 2, 1, 0]"

fun blocks :: "nat \<Rightarrow> word32 list \<Rightarrow> word32 list list" where
  "blocks 0 ws = []"
| "blocks (Suc n) ws = take 16 ws # blocks n (drop 16 ws)"

definition word_bytes :: "word32 \<Rightarrow> string" where
  "word_bytes w = map (\<lambda>i. byte_at i (uint w)) [3, 2, 1, 0]"

definition sha256 :: "string \<Rightarrow> string" where
  "sha256 msg =
     (let ws = big_endian (msg @ padding (length msg)) in
      concat (map word_bytes (foldl compress initial_hash (blocks (length ws div 16) ws))))"

text \<open>HMAC with the 64-byte blocks of SHA-256.\<close>

definition xor_byte :: "int \<Rightarrow> char \<Rightarrow> char" where
  "xor_byte n c = char_of (n XOR (of_char c :: int))"

definition hmac_sha256 :: "string \<Rightarrow> string \<Rightarrow> string" where
  "hmac_sha256 key msg =
     (let short = (if 64 < length key then sha256 key else key);
          block = short @ replicate (64 - length short) (CHR 0x00)
      in sha256 (map (xor_byte 0x5c) block @ sha256 (map (xor_byte 0x36) block @ msg)))"

fun hex_encode :: "string \<Rightarrow> string" where
  "hex_encode [] = []"
| "hex_encode (c # cs) = hex_digit (of_char c div 16) # hex_digit (of_char c mod 16) # hex_encode cs"

lemma length_hex_encode [simp]: "length (hex_encode s) = 2 * length s"
  by (induction s) auto

lemma length_word_bytes [simp]: "length (word_bytes w) = 4"
  by (simp add: word_bytes_def)

lemma length_compress: "length hs = 8 \<Longrightarrow> length (compress hs block) = 8"
  by (simp add: compress_def split: prod.splits)

lemma length_fold_compress: "length hs = 8 \<Longrightarrow> length (foldl compress hs bs) = 8"
  by (induction bs arbitrary: hs) (simp_all add: length_compress)

lemma length_sha256 [simp]: "length (sha256 msg) = 32"
proof -
  have "length (concat (map word_bytes ws)) = 4 * length ws" for ws
    by (induction ws) auto
  moreover have "length initial_hash = 8" by (simp add: initial_hash_def)
  ultimately show ?thesis by (simp add: sha256_def Let_def length_fold_compress)
qed

lemma length_hmac [simp]: "length (hmac_sha256 key msg) = 32"
  by (simp add: hmac_sha256_def Let_def)

end
