(* ===== verification/Tenant.thy ===== *)
theory Tenant
  imports Config Store Sha256 "HOL-Library.List_Lexorder" "HOL-Library.Char_ord"
begin

text \<open>
  Tenants and their API keys (\<open>internal/tenant/tenant.go\<close>, \<open>internal/tenant/apikey.go\<close>).  The
  database is its three tables with the last row ids given out; each operation does what its
  statement says.  SQLite enforces foreign keys
  only on a connection on which \<open>PRAGMA foreign_keys\<close> was run, and \<open>database/sql\<close> keeps a pool of
  connections, so an operation is told by \<open>fk\<close> whether its connection has the pragma; both
  migrations run it, on one connection each.  The random bytes of a key are an argument.
\<close>

section \<open>Tables\<close>

record tenant =
  tn_id :: int
  tn_name :: string
  tn_created :: gotime

record tenant_service =
  tsv_tenant :: int
  tsv_name :: string
  tsv_repo :: string

record api_key =
  ak_id :: int
  ak_tenant :: int
  ak_prefix :: string
  ak_hash :: string
  ak_created :: gotime

record tenant_db =
  td_tenants :: "tenant list"
  td_last_tenant :: int
  td_services :: "tenant_service list"
  td_keys :: "api_key list"
  td_last_key :: int

definition empty_tenant_db :: tenant_db where
  "empty_tenant_db = \<lparr>td_tenants = [], td_last_tenant = 0, td_services = [], td_keys = [], td_last_key = 0\<rparr>"

text \<open>\<open>CURRENT_TIMESTAMP\<close> has seconds, in UTC.\<close>

definition sql_stamp :: "gotime \<Rightarrow> gotime" where
  "sql_stamp t = \<lparr>instant = instant t div second * second, zone_offset = 0\<rparr>"

definition constraint_failed :: "string \<Rightarrow> go_error" where
  "constraint_failed what = Plain (what @ '' constraint failed'')"

section \<open>Opening\<close>

definition tenant_migrations :: "string list" where
  "tenant_migrations =
     [join_with newline
        [''CREATE TABLE IF NOT EXISTS tenants ('',
         tabs 3 @ ''id INTEGER PRIMARY KEY AUTOINCREMENT,'',
         tabs 3 @ ''name TEXT NOT NULL UNIQUE,'',
         tabs 3 @ ''created_at DATETIME NOT NULL DEFAULT CURRENT_TIMESTAMP'',
         tabs 2 @ '')''],
      join_with newline
        [''CREATE TABLE IF NOT EXISTS tenant_services ('',
         tabs 3 @ ''tenant_id INTEGER NOT NULL,'',
         tabs 3 @ ''service_name TEXT NOT NULL,'',
         tabs 3 @ ''repo TEXT NOT NULL,'',
         tabs 3 @ ''FOREIGN KEY (tenant_id) REFERENCES tenants(id) ON DELETE CASCADE,'',
         tabs 3 @ ''UNIQUE(tenant_id, service_name)'',
         tabs 2 @ '')'']]"

definition key_migrations :: "string list" where
  "key_migrations =
     [join_with newline
        [''CREATE TABLE IF NOT EXISTS api_keys ('',
         tabs 2 @ ''id INTEGER PRIMARY KEY AUTOINCREMENT,'',
         tabs 2 @ ''tenant_id INTEGER NOT NULL,'',
         tabs 2 @ ''prefix TEXT NOT NULL,'',
         tabs 2 @ ''hash TEXT NOT NULL UNIQUE,'',
         tabs 2 @ ''created_at DATETIME NOT NULL DEFAULT CURRENT_TIMESTAMP,'',
         tabs 2 @ ''FOREIGN KEY (tenant_id) REFERENCES tenants(id) ON DELETE CASCADE'',
         tabs 1 @ '')'']]"

text \<open>\<open>NewStore\<close> and \<open>NewKeyStore\<close>: the pragma, then the tables.\<close>

definition tenant_store_new :: "sql_env \<Rightarrow> go_error option" where
  "tenant_store_new sq =
     (case sq_exec sq ''PRAGMA foreign_keys = ON'' of
        Some e \<Rightarrow> Some (Wrapf ''enable foreign keys'' e)
      | None \<Rightarrow> map_option (\<lambda>(m, e). Wrapf ''migrate'' e) (first_failure (sq_exec sq) tenant_migrations))"

definition key_store_new :: "sql_env \<Rightarrow> go_error option" where
  "key_store_new sq =
     (case sq_exec sq ''PRAGMA foreign_keys = ON'' of
        Some e \<Rightarrow> Some (Wrapf ''enable foreign keys'' e)
      | None \<Rightarrow> map_option snd (first_failure (sq_exec sq) key_migrations))"

section \<open>Tenants\<close>

definition tenant_not_found :: "string \<Rightarrow> go_error" where
  "tenant_not_found name = Plain (''tenant '' @ quote name @ '' not found'')"

definition create_tenant :: "gotime \<Rightarrow> string \<Rightarrow> tenant_db \<Rightarrow> (tenant \<times> tenant_db) result" where
  "create_tenant now name db =
     (if name \<in> tn_name ` set (td_tenants db) then Inl (Wrapf ''create tenant'' (constraint_failed ''UNIQUE''))
      else
        let i = td_last_tenant db + 1 in
        Inr (\<lparr>tn_id = i, tn_name = name, tn_created = now\<rparr>,
             db\<lparr>td_tenants := td_tenants db @ [\<lparr>tn_id = i, tn_name = name, tn_created = sql_stamp now\<rparr>],
                td_last_tenant := i\<rparr>))"

fun find_row :: "('a \<Rightarrow> bool) \<Rightarrow> 'a list \<Rightarrow> 'a option" where
  "find_row p [] = None"
| "find_row p (x # xs) = (if p x then Some x else find_row p xs)"

definition get_tenant :: "string \<Rightarrow> tenant_db \<Rightarrow> tenant result" where
  "get_tenant name db =
     (case find_row (\<lambda>t. tn_name t = name) (td_tenants db) of
        None \<Rightarrow> Inl (tenant_not_found name)
      | Some t \<Rightarrow> Inr t)"

definition list_tenants :: "tenant_db \<Rightarrow> tenant list" where
  "list_tenants db = sort_slice (\<lambda>a b. tn_name a < tn_name b) (td_tenants db)"

text \<open>\<open>DELETE\<close> with \<open>ON DELETE CASCADE\<close>, which needs the pragma.\<close>

definition delete_tenant :: "bool \<Rightarrow> string \<Rightarrow> tenant_db \<Rightarrow> tenant_db result" where
  "delete_tenant fk name db =
     (let gone = filter (\<lambda>t. tn_name t = name) (td_tenants db);
          ids = tn_id ` set gone;
          db' = db\<lparr>td_tenants := filter (\<lambda>t. tn_name t \<noteq> name) (td_tenants db)\<rparr> in
      if gone = [] then Inl (tenant_not_found name)
      else if fk then Inr (db'\<lparr>td_services := filter (\<lambda>s. tsv_tenant s \<notin> ids) (td_services db),
             td_keys := filter (\<lambda>k. ak_tenant k \<notin> ids) (td_keys db)\<rparr>)
      else Inr db')"

text \<open>\<open>INSERT OR IGNORE\<close> ignores a repeated name, but not a missing tenant.\<close>

definition add_tenant_service :: "bool \<Rightarrow> int \<Rightarrow> string \<Rightarrow> string \<Rightarrow> tenant_db \<Rightarrow> tenant_db result" where
  "add_tenant_service fk tenant name repo db =
     (if (tenant, name) \<in> (\<lambda>s. (tsv_tenant s, tsv_name s)) ` set (td_services db) then Inr db
      else if fk \<and> tenant \<notin> tn_id ` set (td_tenants db) then Inl (constraint_failed ''FOREIGN KEY'')
      else Inr (db\<lparr>td_services := td_services db @
             [\<lparr>tsv_tenant = tenant, tsv_name = name, tsv_repo = repo\<rparr>]\<rparr>))"

definition list_tenant_services :: "int \<Rightarrow> tenant_db \<Rightarrow> tenant_service list" where
  "list_tenant_services tenant db = filter (\<lambda>s. tsv_tenant s = tenant) (td_services db)"

section \<open>Keys\<close>

definition hash_key :: "string \<Rightarrow> string" where
  "hash_key raw = hex_encode (sha256 raw)"

definition generate_key ::
  "bool \<Rightarrow> gotime \<Rightarrow> string result \<Rightarrow> int \<Rightarrow> tenant_db \<Rightarrow> (string \<times> api_key \<times> tenant_db) result" where
  "generate_key fk now random tenant db =
     (case random of
        Inl e \<Rightarrow> Inl (Wrapf ''generate key'' e)
      | Inr b \<Rightarrow>
          let raw = ''rw_'' @ hex_encode b; prefix = take 11 raw; hash = hash_key raw;
              i = td_last_key db + 1;
              row = \<lparr>ak_id = i, ak_tenant = tenant, ak_prefix = prefix, ak_hash = hash,
                     ak_created = sql_stamp now\<rparr> in
          if hash \<in> ak_hash ` set (td_keys db) then Inl (Wrapf ''store key'' (constraint_failed ''UNIQUE''))
          else if fk \<and> tenant \<notin> tn_id ` set (td_tenants db)
            then Inl (Wrapf ''store key'' (constraint_failed ''FOREIGN KEY''))
          else Inr (raw, row\<lparr>ak_created := now\<rparr>,
                 db\<lparr>td_keys := td_keys db @ [row], td_last_key := i\<rparr>))"

definition validate_key :: "string \<Rightarrow> tenant_db \<Rightarrow> int result" where
  "validate_key raw db =
     (case find_row (\<lambda>k. ak_hash k = hash_key raw) (td_keys db) of
        None \<Rightarrow> Inl (Plain ''invalid API key'')
      | Some k \<Rightarrow> Inr (ak_tenant k))"

definition list_keys_for_tenant :: "int \<Rightarrow> tenant_db \<Rightarrow> api_key list" where
  "list_keys_for_tenant tenant db =
     sort_slice (\<lambda>a b. instant (ak_created b) < instant (ak_created a))
       (map (\<lambda>k. k\<lparr>ak_hash := []\<rparr>) (filter (\<lambda>k. ak_tenant k = tenant) (td_keys db)))"

definition revoke_key :: "int \<Rightarrow> tenant_db \<Rightarrow> tenant_db result" where
  "revoke_key i db =
     (if i \<notin> ak_id ` set (td_keys db) then Inl (Plain ''key not found'')
      else Inr (db\<lparr>td_keys := filter (\<lambda>k. ak_id k \<noteq> i) (td_keys db)\<rparr>))"

section \<open>Invariant\<close>

definition tenant_db_ok :: "tenant_db \<Rightarrow> bool" where
  "tenant_db_ok db \<longleftrightarrow>
     distinct (map tn_name (td_tenants db)) \<and> distinct (map tn_id (td_tenants db)) \<and>
     (\<forall>t \<in> set (td_tenants db). tn_id t \<le> td_last_tenant db) \<and>
     distinct (map (\<lambda>s. (tsv_tenant s, tsv_name s)) (td_services db)) \<and>
     distinct (map ak_hash (td_keys db)) \<and> distinct (map ak_id (td_keys db)) \<and>
     (\<forall>k \<in> set (td_keys db). ak_id k \<le> td_last_key db)"

text \<open>Referential integrity: what a database has when every connection has the pragma.\<close>

definition refs_ok :: "tenant_db \<Rightarrow> bool" where
  "refs_ok db \<longleftrightarrow> (\<forall>s \<in> set (td_services db). tsv_tenant s \<in> tn_id ` set (td_tenants db)) \<and>
     (\<forall>k \<in> set (td_keys db). ak_tenant k \<in> tn_id ` set (td_tenants db))"

lemma same_row:
  "distinct (map f xs) \<Longrightarrow> x \<in> set xs \<Longrightarrow> y \<in> set xs \<Longrightarrow> f x = f y \<Longrightarrow> x = y"
  by (auto simp: distinct_map dest: inj_onD)

lemma other_ids:
  "i \<in> tn_id ` set ts \<Longrightarrow> i \<notin> tn_id ` {t \<in> set ts. tn_name t = name} \<Longrightarrow>
     i \<in> tn_id ` {t \<in> set ts. tn_name t \<noteq> name}"
  by blast

lemma empty_tenant_db_ok: "tenant_db_ok empty_tenant_db \<and> refs_ok empty_tenant_db"
  by (simp add: tenant_db_ok_def refs_ok_def empty_tenant_db_def)

lemma create_tenant_ok [go_inv]:
  "create_tenant now name db = Inr (t, db') \<Longrightarrow> tenant_db_ok db \<Longrightarrow>
     tenant_db_ok db' \<and> (refs_ok db \<longrightarrow> refs_ok db') \<and> tn_id t \<notin> tn_id ` set (td_tenants db)"
  by (force simp: create_tenant_def tenant_db_ok_def refs_ok_def Let_def split: if_splits)

lemma delete_tenant_ok [go_inv]:
  "delete_tenant fk name db = Inr db' \<Longrightarrow> tenant_db_ok db \<Longrightarrow>
     tenant_db_ok db' \<and> (fk \<longrightarrow> refs_ok db \<longrightarrow> refs_ok db')"
  by (auto simp: delete_tenant_def tenant_db_ok_def refs_ok_def Let_def distinct_map_filter
      split: if_splits) (rule other_ids; simp)+

lemma add_tenant_service_ok [go_inv]:
  "add_tenant_service fk tenant name repo db = Inr db' \<Longrightarrow> tenant_db_ok db \<Longrightarrow>
     tenant_db_ok db' \<and> (fk \<longrightarrow> refs_ok db \<longrightarrow> refs_ok db')"
  by (auto simp: add_tenant_service_def tenant_db_ok_def refs_ok_def split: if_splits)

lemma generate_key_ok [go_inv]:
  "generate_key fk now random tenant db = Inr (raw, key, db') \<Longrightarrow> tenant_db_ok db \<Longrightarrow>
     tenant_db_ok db' \<and> (fk \<longrightarrow> refs_ok db \<longrightarrow> refs_ok db')"
  by (force simp: generate_key_def tenant_db_ok_def refs_ok_def Let_def split: if_splits sum.splits)

lemma revoke_key_ok [go_inv]:
  "revoke_key i db = Inr db' \<Longrightarrow> tenant_db_ok db \<Longrightarrow> tenant_db_ok db' \<and> (refs_ok db \<longrightarrow> refs_ok db')"
  by (auto simp: revoke_key_def tenant_db_ok_def refs_ok_def distinct_map_filter split: if_splits)

section \<open>What a key is good for\<close>

lemma find_row_append: "find_row p (xs @ ys) = (case find_row p xs of None \<Rightarrow> find_row p ys | Some x \<Rightarrow> Some x)"
  by (induction xs) auto

lemma find_row_None_iff: "find_row p xs = None \<longleftrightarrow> (\<forall>x \<in> set xs. \<not> p x)"
  by (induction xs) auto

lemma find_row_key:
  "distinct (map f xs) \<Longrightarrow> x \<in> set xs \<Longrightarrow> find_row (\<lambda>y. f y = f x) xs = Some x"
  by (induction xs) (auto dest: distinct_map_neq)

lemma find_row_filter:
  "(\<And>x. x \<in> set xs \<Longrightarrow> p x \<Longrightarrow> q x) \<Longrightarrow> find_row p (filter q xs) = find_row p xs"
  by (induction xs) auto

lemma validate_key_None:
  "validate_key raw db = Inl (Plain ''invalid API key'') \<longleftrightarrow> (\<forall>k \<in> set (td_keys db). ak_hash k \<noteq> hash_key raw)"
  unfolding find_row_None_iff [symmetric] by (auto simp: validate_key_def split: option.splits)

lemma validate_key_row:
  "tenant_db_ok db \<Longrightarrow> k \<in> set (td_keys db) \<Longrightarrow> ak_hash k = hash_key raw \<Longrightarrow> validate_key raw db = Inr (ak_tenant k)"
  using find_row_key [of ak_hash "td_keys db" k] by (simp add: validate_key_def tenant_db_ok_def)

text \<open>
  C24. A generated key is good for its tenant until it is revoked.  The key just generated
  is \<open>rw_\<close> with 64 hexadecimal digits (from 32 random bytes), validates to the tenant it was
  generated for, and its listed prefix is its first eleven characters; a key with another hash
  validates as before; revoking it makes it, and nothing else, invalid.
\<close>

theorem generated_key_validates_until_revoked:
  assumes "tenant_db_ok db" "generate_key fk now (Inr b) t db = Inr (raw, key, db')" "length b = 32"
  shows "validate_key raw db' = Inr t \<and> length raw = 67 \<and> take 3 raw = ''rw_'' \<and> ak_prefix key = take 11 raw \<and>
    (\<forall>other. hash_key other \<noteq> hash_key raw \<longrightarrow> validate_key other db' = validate_key other db) \<and>
    (\<exists>db''. revoke_key (ak_id key) db' = Inr db'' \<and> validate_key raw db'' = Inl (Plain ''invalid API key'') \<and>
      (\<forall>other. hash_key other \<noteq> hash_key raw \<longrightarrow> validate_key other db'' = validate_key other db))"
proof -
  define row where "row = \<lparr>ak_id = td_last_key db + 1, ak_tenant = t, ak_prefix = take 11 raw,
      ak_hash = hash_key raw, ak_created = sql_stamp now\<rparr>"
  from assms(2) have raw: "raw = ''rw_'' @ hex_encode b" "hash_key raw \<notin> ak_hash ` set (td_keys db)"
    and key: "key = row\<lparr>ak_created := now\<rparr>"
    and db': "db' = db\<lparr>td_keys := td_keys db @ [row], td_last_key := td_last_key db + 1\<rparr>"
    by (auto simp: generate_key_def row_def Let_def split: if_splits)
  have none: "find_row (\<lambda>k. ak_hash k = hash_key raw) (td_keys db) = None"
    using raw(2) by (auto simp: find_row_None_iff image_iff)
  have old: "ak_id k \<noteq> ak_id row" if "k \<in> set (td_keys db)" for k
    using that assms(1) by (force simp: tenant_db_ok_def row_def)
  then have "filter (\<lambda>k. ak_id k \<noteq> ak_id row) (td_keys db) = td_keys db"
    by (simp add: filter_id_conv)
  then have revoked: "revoke_key (ak_id key) db' =
      Inr (db\<lparr>td_last_key := td_last_key db + 1\<rparr>)"
    by (simp add: revoke_key_def key db')
  have same: "validate_key other db' = validate_key other db" if "hash_key other \<noteq> hash_key raw" for other
    using that by (simp add: validate_key_def db' find_row_append row_def split: option.splits)
  have "validate_key raw db' = Inr t"
    by (simp add: validate_key_def db' find_row_append none row_def)
  moreover have "length raw = 67" "take 3 raw = ''rw_''" using raw(1) assms(3) by simp_all
  moreover have "validate_key raw (db\<lparr>td_last_key := n\<rparr>) = Inl (Plain ''invalid API key'')" for n
    using none by (simp add: validate_key_def)
  moreover have "validate_key other (db\<lparr>td_last_key := n\<rparr>) = validate_key other db" for other n
    by (simp add: validate_key_def)
  ultimately show ?thesis using revoked same by (simp add: key row_def)
qed

theorem generated_key_validates_until_revoked_witness:
  "\<exists>raw key db'. generate_key False zero_time (Inr (replicate 32 CHR ''x'')) 7 empty_tenant_db = Inr (raw, key, db') \<and>
     validate_key raw db' = Inr 7"
proof -
  obtain raw key db' where gen:
    "generate_key False zero_time (Inr (replicate 32 CHR ''x'')) 7 empty_tenant_db = Inr (raw, key, db')"
    by (simp add: generate_key_def empty_tenant_db_def Let_def)
  have "tenant_db_ok empty_tenant_db" using empty_tenant_db_ok by blast
  from generated_key_validates_until_revoked [OF this gen] gen show ?thesis by simp
qed

text \<open>
  Deleting a tenant withdraws its keys only on a connection with the pragma.  With
  it, the services and keys of the tenant are gone, none of its keys validates any more and
  every other key does as before; on another connection of the pool the same call succeeds,
  the tenant is gone, and every key of it still validates, to an id no tenant has.
\<close>

theorem deleted_tenant_keys:
  assumes "tenant_db_ok db" "t \<in> set (td_tenants db)" "k \<in> set (td_keys db)" "ak_hash k = hash_key raw"
  shows "\<exists>cascaded kept. delete_tenant True (tn_name t) db = Inr cascaded \<and> delete_tenant False (tn_name t) db = Inr kept \<and>
    list_tenant_services (tn_id t) cascaded = [] \<and> list_keys_for_tenant (tn_id t) cascaded = [] \<and>
    validate_key raw cascaded = (if ak_tenant k = tn_id t then Inl (Plain ''invalid API key'') else Inr (ak_tenant k)) \<and>
    validate_key raw kept = Inr (ak_tenant k) \<and> tn_id t \<notin> tn_id ` set (td_tenants kept)"
proof -
  let ?rest = "filter (\<lambda>u. tn_name u \<noteq> tn_name t) (td_tenants db)"
  have single: "filter (\<lambda>u. tn_name u = tn_name t) ts = [t]"
    if "distinct (map tn_name ts)" "t \<in> set ts" for ts
    using that by (induction ts) (auto simp: filter_empty_conv, metis imageI)
  have gone: "filter (\<lambda>u. tn_name u = tn_name t) (td_tenants db) = [t]"
    using assms(1,2) by (intro single) (simp_all add: tenant_db_ok_def)
  have "tn_id u \<noteq> tn_id t" if "u \<in> set (td_tenants db)" "tn_name u \<noteq> tn_name t" for u
    using that assms(2) same_row [of tn_id "td_tenants db" u t] assms(1) by (auto simp: tenant_db_ok_def)
  then have id_gone: "tn_id t \<notin> tn_id ` set ?rest" by (auto, blast)
  let ?kept = "db\<lparr>td_tenants := ?rest\<rparr>"
  let ?cascaded = "?kept\<lparr>td_services := filter (\<lambda>s. tsv_tenant s \<noteq> tn_id t) (td_services db),
      td_keys := filter (\<lambda>k. ak_tenant k \<noteq> tn_id t) (td_keys db)\<rparr>"
  have del: "delete_tenant True (tn_name t) db = Inr ?cascaded" "delete_tenant False (tn_name t) db = Inr ?kept"
    by (simp_all add: delete_tenant_def gone)
  have ok: "tenant_db_ok ?cascaded" "tenant_db_ok ?kept"
    using delete_tenant_ok [OF del(1) assms(1)] delete_tenant_ok [OF del(2) assms(1)] by simp_all
  have "ak_hash l \<noteq> hash_key raw" if "l \<in> set (td_keys db)" "ak_tenant l \<noteq> ak_tenant k" for l
    using that assms(3,4) same_row [of ak_hash "td_keys db" l k] assms(1) by (auto simp: tenant_db_ok_def)
  then have "validate_key raw ?cascaded =
      (if ak_tenant k = tn_id t then Inl (Plain ''invalid API key'') else Inr (ak_tenant k))"
    using validate_key_None [of raw ?cascaded] validate_key_row [OF ok(1), of k raw] assms(3,4) by auto
  moreover have "validate_key raw ?kept = Inr (ak_tenant k)"
    using validate_key_row [OF ok(2), of k raw] assms(3,4) by simp
  moreover have "list_tenant_services (tn_id t) ?cascaded = []" "list_keys_for_tenant (tn_id t) ?cascaded = []"
    by (simp_all add: list_tenant_services_def list_keys_for_tenant_def)
  ultimately show ?thesis
    using del id_gone by (intro exI [of _ ?cascaded] exI [of _ ?kept]) simp
qed

definition demo_tenants :: tenant_db where
  "demo_tenants = \<lparr>td_tenants = [\<lparr>tn_id = 1, tn_name = ''acme'', tn_created = zero_time\<rparr>], td_last_tenant = 1,
     td_services = [],
     td_keys = [\<lparr>ak_id = 1, ak_tenant = 1, ak_prefix = ''rw_00'', ak_hash = hash_key ''rw_00'', ak_created = zero_time\<rparr>],
     td_last_key = 1\<rparr>"

theorem deleted_tenant_keys_witness:
  "\<exists>kept. delete_tenant False ''acme'' demo_tenants = Inr kept \<and> validate_key ''rw_00'' kept = Inr 1 \<and>
     1 \<notin> tn_id ` set (td_tenants kept)"
proof -
  have "tenant_db_ok demo_tenants" by (simp add: demo_tenants_def tenant_db_ok_def)
  moreover have "\<lparr>tn_id = 1, tn_name = ''acme'', tn_created = zero_time\<rparr> \<in> set (td_tenants demo_tenants)"
    "\<lparr>ak_id = 1, ak_tenant = 1, ak_prefix = ''rw_00'', ak_hash = hash_key ''rw_00'', ak_created = zero_time\<rparr>
       \<in> set (td_keys demo_tenants)"
    by (simp_all add: demo_tenants_def)
  moreover have "ak_hash \<lparr>ak_id = 1, ak_tenant = 1, ak_prefix = ''rw_00'', ak_hash = hash_key ''rw_00'',
      ak_created = zero_time\<rparr> = hash_key ''rw_00''" by simp
  ultimately show ?thesis
    using deleted_tenant_keys by fastforce
qed

end
