(* ===== verification/Webhook.thy ===== *)
theory Webhook
  imports Json Sha256
begin

text \<open>
  The webhook receiver of the GitHub App (\<open>internal/githubapp/webhook.go\<close>): the signature
  check and the dispatch of events to the registered callbacks.  A callback is observed as the
  call made; \<open>read\<close> is the body as far as it could be read, or an error.
\<close>

record webhook_handler =
  wh_secret :: string
  wh_on_install :: bool
  wh_on_release :: bool

datatype callback = OnInstall int string | OnRelease string string string

definition new_webhook_handler :: "string \<Rightarrow> webhook_handler" where
  "new_webhook_handler secret = \<lparr>wh_secret = secret, wh_on_install = False, wh_on_release = False\<rparr>"

text \<open>Registering a callback.\<close>

definition on_install :: "webhook_handler \<Rightarrow> webhook_handler" where
  "on_install h = h\<lparr>wh_on_install := True\<rparr>"

definition on_release :: "webhook_handler \<Rightarrow> webhook_handler" where
  "on_release h = h\<lparr>wh_on_release := True\<rparr>"

section \<open>Signatures\<close>

definition format_signature :: "string \<Rightarrow> string \<Rightarrow> string" where
  "format_signature payload secret = ''sha256='' @ hex_encode (hmac_sha256 secret payload)"

definition verify_signature :: "string \<Rightarrow> string \<Rightarrow> string \<Rightarrow> bool" where
  "verify_signature payload signature secret =
     (if length signature < 8 \<or> take 7 signature \<noteq> ''sha256='' then False
      else drop 7 signature = hex_encode (hmac_sha256 secret payload))"

lemma verify_signature_iff:
  "verify_signature payload signature secret \<longleftrightarrow> signature = format_signature payload secret"
proof
  assume "verify_signature payload signature secret"
  then have "take 7 signature = ''sha256=''" "drop 7 signature = hex_encode (hmac_sha256 secret payload)"
    by (auto simp: verify_signature_def split: if_splits)
  then show "signature = format_signature payload secret"
    unfolding format_signature_def by (metis append_take_drop_id)
next
  assume eq: "signature = format_signature payload secret"
  have "length (format_signature payload secret) = 71" by (simp add: format_signature_def)
  with eq show "verify_signature payload signature secret"
    by (simp add: verify_signature_def) (simp add: format_signature_def)
qed

section \<open>Events\<close>

record installation_event =
  ie_action :: string
  ie_id :: int
  ie_login :: string

record release_webhook =
  re_action :: string
  re_tag :: string
  re_url :: string
  re_repo :: string

text \<open>A nested struct with one string field.\<close>

definition dec_one :: "string \<Rightarrow> string \<Rightarrow> json \<Rightarrow> string option" where
  "dec_one key old v = (case members v of None \<Rightarrow> None | Some ms \<Rightarrow> bind_field dec_string key old ms)"

definition dec_installation :: "int \<times> string \<Rightarrow> json \<Rightarrow> (int \<times> string) option" where
  "dec_installation old v =
     (case members v of
        None \<Rightarrow> None
      | Some ms \<Rightarrow>
          (case (bind_field dec_int64 ''id'' (fst old) ms,
                 bind_field (dec_one ''login'') ''account'' (snd old) ms) of
             (Some i, Some l) \<Rightarrow> Some (i, l)
           | _ \<Rightarrow> None))"

definition dec_installation_event :: "installation_event \<Rightarrow> json \<Rightarrow> installation_event option" where
  "dec_installation_event old v =
     (case members v of
        None \<Rightarrow> None
      | Some ms \<Rightarrow>
          (case (bind_field dec_string ''action'' (ie_action old) ms,
                 bind_field dec_installation ''installation'' (ie_id old, ie_login old) ms) of
             (Some a, Some (i, l)) \<Rightarrow> Some \<lparr>ie_action = a, ie_id = i, ie_login = l\<rparr>
           | _ \<Rightarrow> None))"

definition dec_tagged :: "string \<times> string \<Rightarrow> json \<Rightarrow> (string \<times> string) option" where
  "dec_tagged old v =
     (case members v of
        None \<Rightarrow> None
      | Some ms \<Rightarrow>
          (case (bind_field dec_string ''tag_name'' (fst old) ms, bind_field dec_string ''html_url'' (snd old) ms) of
             (Some t, Some u) \<Rightarrow> Some (t, u)
           | _ \<Rightarrow> None))"

definition dec_release_event :: "release_webhook \<Rightarrow> json \<Rightarrow> release_webhook option" where
  "dec_release_event old v =
     (case members v of
        None \<Rightarrow> None
      | Some ms \<Rightarrow>
          (case (bind_field dec_string ''action'' (re_action old) ms,
                 bind_field dec_tagged ''release'' (re_tag old, re_url old) ms,
                 bind_field (dec_one ''full_name'') ''repository'' (re_repo old) ms) of
             (Some a, Some (t, u), Some r) \<Rightarrow> Some \<lparr>re_action = a, re_tag = t, re_url = u, re_repo = r\<rparr>
           | _ \<Rightarrow> None))"

definition handle_installation ::
  "(string \<Rightarrow> json option) \<Rightarrow> webhook_handler \<Rightarrow> string \<Rightarrow> callback list" where
  "handle_installation parse h body =
     (case unmarshal parse dec_installation_event \<lparr>ie_action = [], ie_id = 0, ie_login = []\<rparr> body of
        Inl e \<Rightarrow> []
      | Inr ev \<Rightarrow>
          if wh_on_install h \<and> ie_action ev = ''created'' then [OnInstall (ie_id ev) (ie_login ev)] else [])"

definition handle_release ::
  "(string \<Rightarrow> json option) \<Rightarrow> webhook_handler \<Rightarrow> string \<Rightarrow> callback list" where
  "handle_release parse h body =
     (case unmarshal parse dec_release_event \<lparr>re_action = [], re_tag = [], re_url = [], re_repo = []\<rparr> body of
        Inl e \<Rightarrow> []
      | Inr ev \<Rightarrow>
          if re_action ev \<noteq> ''published'' then []
          else if wh_on_release h then [OnRelease (re_repo ev) (re_tag ev) (re_url ev)] else [])"

section \<open>The handler\<close>

definition serve_webhook ::
  "(string \<Rightarrow> json option) \<Rightarrow> webhook_handler \<Rightarrow> (string \<Rightarrow> string) \<Rightarrow> string result \<Rightarrow> int \<times> string \<times> callback list" where
  "serve_webhook parse h header body_read =
     (case body_read of
        Inl e \<Rightarrow> (400, ''read error'' @ newline, [])
      | Inr full \<Rightarrow>
          let body = take (2 ^ 20) full in
          if wh_secret h \<noteq> [] \<and>
             \<not> verify_signature body (header ''X-Hub-Signature-256'') (wh_secret h) then (401, ''invalid signature'' @ newline, [])
          else
            let event = header ''X-GitHub-Event'' in
            (200, [], if event = ''installation'' then handle_installation parse h body
                  else if event = ''release'' then handle_release parse h body else []))"

text \<open>
  C25. The webhook acts on authentic requests only.  With a secret, a request whose body
  was read is accepted exactly when its signature is the one \<open>FormatSignature\<close> makes of the body
  (its first 2^20 bytes), and else refused with 401; a refused request calls nothing, an
  accepted one at most one callback, and one that calls \<open>onRelease\<close> is a release event with the
  action \<open>published\<close>, one that calls \<open>onInstall\<close> an installation event with the action
  \<open>created\<close>.
\<close>

theorem webhook_acts_on_signed_events:
  assumes "serve_webhook parse h header (Inr full) = (status, msg, calls)" "wh_secret h \<noteq> []"
  shows "(status = 200 \<longleftrightarrow> header ''X-Hub-Signature-256'' = format_signature (take (2 ^ 20) full) (wh_secret h)) \<and>
    (status \<noteq> 200 \<longrightarrow> status = 401 \<and> calls = []) \<and> length calls \<le> 1 \<and>
    (\<forall>repo tag url. OnRelease repo tag url \<in> set calls \<longrightarrow>
       header ''X-GitHub-Event'' = ''release'' \<and> wh_on_release h \<and>
       unmarshal parse dec_release_event \<lparr>re_action = [], re_tag = [], re_url = [], re_repo = []\<rparr> (take (2 ^ 20) full) =
         Inr \<lparr>re_action = ''published'', re_tag = tag, re_url = url, re_repo = repo\<rparr>) \<and>
    (\<forall>i account. OnInstall i account \<in> set calls \<longrightarrow>
       header ''X-GitHub-Event'' = ''installation'' \<and> wh_on_install h \<and>
       unmarshal parse dec_installation_event \<lparr>ie_action = [], ie_id = 0, ie_login = []\<rparr> (take (2 ^ 20) full) =
         Inr \<lparr>ie_action = ''created'', ie_id = i, ie_login = account\<rparr>)"
  using assms
  by (auto simp: serve_webhook_def verify_signature_iff handle_installation_def handle_release_def Let_def
      split: if_splits sum.splits)

definition demo_hook :: webhook_handler where
  "demo_hook = \<lparr>wh_secret = ''s'', wh_on_install = True, wh_on_release = True\<rparr>"

definition demo_event :: json where
  "demo_event = JObj [(''action'', JStr ''published''), (''release'', JObj [(''tag_name'', JStr ''v1'')]),
     (''repository'', JObj [(''full_name'', JStr ''o/r'')])]"

definition signed_headers :: "string \<Rightarrow> string \<Rightarrow> string" where
  "signed_headers body k =
     (if k = ''X-GitHub-Event'' then ''release''
      else if k = ''X-Hub-Signature-256'' then format_signature body ''s'' else [])"

theorem webhook_acts_on_signed_events_witness:
  "serve_webhook (\<lambda>_. Some demo_event) demo_hook (signed_headers ''{}'') (Inr ''{}'') =
     (200, [], [OnRelease ''o/r'' ''v1'' []])"
proof -
  obtain status msg calls where run:
    "serve_webhook (\<lambda>_. Some demo_event) demo_hook (signed_headers ''{}'') (Inr ''{}'') = (status, msg, calls)"
    by (cases "serve_webhook (\<lambda>_. Some demo_event) demo_hook (signed_headers ''{}'') (Inr ''{}'')") auto
  have "status = 200"
    using webhook_acts_on_signed_events [OF run] by (simp add: demo_hook_def signed_headers_def)
  moreover have "handle_release (\<lambda>_. Some demo_event) demo_hook ''{}'' = [OnRelease ''o/r'' ''v1'' []]"
    by (simp add: handle_release_def unmarshal_def demo_event_def demo_hook_def dec_release_event_def
        dec_tagged_def dec_one_def same_key_def lower_char_def)
  ultimately show ?thesis
    using run by (simp add: serve_webhook_def signed_headers_def Let_def split: if_splits)
qed

end
