(* ===== verification/Clients.thy ===== *)
theory Clients
  imports Config Provider Json
begin

text \<open>
  The GitHub and GitLab providers (\<open>internal/provider/github/github.go\<close>,
  \<open>internal/provider/gitlab/gitlab.go\<close>) as instances of the provider interface.  The network is
  a parameter: what a \<open>GET\<close> of a URL with given headers gives; so are the rate limiter's \<open>Wait\<close>,
  the reading of a JSON text and \<open>time.Parse\<close> for RFC 3339 times (\<open>None\<close> for its error).
\<close>

section \<open>Requests\<close>

datatype http_reply = NoRequest go_error | NoAnswer go_error | HttpReply int "string result"

record net =
  nt_wait :: "go_error option"
  nt_get :: "string \<Rightarrow> (string \<times> string) list \<Rightarrow> http_reply"
  nt_parse :: "string \<Rightarrow> json option"
  nt_time :: "string \<Rightarrow> gotime option"

record client =
  cl_token :: string
  cl_base_url :: string

definition do_request ::
  "string \<Rightarrow> (client \<Rightarrow> (string \<times> string) list) \<Rightarrow> net \<Rightarrow> client \<Rightarrow> string \<Rightarrow> string result" where
  "do_request platform headers nt c url =
     (case nt_wait nt of
        Some e \<Rightarrow> Inl (Wrapf ''rate limit wait'' e)
      | None \<Rightarrow>
          (case nt_get nt url (headers c) of
             NoRequest e \<Rightarrow> Inl (Wrapf ''create request'' e)
           | NoAnswer e \<Rightarrow> Inl (Wrapf ''http request'' e)
           | HttpReply status body \<Rightarrow>
               if status \<noteq> 200 then Inl (new_provider_error platform status url)
               else (case body of Inl e \<Rightarrow> Inl (Wrapf ''read response'' e) | Inr b \<Rightarrow> Inr b)))"

definition github_headers :: "client \<Rightarrow> (string \<times> string) list" where
  "github_headers c = (''Accept'', ''application/vnd.github+json'') #
     (if cl_token c \<noteq> [] then [(''Authorization'', ''Bearer '' @ cl_token c)] else [])"

definition gitlab_headers :: "client \<Rightarrow> (string \<times> string) list" where
  "gitlab_headers c = (''Content-Type'', ''application/json'') #
     (if cl_token c \<noteq> [] then [(''PRIVATE-TOKEN'', cl_token c)] else [])"

definition github_request :: "net \<Rightarrow> client \<Rightarrow> string \<Rightarrow> string result" where
  "github_request = do_request ''github'' github_headers"

definition gitlab_request :: "net \<Rightarrow> client \<Rightarrow> string \<Rightarrow> string result" where
  "gitlab_request = do_request ''gitlab'' gitlab_headers"

text \<open>A request whose body is decoded, with the two contexts added to the errors.\<close>

definition request_json ::
  "(net \<Rightarrow> client \<Rightarrow> string \<Rightarrow> string result) \<Rightarrow> string \<Rightarrow> string \<Rightarrow> ('a \<Rightarrow> json \<Rightarrow> 'a option) \<Rightarrow> 'a \<Rightarrow>
   net \<Rightarrow> client \<Rightarrow> string \<Rightarrow> 'a result" where
  "request_json request what parsing dec zero nt c url =
     (case request nt c url of
        Inl e \<Rightarrow> Inl (Wrapf what e)
      | Inr body \<Rightarrow>
          (case unmarshal (nt_parse nt) dec zero body of
             Inl e \<Rightarrow> Inl (Wrapf parsing e)
           | Inr x \<Rightarrow> Inr x))"

text \<open>A time that cannot be parsed is the zero time.\<close>

definition time_or_zero :: "net \<Rightarrow> string \<Rightarrow> gotime" where
  "time_or_zero nt s = (case nt_time nt s of Some t \<Rightarrow> t | None \<Rightarrow> zero_time)"

section \<open>Base64\<close>

text \<open>\<open>base64.StdEncoding.DecodeString\<close>: line breaks are skipped, padding is required.\<close>

definition b64_alphabet :: string where
  "b64_alphabet = ''ABCDEFGHIJKLMNOPQRSTUVWXYZabcdefghijklmnopqrstuvwxyz0123456789+/''"

definition b64_value :: "char \<Rightarrow> nat option" where
  "b64_value c = index_of [c] b64_alphabet"

definition b64_bytes :: "nat \<Rightarrow> nat \<Rightarrow> nat \<Rightarrow> nat \<Rightarrow> string" where
  "b64_bytes a b c d =
     (let n = ((a * 64 + b) * 64 + c) * 64 + d
      in [char_of (n div 65536), char_of (n div 256 mod 256), char_of (n mod 256)])"

fun b64_groups :: "string \<Rightarrow> string option" where
  "b64_groups [] = Some []"
| "b64_groups (p # q # r # s # rest) =
     (case (b64_value p, b64_value q) of
        (Some a, Some b) \<Rightarrow>
          (case (b64_value r, b64_value s) of
             (Some c, Some d) \<Rightarrow> map_option ((@) (b64_bytes a b c d)) (b64_groups rest)
           | (Some c, None) \<Rightarrow> if s = CHR ''='' \<and> rest = [] then Some (take 2 (b64_bytes a b c 0)) else None
           | (None, _) \<Rightarrow>
               if r = CHR ''='' \<and> s = CHR ''='' \<and> rest = [] then Some (take 1 (b64_bytes a b 0 0)) else None)
      | _ \<Rightarrow> None)"
| "b64_groups _ = None"

definition line_break :: "char \<Rightarrow> bool" where
  "line_break c \<longleftrightarrow> c = CHR 0x0A \<or> c = CHR 0x0D"

definition b64_decode :: "string \<Rightarrow> string option" where
  "b64_decode s = b64_groups (filter (\<lambda>c. \<not> line_break c) s)"

definition decoded_file :: "string \<times> string \<Rightarrow> string result" where
  "decoded_file r =
     (case r of (content, encoding) \<Rightarrow>
        if encoding = ''base64'' then
          (case b64_decode content of
             None \<Rightarrow> Inl (Wrapf ''decode base64 content'' (Plain ''illegal base64 data''))
           | Some b \<Rightarrow> Inr b)
        else Inr content)"

definition dec_file :: "string \<times> string \<Rightarrow> json \<Rightarrow> (string \<times> string) option" where
  "dec_file old v =
     (case members v of
        None \<Rightarrow> None
      | Some ms \<Rightarrow>
          (case (bind_field dec_string ''content'' (fst old) ms, bind_field dec_string ''encoding'' (snd old) ms) of
             (Some c, Some e) \<Rightarrow> Some (c, e)
           | _ \<Rightarrow> None))"

section \<open>GitHub\<close>

record github_release =
  gr_tag_name :: string
  gr_name :: string
  gr_body :: string
  gr_draft :: bool
  gr_prerelease :: bool
  gr_published_at :: string
  gr_html_url :: string

definition empty_github_release :: github_release where
  "empty_github_release = \<lparr>gr_tag_name = [], gr_name = [], gr_body = [], gr_draft = False,
     gr_prerelease = False, gr_published_at = [], gr_html_url = []\<rparr>"

definition dec_github_release :: "github_release \<Rightarrow> json \<Rightarrow> github_release option" where
  "dec_github_release old v =
     (case members v of
        None \<Rightarrow> None
      | Some ms \<Rightarrow>
          (case (bind_field dec_string ''tag_name'' (gr_tag_name old) ms,
                 bind_field dec_string ''name'' (gr_name old) ms, bind_field dec_string ''body'' (gr_body old) ms,
                 bind_field dec_bool ''draft'' (gr_draft old) ms,
                 bind_field dec_bool ''prerelease'' (gr_prerelease old) ms,
                 bind_field dec_string ''published_at'' (gr_published_at old) ms,
                 bind_field dec_string ''html_url'' (gr_html_url old) ms) of
             (Some t, Some n, Some b, Some d, Some p, Some w, Some u) \<Rightarrow>
               Some \<lparr>gr_tag_name = t, gr_name = n, gr_body = b, gr_draft = d, gr_prerelease = p,
                     gr_published_at = w, gr_html_url = u\<rparr>
           | _ \<Rightarrow> None))"

definition release_of_github :: "net \<Rightarrow> github_release \<Rightarrow> release" where
  "release_of_github nt g =
     \<lparr>rel_tag = gr_tag_name g, rel_name = gr_name g, rel_body = gr_body g, rel_draft = gr_draft g,
      rel_prerelease = gr_prerelease g, rel_published_at = time_or_zero nt (gr_published_at g),
      rel_html_url = gr_html_url g\<rparr>"

text \<open>A tag of either platform: a name and a commit with one field.\<close>

definition dec_commit :: "string \<Rightarrow> string \<Rightarrow> json \<Rightarrow> string option" where
  "dec_commit key old v = (case members v of None \<Rightarrow> None | Some ms \<Rightarrow> bind_field dec_string key old ms)"

definition dec_tag :: "string \<Rightarrow> git_tag \<Rightarrow> json \<Rightarrow> git_tag option" where
  "dec_tag key old v =
     (case members v of
        None \<Rightarrow> None
      | Some ms \<Rightarrow>
          (case (bind_field dec_string ''name'' (tag_name old) ms,
                 bind_field (dec_commit key) ''commit'' (tag_commit old) ms) of
             (Some n, Some c) \<Rightarrow> Some \<lparr>tag_name = n, tag_commit = c\<rparr>
           | _ \<Rightarrow> None))"

definition empty_tag :: git_tag where
  "empty_tag = \<lparr>tag_name = [], tag_commit = []\<rparr>"

definition repo_url :: "client \<Rightarrow> string \<Rightarrow> string \<Rightarrow> string" where
  "repo_url c owner repo = cl_base_url c @ ''/repos/'' @ owner @ ''/'' @ repo"

definition github_list_releases :: "net \<Rightarrow> client \<Rightarrow> string \<Rightarrow> string \<Rightarrow> release list result" where
  "github_list_releases nt c owner repo =
     (case request_json github_request ''list releases'' ''parse releases JSON''
         (dec_list dec_github_release empty_github_release) [] nt c (repo_url c owner repo @ ''/releases?per_page=30'') of
        Inl e \<Rightarrow> Inl e
      | Inr gs \<Rightarrow> Inr (map (release_of_github nt) gs))"

definition github_latest :: "net \<Rightarrow> client \<Rightarrow> string \<Rightarrow> string \<Rightarrow> release result" where
  "github_latest nt c owner repo =
     (case request_json github_request ''get latest release'' ''parse release JSON''
         dec_github_release empty_github_release nt c (repo_url c owner repo @ ''/releases/latest'') of
        Inl e \<Rightarrow> Inl e
      | Inr g \<Rightarrow> Inr (release_of_github nt g))"

definition github_list_tags :: "net \<Rightarrow> client \<Rightarrow> string \<Rightarrow> string \<Rightarrow> git_tag list result" where
  "github_list_tags nt c owner repo =
     request_json github_request ''list tags'' ''parse tags JSON'' (dec_list (dec_tag ''sha'') empty_tag) []
       nt c (repo_url c owner repo @ ''/tags?per_page=30'')"

definition github_file :: "net \<Rightarrow> client \<Rightarrow> string \<Rightarrow> string \<Rightarrow> string \<Rightarrow> string result" where
  "github_file nt c owner repo path =
     (case request_json github_request ''get file content'' ''parse file response'' dec_file ([], [])
         nt c (repo_url c owner repo @ ''/contents/'' @ path) of
        Inl e \<Rightarrow> Inl e
      | Inr r \<Rightarrow> decoded_file r)"

definition github_provider :: "net \<Rightarrow> client \<Rightarrow> provider" where
  "github_provider nt c =
     \<lparr>pv_name = ''github'', pv_list_releases = github_list_releases nt c, pv_latest = github_latest nt c,
      pv_list_tags = github_list_tags nt c, pv_file = github_file nt c\<rparr>"

definition github_new :: "string \<Rightarrow> client" where
  "github_new token = \<lparr>cl_token = token, cl_base_url = ''https://api.github.com''\<rparr>"

section \<open>GitLab\<close>

record gitlab_release =
  lr_tag_name :: string
  lr_name :: string
  lr_description :: string
  lr_released_at :: string
  lr_upcoming :: bool

definition empty_gitlab_release :: gitlab_release where
  "empty_gitlab_release = \<lparr>lr_tag_name = [], lr_name = [], lr_description = [], lr_released_at = [],
     lr_upcoming = False\<rparr>"

text \<open>The links are decoded too, so that links of a wrong kind are an error, and not used.\<close>

definition dec_gitlab_release :: "gitlab_release \<Rightarrow> json \<Rightarrow> gitlab_release option" where
  "dec_gitlab_release old v =
     (case members v of
        None \<Rightarrow> None
      | Some ms \<Rightarrow>
          (case (bind_field dec_string ''tag_name'' (lr_tag_name old) ms,
                 bind_field dec_string ''name'' (lr_name old) ms,
                 bind_field dec_string ''description'' (lr_description old) ms,
                 bind_field dec_string ''released_at'' (lr_released_at old) ms,
                 bind_field (dec_commit ''self'') ''_links'' [] ms,
                 bind_field dec_bool ''upcoming_release'' (lr_upcoming old) ms) of
             (Some t, Some n, Some d, Some w, Some l, Some u) \<Rightarrow>
               Some \<lparr>lr_tag_name = t, lr_name = n, lr_description = d, lr_released_at = w, lr_upcoming = u\<rparr>
           | _ \<Rightarrow> None))"

text \<open>\<open>url.PathEscape\<close>.\<close>

definition path_char :: "char \<Rightarrow> bool" where
  "path_char c \<longleftrightarrow>
     list_ex (\<lambda>(a, b). a \<le> c \<and> c \<le> b) (zip ''aA0'' ''zZ9'') \<or> c \<in> set ''-_.~$&+=:@''"

definition upper_hex :: "nat \<Rightarrow> char" where
  "upper_hex n = char_of (if n < 10 then 48 + n else 55 + n)"

definition path_escape :: "string \<Rightarrow> string" where
  "path_escape s = concat (map (\<lambda>c. if path_char c then [c]
     else [CHR ''%'', upper_hex (of_char c div 16), upper_hex (of_char c mod 16)]) s)"

definition project_path :: "string \<Rightarrow> string \<Rightarrow> string" where
  "project_path owner repo = path_escape (owner @ ''/'' @ repo)"

definition project_url :: "client \<Rightarrow> string \<Rightarrow> string \<Rightarrow> string" where
  "project_url c owner repo = cl_base_url c @ ''/projects/'' @ project_path owner repo"

definition release_of_gitlab :: "net \<Rightarrow> string \<Rightarrow> string \<Rightarrow> gitlab_release \<Rightarrow> release" where
  "release_of_gitlab nt owner repo g =
     \<lparr>rel_tag = lr_tag_name g, rel_name = lr_name g, rel_body = lr_description g, rel_draft = False,
      rel_prerelease = lr_upcoming g, rel_published_at = time_or_zero nt (lr_released_at g),
      rel_html_url = ''https://gitlab.com/'' @ owner @ ''/'' @ repo @ ''/-/releases/'' @ lr_tag_name g\<rparr>"

definition gitlab_list_releases :: "net \<Rightarrow> client \<Rightarrow> string \<Rightarrow> string \<Rightarrow> release list result" where
  "gitlab_list_releases nt c owner repo =
     (case request_json gitlab_request ''list releases'' ''parse releases JSON''
         (dec_list dec_gitlab_release empty_gitlab_release) [] nt c (project_url c owner repo @ ''/releases?per_page=30'') of
        Inl e \<Rightarrow> Inl e
      | Inr gs \<Rightarrow> Inr (map (release_of_gitlab nt owner repo) gs))"

definition gitlab_latest :: "net \<Rightarrow> client \<Rightarrow> string \<Rightarrow> string \<Rightarrow> release result" where
  "gitlab_latest nt c owner repo =
     (case gitlab_list_releases nt c owner repo of
        Inl e \<Rightarrow> Inl e
      | Inr [] \<Rightarrow> Inl (Plain (''no releases found for '' @ owner @ ''/'' @ repo))
      | Inr (r # rs) \<Rightarrow> Inr r)"

definition gitlab_list_tags :: "net \<Rightarrow> client \<Rightarrow> string \<Rightarrow> string \<Rightarrow> git_tag list result" where
  "gitlab_list_tags nt c owner repo =
     request_json gitlab_request ''list tags'' ''parse tags JSON'' (dec_list (dec_tag ''id'') empty_tag) []
       nt c (project_url c owner repo @ ''/repository/tags?per_page=30'')"

definition gitlab_file :: "net \<Rightarrow> client \<Rightarrow> string \<Rightarrow> string \<Rightarrow> string \<Rightarrow> string result" where
  "gitlab_file nt c owner repo path =
     (case request_json gitlab_request ''get file content'' ''parse file response'' dec_file ([], [])
         nt c (project_url c owner repo @ ''/repository/files/'' @ path_escape path @ ''?ref=HEAD'') of
        Inl e \<Rightarrow> Inl e
      | Inr r \<Rightarrow> decoded_file r)"

definition gitlab_provider :: "net \<Rightarrow> client \<Rightarrow> provider" where
  "gitlab_provider nt c =
     \<lparr>pv_name = ''gitlab'', pv_list_releases = gitlab_list_releases nt c, pv_latest = gitlab_latest nt c,
      pv_list_tags = gitlab_list_tags nt c, pv_file = gitlab_file nt c\<rparr>"

definition gitlab_new :: "string \<Rightarrow> client" where
  "gitlab_new token = \<lparr>cl_token = token, cl_base_url = ''https://gitlab.com/api/v4''\<rparr>"

section \<open>Files come back\<close>

text \<open>The encoder a server uses, with line breaks wherever it likes.\<close>

definition b64_char :: "nat \<Rightarrow> char" where
  "b64_char n = b64_alphabet ! n"

fun b64_encode :: "string \<Rightarrow> string" where
  "b64_encode [] = []"
| "b64_encode [x] = (let n = of_char x * 65536 in
     [b64_char (n div 262144), b64_char (n div 4096 mod 64), CHR ''='', CHR ''=''])"
| "b64_encode [x, y] = (let n = (of_char x * 256 + of_char y) * 256 in
     [b64_char (n div 262144), b64_char (n div 4096 mod 64), b64_char (n div 64 mod 64), CHR ''=''])"
| "b64_encode (x # y # z # rest) = (let n = (of_char x * 256 + of_char y) * 256 + of_char z in
     [b64_char (n div 262144), b64_char (n div 4096 mod 64), b64_char (n div 64 mod 64), b64_char (n mod 64)] @
     b64_encode rest)"

lemma b64_char_value:
  assumes "n < 64"
  shows "b64_value (b64_char n) = Some n" "\<not> line_break (b64_char n)"
proof -
  have "list_all (\<lambda>n. b64_value (b64_char n) = Some n \<and> \<not> line_break (b64_char n)) [0..<64]" by code_simp
  with assms show "b64_value (b64_char n) = Some n" "\<not> line_break (b64_char n)" by (simp_all add: list_all_iff)
qed

lemma b64_pad_value: "b64_value CHR ''='' = None"
  by code_simp

lemma regroup:
  "((n div 262144 * 64 + n div 4096 mod 64) * 64 + n div 64 mod 64) * 64 + n mod 64 = (n :: nat)"
proof -
  have step: "n div (m * 64) * 64 + n div m mod 64 = n div m" for m
    by (simp add: div_mult2_eq)
  show ?thesis using step [of 4096] step [of 64] step [of 1] by simp
qed

lemma byte_fields:
  assumes "x < 256" "y < 256" "z < (256 :: nat)"
  shows "((x * 256 + y) * 256 + z) div 65536 = x" "((x * 256 + y) * 256 + z) div 256 mod 256 = y"
    "((x * 256 + y) * 256 + z) mod 256 = z"
proof -
  have d: "((x * 256 + y) * 256 + z) div 256 = x * 256 + y" using assms(3) by simp
  show "((x * 256 + y) * 256 + z) div 256 mod 256 = y" unfolding d using assms(2) by simp
  have "((x * 256 + y) * 256 + z) div (256 * 256) = (x * 256 + y) div 256"
    unfolding div_mult2_eq d ..
  then show "((x * 256 + y) * 256 + z) div 65536 = x" using assms(2) by simp
  show "((x * 256 + y) * 256 + z) mod 256 = z"
    by (simp only: mod_mult_self3 mod_less assms)
qed

lemma b64_bytes_group:
  fixes x y z :: char
  defines "n \<equiv> (of_char x * 256 + of_char y) * 256 + of_char z :: nat"
  shows "b64_bytes (n div 262144) (n div 4096 mod 64) (n div 64 mod 64) (n mod 64) = [x, y, z]"
    and "n div 262144 < 64"
proof -
  note bytes = byte_fields [OF nat_of_char_less_256 nat_of_char_less_256 nat_of_char_less_256, of x y z, folded n_def]
  show "b64_bytes (n div 262144) (n div 4096 mod 64) (n div 64 mod 64) (n mod 64) = [x, y, z]"
    unfolding b64_bytes_def regroup Let_def by (simp add: bytes)
  have "n div 65536 < 256" unfolding bytes(1) by (rule nat_of_char_less_256)
  then show "n div 262144 < 64" by (simp add: div_less_iff_less_mult)
qed

lemma zero_bits:
  "x * 65536 div 64 mod 64 = (0 :: nat)" "x * 65536 mod 64 = (0 :: nat)" "x * 256 mod 64 = (0 :: nat)"
proof -
  have "x * 65536 = (x * 16) * 64 * 64" "x * 256 = (x * 4) * 64" by simp_all
  then show "x * 65536 div 64 mod 64 = 0" "x * 65536 mod 64 = 0" "x * 256 mod 64 = 0" by simp_all
qed

lemma b64_groups_encode: "b64_groups (b64_encode s) = Some s"
proof (induction s rule: b64_encode.induct)
  case 1
  then show ?case by simp
next
  case (2 x)
  have "b64_bytes (of_char x * 65536 div 262144) (of_char x * 65536 div 4096 mod 64) 0 0 = [x, CHR 0x00, CHR 0x00]"
    "of_char x * 65536 div 262144 < (64 :: nat)"
    using b64_bytes_group [of x "CHR 0x00" "CHR 0x00"] by (simp_all add: zero_bits)
  then show ?case by (simp add: Let_def b64_char_value b64_pad_value)
next
  case (3 x y)
  have "b64_bytes ((of_char x * 256 + of_char y) * 256 div 262144) ((of_char x * 256 + of_char y) * 256 div 4096 mod 64)
      ((of_char x * 256 + of_char y) * 256 div 64 mod 64) 0 = [x, y, CHR 0x00]"
    "(of_char x * 256 + of_char y) * 256 div 262144 < (64 :: nat)"
    using b64_bytes_group [of x y "CHR 0x00"] by (simp_all add: zero_bits)
  then show ?case by (simp add: Let_def b64_char_value b64_pad_value)
next
  case (4 x y z rest)
  show ?case
    using b64_bytes_group [of x y z] 4 by (simp add: Let_def b64_char_value)
qed

lemma b64_encode_one_line: "filter (\<lambda>c. \<not> line_break c) (b64_encode s) = b64_encode s"
proof (induction s rule: b64_encode.induct)
  case (2 x)
  then show ?case
    using b64_bytes_group(2) [of x "CHR 0x00" "CHR 0x00"]
    by (simp add: Let_def b64_char_value) (simp add: line_break_def)
next
  case (3 x y)
  then show ?case
    using b64_bytes_group(2) [of x y "CHR 0x00"]
    by (simp add: Let_def b64_char_value) (simp add: line_break_def)
next
  case (4 x y z rest)
  then show ?case
    using b64_bytes_group(2) [of x y z] by (simp add: Let_def b64_char_value)
qed simp

lemma b64_decode_encode:
  "filter (\<lambda>c. \<not> line_break c) text = b64_encode content \<Longrightarrow> b64_decode text = Some content"
  by (simp add: b64_decode_def b64_groups_encode)

text \<open>
  C26. Files come back whole.  When the server answers a request for a file with the JSON of its
  content in Base64, broken into lines anywhere, both clients return the content byte for byte;
  GitHub is asked under the plain path, GitLab under the escaped one.
\<close>

theorem file_content_roundtrip:
  assumes "nt_wait nt = None" "filter (\<lambda>c. \<not> line_break c) text = b64_encode content"
    and "nt_parse nt body = Some (JObj [(''content'', JStr text), (''encoding'', JStr ''base64'')])"
  shows "(nt_get nt (cl_base_url c @ ''/repos/'' @ owner @ ''/'' @ repo @ ''/contents/'' @ path) (github_headers c) =
        HttpReply 200 (Inr body) \<longrightarrow> pv_file (github_provider nt c) owner repo path = Inr content) \<and>
    (nt_get nt (cl_base_url c @ ''/projects/'' @ path_escape (owner @ ''/'' @ repo) @ ''/repository/files/'' @
        path_escape path @ ''?ref=HEAD'') (gitlab_headers c) =
        HttpReply 200 (Inr body) \<longrightarrow> pv_file (gitlab_provider nt c) owner repo path = Inr content)"
proof -
  have keys: "same_key ''content'' ''content''" "same_key ''encoding'' ''encoding''"
    "\<not> same_key ''content'' ''encoding''" "\<not> same_key ''encoding'' ''content''"
    by (simp_all add: same_key_def lower_char_def)
  have "unmarshal (nt_parse nt) dec_file ([], []) body = Inr (text, ''base64'')"
    by (simp add: unmarshal_def assms(3) dec_file_def keys)
  moreover have "decoded_file (text, ''base64'') = Inr content"
    by (simp add: decoded_file_def b64_decode_encode [OF assms(2)])
  ultimately show ?thesis
    by (simp add: github_provider_def gitlab_provider_def github_file_def gitlab_file_def request_json_def
        github_request_def gitlab_request_def do_request_def repo_url_def project_url_def project_path_def assms(1))
qed

definition demo_net :: "json \<Rightarrow> int \<Rightarrow> net" where
  "demo_net v status = \<lparr>nt_wait = None, nt_get = (\<lambda>_ _. HttpReply status (Inr [])), nt_parse = (\<lambda>_. Some v),
     nt_time = (\<lambda>_. None)\<rparr>"

theorem file_content_roundtrip_witness:
  "pv_file (github_provider (demo_net (JObj [(''content'', JStr (b64_encode ''module x'')), (''encoding'', JStr ''base64'')]) 200)
     (github_new [])) ''o'' ''r'' ''go.mod'' = Inr ''module x''"
proof -
  have "filter (\<lambda>c. \<not> line_break c) (b64_encode ''module x'') = b64_encode ''module x''"
    by (rule b64_encode_one_line)
  from file_content_roundtrip [OF _ this, of "demo_net (JObj [(''content'', JStr (b64_encode ''module x'')),
      (''encoding'', JStr ''base64'')]) 200" "[]" "github_new []" "''o''" "''r''" "''go.mod''"]
  show ?thesis by (simp add: demo_net_def)
qed

lemma request_json_status:
  assumes "nt_wait nt = None" "\<And>url hs. nt_get nt url hs = HttpReply status body" "status \<noteq> 200"
  shows "request_json github_request what parsing dec zero nt c url =
      Inl (Wrapf what (new_provider_error ''github'' status url))"
    "request_json gitlab_request what parsing dec zero nt c url =
      Inl (Wrapf what (new_provider_error ''gitlab'' status url))"
  using assms
  by (simp_all add: request_json_def github_request_def gitlab_request_def do_request_def)

text \<open>
  C27. An HTTP status reaches the callers as the class of the error.  Every method of either
  provider that is answered with a status other than 200 fails, and the error is an
  authentication error exactly for 401 and 403, a missing resource exactly for 404 and a rate
  limit exactly for 429; the 403 with which GitHub reports an exhausted quota is therefore taken
  for a bad token.
\<close>

theorem status_is_the_error_class:
  assumes "nt_wait nt = None" "\<And>url hs. nt_get nt url hs = HttpReply status body" "status \<noteq> 200"
    and "p \<in> {github_provider nt c, gitlab_provider nt c}"
  shows "\<exists>e1 e2 e3 e4. pv_list_releases p owner repo = Inl e1 \<and> pv_latest p owner repo = Inl e2 \<and>
    pv_list_tags p owner repo = Inl e3 \<and> pv_file p owner repo path = Inl e4 \<and>
    (\<forall>e \<in> {e1, e2, e3, e4}. (is_auth e \<longleftrightarrow> status \<in> {401, 403}) \<and> (is_not_found e \<longleftrightarrow> status = 404) \<and>
      (is_rate_limit e \<longleftrightarrow> status = 429))"
proof -
  note req = request_json_status [OF assms(1-3)]
  have kind: "(is_auth (Wrapf what (new_provider_error platform status url)) \<longleftrightarrow> status \<in> {401, 403}) \<and>
      (is_not_found (Wrapf what (new_provider_error platform status url)) \<longleftrightarrow> status = 404) \<and>
      (is_rate_limit (Wrapf what (new_provider_error platform status url)) \<longleftrightarrow> status = 429)"
    for what platform url
    by (simp add: errors_is_defs errors_is_new_provider_error)
  from assms(4) show ?thesis
    by (auto simp: github_provider_def gitlab_provider_def github_list_releases_def github_latest_def
        github_list_tags_def github_file_def gitlab_list_releases_def gitlab_latest_def gitlab_list_tags_def
        gitlab_file_def req kind)
qed

theorem status_is_the_error_class_witness:
  "\<exists>e. pv_latest (github_provider (demo_net JNull 403) (github_new [])) ''o'' ''r'' = Inl e \<and> is_auth e \<and> \<not> is_rate_limit e"
  using status_is_the_error_class [of "demo_net JNull 403" 403 "Inr []" "github_provider (demo_net JNull 403) (github_new [])"
      "github_new []" "''o''" "''r''" "[]"]
  by (auto simp: demo_net_def)

end
