(* ===== verification/Planning.thy ===== *)
theory Planning
  imports Analysis
begin

text \<open>
  The upgrade plan and the watch tool (\<open>handleUpgradePlan\<close> and \<open>handleWatchReleases\<close> of
  \<open>internal/mcpserver/tools_extended.go\<close>), with the equivalence of the watch and a poll of the
  daemon.
\<close>

section \<open>The upgrade plan\<close>

text \<open>
  \<open>strings.ToLower\<close> as far as a search for ASCII letters can see it: besides the ASCII
  capitals, the capital I with a dot above and the Kelvin sign have an ASCII lower case.
\<close>

fun fold_lower :: "string \<Rightarrow> string" where
  "fold_lower [] = []"
| "fold_lower (a # cs) =
     (case cs of
        b # ds \<Rightarrow>
          if a = CHR 0xC4 \<and> b = CHR 0xB0 then CHR ''i'' # fold_lower ds
          else (case ds of
              c # es \<Rightarrow> if a = CHR 0xE2 \<and> b = CHR 0x84 \<and> c = CHR 0xAA then CHR ''k'' # fold_lower es
                         else lower_char a # fold_lower cs
            | [] \<Rightarrow> lower_char a # fold_lower cs)
      | [] \<Rightarrow> [lower_char a])"

definition is_security :: "release \<Rightarrow> bool" where
  "is_security r \<longleftrightarrow> contains ''security'' (fold_lower (rel_name r)) \<or> contains ''cve'' (fold_lower (rel_body r))"

record plan_entry =
  pe_service :: string
  pe_platform :: string
  pe_latest :: string
  pe_date :: string
  pe_deployed :: string
  pe_up_to_date :: bool
  pe_priority :: string
  pe_action :: string
  pe_error :: string

text \<open>The \<open>switch\<close> on the age of a release that is not deployed: priority and action.\<close>

definition upgrade_advice :: "gotime \<Rightarrow> string \<Rightarrow> release \<Rightarrow> string \<times> string" where
  "upgrade_advice now deployed r =
     (let age = instant now - instant (rel_published_at r) in
      if is_security r then
        (''critical'', ''Security update available: upgrade to '' @ rel_tag r @ '' immediately'')
      else if age < 24 * hour then (''medium'', ''New release available: upgrade to '' @ rel_tag r)
      else if age < 7 * 24 * hour then (''medium'', ''Recent release available: upgrade to '' @ rel_tag r)
      else if deployed = [] then (''high'', ''Deployed version unknown; latest is '' @ rel_tag r)
      else (''high'', ''Outdated: upgrade from '' @ deployed @ '' to '' @ rel_tag r))"

definition plan_entry_of :: "gotime \<Rightarrow> mcp_server \<Rightarrow> (string, string) gomap \<Rightarrow> service_config \<Rightarrow> plan_entry" where
  "plan_entry_of now s deployed svc =
     (case resolve_latest s svc of
        Inl (platform, e) \<Rightarrow>
          \<lparr>pe_service = sc_name svc, pe_platform = platform, pe_latest = [], pe_date = [], pe_deployed = [],
           pe_up_to_date = False, pe_priority = [], pe_action = [], pe_error = e\<rparr>
      | Inr (platform, r) \<Rightarrow>
          let deployed_ver = map_get deployed (sc_name svc);
              up_to_date = same_version deployed_ver (rel_tag r);
              (priority, action) = (if \<not> up_to_date then upgrade_advice now deployed_ver r
                                    else (''low'', ''No action needed''))
          in \<lparr>pe_service = sc_name svc, pe_platform = platform, pe_latest = rel_tag r,
              pe_date = format_date (rel_published_at r), pe_deployed = deployed_ver,
              pe_up_to_date = up_to_date, pe_priority = priority, pe_action = action, pe_error = []\<rparr>)"

text \<open>The map \<open>priorityOrder\<close>; a missing key gives 0.\<close>

definition priority_rank :: "string \<Rightarrow> nat" where
  "priority_rank p =
     (if p = ''critical'' then 0 else if p = ''high'' then 1 else if p = ''medium'' then 2
      else if p = ''low'' then 3 else 0)"

definition plan_less :: "plan_entry \<Rightarrow> plan_entry \<Rightarrow> bool" where
  "plan_less a b =
     (let pa = priority_rank (pe_priority a); pb = priority_rank (pe_priority b) in
      if pa \<noteq> pb then pa < pb else pe_date a < pe_date b)"

definition upgrade_plan :: "gotime \<Rightarrow> mcp_server \<Rightarrow> (string, string) gomap \<Rightarrow> plan_entry list" where
  "upgrade_plan now s deployed =
     sort_slice plan_less (map (plan_entry_of now s deployed) (cfg_services (ms_config s)))"

definition json_of_plan :: "plan_entry \<Rightarrow> json" where
  "json_of_plan e = JObj
     ([(''service'', JStr (pe_service e)), (''platform'', JStr (pe_platform e)),
       (''latest_release'', JStr (pe_latest e)), (''release_date'', JStr (pe_date e))] @
      omit_empty ''deployed_version'' (pe_deployed e) @
      [(''up_to_date'', JBool (pe_up_to_date e)), (''priority'', JStr (pe_priority e)),
       (''action'', JStr (pe_action e))] @ omit_empty ''error'' (pe_error e))"

definition handle_upgrade_plan :: "tool_env \<Rightarrow> mcp_server \<Rightarrow> tool_request \<Rightarrow> tool_result" where
  "handle_upgrade_plan env s req =
     (if cfg_services (ms_config s) = [] then ToolText ''No services configured.''
      else
        let entries = upgrade_plan (tv_now env) s (deployed_versions (deployed_in env req)) in
        ToolJson (JObj
          [(''namespace'', JStr (tq_string req ''namespace'' ''default'')),
           (''total_services'', JNum (int (length entries))),
           (''upgrade_plan'', JArr (map json_of_plan entries))]))"

lemma plan_less_order: "weak_order plan_less"
  by (auto simp: weak_order_def plan_less_def Let_def split: if_splits)

lemma plan_entry_error:
  "pe_error (plan_entry_of now s deployed svc) \<noteq> [] \<Longrightarrow>
     priority_rank (pe_priority (plan_entry_of now s deployed svc)) = 0 \<and>
     pe_date (plan_entry_of now s deployed svc) = []"
  by (auto simp: plan_entry_of_def priority_rank_def Let_def split: sum.splits prod.splits)

lemma plan_entry_priority:
  fixes now deployed
  assumes "resolve_latest s svc = Inr (platform, r)"
  defines "e \<equiv> plan_entry_of now s deployed svc"
  shows "(pe_priority e = ''low'' \<longleftrightarrow> same_version (map_get deployed (sc_name svc)) (rel_tag r)) \<and>
    (pe_priority e = ''critical'' \<longleftrightarrow>
      \<not> same_version (map_get deployed (sc_name svc)) (rel_tag r) \<and> is_security r) \<and>
    pe_priority e \<in> {''critical'', ''high'', ''medium'', ''low''}"
  using assms(1) unfolding e_def by (simp add: plan_entry_of_def upgrade_advice_def Let_def)

text \<open>
  C21. The upgrade plan has exactly one entry for each service, in the order critical, high,
  medium, low and, within a priority, older releases first; a service is of low priority
  exactly when its deployed version is its latest release, and critical exactly when it
  is not and that release is a security release.  A service whose look-up failed has no
  priority, which counts as the most urgent, and an empty date: it is listed before every
  critical update.
\<close>

theorem upgrade_plan_is_ordered:
  assumes "e \<in> set (upgrade_plan now s deployed)"
  shows "mset (map pe_service (upgrade_plan now s deployed)) = mset (map sc_name (cfg_services (ms_config s))) \<and>
    sorted_wrt (\<lambda>a b. priority_rank (pe_priority a) \<le> priority_rank (pe_priority b) \<and>
      (priority_rank (pe_priority a) = priority_rank (pe_priority b) \<longrightarrow> pe_date a \<le> pe_date b))
      (upgrade_plan now s deployed) \<and>
    (\<exists>svc \<in> set (cfg_services (ms_config s)). pe_service e = sc_name svc \<and>
      (case resolve_latest s svc of
         Inl (platform, err) \<Rightarrow> pe_error e = err \<and> pe_priority e = [] \<and> priority_rank (pe_priority e) = 0 \<and> pe_date e = []
       | Inr (platform, r) \<Rightarrow>
           (pe_priority e = ''low'' \<longleftrightarrow> same_version (map_get deployed (sc_name svc)) (rel_tag r)) \<and>
           (pe_priority e = ''critical'' \<longleftrightarrow>
             \<not> same_version (map_get deployed (sc_name svc)) (rel_tag r) \<and> is_security r)))"
proof -
  let ?es = "map (plan_entry_of now s deployed) (cfg_services (ms_config s))"
  have name: "pe_service (plan_entry_of now s deployed svc) = sc_name svc" for svc
    by (simp add: plan_entry_of_def Let_def split: sum.splits prod.splits)
  have "mset (map pe_service (upgrade_plan now s deployed)) = mset (map pe_service ?es)"
    by (simp only: upgrade_plan_def mset_map go_sort.mset_sorter)
  then have names: "mset (map pe_service (upgrade_plan now s deployed)) = mset (map sc_name (cfg_services (ms_config s)))"
    by (simp add: name comp_def)
  have sorted: "sorted_wrt (\<lambda>a b. \<not> plan_less b a) (upgrade_plan now s deployed)"
    unfolding upgrade_plan_def by (rule go_sort.sorted_sorter [OF plan_less_order])
  have "e \<in> set ?es"
    using assms go_sort.set_sorter [of plan_less ?es] by (simp add: upgrade_plan_def)
  then obtain svc where svc: "svc \<in> set (cfg_services (ms_config s))" "e = plan_entry_of now s deployed svc"
    by auto
  have "case resolve_latest s svc of
         Inl (platform, err) \<Rightarrow> pe_error e = err \<and> pe_priority e = [] \<and> priority_rank (pe_priority e) = 0 \<and> pe_date e = []
       | Inr (platform, r) \<Rightarrow>
           (pe_priority e = ''low'' \<longleftrightarrow> same_version (map_get deployed (sc_name svc)) (rel_tag r)) \<and>
           (pe_priority e = ''critical'' \<longleftrightarrow>
             \<not> same_version (map_get deployed (sc_name svc)) (rel_tag r) \<and> is_security r)"
    using plan_entry_priority [of s svc] svc(2)
    by (auto simp: plan_entry_of_def priority_rank_def split: sum.splits)
  moreover have "sorted_wrt (\<lambda>a b. priority_rank (pe_priority a) \<le> priority_rank (pe_priority b) \<and>
      (priority_rank (pe_priority a) = priority_rank (pe_priority b) \<longrightarrow> pe_date a \<le> pe_date b))
      (upgrade_plan now s deployed)"
    by (rule sorted_wrt_mono_rel [OF _ sorted]) (auto simp: plan_less_def Let_def not_less split: if_splits)
  ultimately show ?thesis using names svc name by blast
qed

theorem upgrade_plan_is_ordered_witness:
  "\<exists>e. e \<in> set (upgrade_plan zero_time ((history_server [demo_release ''v2''])
       \<lparr>ms_config := default_config\<lparr>cfg_services := [demo_service]\<rparr>\<rparr>) Map.empty) \<and>
     pe_service e = ''api''"
proof -
  let ?s = "(history_server [demo_release ''v2''])\<lparr>ms_config := default_config\<lparr>cfg_services := [demo_service]\<rparr>\<rparr>"
  have "plan_entry_of zero_time ?s Map.empty demo_service \<in> set (upgrade_plan zero_time ?s Map.empty)"
    by (simp add: upgrade_plan_def)
  from upgrade_plan_is_ordered [OF this] this show ?thesis by (auto simp: demo_service_def)
qed

section \<open>The watch\<close>

record watch_result =
  wr_service :: string
  wr_platform :: string
  wr_latest :: string
  wr_url :: string
  wr_notified :: bool
  wr_error :: string

definition watch_notifier :: "config \<Rightarrow> notifier option" where
  "watch_notifier cfg =
     (if nc_enabled (cfg_notifications cfg) then
        from_config (nc_webhook_url (cfg_notifications cfg))
          (slack_webhook_url (nc_slack (cfg_notifications cfg)))
          (discord_webhook_url (nc_discord (cfg_notifications cfg)))
      else None)"

text \<open>One goroutine: the known versions, the requests sent so far, and the results.\<close>

definition watch_service ::
  "poster \<Rightarrow> mcp_server \<Rightarrow> service_config \<Rightarrow> (string, string) gomap \<times> sent list \<times> watch_result list \<Rightarrow>
   (string, string) gomap \<times> sent list \<times> watch_result list" where
  "watch_service post s svc st =
     (case st of (known, sent, results) \<Rightarrow>
        (case resolve_latest s svc of
           Inl (platform, e) \<Rightarrow>
             (known, sent, results @
               [\<lparr>wr_service = sc_name svc, wr_platform = platform, wr_latest = [], wr_url = [],
                 wr_notified = False, wr_error = e\<rparr>])
         | Inr (platform, r) \<Rightarrow>
             let old = map_get known (sc_name svc);
                 new = (old \<noteq> [] \<and> old \<noteq> rel_tag r);
                 (posts, notified) =
                   (case watch_notifier (ms_config s) of
                      Some n \<Rightarrow> if new
                        then (case notify post n (release_event svc platform old r) of
                                (posts, err) \<Rightarrow> (posts, err = None))
                        else ([], False)
                    | None \<Rightarrow> ([], False))
             in (known(sc_name svc \<mapsto> rel_tag r), sent @ posts, results @
                  [\<lparr>wr_service = sc_name svc, wr_platform = platform, wr_latest = rel_tag r,
                    wr_url = rel_html_url r, wr_notified = notified, wr_error = []\<rparr>])))"

definition watch_all :: "poster \<Rightarrow> mcp_server \<Rightarrow> (string, string) gomap \<times> sent list \<times> watch_result list" where
  "watch_all post s = fold (watch_service post s) (cfg_services (ms_config s)) (ms_known s, [], [])"

definition json_of_watch :: "watch_result \<Rightarrow> json" where
  "json_of_watch w = JObj
     ([(''service'', JStr (wr_service w)), (''platform'', JStr (wr_platform w)),
       (''latest_release'', JStr (wr_latest w)), (''url'', JStr (wr_url w)),
       (''notified'', JBool (wr_notified w))] @ omit_empty ''error'' (wr_error w))"

definition handle_watch_releases :: "tool_env \<Rightarrow> mcp_server \<Rightarrow> mcp_server \<times> sent list \<times> tool_result" where
  "handle_watch_releases env s =
     (if cfg_services (ms_config s) = [] then (s, [], ToolText ''No services configured.'')
      else case watch_all (tv_post env) s of (known, sent, results) \<Rightarrow>
        (s\<lparr>ms_known := known\<rparr>, sent, ToolJson (JObj
          [(''new_releases'', JNum (int (length (filter wr_notified results)))),
           (''notifications_on'', JBool (nc_enabled (cfg_notifications (ms_config s)))),
           (''results'', JArr (map json_of_watch results)),
           (''services'', JNum (int (length results)))])))"

section \<open>The watch and the daemon\<close>

definition watch_env :: "poster \<Rightarrow> mcp_server \<Rightarrow> daemon_env" where
  "watch_env post s = \<lparr>de_services = cfg_services (ms_config s), de_providers = ms_providers s,
     de_notifier = watch_notifier (ms_config s), de_post = post\<rparr>"

lemma watch_env_simps [simp]:
  "de_services (watch_env post s) = cfg_services (ms_config s)"
  "de_providers (watch_env post s) = ms_providers s"
  "de_notifier (watch_env post s) = watch_notifier (ms_config s)" "de_post (watch_env post s) = post"
  by (simp_all add: watch_env_def)

text \<open>A repository with an empty host is resolved to GitHub by the tools only.\<close>

definition has_host :: "service_config \<Rightarrow> bool" where
  "has_host svc \<longleftrightarrow> hd (split_on CHR ''/'' (sc_repo svc)) \<noteq> []"

lemma parse_repo_platform:
  "has_host svc \<Longrightarrow> parse_repo (sc_repo svc) = Inr parsed \<Longrightarrow> svc_platform parsed \<noteq> []"
  by (cases "split_on CHR ''/'' (sc_repo svc)")
    (auto simp: parse_repo_def has_host_def Let_def split: if_splits)

lemma fetch_resolve:
  assumes "has_host svc"
  shows "fetch (watch_env post s) svc =
    (case resolve_latest s svc of Inl e \<Rightarrow> None | Inr pr \<Rightarrow> Some pr)"
  using parse_repo_platform [OF assms]
  by (auto simp: fetch_def resolve_latest_def resolve_def get_provider_def watch_env_def
      split: sum.splits option.splits)

text \<open>What a goroutine of either adds, from the version known before.\<close>

definition watch_posts :: "poster \<Rightarrow> mcp_server \<Rightarrow> service_config \<Rightarrow> string \<Rightarrow> sent list" where
  "watch_posts post s svc old =
     (case resolve_latest s svc of
        Inl e \<Rightarrow> []
      | Inr (platform, r) \<Rightarrow>
          (if old \<noteq> [] \<and> old \<noteq> rel_tag r then
             (case watch_notifier (ms_config s) of None \<Rightarrow> []
              | Some n \<Rightarrow> fst (notify post n (release_event svc platform old r)))
           else []))"

lemma watch_service_known_sent:
  "fst (watch_service post s svc (known, sent, results)) =
     (case resolve_latest s svc of Inl e \<Rightarrow> known | Inr (platform, r) \<Rightarrow> known(sc_name svc \<mapsto> rel_tag r))"
  "fst (snd (watch_service post s svc (known, sent, results))) =
     sent @ watch_posts post s svc (map_get known (sc_name svc))"
  by (auto simp: watch_service_def watch_posts_def Let_def split_beta split: sum.splits option.splits)

lemma check_service_known_sent:
  assumes "has_host svc" "d_known d (sc_name svc) \<noteq> Some []"
  shows "d_known (check_service (watch_env post s) now svc d) =
      (case resolve_latest s svc of Inl e \<Rightarrow> d_known d | Inr (platform, r) \<Rightarrow> (d_known d)(sc_name svc \<mapsto> rel_tag r))"
    and "d_sent (check_service (watch_env post s) now svc d) =
      d_sent d @ watch_posts post s svc (map_get (d_known d) (sc_name svc))"
  using assms(2)
  by (auto simp: check_service_def fetch_resolve [OF assms(1)] watch_posts_def learn_def announce_def
      persist_version_def persist_release_def notifications_def is_new_def map_get_def
      split: sum.splits option.splits prod.splits)

lemma watch_poll_agree:
  assumes "distinct (map sc_name svcs)" "list_all has_host svcs"
    and "\<forall>svc \<in> set svcs. known (sc_name svc) \<noteq> Some []" "d_known d = known"
  shows "d_known (fold (check_service (watch_env post s) now) svcs d) =
      fst (fold (watch_service post s) svcs (known, sent, results)) \<and>
    (\<exists>posts. d_sent (fold (check_service (watch_env post s) now) svcs d) = d_sent d @ posts \<and>
      fst (snd (fold (watch_service post s) svcs (known, sent, results))) = sent @ posts)"
  using assms
proof (induction svcs arbitrary: known d sent results)
  case Nil
  then show ?case by simp
next
  case (Cons svc svcs)
  let ?d = "check_service (watch_env post s) now svc d"
  obtain known' sent' results' where step: "watch_service post s svc (known, sent, results) = (known', sent', results')"
    by (cases "watch_service post s svc (known, sent, results)") auto
  have host: "has_host svc" and old: "d_known d (sc_name svc) \<noteq> Some []"
    using Cons.prems by auto
  have known': "known' = (case resolve_latest s svc of Inl e \<Rightarrow> known | Inr (platform, r) \<Rightarrow> known(sc_name svc \<mapsto> rel_tag r))"
    and sent': "sent' = sent @ watch_posts post s svc (map_get known (sc_name svc))"
    using watch_service_known_sent [of post s svc known sent results] step by simp_all
  have d: "d_known ?d = known'" "d_sent ?d = d_sent d @ watch_posts post s svc (map_get known (sc_name svc))"
    unfolding check_service_known_sent [OF host old, of post s now] known' Cons.prems(4) by simp_all
  have "known' (sc_name v) \<noteq> Some []" if "v \<in> set svcs" for v
    using that Cons.prems(1,3) known' by (auto simp: image_iff split: sum.splits)
  with Cons.prems have "\<forall>v \<in> set svcs. known' (sc_name v) \<noteq> Some []" "distinct (map sc_name svcs)"
    "list_all has_host svcs" by auto
  from Cons.IH [OF this(2,3,1) d(1), of sent' results'] d(2) sent' step show ?case by auto
qed

text \<open>
  C20. The watch tool notifies exactly as the daemon.  For a valid configuration whose
  repositories name a host, and when no empty version is known, a call of \<open>watch_releases\<close> makes
  the same requests, in the same order, and ends with the same known versions as a poll of a
  daemon with the same services, providers and notifier that knows the same versions.
\<close>

theorem watch_agrees_with_daemon:
  assumes "services_ok (cfg_services (ms_config s))" "list_all has_host (cfg_services (ms_config s))"
    and "\<forall>k. ms_known s k \<noteq> Some []" "d_known d = ms_known s"
  shows "ms_known (fst (handle_watch_releases env s)) = d_known (poll (watch_env (tv_post env) s) now d) \<and>
    d_sent (poll (watch_env (tv_post env) s) now d) = d_sent d @ fst (snd (handle_watch_releases env s))"
  using watch_poll_agree [OF services_ok_distinct [OF assms(1)] assms(2) _ assms(4), of "tv_post env" s now "[]" "[]"]
    assms(3,4)
  by (auto simp: handle_watch_releases_def watch_all_def poll_def watch_env_def split: prod.splits)

theorem watch_agrees_with_daemon_witness:
  "ms_known (fst (handle_watch_releases (demo_tool_env ''v1'') ((history_server [demo_release ''v2''])
       \<lparr>ms_config := default_config\<lparr>cfg_services := [demo_service]\<rparr>, ms_known := [''api'' \<mapsto> ''v1'']\<rparr>))) ''api'' = Some ''v2''"
proof -
  let ?s = "(history_server [demo_release ''v2''])
      \<lparr>ms_config := default_config\<lparr>cfg_services := [demo_service]\<rparr>, ms_known := [''api'' \<mapsto> ''v1'']\<rparr>"
  let ?d = "(daemon_new None)\<lparr>d_known := [''api'' \<mapsto> ''v1'']\<rparr>"
  have "services_ok (cfg_services (ms_config ?s))" "list_all has_host (cfg_services (ms_config ?s))"
    by (simp_all add: services_ok_def entry_ok_def repo_ok_def has_host_def demo_service_def)
  moreover have "\<forall>k. ms_known ?s k \<noteq> Some []" "d_known ?d = ms_known ?s" by simp_all
  moreover have "d_known (poll (watch_env (tv_post (demo_tool_env ''v1'')) ?s) zero_time ?d) ''api'' = Some ''v2''"
    by (simp add: poll_def check_service_def fetch_def watch_env_def demo_service_def history_server_def
        history_provider_def parse_repo_def contains_def Let_def demo_release_def daemon_steps daemon_new_def)
  ultimately show ?thesis
    using watch_agrees_with_daemon [of ?s ?d "demo_tool_env ''v1''" zero_time] by simp
qed

end
