(* ===== verification/Cli.thy ===== *)
theory Cli
  imports Planning
begin

text \<open>
  The commands (\<open>cmd/releasewave\<close>) that look things up: the repository commands, \<open>security\<close>,
  \<open>check\<close>, \<open>timeline\<close>, \<open>diff\<close> and \<open>watch\<close>.  A command gives what it prints and how it ends.  The
  columns of \<open>text/tabwriter\<close> and the JSON encoder are library code: a table is its cells, a
  JSON output its value.  The parsed flags and arguments are the arguments of the definitions.
\<close>

section \<open>What the commands share\<close>

datatype printed = Out string | TableOut "string list list" | JsonOut json

datatype cmd_end = Done | Failed go_error | ExitOne string

type_synonym cmd_run = "printed list \<times> cmd_end"

definition println :: "string \<Rightarrow> printed" where
  "println s = Out (s @ newline)"

text \<open>
  The environment, the constructors of the two clients with the token and the rate of their
  limiter, the cluster by kubeconfig and context, OSV and the clock.
\<close>

record cli_env =
  ci_getenv :: "string \<Rightarrow> string"
  ci_github :: "string \<Rightarrow> gofloat \<Rightarrow> provider"
  ci_gitlab :: "string \<Rightarrow> gofloat \<Rightarrow> provider"
  ci_cluster :: "string \<Rightarrow> string \<Rightarrow> cluster result"
  ci_osv :: osv_post
  ci_parse :: "string \<Rightarrow> json option"
  ci_now :: gotime
  ci_jtime :: "gotime \<Rightarrow> string"

definition parse_owner_repo :: "string \<Rightarrow> (string \<times> string) option" where
  "parse_owner_repo arg =
     (let parts = split_n 2 CHR ''/'' arg in
      if length parts \<noteq> 2 then None else Some (parts ! 0, parts ! 1))"

definition token_or :: "string \<Rightarrow> config option \<Rightarrow> (token_config \<Rightarrow> string) \<Rightarrow> string" where
  "token_or tok cfg field =
     (if tok = [] then (case cfg of Some c \<Rightarrow> field (cfg_tokens c) | None \<Rightarrow> tok) else tok)"

definition rate_or :: "gofloat \<Rightarrow> config option \<Rightarrow> (rate_limit_config \<Rightarrow> gofloat) \<Rightarrow> gofloat" where
  "rate_or rps cfg field =
     (case cfg of
        Some c \<Rightarrow> if flt_less (FFin 0) (field (cfg_rate_limit c)) then field (cfg_rate_limit c) else rps
      | None \<Rightarrow> rps)"

definition cli_provider :: "cli_env \<Rightarrow> config option \<Rightarrow> string \<Rightarrow> provider" where
  "cli_provider env cfg platform =
     (if platform = ''gitlab'' then
        ci_gitlab env (token_or (ci_getenv env ''GITLAB_TOKEN'') cfg tok_gitlab)
          (rate_or (FFin 3) cfg rl_gitlab)
      else
        ci_github env (token_or (ci_getenv env ''GITHUB_TOKEN'') cfg tok_github)
          (rate_or (FFin 5) cfg rl_github))"

text \<open>The map of providers the other commands build from the configuration.\<close>

definition cmd_providers :: "cli_env \<Rightarrow> config \<Rightarrow> providers" where
  "cmd_providers env cfg =
     [''github'' \<mapsto> ci_github env (tok_github (cfg_tokens cfg)) (rl_github (cfg_rate_limit cfg)),
      ''gitlab'' \<mapsto> ci_gitlab env (tok_gitlab (cfg_tokens cfg)) (rl_gitlab (cfg_rate_limit cfg))]"

section \<open>Commands on one repository\<close>

definition on_repository ::
  "cli_env \<Rightarrow> config option \<Rightarrow> string \<Rightarrow> string \<Rightarrow> (string \<Rightarrow> string \<Rightarrow> provider \<Rightarrow> cmd_run) \<Rightarrow> cmd_run" where
  "on_repository env cfg arg platform run =
     (case parse_owner_repo arg of
        None \<Rightarrow> ([], ExitOne (''error: expected owner/repo format, got '' @ quote arg @ newline))
      | Some (owner, repo) \<Rightarrow> run owner repo (cli_provider env cfg platform))"

definition releases_cmd :: "cli_env \<Rightarrow> config option \<Rightarrow> string \<Rightarrow> string \<Rightarrow> bool \<Rightarrow> cmd_run" where
  "releases_cmd env cfg arg platform as_json =
     on_repository env cfg arg platform (\<lambda>owner repo p.
       case pv_list_releases p owner repo of
         Inl e \<Rightarrow> ([], Failed (Wrapf ''list releases'' e))
       | Inr rs \<Rightarrow>
           if rs = [] then ([println ''No releases found.''], Done)
           else if as_json then ([JsonOut (JArr (map (json_of_release (ci_jtime env)) rs))], Done)
           else ([TableOut ([[''TAG'', ''NAME'', ''DATE'', ''PRE-RELEASE''], [''---'', ''----'', ''----'', ''-----------'']] @
                   map (\<lambda>r. [rel_tag r, clip 50 (rel_name r), format_date (rel_published_at r),
                     if rel_prerelease r then ''yes'' else []]) rs)], Done))"

definition latest_cmd :: "cli_env \<Rightarrow> config option \<Rightarrow> string \<Rightarrow> string \<Rightarrow> bool \<Rightarrow> cmd_run" where
  "latest_cmd env cfg arg platform as_json =
     on_repository env cfg arg platform (\<lambda>owner repo p.
       case pv_latest p owner repo of
         Inl e \<Rightarrow> ([], Failed (Wrapf ''get latest release'' e))
       | Inr r \<Rightarrow>
           if as_json then ([JsonOut (json_of_release (ci_jtime env) r)], Done)
           else
             ([println (''Repository:  '' @ owner @ ''/'' @ repo), println (''Latest:      '' @ rel_tag r),
               println (''Name:        '' @ rel_name r),
               println (''Published:   '' @ format_minute (rel_published_at r)),
               println (''URL:         '' @ rel_html_url r)] @
              (if rel_prerelease r then [println ''Pre-release: yes''] else []) @
              (if rel_body r \<noteq> []
               then [Out (newline @ ''--- Release Notes ---'' @ newline @ clip 500 (rel_body r) @ newline)]
               else []), Done))"

definition tags_cmd :: "cli_env \<Rightarrow> config option \<Rightarrow> string \<Rightarrow> string \<Rightarrow> bool \<Rightarrow> cmd_run" where
  "tags_cmd env cfg arg platform as_json =
     on_repository env cfg arg platform (\<lambda>owner repo p.
       case pv_list_tags p owner repo of
         Inl e \<Rightarrow> ([], Failed (Wrapf ''list tags'' e))
       | Inr ts \<Rightarrow>
           if ts = [] then ([println ''No tags found.''], Done)
           else if as_json then ([JsonOut (JArr (map json_of_tag ts))], Done)
           else ([TableOut ([[''TAG'', ''COMMIT''], [''---'', ''------'']] @
                   map (\<lambda>t. [tag_name t, take 8 (tag_commit t)]) ts)], Done))"

definition security_cmd :: "cli_env \<Rightarrow> string \<Rightarrow> string \<Rightarrow> string \<Rightarrow> bool \<Rightarrow> cmd_run" where
  "security_cmd env ecosystem pkg ver as_json =
     (case query_by_package (ci_osv env) (ci_parse env) ecosystem pkg ver of
        Inl e \<Rightarrow> ([], Failed (Wrapf ''vulnerability check'' e))
      | Inr vulns \<Rightarrow>
          if as_json then
            ([JsonOut (JObj [(''ecosystem'', JStr ecosystem), (''package'', JStr pkg),
               (''total'', JNum (int (length vulns))), (''version'', JStr ver),
               (''vulnerabilities'', JArr (map json_of_vulnerability vulns))])], Done)
          else if vulns = [] then
            ([println (''No known vulnerabilities for '' @ ecosystem @ '' '' @ pkg @ ''@'' @ ver)], Done)
          else
            ([Out (''Found '' @ show_int (int (length vulns)) @ '' vulnerabilities for '' @ ecosystem @ '' '' @ pkg @
                ''@'' @ ver @ '':'' @ newline @ newline),
              TableOut ([[''ID'', ''SEVERITY'', ''SUMMARY''], [''--'', ''--------'', ''-------'']] @
                map (\<lambda>v. [vu_id v, if vu_severity v = [] then ''-'' else vu_severity v, clip 80 (vu_summary v)]) vulns)],
             Done))"

definition version_cmd :: "string \<Rightarrow> string \<Rightarrow> string \<Rightarrow> bool \<Rightarrow> printed list" where
  "version_cmd version commit date as_json =
     (if as_json then
        [JsonOut (JObj [(''commit'', JStr commit), (''date'', JStr date), (''version'', JStr version)])]
      else [println (''releasewave '' @ version @ '' (commit: '' @ commit @ '', built: '' @ date @ '')'')])"

section \<open>check\<close>

definition check_row_of :: "providers \<Rightarrow> service_config \<Rightarrow> check_result" where
  "check_row_of ps svc =
     (let row = \<lparr>cr_name = sc_name svc, cr_platform = [], cr_latest = [], cr_url = [], cr_error = []\<rparr> in
      case lookup_latest ps svc of
        BadRepo e \<Rightarrow> row\<lparr>cr_error := error_text e\<rparr>
      | NoProvider platform \<Rightarrow> row\<lparr>cr_platform := platform, cr_error := ''unsupported platform''\<rparr>
      | RequestFailed platform e \<Rightarrow> row\<lparr>cr_platform := platform, cr_error := error_text e\<rparr>
      | Found platform r \<Rightarrow> row\<lparr>cr_platform := platform, cr_latest := rel_tag r, cr_url := rel_html_url r\<rparr>)"

definition json_of_check_row :: "check_result \<Rightarrow> json" where
  "json_of_check_row c = JObj
     ([(''name'', JStr (cr_name c)), (''platform'', JStr (cr_platform c)), (''latest_release'', JStr (cr_latest c))] @
      omit_empty ''url'' (cr_url c) @ omit_empty ''error'' (cr_error c))"

definition check_cmd :: "cli_env \<Rightarrow> config \<Rightarrow> bool \<Rightarrow> cmd_run" where
  "check_cmd env cfg as_json =
     (if cfg_services cfg = [] then
        ([println ''No services configured.'',
          println ''Add services to ~/.config/releasewave/config.yaml or run: releasewave init''], Done)
      else
        let rows = map (check_row_of (cmd_providers env cfg)) (cfg_services cfg) in
        ([if as_json then JsonOut (JArr (map json_of_check_row rows))
          else TableOut ([[''SERVICE'', ''PLATFORM'', ''LATEST'', ''URL''], [''-------'', ''--------'', ''------'', ''---'']] @
            map (\<lambda>c. if cr_error c \<noteq> [] then [cr_name c, cr_platform c, ''error: '' @ cr_error c, []]
                     else [cr_name c, cr_platform c, cr_latest c, cr_url c]) rows)], Done))"

section \<open>timeline\<close>

record time_entry =
  te_date :: gotime
  te_service :: string
  te_tag :: string
  te_name :: string
  te_url :: string

definition time_entry_of :: "service_config \<Rightarrow> release \<Rightarrow> time_entry" where
  "time_entry_of svc r =
     \<lparr>te_date = rel_published_at r, te_service = sc_name svc, te_tag = rel_tag r, te_name = rel_name r,
      te_url = rel_html_url r\<rparr>"

fun recent_entries :: "gotime \<Rightarrow> service_config \<Rightarrow> release list \<Rightarrow> time_entry list" where
  "recent_entries cutoff svc [] = []"
| "recent_entries cutoff svc (r # rs) =
     (if time_before (rel_published_at r) cutoff then []
      else time_entry_of svc r # recent_entries cutoff svc rs)"

definition service_entries :: "providers \<Rightarrow> gotime \<Rightarrow> service_config \<Rightarrow> time_entry list" where
  "service_entries ps cutoff svc =
     (case parse_repo (sc_repo svc) of
        Inl e \<Rightarrow> []
      | Inr parsed \<Rightarrow>
          (case ps (svc_platform parsed) of
             None \<Rightarrow> []
           | Some p \<Rightarrow>
               (case pv_list_releases p (svc_owner parsed) (svc_repo_name parsed) of
                  Inl e \<Rightarrow> []
                | Inr rs \<Rightarrow> recent_entries cutoff svc rs)))"

definition time_entries :: "providers \<Rightarrow> gotime \<Rightarrow> service_config list \<Rightarrow> time_entry list" where
  "time_entries ps cutoff svcs =
     sort_slice (\<lambda>a b. time_after (te_date a) (te_date b)) (concat (map (service_entries ps cutoff) svcs))"

definition json_of_time_entry :: "time_entry \<Rightarrow> json" where
  "json_of_time_entry e = JObj
     [(''date'', JStr (format_minute (te_date e))), (''service'', JStr (te_service e)), (''tag'', JStr (te_tag e)),
      (''name'', JStr (te_name e)), (''url'', JStr (te_url e))]"

definition timeline_cmd :: "cli_env \<Rightarrow> config \<Rightarrow> int \<Rightarrow> bool \<Rightarrow> cmd_run" where
  "timeline_cmd env cfg days as_json =
     (if cfg_services cfg = [] then ([println ''No services configured.''], Done)
      else
        let entries = time_entries (cmd_providers env cfg) (add_days (- days) (ci_now env)) (cfg_services cfg) in
        if entries = [] then ([println (''No releases in the last '' @ show_int days @ '' days.'')], Done)
        else if as_json then ([JsonOut (JArr (map json_of_time_entry entries))], Done)
        else
          ([Out (''Releases in the last '' @ show_int days @ '' days ('' @ show_int (int (length entries)) @
              '' total):'' @ newline @ newline),
            TableOut ([[''DATE'', ''SERVICE'', ''TAG'', ''NAME''], [''----'', ''-------'', ''---'', ''----'']] @
              map (\<lambda>e. [format_date (te_date e), te_service e, te_tag e, clip 40 (te_name e)]) entries)], Done))"

section \<open>diff\<close>

definition deployed_version :: "cli_env \<Rightarrow> string \<Rightarrow> string \<Rightarrow> string \<Rightarrow> string \<Rightarrow> string" where
  "deployed_version env kubeconfig kctx namespace name =
     (case ci_cluster env kubeconfig kctx of
        Inl e \<Rightarrow> []
      | Inr cl \<Rightarrow> (case list_all_workloads cl namespace of Inl e \<Rightarrow> [] | Inr ds \<Rightarrow> first_deployed name ds))"

definition arrow :: string where
  "arrow = [CHR 0xE2, CHR 0x86, CHR 0x92]"

fun diff_lines :: "string \<Rightarrow> string \<Rightarrow> bool \<Rightarrow> release list \<Rightarrow> printed list" where
  "diff_lines latest deployed in_range [] = []"
| "diff_lines latest deployed in_range (r # rs) =
     (let in_range = (in_range \<or> rel_tag r = latest);
          line = (if in_range then
                    [println (''  '' @ rel_tag r @ ''  '' @ format_date (rel_published_at r) @
                       (if rel_name r \<noteq> [] \<and> rel_name r \<noteq> rel_tag r then ''  '' @ rel_name r else []))]
                  else [])
      in if is_deployed_tag deployed (rel_tag r) then line else line @ diff_lines latest deployed in_range rs)"

definition diff_report :: "cli_env \<Rightarrow> string \<Rightarrow> service \<Rightarrow> provider \<Rightarrow> release \<Rightarrow> string \<Rightarrow> printed list" where
  "diff_report env name parsed p latest deployed =
     [println (''Service:  '' @ name), println (''Latest:   '' @ rel_tag latest),
      println (if deployed \<noteq> [] then ''Deployed: '' @ deployed else ''Deployed: unknown''),
      println (''URL:      '' @ rel_html_url latest)] @
     (if deployed \<noteq> [] \<and> deployed \<noteq> rel_tag latest then
        (case pv_list_releases p (svc_owner parsed) (svc_repo_name parsed) of
           Inl e \<Rightarrow> []
         | Inr rs \<Rightarrow>
             Out (newline @ ''Changelog ('' @ deployed @ '' '' @ arrow @ '' '' @ rel_tag latest @ ''):'' @ newline) #
             diff_lines (rel_tag latest) deployed False rs)
      else if deployed = rel_tag latest then [println (newline @ ''Up to date!'')]
      else [])"

definition diff_cmd :: "cli_env \<Rightarrow> config \<Rightarrow> string \<Rightarrow> string \<Rightarrow> string \<Rightarrow> string \<Rightarrow> cmd_run" where
  "diff_cmd env cfg name namespace kubeconfig kctx =
     (case find_service name (cfg_services cfg) of
        None \<Rightarrow> ([], Failed (Plain (''service '' @ quote name @ '' not found in config'')))
      | Some svc \<Rightarrow>
          (case parse_repo (sc_repo svc) of
             Inl e \<Rightarrow> ([], Failed e)
           | Inr parsed \<Rightarrow>
               (case cmd_providers env cfg (svc_platform parsed) of
                  None \<Rightarrow> ([], Failed (Plain (''unsupported platform: '' @ svc_platform parsed)))
                | Some p \<Rightarrow>
                    (case pv_latest p (svc_owner parsed) (svc_repo_name parsed) of
                       Inl e \<Rightarrow> ([], Failed (Wrapf ''get latest release'' e))
                     | Inr latest \<Rightarrow>
                         (diff_report env name parsed p latest
                            (deployed_version env kubeconfig kctx namespace name), Done)))))"

section \<open>watch\<close>

definition new_line :: "gotime \<Rightarrow> string \<Rightarrow> string \<Rightarrow> string \<Rightarrow> printed" where
  "new_line now name tag url =
     println (''[NEW] '' @ format_clock now @ ''  '' @ name @ '' '' @ arrow @ '' '' @ tag @ ''  '' @ url)"

text \<open>One goroutine of \<open>check\<close>; the critical section from the look-up of the old tag to the print.\<close>

definition watch_one ::
  "providers \<Rightarrow> gotime \<Rightarrow> bool \<Rightarrow> service_config \<Rightarrow> (string, string) gomap \<times> printed list \<Rightarrow>
   (string, string) gomap \<times> printed list" where
  "watch_one ps now first svc = (\<lambda>(known, out).
     case parse_repo (sc_repo svc) of
       Inl e \<Rightarrow> (known, out)
     | Inr parsed \<Rightarrow>
         (case ps (svc_platform parsed) of
            None \<Rightarrow> (known, out)
          | Some p \<Rightarrow>
              (case pv_latest p (svc_owner parsed) (svc_repo_name parsed) of
                 Inl e \<Rightarrow> (known, out)
               | Inr r \<Rightarrow>
                   (known(sc_name svc \<mapsto> rel_tag r),
                    if first then out @ [println (''  '' @ sc_name svc @ '': '' @ rel_tag r)]
                    else (case known (sc_name svc) of
                            Some old \<Rightarrow>
                              if old \<noteq> rel_tag r
                              then out @ [new_line now (sc_name svc) (rel_tag r) (rel_html_url r)] else out
                          | None \<Rightarrow> out)))))"

definition watch_check ::
  "providers \<Rightarrow> gotime \<Rightarrow> bool \<Rightarrow> service_config list \<Rightarrow> (string, string) gomap \<Rightarrow>
   (string, string) gomap \<times> printed list" where
  "watch_check ps now first svcs known = fold (watch_one ps now first) svcs (known, [])"

text \<open>The polls after the first one, each with the answers of the providers at its time.\<close>

fun watch_ticks ::
  "service_config list \<Rightarrow> (gotime \<times> providers) list \<Rightarrow> (string, string) gomap \<Rightarrow> printed list" where
  "watch_ticks svcs [] known = []"
| "watch_ticks svcs ((now, ps) # ticks) known =
     (case watch_check ps now False svcs known of (known', out) \<Rightarrow> out @ watch_ticks svcs ticks known')"

text \<open>The command, with the text of the interval and the polls until the signal.\<close>

definition watch_cmd :: "cli_env \<Rightarrow> config \<Rightarrow> string \<Rightarrow> bool \<Rightarrow> (gotime \<times> providers) list \<Rightarrow> cmd_run" where
  "watch_cmd env cfg interval once ticks =
     (if cfg_services cfg = [] then ([println ''No services configured.''], Done)
      else
        case watch_check (cmd_providers env cfg) (ci_now env) True (cfg_services cfg) Map.empty of
          (known, out) \<Rightarrow>
            (println (''Watching '' @ show_int (int (length (cfg_services cfg))) @ '' services (interval: '' @
               interval @ ''):'') # out @
             (if once then []
              else println (newline @ ''Polling for changes...'') # watch_ticks (cfg_services cfg) ticks known @
                [println (newline @ ''Stopped.'')]), Done))"

section \<open>Agreement with the tools and the daemon\<close>

lemma lookup_resolve:
  assumes "has_host svc" "ms_providers s = ps"
  shows "(case lookup_latest ps svc of
       BadRepo e \<Rightarrow> resolve_latest s svc = Inl ([], error_text e)
     | NoProvider platform \<Rightarrow> resolve_latest s svc = Inl (platform, unsupported_platform platform)
     | RequestFailed platform e \<Rightarrow> resolve_latest s svc = Inl (platform, error_text e)
     | Found platform r \<Rightarrow> resolve_latest s svc = Inr (platform, r))"
  using assms parse_repo_platform [of svc]
  by (auto simp: lookup_latest_def resolve_latest_def resolve_def get_provider_def Let_def
      split: sum.splits option.splits)


definition demo_cli :: "string \<Rightarrow> cli_env" where
  "demo_cli tag = \<lparr>ci_getenv = (\<lambda>_. []), ci_github = (\<lambda>_ _. demo_provider tag), ci_gitlab = (\<lambda>_ _. demo_provider tag),
     ci_cluster = (\<lambda>_ _. Inl (Plain ''no cluster'')), ci_osv = (\<lambda>_ _. OsvReply 404 (Inr [])), ci_parse = (\<lambda>_. None),
     ci_now = zero_time, ci_jtime = (\<lambda>_. [])\<rparr>"

definition demo_cfg :: config where
  "demo_cfg = default_config\<lparr>cfg_services := [demo_service]\<rparr>"


lemma watch_one_fetch:
  assumes "de_providers env = ps"
  shows "watch_one ps now first svc (known, out) =
    (case fetch env svc of
       None \<Rightarrow> (known, out)
     | Some (platform, r) \<Rightarrow>
         (known(sc_name svc \<mapsto> rel_tag r),
          if first then out @ [println (''  '' @ sc_name svc @ '': '' @ rel_tag r)]
          else out @ map (\<lambda>a. new_line now (an_service a) (an_new a) (an_url a))
            (announcements svc (known (sc_name svc)) r)))"
  using assms
  by (auto simp: watch_one_def fetch_def announcements_def is_new_def split: sum.splits option.splits)

lemma watch_fold:
  assumes "de_providers env = ps" "d_known d = known"
  shows "fst (fold (watch_one ps now first) svcs (known, out)) = d_known (fold (check_service env t) svcs d) \<and>
    (\<not> first \<longrightarrow> (\<exists>as. d_announced (fold (check_service env t) svcs d) = d_announced d @ as \<and>
       snd (fold (watch_one ps now first) svcs (known, out)) =
         out @ map (\<lambda>a. new_line now (an_service a) (an_new a) (an_url a)) as))"
  using assms(2)
proof (induction svcs arbitrary: known d out)
  case Nil
  then show ?case by simp
next
  case (Cons svc svcs)
  obtain known' out' where step: "watch_one ps now first svc (known, out) = (known', out')"
    by (cases "watch_one ps now first svc (known, out)") auto
  have known': "d_known (check_service env t svc d) = known'"
    using step Cons.prems
    by (auto simp: watch_one_fetch [OF assms(1)] check_service_known reported_def split: option.splits)
  have out': "out' = out @ map (\<lambda>a. new_line now (an_service a) (an_new a) (an_url a))
      (check_announces env (d_known d (sc_name svc)) svc)" if "\<not> first"
    using step Cons.prems that
    by (auto simp: watch_one_fetch [OF assms(1)] check_announces_def split: option.splits)
  from Cons.IH [OF known', of out'] out' step show ?case
    by (auto simp: check_service_announced)
qed

text \<open>
  C33. The command \<open>watch\<close> and the daemon see the same changes.  From the same known versions and
  the same answers, a check of the command learns what a poll of the daemon learns, and a check
  after the first prints one line for each of the daemon's announcements, in order, with its
  service, tag and URL.
\<close>

theorem watch_command_agrees_with_daemon:
  assumes "de_services env = svcs" "de_providers env = ps" "d_known d = known" "d_announced d = []"
  shows "fst (watch_check ps now first svcs known) = d_known (poll env t d) \<and>
    snd (watch_check ps now False svcs known) =
      map (\<lambda>a. new_line now (an_service a) (an_new a) (an_url a)) (d_announced (poll env t d))"
  using watch_fold [OF assms(2,3), of now first svcs "[]" t] watch_fold [OF assms(2,3), of now False svcs "[]" t]
  by (auto simp: watch_check_def poll_def assms(1,4))

lemma demo_services: "de_services (demo_env tag) = [demo_service]"
  by (simp add: demo_env_def)

theorem watch_command_agrees_with_daemon_witness:
  "snd (watch_check [''github'' \<mapsto> demo_provider ''v2''] zero_time False [demo_service] [''api'' \<mapsto> ''v1'']) =
     [new_line zero_time ''api'' ''v2'' (rel_html_url (demo_release ''v2''))]"
proof -
  let ?d = "(daemon_new None)\<lparr>d_known := [''api'' \<mapsto> ''v1'']\<rparr>"
  have "d_announced (poll (demo_env ''v2'') zero_time ?d) =
      [\<lparr>an_service = ''api'', an_old = ''v1'', an_new = ''v2'', an_url = rel_html_url (demo_release ''v2'')\<rparr>]"
    by (simp add: poll_def demo_services check_service_announced check_announces_def demo_fetch announcements_def
        is_new_def daemon_new_def) (simp add: demo_service_def demo_release_def)
  then show ?thesis
    using watch_command_agrees_with_daemon [of "demo_env ''v2''" "[demo_service]" "[''github'' \<mapsto> demo_provider ''v2'']"
        ?d "[''api'' \<mapsto> ''v1'']" zero_time True zero_time]
    by (simp add: demo_env_def daemon_new_def)
qed

section \<open>The timeline is complete and in order\<close>

definition newest_first :: "release list \<Rightarrow> bool" where
  "newest_first rs \<longleftrightarrow> sorted_wrt (\<lambda>r r'. instant (rel_published_at r') \<le> instant (rel_published_at r)) rs"

lemma recent_entries_filter:
  "newest_first rs \<Longrightarrow> recent_entries cutoff svc rs =
     map (time_entry_of svc) (filter (\<lambda>r. \<not> time_before (rel_published_at r) cutoff) rs)"
proof (induction rs)
  case (Cons r rs)
  have "filter (\<lambda>r. \<not> time_before (rel_published_at r) cutoff) rs = []" if "time_before (rel_published_at r) cutoff"
    using that Cons.prems by (force simp: newest_first_def time_before_def filter_empty_conv)
  with Cons show ?case by (auto simp: newest_first_def)
qed simp

text \<open>The releases a service's provider lists, none when the look-up fails.\<close>

definition listed_releases :: "providers \<Rightarrow> service_config \<Rightarrow> release list" where
  "listed_releases ps svc =
     (case parse_repo (sc_repo svc) of
        Inl e \<Rightarrow> []
      | Inr parsed \<Rightarrow>
          (case ps (svc_platform parsed) of
             None \<Rightarrow> []
           | Some p \<Rightarrow>
               (case pv_list_releases p (svc_owner parsed) (svc_repo_name parsed) of Inl e \<Rightarrow> [] | Inr rs \<Rightarrow> rs)))"

lemma service_entries_listed:
  "service_entries ps cutoff svc = recent_entries cutoff svc (listed_releases ps svc)"
  by (auto simp: service_entries_def listed_releases_def split: sum.splits option.splits)

text \<open>
  The command \<open>timeline\<close> lists the newest release first, by the instant of publication.  When
  the providers list releases newest first, it holds exactly the releases of all services
  published at the cutoff or after it, each as often as it is listed.
\<close>

theorem timeline_command_is_complete:
  assumes "list_all (\<lambda>svc. newest_first (listed_releases ps svc)) svcs"
  shows "sorted_wrt (\<lambda>a b. instant (te_date b) \<le> instant (te_date a)) (time_entries ps cutoff svcs) \<and>
    mset (time_entries ps cutoff svcs) =
      mset (concat (map (\<lambda>svc. map (time_entry_of svc)
        (filter (\<lambda>r. instant cutoff \<le> instant (rel_published_at r)) (listed_releases ps svc))) svcs))"
proof -
  let ?lt = "\<lambda>a b. time_after (te_date a) (te_date b)"
  have "weak_order ?lt" by (auto simp: weak_order_def time_after_def)
  then have "sorted_wrt (\<lambda>a b. \<not> ?lt b a) (time_entries ps cutoff svcs)"
    unfolding time_entries_def by (rule go_sort.sorted_sorter)
  moreover have "map (service_entries ps cutoff) svcs = map (\<lambda>svc. map (time_entry_of svc)
      (filter (\<lambda>r. instant cutoff \<le> instant (rel_published_at r)) (listed_releases ps svc))) svcs"
    using assms by (simp add: service_entries_listed recent_entries_filter list_all_iff time_before_def not_less)
  moreover have "mset (time_entries ps cutoff svcs) = mset (concat (map (service_entries ps cutoff) svcs))"
    by (simp only: time_entries_def go_sort.mset_sorter)
  ultimately show ?thesis by (simp only: time_after_def not_less)
qed

theorem timeline_command_is_complete_witness:
  "mset (time_entries [''github'' \<mapsto> demo_provider ''v1''] zero_time [demo_service]) =
     {# time_entry_of demo_service (demo_release ''v1'') #}"
proof -
  have rs: "listed_releases [''github'' \<mapsto> demo_provider ''v1''] demo_service = [demo_release ''v1'']"
    by (simp add: listed_releases_def demo_service_def demo_provider_def parse_repo_def contains_def)
  have "instant zero_time \<le> instant (rel_published_at (demo_release ''v1''))" by (simp add: demo_release_def)
  then show ?thesis
    using timeline_command_is_complete [of "[''github'' \<mapsto> demo_provider ''v1'']" "[demo_service]" zero_time]
    by (simp add: rs newest_first_def)
qed

end
