(* ===== verification/Cli_Files.thy ===== *)
theory Cli_Files
  imports Cli Deps
begin

text \<open>
  The commands that change files (\<open>cmd/releasewave\<close>): \<open>discover\<close> with \<open>mergeIntoConfig\<close>, \<open>install\<close>
  with \<open>writeMCPConfig\<close>, and \<open>init\<close>.  The file system is a state of file contents and existing
  directories; what a write or the creation of a directory fails with is a parameter, as are
  the YAML and JSON texts.  A failed write leaves the file as it was; a file that cannot be read is
  taken to exist.
\<close>

section \<open>Files\<close>

record file_system =
  fs_files :: "string \<Rightarrow> file_content"
  fs_dirs :: "string set"

record file_env =
  fe_write :: "string \<Rightarrow> go_error option"
  fe_mkdir :: "string \<Rightarrow> go_error option"
  fe_home :: "string result"

definition write_file :: "file_env \<Rightarrow> string \<Rightarrow> string \<Rightarrow> file_system \<Rightarrow> file_system \<times> go_error option" where
  "write_file fe path text fs =
     (case fe_write fe path of
        Some e \<Rightarrow> (fs, Some e)
      | None \<Rightarrow> (fs\<lparr>fs_files := (fs_files fs)(path := FileData text)\<rparr>, None))"

definition mkdir_all :: "file_env \<Rightarrow> string \<Rightarrow> file_system \<Rightarrow> file_system \<times> go_error option" where
  "mkdir_all fe dir fs =
     (case fe_mkdir fe dir of
        Some e \<Rightarrow> (fs, Some e)
      | None \<Rightarrow> (fs\<lparr>fs_dirs := insert dir (fs_dirs fs)\<rparr>, None))"

section \<open>discover\<close>

text \<open>\<open>mergeIntoConfig\<close>: services whose name is new are appended to those of the file.\<close>

definition merge_services :: "service_config list \<Rightarrow> service_config list \<Rightarrow> service_config list" where
  "merge_services old found = fst (append_unseen sc_name old (sc_name ` set old) found)"

definition read_existing :: "(string \<Rightarrow> config result) \<Rightarrow> file_content \<Rightarrow> config result" where
  "read_existing yaml f =
     (case f of
        FileFailed e \<Rightarrow> Inl (Wrapf ''read config'' e)
      | FileMissing \<Rightarrow> Inr zero_config
      | FileData d \<Rightarrow>
          if d = [] then Inr zero_config
          else (case yaml d of Inl e \<Rightarrow> Inl (Wrapf ''parse config'' e) | Inr c \<Rightarrow> Inr c))"

definition merge_into_config ::
  "file_env \<Rightarrow> (string \<Rightarrow> config result) \<Rightarrow> (config \<Rightarrow> string result) \<Rightarrow> string \<Rightarrow> service_config list \<Rightarrow>
   file_system \<Rightarrow> file_system \<times> cmd_run" where
  "merge_into_config fe yaml to_yaml cfg_file found fs =
     (case (if cfg_file = [] then default_config_path (fe_home fe) else Inr cfg_file) of
        Inl e \<Rightarrow> (fs, [], Failed e)
      | Inr path \<Rightarrow>
          (case read_existing yaml (fs_files fs path) of
             Inl e \<Rightarrow> (fs, [], Failed e)
           | Inr c \<Rightarrow>
               let merged = merge_services (cfg_services c) found;
                   added = length merged - length (cfg_services c) in
               if added = 0 then
                 (fs, [println (newline @ ''All discovered services already exist in config.'')], Done)
               else
                 (case to_yaml (c\<lparr>cfg_services := merged\<rparr>) of
                    Inl e \<Rightarrow> (fs, [], Failed (Wrapf ''marshal config'' e))
                  | Inr text \<Rightarrow>
                      (case write_file fe path text fs of
                         (fs', Some e) \<Rightarrow> (fs', [], Failed (Wrapf ''write config'' e))
                       | (fs', None) \<Rightarrow>
                           (fs', [println (newline @ ''Merged '' @ show_int (int added) @ '' new service(s) into '' @ path)],
                            Done)))))"

definition discover_cmd ::
  "file_env \<Rightarrow> cli_env \<Rightarrow> (string \<Rightarrow> config result) \<Rightarrow> (config \<Rightarrow> string result) \<Rightarrow> string \<Rightarrow> string \<Rightarrow> string \<Rightarrow>
   string \<Rightarrow> bool \<Rightarrow> bool \<Rightarrow> file_system \<Rightarrow> file_system \<times> cmd_run" where
  "discover_cmd fe env yaml to_yaml cfg_file namespace kubeconfig kctx merge as_json fs =
     (case discover (ci_cluster env kubeconfig kctx) namespace of
        Inl e \<Rightarrow> (fs, [], Failed (Wrapf ''discover services'' e))
      | Inr services \<Rightarrow>
          if services = [] then (fs, [println ''No services discovered.''], Done)
          else if as_json then (fs, [JsonOut (JArr (map json_of_service_config services))], Done)
          else
            let out = [TableOut ([[''NAME'', ''REPO'', ''REGISTRY''], [''----'', ''----'', ''--------'']] @
                         map (\<lambda>s. [sc_name s, sc_repo s, sc_registry s]) services),
                       println (newline @ ''Discovered '' @ show_int (int (length services)) @ '' service(s)'')] in
            if merge then
              (case merge_into_config fe yaml to_yaml cfg_file services fs of
                 (fs', printed, fin) \<Rightarrow> (fs', out @ printed, fin))
            else (fs, out, Done))"

section \<open>init\<close>

text \<open>\<open>ExampleConfig\<close>, line by line.\<close>

definition example_config :: string where
  "example_config = join_with newline
     [''# ReleaseWave configuration'',
      ''# https://github.com/UnityInFlow/releasewave'',
      [],
      ''# Microservices to track'',
      ''services:'',
      ''  # - name: my-api'',
      ''  #   repo: github.com/my-org/my-api'',
      ''  #   registry: ghcr.io/my-org/my-api'',
      ''  # - name: frontend'',
      ''  #   repo: github.com/my-org/frontend'',
      [],
      ''# API tokens (can also use GITHUB_TOKEN / GITLAB_TOKEN env vars)'',
      ''tokens:'',
      ''  github: '' @ [CHR 0x22] @ [CHR 0x22],
      ''  gitlab: '' @ [CHR 0x22] @ [CHR 0x22],
      [],
      ''# Cache settings'',
      ''cache:'',
      ''  ttl: 15m'',
      [],
      ''# MCP server settings'',
      ''server:'',
      ''  port: 7891'',
      ''  api_key: '' @ [CHR 0x22] @ [CHR 0x22] @ ''  # or set RELEASEWAVE_API_KEY env var'',
      [],
      ''# Rate limiting (requests per second)'',
      ''rate_limit:'',
      ''  github: 5'',
      ''  gitlab: 3'',
      [],
      ''# Logging'',
      ''log:'',
      ''  level: info    # debug, info, warn, error'',
      ''  format: text   # text, json'',
      [],
      ''# Notifications'',
      ''notifications:'',
      ''  webhook_url: '' @ [CHR 0x22] @ [CHR 0x22],
      ''  enabled: false'',
      []]"

definition init_cmd :: "file_env \<Rightarrow> bool \<Rightarrow> file_system \<Rightarrow> file_system \<times> cmd_run" where
  "init_cmd fe force fs =
     (case default_config_path (fe_home fe) of
        Inl e \<Rightarrow> (fs, [], Failed e)
      | Inr path \<Rightarrow>
          if fs_files fs path \<noteq> FileMissing \<and> \<not> force then
            (fs, [], Failed (Plain (''config already exists at '' @ path @ '' (use --force to overwrite)'')))
          else
            (case mkdir_all fe (path_dir path) fs of
               (fs', Some e) \<Rightarrow> (fs', [], Failed (Wrapf ''create config dir'' e))
             | (fs', None) \<Rightarrow>
                 (case write_file fe path example_config fs' of
                    (fs2, Some e) \<Rightarrow> (fs2, [], Failed (Wrapf ''write config'' e))
                  | (fs2, None) \<Rightarrow>
                      (fs2, [println (''Config created at '' @ path),
                             println ''Edit it to add your services and API tokens.''], Done))))"

section \<open>install\<close>

record mcp_entry =
  me_command :: string
  me_args :: "string list option"

text \<open>
  Decoding \<open>mcpConfig\<close>.  A slice that is \<open>null\<close> or missing is nil, here \<open>None\<close>; every element of
  the map starts from the zero entry; members without a field are dropped.
\<close>

fun bind_strings :: "string \<Rightarrow> string list option \<Rightarrow> (string \<times> json) list \<Rightarrow> string list option option" where
  "bind_strings name old [] = Some old"
| "bind_strings name old ((k, v) # ms) =
     (if same_key name k then
        (case v of
           JNull \<Rightarrow> bind_strings name None ms
         | JArr vs \<Rightarrow>
             (case dec_elems dec_string [] vs of None \<Rightarrow> None | Some xs \<Rightarrow> bind_strings name (Some xs) ms)
         | _ \<Rightarrow> None)
      else bind_strings name old ms)"

definition dec_entry :: "(string \<times> json) list \<Rightarrow> mcp_entry option" where
  "dec_entry ms =
     (case (bind_field dec_string ''command'' [] ms, bind_strings ''args'' None ms) of
        (Some c, Some a) \<Rightarrow> Some \<lparr>me_command = c, me_args = a\<rparr>
      | _ \<Rightarrow> None)"

type_synonym mcp_entries = "(string \<times> mcp_entry) list"

fun put_entries :: "mcp_entries \<Rightarrow> (string \<times> json) list \<Rightarrow> mcp_entries option" where
  "put_entries m [] = Some m"
| "put_entries m ((k, v) # kvs) =
     (case (case v of JNull \<Rightarrow> Some \<lparr>me_command = [], me_args = None\<rparr> | JObj ms \<Rightarrow> dec_entry ms | _ \<Rightarrow> None) of
        None \<Rightarrow> None
      | Some e \<Rightarrow> put_entries (AList.update k e m) kvs)"

fun bind_servers :: "mcp_entries \<Rightarrow> (string \<times> json) list \<Rightarrow> mcp_entries option" where
  "bind_servers old [] = Some old"
| "bind_servers old ((k, v) # ms) =
     (if same_key ''mcpServers'' k then
        (case v of
           JNull \<Rightarrow> bind_servers [] ms
         | JObj kvs \<Rightarrow> (case put_entries old kvs of None \<Rightarrow> None | Some m \<Rightarrow> bind_servers m ms)
         | _ \<Rightarrow> None)
      else bind_servers old ms)"

definition dec_mcp_config :: "mcp_entries \<Rightarrow> json \<Rightarrow> mcp_entries option" where
  "dec_mcp_config old v = (case members v of None \<Rightarrow> None | Some ms \<Rightarrow> bind_servers old ms)"

definition json_of_entry :: "mcp_entry \<Rightarrow> json" where
  "json_of_entry e = JObj
     [(''command'', JStr (me_command e)),
      (''args'', case me_args e of None \<Rightarrow> JNull | Some xs \<Rightarrow> JArr (map JStr xs))]"

definition json_of_mcp_config :: "mcp_entries \<Rightarrow> json" where
  "json_of_mcp_config m = JObj
     [(''mcpServers'', JObj (map (\<lambda>(k, e). (k, json_of_entry e)) (sort_slice (\<lambda>a b. fst a < fst b) m)))]"

text \<open>What \<open>writeMCPConfig\<close> starts from: nothing, when the file is missing or cannot be decoded.\<close>

definition old_entries :: "(string \<Rightarrow> json option) \<Rightarrow> file_content \<Rightarrow> mcp_entries" where
  "old_entries parse f =
     (case f of
        FileData d \<Rightarrow> (case unmarshal parse dec_mcp_config [] d of Inl e \<Rightarrow> [] | Inr m \<Rightarrow> m)
      | _ \<Rightarrow> [])"

definition our_entry :: "string \<Rightarrow> mcp_entry" where
  "our_entry exe = \<lparr>me_command = exe, me_args = Some [''serve'']\<rparr>"

definition write_mcp_config ::
  "file_env \<Rightarrow> (string \<Rightarrow> json option) \<Rightarrow> (json \<Rightarrow> string) \<Rightarrow> string \<Rightarrow> string \<Rightarrow> file_system \<Rightarrow>
   file_system \<times> go_error option" where
  "write_mcp_config fe parse print path exe fs =
     (let m = AList.update ''releasewave'' (our_entry exe) (old_entries parse (fs_files fs path)) in
      case mkdir_all fe (path_dir path) fs of
        (fs', Some e) \<Rightarrow> (fs', Some (Wrapf ''create dir'' e))
      | (fs', None) \<Rightarrow> write_file fe path (print (json_of_mcp_config m)) fs')"

definition install_targets :: "string \<Rightarrow> (string \<times> string) list" where
  "install_targets home =
     [(''claude'', path_join [home, ''.claude'', ''claude_desktop_config.json'']),
      (''cursor'', path_join [home, ''.cursor'', ''mcp.json'']),
      (''vscode'', path_join [home, ''.vscode'', ''mcp.json''])]"

text \<open>
  The loop over the targets, with the number configured so far.  Go ranges over a map, in any
  order; the list fixes one.
\<close>

fun install_loop ::
  "file_env \<Rightarrow> (string \<Rightarrow> json option) \<Rightarrow> (json \<Rightarrow> string) \<Rightarrow> string \<Rightarrow> bool \<Rightarrow> string \<Rightarrow> (string \<times> string) list \<Rightarrow>
   nat \<Rightarrow> file_system \<Rightarrow> file_system \<times> printed list \<times> (go_error + nat)" where
  "install_loop fe parse print target dry_run exe [] n fs = (fs, [], Inr n)"
| "install_loop fe parse print target dry_run exe ((name, path) # rest) n fs =
     (if target \<noteq> ''all'' \<and> target \<noteq> name then install_loop fe parse print target dry_run exe rest n fs
      else if path_dir path \<notin> fs_dirs fs then
        (if target = name
         then (fs, [], Inl (Plain (name @ '' config directory not found at '' @ path_dir path)))
         else install_loop fe parse print target dry_run exe rest n fs)
      else if dry_run then
        (case install_loop fe parse print target dry_run exe rest (Suc n) fs of
           (fs', out, r) \<Rightarrow> (fs', println (''[dry-run] Would configure '' @ name @ '' at '' @ path) # out, r))
      else
        (case write_mcp_config fe parse print path exe fs of
           (fs', Some e) \<Rightarrow> (fs', [], Inl (Wrapf (''configure '' @ name) e))
         | (fs', None) \<Rightarrow>
             (case install_loop fe parse print target dry_run exe rest (Suc n) fs' of
                (fs2, out, r) \<Rightarrow> (fs2, println (''Configured '' @ name @ '' at '' @ path) # out, r))))"

definition install_cmd ::
  "file_env \<Rightarrow> (string \<Rightarrow> json option) \<Rightarrow> (json \<Rightarrow> string) \<Rightarrow> string result \<Rightarrow> (string \<Rightarrow> string result) \<Rightarrow>
   string \<Rightarrow> bool \<Rightarrow> file_system \<Rightarrow> file_system \<times> cmd_run" where
  "install_cmd fe parse print executable symlinks target dry_run fs =
     (case executable of
        Inl e \<Rightarrow> (fs, [], Failed (Wrapf ''resolve executable path'' e))
      | Inr exe0 \<Rightarrow>
          (case symlinks exe0 of
             Inl e \<Rightarrow> (fs, [], Failed (Wrapf ''resolve symlinks'' e))
           | Inr exe \<Rightarrow>
               (case fe_home fe of
                  Inl e \<Rightarrow> (fs, [], Failed (Wrapf ''get home dir'' e))
                | Inr home \<Rightarrow>
                    (case install_loop fe parse print target dry_run exe (install_targets home) 0 fs of
                       (fs', out, Inl e) \<Rightarrow> (fs', out, Failed e)
                     | (fs', out, Inr n) \<Rightarrow>
                         (fs', out @
                            (if n = 0 then
                               [println ''No supported MCP clients found. Supported: claude, cursor, vscode'']
                             else if \<not> dry_run then
                               [println (newline @
                                  ''ReleaseWave is ready. Restart your AI tool to load the new MCP server.'')]
                             else []), Done)))))"

section \<open>Merging discovered services\<close>

lemma append_unseen_filter:
  "distinct (map key xs) \<Longrightarrow> fst (append_unseen key out seen xs) = out @ filter (\<lambda>x. key x \<notin> seen) xs"
proof (induction xs arbitrary: out seen)
  case (Cons x xs)
  have "key y \<noteq> key x" if "y \<in> set xs" for y
    using Cons.prems that by (auto simp: image_iff)
  then have "filter (\<lambda>y. key y \<notin> insert (key x) seen) xs = filter (\<lambda>y. key y \<notin> seen) xs"
    by (intro filter_cong) simp_all
  with Cons show ?case by simp
qed simp

definition new_services :: "service_config list \<Rightarrow> service_config list \<Rightarrow> service_config list" where
  "new_services old found = filter (\<lambda>s. sc_name s \<notin> sc_name ` set old) found"

lemma merge_services_eq:
  "distinct (map sc_name found) \<Longrightarrow> merge_services old found = old @ new_services old found"
  by (simp add: merge_services_def new_services_def append_unseen_filter)

lemma merge_services_ok:
  assumes "services_ok old" "services_ok found"
  shows "services_ok (merge_services old found)"
proof -
  have "distinct (map sc_name (new_services old found))"
    using assms(2) by (simp add: services_ok_def new_services_def distinct_map_filter)
  moreover have "sc_name ` set old \<inter> sc_name ` set (new_services old found) = {}"
    by (force simp: new_services_def image_iff)
  ultimately have "distinct (map sc_name (old @ new_services old found))"
    using assms(1) by (simp add: services_ok_def)
  then show ?thesis
    using assms unfolding merge_services_eq [OF services_ok_distinct [OF assms(2)]]
    by (auto simp: services_ok_def new_services_def list_all_iff)
qed

lemma apply_defaults_services [simp]:
  "cfg_services (apply_defaults c) = cfg_services c"
  "apply_defaults (c\<lparr>cfg_services := ss\<rparr>) = (apply_defaults c)\<lparr>cfg_services := ss\<rparr>"
  by (simp_all add: apply_defaults_def)

lemma merge_writes:
  assumes "read_existing yaml (fs_files fs path) = Inr c" "path \<noteq> []" "fe_write fe path = None"
    and "to_yaml (c\<lparr>cfg_services := merge_services (cfg_services c) found\<rparr>) = Inr text"
    and "distinct (map sc_name found)" "new_services (cfg_services c) found \<noteq> []"
  shows "fs_files (fst (merge_into_config fe yaml to_yaml path found fs)) = (fs_files fs)(path := FileData text)"
  using assms by (simp add: merge_into_config_def write_file_def merge_services_eq Let_def)

lemma merge_nothing:
  assumes "read_existing yaml (fs_files fs path) = Inr c" "path \<noteq> []"
    and "distinct (map sc_name found)" "new_services (cfg_services c) found = []"
  shows "fst (merge_into_config fe yaml to_yaml path found fs) = fs"
  using assms by (simp add: merge_into_config_def merge_services_eq Let_def)

lemma load_file:
  assumes "path \<noteq> []" "rd path = FileData d" "yaml d = Inr c" "validate (apply_defaults c) = None"
  shows "load home rd yaml env path = Inr (override_env env (apply_defaults c))"
  using assms by (simp add: load_def Let_def)

text \<open>
  C32. Merging discovered services keeps the configuration loadable.  When the file is missing,
  empty or holds a valid configuration, and the YAML library reads the text it writes, then after a
  merge \<open>Load\<close> succeeds and gives the services of the file, unchanged and in order, followed by
  the discovered ones whose names are new; every other setting of the file is kept, and no
  other file changes.
\<close>

theorem merged_config_loads:
  assumes "read_existing yaml (fs_files fs path) = Inr c" "validate (apply_defaults c) = None"
    and "services_ok found" "found \<noteq> []" "path \<noteq> []" "fe_write fe path = None"
    and "\<exists>text. to_yaml (c\<lparr>cfg_services := cfg_services c @ new_services (cfg_services c) found\<rparr>) = Inr text \<and>
      yaml text = Inr (c\<lparr>cfg_services := cfg_services c @ new_services (cfg_services c) found\<rparr>)"
  defines "fs' \<equiv> fst (merge_into_config fe yaml to_yaml path found fs)"
  shows "load home (fs_files fs') yaml env path =
      Inr (override_env env ((apply_defaults c)\<lparr>cfg_services := cfg_services c @ new_services (cfg_services c) found\<rparr>)) \<and>
    (\<forall>q. q \<noteq> path \<longrightarrow> fs_files fs' q = fs_files fs q)"
proof -
  let ?new = "new_services (cfg_services c) found"
  have d: "distinct (map sc_name found)" by (rule services_ok_distinct [OF assms(3)])
  have old: "services_ok (cfg_services c)" using validate_services_ok [OF assms(2)] by simp
  have valid: "validate (apply_defaults (c\<lparr>cfg_services := cfg_services c @ ?new\<rparr>)) = None"
    using validate_with_services [OF assms(2) merge_services_ok [OF old assms(3)]]
    by (simp add: merge_services_eq [OF d])
  show ?thesis
  proof (cases "?new = []")
    case True
    have fs: "fs' = fs" unfolding fs'_def by (rule merge_nothing [OF assms(1,5) d True])
    have "cfg_services c \<noteq> []" using True assms(4) by (auto simp: new_services_def)
    then obtain yml where "fs_files fs path = FileData yml" "yaml yml = Inr c"
      using assms(1) by (auto simp: read_existing_def zero_config_def split: file_content.splits if_splits sum.splits)
    then have loaded: "load home (fs_files fs) yaml env path = Inr (override_env env (apply_defaults c))"
      using assms(2,5) by (intro load_file)
    have "x\<lparr>cfg_services := cfg_services x\<rparr> = x" for x :: config by (cases x) simp
    from this [of "apply_defaults c"]
    have same: "(apply_defaults c)\<lparr>cfg_services := cfg_services c\<rparr> = apply_defaults c"
      unfolding apply_defaults_services .
    show ?thesis unfolding fs True append_Nil2 same using loaded by blast
  next
    case False
    obtain yml where t: "to_yaml (c\<lparr>cfg_services := cfg_services c @ ?new\<rparr>) = Inr yml"
      "yaml yml = Inr (c\<lparr>cfg_services := cfg_services c @ ?new\<rparr>)" using assms(7) by blast
    have files: "fs_files fs' = (fs_files fs)(path := FileData yml)"
      unfolding fs'_def by (rule merge_writes [OF assms(1,5,6) _ d False]) (simp add: merge_services_eq [OF d] t(1))
    have "load home (fs_files fs') yaml env path =
        Inr (override_env env (apply_defaults (c\<lparr>cfg_services := cfg_services c @ ?new\<rparr>)))"
      using assms(5) t(2) valid files by (intro load_file) (simp_all del: apply_defaults_services)
    then show ?thesis by (simp add: files)
  qed
qed

definition empty_files :: file_system where
  "empty_files = \<lparr>fs_files = (\<lambda>_. FileMissing), fs_dirs = {}\<rparr>"

definition open_files :: file_env where
  "open_files = \<lparr>fe_write = (\<lambda>_. None), fe_mkdir = (\<lambda>_. None), fe_home = Inr ''/root''\<rparr>"

theorem merged_config_loads_witness:
  "\<exists>c. load (Inr ''/root'')
     (fs_files (fst (merge_into_config open_files (\<lambda>_. Inr (zero_config\<lparr>cfg_services := [demo_service]\<rparr>))
       (\<lambda>_. Inr ''services'') ''c.yaml'' [demo_service] empty_files)))
     (\<lambda>_. Inr (zero_config\<lparr>cfg_services := [demo_service]\<rparr>)) (\<lambda>_. []) ''c.yaml'' = Inr c \<and>
     cfg_services c = [demo_service]"
proof -
  let ?yaml = "\<lambda>_. Inr (zero_config\<lparr>cfg_services := [demo_service]\<rparr>)"
  have "read_existing ?yaml (fs_files empty_files ''c.yaml'') = Inr zero_config"
    by (simp add: read_existing_def empty_files_def)
  moreover have "validate (apply_defaults zero_config) = None"
    using validate_default_config by (simp add: default_config_def)
  moreover have "services_ok [demo_service]"
    by (simp add: services_ok_def entry_ok_def demo_service_def repo_ok_def)
  moreover have "cfg_services zero_config = []" by (simp add: zero_config_def)
  ultimately show ?thesis
    using merged_config_loads [where yaml = ?yaml and fs = empty_files and path = "''c.yaml''" and c = zero_config
        and found = "[demo_service]" and fe = open_files and to_yaml = "\<lambda>_. Inr ''services''"
        and home = "Inr ''/root''" and env = "\<lambda>_. []"]
    by (simp add: open_files_def new_services_def)
qed

section \<open>What install writes\<close>

lemma map_of_same_set:
  assumes "distinct (map fst xs)" "distinct (map fst ys)" "set xs = set ys"
  shows "map_of xs = map_of ys"
proof
  fix k
  show "map_of xs k = map_of ys k"
    using map_of_eq_Some_iff [OF assms(1), of k] map_of_eq_Some_iff [OF assms(2), of k] assms(3)
    by (metis not_None_eq)
qed

lemma put_entries_distinct:
  "put_entries m kvs = Some m' \<Longrightarrow> distinct (map fst m) \<Longrightarrow> distinct (map fst m')"
  by (induction m kvs rule: put_entries.induct)
    (auto split: option.splits intro: distinct_keys_update)

lemma bind_servers_distinct:
  "bind_servers m ms = Some m' \<Longrightarrow> distinct (map fst m) \<Longrightarrow> distinct (map fst m')"
  by (induction m ms rule: bind_servers.induct)
    (auto split: if_splits json.splits option.splits dest: put_entries_distinct)

lemma old_entries_distinct: "distinct (map fst (old_entries parse f))"
  by (auto simp: old_entries_def unmarshal_def dec_mcp_config_def
      split: file_content.splits sum.splits option.splits json.splits dest: bind_servers_distinct)

lemma sorted_entries:
  fixes m :: "(string \<times> 'a) list"
  assumes "distinct (map fst m)"
  defines "es \<equiv> sort_slice (\<lambda>a b. fst a < fst b) m"
  shows "distinct (map fst es)" "sorted (map fst es)" "map_of es = map_of m"
proof -
  have "mset (map fst es) = mset (map fst m)"
    unfolding es_def by (simp only: mset_map go_sort.mset_sorter)
  then show d: "distinct (map fst es)" using assms(1) mset_eq_imp_distinct_iff by blast
  have "weak_order (\<lambda>a b :: string \<times> 'a. fst a < fst b)" by (auto simp: weak_order_def)
  from go_sort.sorted_sorter [OF this, of m] show "sorted (map fst es)"
    by (simp add: es_def sorted_map not_less)
  show "map_of es = map_of m"
    by (rule map_of_same_set [OF d assms(1)]) (simp add: es_def go_sort.set_sorter)
qed

text \<open>
  C35. After \<open>install\<close> has configured a client, its file is one object with the single member
  \<open>mcpServers\<close>.  That holds, sorted and each once, the servers the old file had, with their
  command and arguments, and the entry that runs \<open>releasewave serve\<close>, in place of an old entry
  of that name.  Nothing else of the old file remains: not its other members, not the other
  settings of its servers, and no server when the file could not be decoded.
\<close>

theorem install_writes_servers_only:
  fixes fs :: file_system and exe and print :: "json \<Rightarrow> string" and parse
  assumes "fe_mkdir fe (path_dir path) = None" "fe_write fe path = None"
  defines "fs' \<equiv> fst (write_mcp_config fe parse print path exe fs)"
  shows "\<exists>es. fs_files fs' path = FileData (print (JObj [(''mcpServers'', JObj es)])) \<and>
    distinct (map fst es) \<and> sorted (map fst es) \<and>
    map_of es = map_option json_of_entry \<circ>
      (map_of (old_entries parse (fs_files fs path)))(''releasewave'' \<mapsto> our_entry exe) \<and>
    (\<forall>q. q \<noteq> path \<longrightarrow> fs_files fs' q = fs_files fs q)"
proof -
  let ?m = "AList.update ''releasewave'' (our_entry exe) (old_entries parse (fs_files fs path))"
  let ?sorted = "sort_slice (\<lambda>a b. fst a < fst b) ?m"
  let ?es = "map (\<lambda>(k, e). (k, json_of_entry e)) ?sorted"
  note sorted = sorted_entries [OF distinct_keys_update [OF old_entries_distinct]]
  have keys: "map fst ?es = map fst ?sorted" by (simp add: case_prod_unfold)
  have "map_of ?es = map_option json_of_entry \<circ>
      (map_of (old_entries parse (fs_files fs path)))(''releasewave'' \<mapsto> our_entry exe)"
    by (simp add: map_of_map sorted(3) update_conv')
  moreover have "fs_files fs' = (fs_files fs)(path := FileData (print (JObj [(''mcpServers'', JObj ?es)])))"
    using assms(1,2) by (simp add: fs'_def write_mcp_config_def mkdir_all_def write_file_def json_of_mcp_config_def)
  moreover have "distinct (map fst ?es)" "sorted (map fst ?es)"
    unfolding keys by (rule sorted)+
  ultimately show ?thesis by (intro exI [of _ ?es] conjI) (simp_all del: map_map)
qed

definition editor_file :: json where
  "editor_file = JObj [(''theme'', JStr ''dark''), (''mcpServers'', JObj
     [(''db'', JObj [(''command'', JStr ''dbmcp''), (''args'', JArr []), (''env'', JObj [(''KEY'', JStr ''v'')])])])]"

definition editor_files :: file_system where
  "editor_files = empty_files\<lparr>fs_files := (\<lambda>_. FileData ''old'')\<rparr>"

theorem install_writes_servers_only_witness:
  "\<exists>es. fs_files (fst (write_mcp_config open_files (\<lambda>_. Some editor_file) (\<lambda>j. if j = editor_file then ''old'' else ''new'')
       ''/root/.cursor/mcp.json'' ''rw'' editor_files)) ''/root/.cursor/mcp.json'' =
     FileData (if JObj [(''mcpServers'', JObj es)] = editor_file then ''old'' else ''new'') \<and>
     map_of es ''db'' = Some (JObj [(''command'', JStr ''dbmcp''), (''args'', JArr [])])"
proof -
  have "old_entries (\<lambda>_. Some editor_file) (fs_files editor_files ''/root/.cursor/mcp.json'') =
      [(''db'', \<lparr>me_command = ''dbmcp'', me_args = Some []\<rparr>)]"
    by (simp add: old_entries_def editor_files_def editor_file_def unmarshal_def dec_mcp_config_def dec_entry_def
        same_key_def lower_char_def)
  moreover have "fe_mkdir open_files d = None" "fe_write open_files p = None" for d p
    by (simp_all add: open_files_def)
  ultimately show ?thesis
    using install_writes_servers_only [of open_files "''/root/.cursor/mcp.json''" "\<lambda>_. Some editor_file"
        "\<lambda>j. if j = editor_file then ''old'' else ''new''" "''rw''" editor_files]
    by (auto simp: json_of_entry_def)
qed

end
