(* ===== verification/Cli_Tenants.thy ===== *)
theory Cli_Tenants
  imports Cli Tenant
begin

text \<open>
  The commands on tenants (\<open>cmd/releasewave/tenant.go\<close>): each opens the database and is then one
  sequence of operations on the tables.  The
  table of \<open>tenant list\<close> is padded by \<open>fmt\<close>, which counts the code points of a name, so the
  decoding of UTF-8 is here too.
\<close>

section \<open>Code points\<close>

definition byte_in :: "nat \<Rightarrow> nat \<Rightarrow> char \<Rightarrow> bool" where
  "byte_in lo hi c \<longleftrightarrow> lo \<le> (of_char c :: nat) \<and> (of_char c :: nat) \<le> hi"

definition continues :: "char \<Rightarrow> bool" where
  "continues c = byte_in 0x80 0xBF c"

text \<open>
  How many bytes the first code point takes; a byte that starts no well-formed sequence counts
  as one code point of its own.
\<close>

fun rune_len :: "string \<Rightarrow> nat" where
  "rune_len (a # b # c # d # s) =
     (if byte_in 0xC2 0xDF a \<and> continues b then 2
      else if (byte_in 0xE0 0xE0 a \<and> byte_in 0xA0 0xBF b \<or> byte_in 0xED 0xED a \<and> byte_in 0x80 0x9F b \<or>
               (byte_in 0xE1 0xEC a \<or> byte_in 0xEE 0xEF a) \<and> continues b) \<and> continues c then 3
      else if (byte_in 0xF0 0xF0 a \<and> byte_in 0x90 0xBF b \<or> byte_in 0xF4 0xF4 a \<and> byte_in 0x80 0x8F b \<or>
               byte_in 0xF1 0xF3 a \<and> continues b) \<and> continues c \<and> continues d then 4
      else 1)"
| "rune_len [a, b, c] =
     (if byte_in 0xC2 0xDF a \<and> continues b then 2
      else if (byte_in 0xE0 0xE0 a \<and> byte_in 0xA0 0xBF b \<or> byte_in 0xED 0xED a \<and> byte_in 0x80 0x9F b \<or>
               (byte_in 0xE1 0xEC a \<or> byte_in 0xEE 0xEF a) \<and> continues b) \<and> continues c then 3
      else 1)"
| "rune_len [a, b] = (if byte_in 0xC2 0xDF a \<and> continues b then 2 else 1)"
| "rune_len s = 1"

lemma rune_len_pos [simp]: "0 < rune_len s"
  by (cases s rule: rune_len.cases) simp_all

function rune_count :: "string \<Rightarrow> nat" where
  "rune_count [] = 0"
| "rune_count (c # s) = Suc (rune_count (drop (rune_len (c # s)) (c # s)))"
  by pat_completeness auto
termination
  by (relation "measure length") simp_all

text \<open>\<open>%-20s\<close>.\<close>

definition pad_right :: "nat \<Rightarrow> string \<Rightarrow> string" where
  "pad_right n s = s @ replicate (n - rune_count s) CHR '' ''"

section \<open>The commands\<close>

text \<open>\<open>openTenantDB\<close>, then \<open>NewStore\<close>, with which every command starts.\<close>

definition open_tenants :: "sql_env \<Rightarrow> config \<Rightarrow> go_error option" where
  "open_tenants sq cfg =
     (if st_path (cfg_storage cfg) = [] then
        Some (Plain (''storage.path not configured '' @ em_dash @ '' set it in config to use tenants''))
      else case sq_open sq (st_path (cfg_storage cfg)) of
        Some e \<Rightarrow> Some e
      | None \<Rightarrow> tenant_store_new sq)"

definition tenant_create_cmd ::
  "sql_env \<Rightarrow> bool \<Rightarrow> config \<Rightarrow> gotime \<Rightarrow> string result \<Rightarrow> string \<Rightarrow> tenant_db \<Rightarrow> tenant_db \<times> cmd_run" where
  "tenant_create_cmd sq fk cfg now random name db =
     (case open_tenants sq cfg of
        Some e \<Rightarrow> (db, [], Failed e)
      | None \<Rightarrow>
          (case create_tenant now name db of
             Inl e \<Rightarrow> (db, [], Failed (Wrapf ''create tenant'' e))
           | Inr (t, db') \<Rightarrow>
               (case key_store_new sq of
                  Some e \<Rightarrow> (db', [], Failed e)
                | None \<Rightarrow>
                    (case generate_key fk now random (tn_id t) db' of
                       Inl e \<Rightarrow> (db', [], Failed (Wrapf ''generate API key'' e))
                     | Inr (raw, key, db'') \<Rightarrow>
                         (db'',
                          [println ''Tenant created:'', println (''  Name:    '' @ tn_name t),
                           println (''  API Key: '' @ raw),
                           println (newline @ ''Save this API key '' @ em_dash @ '' it won'' @ [CHR 0x27] @
                             ''t be shown again.'')],
                          Done)))))"

definition tenant_line :: "string \<Rightarrow> string \<Rightarrow> printed" where
  "tenant_line name created = println (pad_right 20 name @ '' '' @ created)"

definition tenant_list_cmd :: "sql_env \<Rightarrow> config \<Rightarrow> tenant_db \<Rightarrow> cmd_run" where
  "tenant_list_cmd sq cfg db =
     (case open_tenants sq cfg of
        Some e \<Rightarrow> ([], Failed e)
      | None \<Rightarrow>
          if list_tenants db = [] then ([println ''No tenants.''], Done)
          else (tenant_line ''NAME'' ''CREATED'' #
                  map (\<lambda>t. tenant_line (tn_name t) (format_date (tn_created t))) (list_tenants db), Done))"

definition tenant_delete_cmd :: "sql_env \<Rightarrow> bool \<Rightarrow> config \<Rightarrow> string \<Rightarrow> tenant_db \<Rightarrow> tenant_db \<times> cmd_run" where
  "tenant_delete_cmd sq fk cfg name db =
     (case open_tenants sq cfg of
        Some e \<Rightarrow> (db, [], Failed e)
      | None \<Rightarrow>
          (case delete_tenant fk name db of
             Inl e \<Rightarrow> (db, [], Failed e)
           | Inr db' \<Rightarrow> (db', [println (''Tenant '' @ quote name @ '' deleted.'')], Done)))"

section \<open>Creating and deleting\<close>

lemma rune_count_ascii: "list_all (\<lambda>c. (of_char c :: nat) < 0x80) s \<Longrightarrow> rune_count s = length s"
proof (induction s rule: rune_count.induct)
  case (2 c s)
  have "rune_len (c # s) = 1"
    using 2 by (cases "c # s" rule: rune_len.cases) (simp_all add: byte_in_def)
  with 2 show ?case by simp
qed simp

lemma filter_fresh: "k \<notin> f ` set xs \<Longrightarrow> filter (\<lambda>x. f x \<noteq> k) xs = xs"
  by (induction xs) auto

lemma created:
  assumes "tenant_create_cmd sq True cfg now (Inr b) name db = (db1, out, Done)"
  defines "raw \<equiv> ''rw_'' @ hex_encode b"
  shows "open_tenants sq cfg = None" "println (''  API Key: '' @ raw) \<in> set out"
    and "db1 = db\<lparr>td_tenants := td_tenants db @ [\<lparr>tn_id = td_last_tenant db + 1, tn_name = name,
        tn_created = sql_stamp now\<rparr>], td_last_tenant := td_last_tenant db + 1,
      td_keys := td_keys db @ [\<lparr>ak_id = td_last_key db + 1, ak_tenant = td_last_tenant db + 1, ak_prefix = take 11 raw,
        ak_hash = hash_key raw, ak_created = sql_stamp now\<rparr>], td_last_key := td_last_key db + 1\<rparr>"
    and "name \<notin> tn_name ` set (td_tenants db)" "hash_key raw \<notin> ak_hash ` set (td_keys db)"
  using assms(1)
  by (auto simp: tenant_create_cmd_def create_tenant_def generate_key_def Let_def raw_def
      split: if_splits sum.splits option.splits)

text \<open>
  C38. On a connection with the foreign-key pragma, deleting a tenant takes back all that creating it
  did: the tenants, their services and their keys are the ones from before, and the key the
  command printed does not validate any more.  In between, the list shows the tenant, and the
  key validates to it.
\<close>

theorem tenant_commands_roundtrip:
  assumes "tenant_db_ok db" "refs_ok db"
    and "tenant_create_cmd sq True cfg now (Inr b) name db = (db1, out, Done)"
  defines "raw \<equiv> ''rw_'' @ hex_encode b"
  shows "println (''  API Key: '' @ raw) \<in> set out \<and>
    validate_key raw db1 = Inr (td_last_tenant db + 1) \<and>
    tenant_line name (format_date (sql_stamp now)) \<in> set (fst (tenant_list_cmd sq cfg db1)) \<and>
    (\<exists>db2. tenant_delete_cmd sq True cfg name db1 = (db2, [println (''Tenant '' @ quote name @ '' deleted.'')], Done) \<and>
       td_tenants db2 = td_tenants db \<and> td_services db2 = td_services db \<and> td_keys db2 = td_keys db \<and>
       validate_key raw db2 = Inl (Plain ''invalid API key''))"
proof -
  let ?i = "td_last_tenant db + 1"
  let ?t = "\<lparr>tn_id = ?i, tn_name = name, tn_created = sql_stamp now\<rparr>"
  let ?k = "\<lparr>ak_id = td_last_key db + 1, ak_tenant = ?i, ak_prefix = take 11 raw, ak_hash = hash_key raw,
    ak_created = sql_stamp now\<rparr>"
  note step = created [OF assms(3), folded raw_def]
  have i: "?i \<notin> tn_id ` set (td_tenants db)"
    using assms(1) by (force simp: tenant_db_ok_def)
  have fresh: "?i \<notin> tsv_tenant ` set (td_services db)" "?i \<notin> ak_tenant ` set (td_keys db)"
    using i assms(2) by (auto simp: refs_ok_def)
  have "find_row (\<lambda>k. ak_hash k = hash_key raw) (td_keys db) = None"
    unfolding find_row_None_iff using step(5) by (metis imageI)
  then have "validate_key raw db1 = Inr ?i" "validate_key raw db = Inl (Plain ''invalid API key'')"
    by (simp_all add: validate_key_def step(3) find_row_append)
  moreover have "?t \<in> set (list_tenants db1)"
    by (simp add: list_tenants_def go_sort.set_sorter step(3))
  then have "tenant_line name (format_date (sql_stamp now)) \<in> set (fst (tenant_list_cmd sq cfg db1))"
    using step(1) by (force simp: tenant_list_cmd_def)
  moreover define db2 where "db2 = db\<lparr>td_last_tenant := ?i, td_last_key := td_last_key db + 1\<rparr>"
  have "delete_tenant True name db1 = Inr db2"
  proof -
    have "filter (\<lambda>t. tn_name t = name) (td_tenants db) = []" using step(4) by (auto simp: filter_empty_conv)
    then have "filter (\<lambda>t. tn_name t = name) (td_tenants db1) = [?t]" by (simp add: step(3))
    then show ?thesis
      using filter_fresh [OF step(4)] filter_fresh [OF fresh(1)] filter_fresh [OF fresh(2)]
      by (simp add: delete_tenant_def Let_def) (simp add: step(3) db2_def)
  qed
  then have "tenant_delete_cmd sq True cfg name db1 = (db2, [println (''Tenant '' @ quote name @ '' deleted.'')], Done)"
    using step(1) by (simp add: tenant_delete_cmd_def)
  moreover have "td_tenants db2 = td_tenants db" "td_services db2 = td_services db" "td_keys db2 = td_keys db"
    by (simp_all add: db2_def)
  ultimately show ?thesis
    using step(2) by (auto simp: validate_key_def)
qed

definition working_sql :: sql_env where
  "working_sql = \<lparr>sq_open = (\<lambda>_. None), sq_exec = (\<lambda>_. None)\<rparr>"

lemma working_sql_opens:
  "st_path (cfg_storage cfg) \<noteq> [] \<Longrightarrow> open_tenants working_sql cfg = None" "key_store_new working_sql = None"
  by (simp_all add: open_tenants_def tenant_store_new_def key_store_new_def working_sql_def
      first_failure_None [THEN iffD2])

theorem tenant_commands_roundtrip_witness:
  "\<exists>db1 out. tenant_create_cmd working_sql True (default_config\<lparr>cfg_storage := \<lparr>st_path = ''t.db''\<rparr>\<rparr>) zero_time (Inr ''k'') ''acme''
     empty_tenant_db = (db1, out, Done) \<and> validate_key (''rw_'' @ hex_encode ''k'') db1 = Inr 1"
proof -
  let ?cfg = "default_config\<lparr>cfg_storage := \<lparr>st_path = ''t.db''\<rparr>\<rparr>"
  have "\<exists>db1 out. tenant_create_cmd working_sql True ?cfg zero_time (Inr ''k'') ''acme'' empty_tenant_db = (db1, out, Done)"
    by (simp add: tenant_create_cmd_def working_sql_opens create_tenant_def generate_key_def empty_tenant_db_def Let_def)
  then obtain db1 out where "tenant_create_cmd working_sql True ?cfg zero_time (Inr ''k'') ''acme'' empty_tenant_db = (db1, out, Done)"
    by blast
  with tenant_commands_roundtrip [of empty_tenant_db working_sql ?cfg zero_time "''k''" "''acme''" db1 out] empty_tenant_db_ok
  show ?thesis by (auto simp: empty_tenant_db_def)
qed

end
