(* ===== verification/Github_App.thy ===== *)
theory Github_App
  imports Json Model
begin

text \<open>
  The GitHub App's API client (\<open>internal/githubapp/app.go\<close>).  The file system, PEM and PKCS #1
  decoding, RS256 signing and the HTTP client are parameters; a private key is an element of
  a type of its own.  A reply has a status and a body, read up to its end or up to an error; the
  JSON decoder reads the first value of a body (\<open>ax_first\<close>).
\<close>

section \<open>State\<close>

record app_settings =
  as_app_id :: int
  as_private_key_path :: string
  as_webhook_secret :: string

record 'k github_app =
  gp_settings :: app_settings
  gp_key :: 'k
  gp_base :: string

definition app_new ::
  "(string \<Rightarrow> string result) \<Rightarrow> (string \<Rightarrow> string option) \<Rightarrow> (string \<Rightarrow> 'k result) \<Rightarrow> app_settings \<Rightarrow>
   'k github_app result" where
  "app_new read_file pem pkcs1 cfg =
     (if as_app_id cfg = 0 \<or> as_private_key_path cfg = [] then
        Inl (Plain ''github app: app_id and private_key_path are required'')
      else
        case read_file (as_private_key_path cfg) of
          Inl e \<Rightarrow> Inl (Wrapf ''read private key'' e)
        | Inr data \<Rightarrow>
            (case pem data of
               None \<Rightarrow> Inl (Plain ''failed to parse PEM block'')
             | Some block \<Rightarrow>
                 (case pkcs1 block of
                    Inl e \<Rightarrow> Inl (Wrapf ''parse private key'' e)
                  | Inr key \<Rightarrow>
                      Inr \<lparr>gp_settings = cfg, gp_key = key, gp_base = ''https://api.github.com''\<rparr>)))"

record app_reply =
  ar_status :: int
  ar_body :: string
  ar_broken :: "go_error option"

record jwt_claims =
  jc_issuer :: string
  jc_issued_at :: int
  jc_expires_at :: int

record 'k app_net =
  ax_request :: "string \<Rightarrow> string \<Rightarrow> go_error option"
  ax_do :: "string \<Rightarrow> string \<Rightarrow> (string \<times> string) list \<Rightarrow> app_reply result"
  ax_first :: "string \<Rightarrow> json option"
  ax_sign :: "'k \<Rightarrow> jwt_claims \<Rightarrow> string result"
  ax_now :: gotime

text \<open>\<open>generateJWT\<close>; a numeric date is in whole seconds since 1970, an instant counts from the year 1.\<close>

definition numeric_date :: "int \<Rightarrow> int" where
  "numeric_date t = t div second - 62135596800"

definition app_claims :: "'k github_app \<Rightarrow> gotime \<Rightarrow> jwt_claims" where
  "app_claims a now =
     \<lparr>jc_issuer = show_int (as_app_id (gp_settings a)),
      jc_issued_at = numeric_date (instant now - 60 * second),
      jc_expires_at = numeric_date (instant now + 10 * minute)\<rparr>"

definition generate_jwt :: "'k app_net \<Rightarrow> 'k github_app \<Rightarrow> string result" where
  "generate_jwt nt a =
     (case ax_sign nt (gp_key a) (app_claims a (ax_now nt)) of
        Inl e \<Rightarrow> Inl (Wrapf ''sign JWT'' e)
      | Inr signed \<Rightarrow> Inr signed)"

definition app_headers :: "string \<Rightarrow> string \<Rightarrow> (string \<times> string) list" where
  "app_headers scheme credential =
     [(''Authorization'', scheme @ '' '' @ credential), (''Accept'', ''application/vnd.github+json'')]"

text \<open>\<open>json.NewDecoder(body).Decode(\&x)\<close>, and the error that shows a body's first 1024 bytes.\<close>

definition decode_reply :: "'k app_net \<Rightarrow> ('a \<Rightarrow> json \<Rightarrow> 'a option) \<Rightarrow> 'a \<Rightarrow> app_reply \<Rightarrow> 'a result" where
  "decode_reply nt dec zero r =
     (case (ax_first nt (ar_body r), ar_broken r) of
        (None, Some e) \<Rightarrow> Inl e
      | _ \<Rightarrow> unmarshal (ax_first nt) dec zero (ar_body r))"

definition api_error :: "app_reply \<Rightarrow> go_error" where
  "api_error r = Plain (''GitHub API error '' @ show_int (ar_status r) @ '': '' @ take 1024 (ar_body r))"

section \<open>Installations\<close>

record app_installation =
  ai_id :: int
  ai_login :: string
  ai_type :: string

definition dec_account :: "string \<times> string \<Rightarrow> json \<Rightarrow> (string \<times> string) option" where
  "dec_account old v =
     (case members v of
        None \<Rightarrow> None
      | Some ms \<Rightarrow>
          (case (bind_field dec_string ''login'' (fst old) ms, bind_field dec_string ''type'' (snd old) ms) of
             (Some l, Some t) \<Rightarrow> Some (l, t)
           | _ \<Rightarrow> None))"

definition no_installation :: app_installation where
  "no_installation = \<lparr>ai_id = 0, ai_login = [], ai_type = []\<rparr>"

definition dec_app_installation :: "app_installation \<Rightarrow> json \<Rightarrow> app_installation option" where
  "dec_app_installation old v =
     (case members v of
        None \<Rightarrow> None
      | Some ms \<Rightarrow>
          (case (bind_field dec_int64 ''id'' (ai_id old) ms,
                 bind_field dec_account ''account'' (ai_login old, ai_type old) ms) of
             (Some i, Some (l, t)) \<Rightarrow> Some \<lparr>ai_id = i, ai_login = l, ai_type = t\<rparr>
           | _ \<Rightarrow> None))"

definition list_installations :: "'k app_net \<Rightarrow> 'k github_app \<Rightarrow> app_installation list result" where
  "list_installations nt a =
     (let url = gp_base a @ ''/app/installations'' in
      case ax_request nt ''GET'' url of
        Some e \<Rightarrow> Inl e
      | None \<Rightarrow>
          (case generate_jwt nt a of
             Inl e \<Rightarrow> Inl e
           | Inr jwt \<Rightarrow>
               (case ax_do nt ''GET'' url (app_headers ''Bearer'' jwt) of
                  Inl e \<Rightarrow> Inl (Wrapf ''list installations'' e)
                | Inr r \<Rightarrow>
                    if ar_status r \<noteq> 200 then Inl (api_error r)
                    else decode_reply nt (dec_list dec_app_installation no_installation) [] r)))"

section \<open>Tokens and repositories\<close>

definition dec_token :: "string \<Rightarrow> json \<Rightarrow> string option" where
  "dec_token old v = (case members v of None \<Rightarrow> None | Some ms \<Rightarrow> bind_field dec_string ''token'' old ms)"

definition get_installation_token :: "'k app_net \<Rightarrow> 'k github_app \<Rightarrow> int \<Rightarrow> string result" where
  "get_installation_token nt a installation =
     (let url = gp_base a @ ''/app/installations/'' @ show_int installation @ ''/access_tokens'' in
      case ax_request nt ''POST'' url of
        Some e \<Rightarrow> Inl e
      | None \<Rightarrow>
          (case generate_jwt nt a of
             Inl e \<Rightarrow> Inl e
           | Inr jwt \<Rightarrow>
               (case ax_do nt ''POST'' url (app_headers ''Bearer'' jwt) of
                  Inl e \<Rightarrow> Inl (Wrapf ''get installation token'' e)
                | Inr r \<Rightarrow>
                    if ar_status r \<noteq> 201 then Inl (api_error r) else decode_reply nt dec_token [] r)))"

definition dec_repository :: "string \<Rightarrow> json \<Rightarrow> string option" where
  "dec_repository old v = (case members v of None \<Rightarrow> None | Some ms \<Rightarrow> bind_field dec_string ''full_name'' old ms)"

definition dec_repositories :: "string list \<Rightarrow> json \<Rightarrow> string list option" where
  "dec_repositories old v =
     (case members v of
        None \<Rightarrow> None
      | Some ms \<Rightarrow> bind_field (dec_list dec_repository []) ''repositories'' old ms)"

definition list_repos :: "'k app_net \<Rightarrow> 'k github_app \<Rightarrow> int \<Rightarrow> string list result" where
  "list_repos nt a installation =
     (case get_installation_token nt a installation of
        Inl e \<Rightarrow> Inl e
      | Inr token \<Rightarrow>
          let url = gp_base a @ ''/installation/repositories'' in
          (case ax_request nt ''GET'' url of
             Some e \<Rightarrow> Inl e
           | None \<Rightarrow>
               (case ax_do nt ''GET'' url (app_headers ''token'' token) of
                  Inl e \<Rightarrow> Inl e
                | Inr r \<Rightarrow> decode_reply nt dec_repositories [] r)))"

section \<open>Errors and credentials\<close>

lemma claims_span: "jc_expires_at (app_claims a now) - jc_issued_at (app_claims a now) = 660"
proof -
  have "instant now - 60 * second = instant now + (- 60) * second"
    "instant now + 10 * minute = instant now + 600 * second" by simp_all
  then show ?thesis
    unfolding app_claims_def numeric_date_def by simp
qed

text \<open>A body that reports an error: an object without a field that matches \<open>repositories\<close>.\<close>

definition no_repositories :: "json \<Rightarrow> bool" where
  "no_repositories v \<longleftrightarrow> (case members v of None \<Rightarrow> False
     | Some ms \<Rightarrow> list_all (\<lambda>(k, _). \<not> same_key ''repositories'' k) ms)"

lemma bind_field_absent:
  "list_all (\<lambda>(k, _). \<not> same_key name k) ms \<Longrightarrow> bind_field dec name old ms = Some old"
  by (induction ms) auto

text \<open>
  C36. How the App's calls fail.  A reply to \<open>ListInstallations\<close> other than 200, and one to the
  request of a token other than 201, is an error with the status and at most 1024 bytes of the
  body, and without a token \<open>ListRepos\<close> gives the same error.  But \<open>ListRepos\<close> does not look at
  the status of its own reply: an error reply whose body is an object, as GitHub's are, is an
  empty list of repositories.
\<close>

theorem app_calls_fail:
  assumes "generate_jwt nt a = Inr jwt" "\<And>m u. ax_request nt m u = None"
    and "ax_do nt ''GET'' (gp_base a @ ''/app/installations'') (app_headers ''Bearer'' jwt) = Inr r1"
    and "ax_do nt ''POST'' (gp_base a @ ''/app/installations/'' @ show_int i @ ''/access_tokens'')
        (app_headers ''Bearer'' jwt) = Inr r2"
    and "ax_do nt ''GET'' (gp_base a @ ''/installation/repositories'') (app_headers ''token'' token) = Inr r3"
    and "ax_first nt (ar_body r3) = Some v" "no_repositories v"
  shows "(ar_status r1 \<noteq> 200 \<longrightarrow> list_installations nt a = Inl (api_error r1)) \<and>
    (ar_status r2 \<noteq> 201 \<longrightarrow> get_installation_token nt a i = Inl (api_error r2) \<and> list_repos nt a i = Inl (api_error r2)) \<and>
    (get_installation_token nt a i = Inr token \<longrightarrow> list_repos nt a i = Inr [])"
proof -
  have "list_installations nt a = Inl (api_error r1)" if "ar_status r1 \<noteq> 200"
    using that assms(1-3) by (simp add: list_installations_def Let_def)
  moreover have "get_installation_token nt a i = Inl (api_error r2)" if "ar_status r2 \<noteq> 201"
    using that assms(1,2,4) by (simp add: get_installation_token_def Let_def)
  moreover have "list_repos nt a i = Inl e" if "get_installation_token nt a i = Inl e" for e
    using that by (simp add: list_repos_def)
  moreover obtain ms where "v = JObj ms" "list_all (\<lambda>(k, _). \<not> same_key ''repositories'' k) ms"
    using assms(7) by (cases v) (auto simp: no_repositories_def)
  then have "decode_reply nt dec_repositories [] r3 = Inr []"
    using assms(6) by (simp add: decode_reply_def unmarshal_def dec_repositories_def bind_field_absent)
  then have "list_repos nt a i = Inr []" if "get_installation_token nt a i = Inr token"
    using that assms(2,5) by (simp add: list_repos_def Let_def)
  ultimately show ?thesis by blast
qed

definition demo_app :: "unit github_app" where
  "demo_app = \<lparr>gp_settings = \<lparr>as_app_id = 7, as_private_key_path = ''k'', as_webhook_secret = []\<rparr>, gp_key = (),
     gp_base = ''b''\<rparr>"

definition demo_app_net :: "unit app_net" where
  "demo_app_net = \<lparr>ax_request = (\<lambda>_ _. None),
     ax_do = (\<lambda>m u h. Inr (if m = ''POST'' then \<lparr>ar_status = 201, ar_body = ''t'', ar_broken = None\<rparr>
                         else \<lparr>ar_status = 401, ar_body = ''e'', ar_broken = None\<rparr>)),
     ax_first = (\<lambda>b. if b = ''t'' then Some (JObj [(''token'', JStr ''tk'')])
                   else Some (JObj [(''message'', JStr ''Bad credentials'')])),
     ax_sign = (\<lambda>_ _. Inr ''jwt''), ax_now = zero_time\<rparr>"

theorem app_calls_fail_witness:
  "list_repos demo_app_net demo_app 1 = Inr [] \<and>
   list_installations demo_app_net demo_app = Inl (Plain ''GitHub API error 401: e'')"
proof -
  let ?bad = "\<lparr>ar_status = 401, ar_body = ''e'', ar_broken = None\<rparr>"
  have keys: "same_key ''token'' ''token''" "\<not> same_key ''repositories'' ''message''"
    by (simp_all add: same_key_def lower_char_def)
  have jwt: "generate_jwt demo_app_net demo_app = Inr ''jwt''" by (simp add: generate_jwt_def demo_app_net_def)
  have net: "ax_request demo_app_net m u = None" "ax_do demo_app_net ''POST'' u h = Inr \<lparr>ar_status = 201, ar_body = ''t'', ar_broken = None\<rparr>"
    "ax_do demo_app_net ''GET'' u h = Inr ?bad" "ax_first demo_app_net ''t'' = Some (JObj [(''token'', JStr ''tk'')])"
    "ax_first demo_app_net ''e'' = Some (JObj [(''message'', JStr ''Bad credentials'')])" for m u h
    by (simp_all add: demo_app_net_def)
  have token: "get_installation_token demo_app_net demo_app 1 = Inr ''tk''"
    by (simp add: get_installation_token_def jwt net decode_reply_def unmarshal_def dec_token_def keys)
  have "api_error ?bad = Plain ''GitHub API error 401: e''" by code_simp
  then show ?thesis
    using app_calls_fail [OF jwt, of ?bad 1 "\<lparr>ar_status = 201, ar_body = ''t'', ar_broken = None\<rparr>" "''tk''" ?bad
        "JObj [(''message'', JStr ''Bad credentials'')]"] token
    by (simp add: net no_repositories_def keys)
qed

end
