(* ===== verification/Web.thy ===== *)
theory Web
  imports Api
begin

text \<open>
  The dashboard (\<open>internal/web/web.go\<close>): the two write handlers, which answer with a JSON
  error or with the re-rendered list of services, and \<open>fetchDashboardData\<close>.  A page is the
  data the template is executed on.  \<open>fetchDashboardData\<close> reads \<open>cfg.Services\<close> three times
  without the handler's mutex, so its model takes the three values read; a handler alone
  reads the same value three times.
\<close>

section \<open>Data\<close>

record service_status =
  ss_name :: string
  ss_platform :: string
  ss_latest_tag :: string
  ss_released_at :: string
  ss_url :: string
  ss_error :: string

definition empty_status :: service_status where
  "empty_status = \<lparr>ss_name = [], ss_platform = [], ss_latest_tag = [], ss_released_at = [],
     ss_url = [], ss_error = []\<rparr>"

record dashboard_data =
  dd_services :: "service_status list"
  dd_total :: int
  dd_healthy :: int
  dd_errors :: int
  dd_updated_at :: string

datatype web_reply = WebError response | Partial string dashboard_data

section \<open>One row\<close>

definition released_at :: "release \<Rightarrow> string" where
  "released_at r = (if is_zero_time (rel_published_at r) then [] else format_date (rel_published_at r))"

definition status_of :: "providers \<Rightarrow> service_config \<Rightarrow> service_status" where
  "status_of ps svc =
     (case lookup_latest ps svc of
        BadRepo e \<Rightarrow> empty_status\<lparr>ss_name := sc_name svc, ss_error := error_text e\<rparr>
      | NoProvider platform \<Rightarrow>
          empty_status\<lparr>ss_name := sc_name svc, ss_platform := platform, ss_error := ''unsupported platform''\<rparr>
      | RequestFailed platform e \<Rightarrow>
          empty_status\<lparr>ss_name := sc_name svc, ss_platform := platform, ss_error := error_text e\<rparr>
      | Found platform r \<Rightarrow>
          \<lparr>ss_name = sc_name svc, ss_platform = platform, ss_latest_tag = rel_tag r,
           ss_released_at = released_at r, ss_url = rel_html_url r, ss_error = []\<rparr>)"

text \<open>The counting loop.\<close>

fun count_health :: "int \<Rightarrow> int \<Rightarrow> service_status list \<Rightarrow> int \<times> int" where
  "count_health healthy errors [] = (healthy, errors)"
| "count_health healthy errors (s # ss) =
     (if ss_error s \<noteq> [] then count_health healthy (errors + 1) ss
      else count_health (healthy + 1) errors ss)"

section \<open>The three reads\<close>

text \<open>
  \<open>sized\<close> is read by \<open>make([]serviceStatus, len(cfg.Services))\<close>, \<open>ranged\<close> by the loop and
  \<open>counted\<close> for \<open>TotalServices\<close>.  The goroutine of index \<open>i\<close> assigns \<open>statuses[i]\<close>, which
  panics when \<open>i\<close> is out of range; a panic in a goroutine ends the process (\<open>None\<close>).
\<close>

fun fill :: "providers \<Rightarrow> nat \<Rightarrow> service_config list \<Rightarrow> service_status list \<Rightarrow> service_status list option" where
  "fill ps i [] statuses = Some statuses"
| "fill ps i (svc # svcs) statuses =
     (if i < length statuses then fill ps (Suc i) svcs (statuses[i := status_of ps svc]) else None)"

definition fetch_reads ::
  "providers \<Rightarrow> gotime \<Rightarrow> service_config list \<Rightarrow> service_config list \<Rightarrow> service_config list \<Rightarrow>
   dashboard_data option" where
  "fetch_reads ps now sized ranged counted =
     (case fill ps 0 ranged (replicate (length sized) empty_status) of
        None \<Rightarrow> None
      | Some statuses \<Rightarrow>
          (case count_health 0 0 statuses of (healthy, errors) \<Rightarrow>
             Some \<lparr>dd_services = statuses, dd_total = int (length counted), dd_healthy = healthy,
                   dd_errors = errors, dd_updated_at = format_second now\<rparr>))"

definition fetch_dashboard_data :: "config \<Rightarrow> providers \<Rightarrow> gotime \<Rightarrow> dashboard_data option" where
  "fetch_dashboard_data cfg ps now =
     fetch_reads ps now (cfg_services cfg) (cfg_services cfg) (cfg_services cfg)"

section \<open>Handlers\<close>

text \<open>The pages: a template name and the data.\<close>

definition page :: "string \<Rightarrow> config \<Rightarrow> providers \<Rightarrow> gotime \<Rightarrow> web_reply option" where
  "page template cfg ps now = map_option (Partial template) (fetch_dashboard_data cfg ps now)"

definition full_page :: "config \<Rightarrow> providers \<Rightarrow> gotime \<Rightarrow> web_reply option" where
  "full_page cfg ps now = page ''dashboard.html'' cfg ps now"

definition partial_stats :: "config \<Rightarrow> providers \<Rightarrow> gotime \<Rightarrow> web_reply option" where
  "partial_stats cfg ps now = page ''stats'' cfg ps now"

definition partial_services :: "config \<Rightarrow> providers \<Rightarrow> gotime \<Rightarrow> web_reply option" where
  "partial_services cfg ps now = page ''services'' cfg ps now"

definition web_error :: "int \<Rightarrow> string \<Rightarrow> web_reply option" where
  "web_error status msg = Some (WebError (write_json status (json_error msg)))"

text \<open>\<open>addService\<close>, on the three form values.\<close>

definition web_add_service ::
  "providers \<Rightarrow> gotime \<Rightarrow> string \<Rightarrow> string \<Rightarrow> string \<Rightarrow> config \<Rightarrow> config \<times> web_reply option" where
  "web_add_service ps now name repo registry cfg =
     (if name = [] \<or> repo = [] then (cfg, web_error 400 ''name and repo are required'')
      else if length (split_on CHR ''/'' repo) < 3 then
        (cfg, web_error 400 ''repo must be host/owner/repo format'')
      else if \<exists>svc \<in> set (cfg_services cfg). sc_name svc = name then
        (cfg, web_error 409 ''service already exists'')
      else
        let cfg' = cfg\<lparr>cfg_services := cfg_services cfg @
              [\<lparr>sc_name = name, sc_repo = repo, sc_registry = registry\<rparr>]\<rparr> in
        (cfg', page ''services'' cfg' ps now))"

text \<open>\<open>deleteService\<close>; its loop is the one of the API handler.\<close>

definition web_delete_service ::
  "providers \<Rightarrow> gotime \<Rightarrow> string \<Rightarrow> config \<Rightarrow> config \<times> web_reply option" where
  "web_delete_service ps now name cfg =
     (case remove_named name False [] (cfg_services cfg) of (found, services) \<Rightarrow>
        let cfg' = (if found then cfg\<lparr>cfg_services := services\<rparr> else cfg) in
        if \<not> found then (cfg', web_error 404 ''service not found'')
        else (cfg', page ''services'' cfg' ps now))"

section \<open>The contract\<close>

definition is_web_error :: "web_reply option \<Rightarrow> bool" where
  "is_web_error r \<longleftrightarrow> (case r of Some (WebError e) \<Rightarrow> True | _ \<Rightarrow> False)"

lemma is_web_error_simps [simp]: "is_web_error (web_error n msg)" "\<not> is_web_error (page t cfg ps now)"
  by (auto simp: is_web_error_def web_error_def page_def split: option.splits)

definition web_add ::
  "string \<Rightarrow> string \<Rightarrow> string \<Rightarrow> service_config list \<Rightarrow> bool \<times> service_config list" where
  "web_add name repo registry ss =
     (let (cfg, r) = web_add_service Map.empty zero_time name repo registry (zero_config\<lparr>cfg_services := ss\<rparr>)
      in (\<not> is_web_error r, cfg_services cfg))"

definition web_delete :: "string \<Rightarrow> service_config list \<Rightarrow> bool \<times> service_config list" where
  "web_delete name ss =
     (let (cfg, r) = web_delete_service Map.empty zero_time name (zero_config\<lparr>cfg_services := ss\<rparr>)
      in (\<not> is_web_error r, cfg_services cfg))"

lemma name_taken: "(\<exists>svc \<in> set ss. sc_name svc = name) \<longleftrightarrow> name \<in> sc_name ` set ss"
  by force

interpretation web_reg: service_registry web_add web_delete
proof
  fix name repo registry ss
  show "web_add name repo registry ss =
      (if add_allowed name repo ss
       then (True, ss @ [\<lparr>sc_name = name, sc_repo = repo, sc_registry = registry\<rparr>])
       else (False, ss))"
    by (auto simp: web_add_def web_add_service_def add_allowed_def repo_ok_def name_taken Let_def)
next
  fix name ss
  show "web_delete name ss = (name \<in> sc_name ` set ss, filter (\<lambda>s. sc_name s \<noteq> name) ss)"
    by (simp add: web_delete_def web_delete_service_def remove_named_filter filter_neq_id Let_def)
qed

lemma web_add_service_eq:
  "web_add_service ps now name repo registry cfg =
     (let cfg' = cfg\<lparr>cfg_services := snd (web_add name repo registry (cfg_services cfg))\<rparr> in
      (cfg', if fst (web_add name repo registry (cfg_services cfg)) then page ''services'' cfg' ps now
             else snd (web_add_service ps now name repo registry cfg)))"
  by (auto simp: web_add_service_def web_reg.add_law add_allowed_def repo_ok_def name_taken Let_def)

lemma web_delete_service_eq:
  "fst (web_delete_service ps now name cfg) =
     cfg\<lparr>cfg_services := snd (web_delete name (cfg_services cfg))\<rparr>"
  by (simp add: web_delete_service_def remove_named_filter web_reg.del_law filter_neq_id Let_def)

text \<open>
  C17. The dashboard and the REST API are two fronts of one registry: an addition and a
  deletion are accepted by the one exactly when they are accepted by the other, and leave the
  same configuration.
\<close>

theorem dashboard_agrees_with_api:
  "fst (web_add_service ps now name repo registry cfg) =
     fst (add_service (\<lambda>_. Some (JObj [(''name'', JStr name), (''repo'', JStr repo), (''registry'', JStr registry)])) body cfg) \<and>
   (is_web_error (snd (web_add_service ps now name repo registry cfg)) \<longleftrightarrow>
     rs_status (snd (add_service (\<lambda>_. Some (JObj [(''name'', JStr name), (''repo'', JStr repo), (''registry'', JStr registry)])) body cfg)) \<noteq> 201) \<and>
   fst (web_delete_service ps now name cfg) = fst (delete_service name cfg) \<and>
   (is_web_error (snd (web_delete_service ps now name cfg)) \<longleftrightarrow>
     rs_status (snd (delete_service name cfg)) = 404)"
proof -
  let ?v = "JObj [(''name'', JStr name), (''repo'', JStr repo), (''registry'', JStr registry)]"
  have "unmarshal (\<lambda>_. Some ?v) dec_add_request empty_request (take (2 ^ 20) body) =
      Inr \<lparr>rq_name = name, rq_repo = repo, rq_registry = registry\<rparr>"
    by (simp add: unmarshal_def dec_add_request_plain)
  then have "add_service (\<lambda>_. Some ?v) body cfg =
     (if name = [] \<or> repo = [] then (cfg, write_json 400 (json_error ''name and repo are required''))
      else if length (split_on CHR ''/'' repo) < 3 then
        (cfg, write_json 400 (json_error ''repo must be host/owner/repo format''))
      else if \<exists>svc \<in> set (cfg_services cfg). sc_name svc = name then
        (cfg, write_json 409 (json_error ''service already exists''))
      else (cfg\<lparr>cfg_services := cfg_services cfg @
               [\<lparr>sc_name = name, sc_repo = repo, sc_registry = registry\<rparr>]\<rparr>,
            write_json 201 (JObj [(''name'', JStr name), (''status'', JStr ''created'')])))"
    by (simp add: add_service_def)
  then show ?thesis
    by (simp add: web_add_service_def web_delete_service_def delete_service_def
        remove_named_filter Let_def)
qed

section \<open>The rows\<close>

lemma fill_eq:
  "fill ps i svcs statuses =
     (if svcs = [] \<or> i + length svcs \<le> length statuses
      then Some (take i statuses @ map (status_of ps) svcs @ drop (i + length svcs) statuses)
      else None)"
proof (induction svcs arbitrary: i statuses)
  case Nil
  then show ?case by simp
next
  case (Cons svc svcs)
  then show ?case
    by (auto simp: take_Suc_conv_app_nth drop_update_cancel)
qed

lemma count_health_eq:
  "count_health h e ss =
     (h + int (length (filter (\<lambda>s. ss_error s = []) ss)),
      e + int (length (filter (\<lambda>s. ss_error s \<noteq> []) ss)))"
  by (induction ss arbitrary: h e) auto

lemma status_of_name [simp]: "ss_name (status_of ps svc) = sc_name svc"
  by (simp add: status_of_def empty_status_def split: lookup.splits)

text \<open>When every error has a message, a row without an error is a release that was found.\<close>

definition found_release :: "providers \<Rightarrow> service_config \<Rightarrow> bool" where
  "found_release ps svc \<longleftrightarrow> (\<exists>platform r. lookup_latest ps svc = Found platform r)"

definition errors_speak :: "providers \<Rightarrow> bool" where
  "errors_speak ps \<longleftrightarrow>
     (\<forall>platform p owner repo e. ps platform = Some p \<longrightarrow> pv_latest p owner repo = Inl e \<longrightarrow> error_text e \<noteq> [])"

lemma status_of_error:
  "errors_speak ps \<Longrightarrow> ss_error (status_of ps svc) = [] \<longleftrightarrow> found_release ps svc"
  by (auto simp: status_of_def found_release_def lookup_latest_def errors_speak_def parse_repo_def
      empty_status_def Let_def split: sum.splits option.splits if_splits)

lemma fetch_alone:
  "fetch_dashboard_data cfg ps now = Some
     \<lparr>dd_services = map (status_of ps) (cfg_services cfg),
      dd_total = int (length (cfg_services cfg)),
      dd_healthy = int (length (filter (\<lambda>s. ss_error s = []) (map (status_of ps) (cfg_services cfg)))),
      dd_errors = int (length (filter (\<lambda>s. ss_error s \<noteq> []) (map (status_of ps) (cfg_services cfg)))),
      dd_updated_at = format_second now\<rparr>"
  by (simp add: fetch_dashboard_data_def fetch_reads_def fill_eq count_health_eq)

text \<open>
  A dashboard request that no change of the configuration overlaps shows exactly one row for
  each service, in order and under its name; the healthy and the failed rows add up to the
  total; and, when every provider error has a message, a row counts as healthy exactly when
  the latest release of its service was found.
\<close>

theorem dashboard_counts_every_service:
  assumes "errors_speak ps"
  shows "\<exists>d. fetch_dashboard_data cfg ps now = Some d \<and>
     map ss_name (dd_services d) = map sc_name (cfg_services cfg) \<and>
     dd_total d = int (length (cfg_services cfg)) \<and> dd_healthy d + dd_errors d = dd_total d \<and>
     dd_healthy d = int (length (filter (found_release ps) (cfg_services cfg)))"
proof -
  have "filter ((\<lambda>s. ss_error s = []) \<circ> status_of ps) (cfg_services cfg) =
      filter (found_release ps) (cfg_services cfg)"
    by (simp add: comp_def status_of_error [OF assms])
  moreover have "length (filter (\<lambda>s. ss_error s = []) rows) + length (filter (\<lambda>s. ss_error s \<noteq> []) rows) =
      length rows" for rows
    by (rule sum_length_filter_compl)
  from this [of "map (status_of ps) (cfg_services cfg)"]
  have "int (length (filter (\<lambda>s. ss_error s = []) (map (status_of ps) (cfg_services cfg)))) +
      int (length (filter (\<lambda>s. ss_error s \<noteq> []) (map (status_of ps) (cfg_services cfg)))) =
      int (length (cfg_services cfg))"
    by (metis length_map of_nat_add)
  ultimately show ?thesis
    by (simp add: fetch_alone filter_map comp_def)
qed

theorem dashboard_counts_every_service_witness:
  "\<exists>d. fetch_dashboard_data (zero_config\<lparr>cfg_services :=
       [\<lparr>sc_name = ''api'', sc_repo = ''github.com/o/r'', sc_registry = []\<rparr>]\<rparr>) Map.empty zero_time = Some d \<and>
     dd_healthy d + dd_errors d = 1 \<and> map ss_name (dd_services d) = [''api'']"
proof -
  have "errors_speak Map.empty" by (simp add: errors_speak_def)
  from dashboard_counts_every_service [OF this, of "zero_config\<lparr>cfg_services :=
      [\<lparr>sc_name = ''api'', sc_repo = ''github.com/o/r'', sc_registry = []\<rparr>]\<rparr>" zero_time]
  show ?thesis by auto
qed

lemma fetch_overrun:
  "length sized < length ranged \<Longrightarrow> fetch_reads ps now sized ranged counted = None"
  by (auto simp: fetch_reads_def fill_eq)

lemma fetch_short:
  assumes "length sized = Suc (length ranged)"
  shows "\<exists>d. fetch_reads ps now sized ranged counted = Some d \<and>
    dd_services d = map (status_of ps) ranged @ [empty_status] \<and>
    dd_total d = int (length counted) \<and> 1 \<le> dd_healthy d"
proof -
  have "fill ps 0 ranged (replicate (length sized) empty_status) =
      Some (map (status_of ps) ranged @ [empty_status])"
    using assms replicate_Suc [of 0 empty_status]
    by (simp add: fill_eq drop_replicate del: replicate_Suc)
  then show ?thesis
    by (simp add: fetch_reads_def count_health_eq empty_status_def)
qed

text \<open>
  C18. A change between the unguarded reads of \<open>fetchDashboardData\<close> breaks the page.  When an
  addition is accepted between the first read and the loop, the goroutine of the new service
  assigns past the end of the slice and the process panics; when a deletion is accepted there,
  the page has a row without a name that counts as healthy, and shows one row more than the
  total it states.
\<close>

theorem dashboard_races_with_changes:
  assumes "services_ok (cfg_services cfg)"
  shows "(fst (web_add name repo registry (cfg_services cfg)) \<longrightarrow>
      fetch_reads ps now (cfg_services cfg)
        (cfg_services (fst (web_add_service ps' now' name repo registry cfg)))
        (cfg_services (fst (web_add_service ps' now' name repo registry cfg))) = None) \<and>
    (fst (web_delete name (cfg_services cfg)) \<longrightarrow>
      (\<exists>d. fetch_reads ps now (cfg_services cfg)
        (cfg_services (fst (web_delete_service ps' now' name cfg)))
        (cfg_services (fst (web_delete_service ps' now' name cfg))) = Some d \<and>
        empty_status \<in> set (dd_services d) \<and> 1 \<le> dd_healthy d \<and>
        int (length (dd_services d)) = dd_total d + 1))"
proof -
  have one: "length (filter (\<lambda>s. sc_name s = name) ss) = 1"
    if "distinct (map sc_name ss)" "name \<in> sc_name ` set ss" for ss
    using that by (induction ss) (auto simp: filter_empty_conv, metis imageI)
  have len: "length (cfg_services cfg) = Suc (length (filter (\<lambda>s. sc_name s \<noteq> name) (cfg_services cfg)))"
    if "name \<in> sc_name ` set (cfg_services cfg)"
    using one [OF services_ok_distinct [OF assms] that]
      sum_length_filter_compl [of "\<lambda>s. sc_name s = name" "cfg_services cfg"] by simp
  have "fetch_reads ps now (cfg_services cfg) (cfg_services (fst (web_add_service ps' now' name repo registry cfg)))
      counted = None" if "fst (web_add name repo registry (cfg_services cfg))" for counted
    using that by (intro fetch_overrun)
      (simp add: web_add_service_eq web_reg.add_law Let_def split: if_splits)
  moreover have "\<exists>d. fetch_reads ps now (cfg_services cfg)
        (cfg_services (fst (web_delete_service ps' now' name cfg)))
        (cfg_services (fst (web_delete_service ps' now' name cfg))) = Some d \<and>
        empty_status \<in> set (dd_services d) \<and> 1 \<le> dd_healthy d \<and>
        int (length (dd_services d)) = dd_total d + 1"
    if "fst (web_delete name (cfg_services cfg))"
  proof -
    let ?rest = "filter (\<lambda>s. sc_name s \<noteq> name) (cfg_services cfg)"
    have rest: "cfg_services (fst (web_delete_service ps' now' name cfg)) = ?rest"
      by (simp add: web_delete_service_eq web_reg.del_law)
    have "length (cfg_services cfg) = Suc (length ?rest)"
      using that by (intro len) (simp add: web_reg.del_law)
    from fetch_short [OF this, of ps now ?rest] show ?thesis unfolding rest by force
  qed
  ultimately show ?thesis by blast
qed

theorem dashboard_races_with_changes_witness:
  "fetch_reads Map.empty zero_time []
     (cfg_services (fst (web_add_service Map.empty zero_time ''api'' ''github.com/o/r'' [] zero_config)))
     (cfg_services (fst (web_add_service Map.empty zero_time ''api'' ''github.com/o/r'' [] zero_config))) = None"
proof -
  have "services_ok (cfg_services zero_config)"
    by (simp add: zero_config_def services_ok_def)
  note race = dashboard_races_with_changes [OF this, of "''api''" "''github.com/o/r''" "[]"
      Map.empty zero_time Map.empty zero_time]
  have "fst (web_add ''api'' ''github.com/o/r'' [] (cfg_services zero_config))"
    by (simp add: web_reg.add_law add_allowed_def repo_ok_def zero_config_def)
  with race show ?thesis by (simp add: zero_config_def)
qed

end
