(* ===== verification/Server.thy ===== *)
theory Server
  imports Web
begin

text \<open>
  The HTTP server of the \<open>sse\<close> transport: the API-key check (\<open>internal/middleware/auth.go\<close>),
  the label of the metrics (\<open>internal/middleware/metrics.go\<close>), the outer mux of
  \<open>StartWithHandlers\<close> (\<open>internal/mcpserver/server.go\<close>) and the muxes of the REST API and the
  dashboard below it, wired as \<open>cmd/releasewave/serve.go\<close> wires them.  \<open>ServeMux\<close> and
  \<open>StripPrefix\<close> are those of Go's \<open>net/http\<close>, for paths without percent-escapes.
\<close>

section \<open>Requests, answers and handlers\<close>

record http_request =
  hr_method :: string
  hr_path :: string
  hr_header :: "string \<Rightarrow> string"
  hr_form :: "string \<Rightarrow> string"
  hr_body :: string

datatype answer =
    Answer response
  | Page "web_reply option"
  | HealthOk
  | Prometheus
  | McpEndpoint
  | NotFound
  | NotAllowed
  | CleanRedirect

type_synonym handler = "http_request \<Rightarrow> config \<Rightarrow> config \<times> answer"

definition pure_handler :: "answer \<Rightarrow> handler" where
  "pure_handler a req cfg = (cfg, a)"

text \<open>What the server is started with; \<open>se_parse\<close> and \<open>se_jtime\<close> are the parameters of the API.\<close>

record server_env =
  se_providers :: providers
  se_store :: "store option"
  se_parse :: "string \<Rightarrow> json option"
  se_jtime :: "gotime \<Rightarrow> string"
  se_tkey :: "gotime \<Rightarrow> int"
  se_now :: gotime

section \<open>ServeMux\<close>

datatype pat_seg = Lit string | Wild | Rest

record pattern =
  mp_method :: string
  mp_segs :: "pat_seg list"

text \<open>
  The segments of a path after its leading slash; a trailing slash is an empty last segment.
  A wildcard takes one segment, which is not empty; \<open>Rest\<close> is the pattern's trailing slash.
\<close>

definition path_segs :: "string \<Rightarrow> string list" where
  "path_segs p = split_on CHR ''/'' (tl p)"

fun match_segs :: "pat_seg list \<Rightarrow> string list \<Rightarrow> string list option" where
  "match_segs [] [] = Some []"
| "match_segs [Rest] (s # ss) = Some []"
| "match_segs (Lit l # ps) (s # ss) = (if l = s then match_segs ps ss else None)"
| "match_segs (Wild # ps) (s # ss) = (if s \<noteq> [] then map_option ((#) s) (match_segs ps ss) else None)"
| "match_segs _ _ = None"

definition method_ok :: "string \<Rightarrow> string \<Rightarrow> bool" where
  "method_ok pm m \<longleftrightarrow> pm = [] \<or> pm = m \<or> pm = ''GET'' \<and> m = ''HEAD''"

text \<open>A path \<open>cleanPath\<close> leaves alone: rooted, without empty, \<open>.\<close> and \<open>..\<close> segments.\<close>

definition is_clean :: "string \<Rightarrow> bool" where
  "is_clean p \<longleftrightarrow> (case p of
      [] \<Rightarrow> False
    | c # _ \<Rightarrow> c = CHR ''/'' \<and> list_all (\<lambda>s. s \<noteq> []) (butlast (path_segs p)) \<and>
        list_all (\<lambda>s. s \<noteq> ''.'' \<and> s \<noteq> ''..'') (path_segs p))"

type_synonym mux = "(pattern \<times> (string list \<Rightarrow> handler)) list"

text \<open>
  The choice of a handler: a path that is not clean is redirected, a path known under other
  methods only is answered with 405, an unknown one with 404.  The lists below name a more
  specific pattern before a more general one.
\<close>

fun mux_find :: "mux \<Rightarrow> string \<Rightarrow> string list \<Rightarrow> handler option" where
  "mux_find [] m segs = None"
| "mux_find ((p, h) # rest) m segs =
     (case match_segs (mp_segs p) segs of
        Some captured \<Rightarrow> if method_ok (mp_method p) m then Some (h captured) else mux_find rest m segs
      | None \<Rightarrow> mux_find rest m segs)"

definition serve_mux :: "mux \<Rightarrow> handler" where
  "serve_mux mux req cfg =
     (if \<not> is_clean (hr_path req) \<and> hr_method req \<noteq> ''CONNECT'' then (cfg, CleanRedirect)
      else case mux_find mux (hr_method req) (path_segs (hr_path req)) of
        Some h \<Rightarrow> h req cfg
      | None \<Rightarrow>
          (cfg, if list_ex (\<lambda>(p, h). match_segs (mp_segs p) (path_segs (hr_path req)) \<noteq> None) mux
                then NotAllowed else NotFound))"

definition strip_prefix :: "string \<Rightarrow> handler \<Rightarrow> handler" where
  "strip_prefix prefix h req cfg =
     (if prefix \<noteq> [] \<and> \<not> has_prefix prefix (hr_path req) then (cfg, NotFound)
      else h (req\<lparr>hr_path := trim_prefix prefix (hr_path req)\<rparr>) cfg)"

section \<open>Authentication\<close>

text \<open>The key of a request: the bearer token, and the \<open>X-API-Key\<close> header when there is none.\<close>

definition request_key :: "http_request \<Rightarrow> string" where
  "request_key req =
     (let auth = hr_header req ''Authorization'';
          key = (if 7 < length auth \<and> take 7 auth = ''Bearer '' then drop 7 auth else [])
      in if key = [] then hr_header req ''X-API-Key'' else key)"

definition unauthorized :: "string \<Rightarrow> answer" where
  "unauthorized msg = Answer (write_json 401 (json_error msg))"

definition api_key_auth :: "string \<Rightarrow> handler \<Rightarrow> handler" where
  "api_key_auth api_key next req cfg =
     (if api_key = [] then next req cfg
      else if request_key req = [] then (cfg, unauthorized ''missing API key'')
      else if request_key req \<noteq> api_key then (cfg, unauthorized ''invalid API key'')
      else next req cfg)"

section \<open>The two inner muxes\<close>

definition on_config :: "(config \<Rightarrow> config \<times> response) \<Rightarrow> handler" where
  "on_config f req cfg = (case f cfg of (cfg', r) \<Rightarrow> (cfg', Answer r))"

definition api_mux :: "server_env \<Rightarrow> mux" where
  "api_mux env =
     [(\<lparr>mp_method = ''GET'', mp_segs = [Lit ''v1'', Lit ''services'']\<rparr>,
         \<lambda>_ req cfg. (cfg, Answer (list_services cfg (se_providers env)))),
      (\<lparr>mp_method = ''GET'', mp_segs = [Lit ''v1'', Lit ''services'', Wild, Lit ''releases'']\<rparr>,
         \<lambda>cs req cfg. (cfg, Answer (get_service_releases (se_tkey env) (se_jtime env) (se_store env) (hd cs)))),
      (\<lparr>mp_method = ''GET'', mp_segs = [Lit ''v1'', Lit ''timeline'']\<rparr>,
         \<lambda>_ req cfg. (cfg, Answer (get_timeline (se_tkey env) (se_jtime env) cfg (se_store env)))),
      (\<lparr>mp_method = ''POST'', mp_segs = [Lit ''v1'', Lit ''services'']\<rparr>,
         \<lambda>_ req. on_config (add_service (se_parse env) (hr_body req)) req),
      (\<lparr>mp_method = ''DELETE'', mp_segs = [Lit ''v1'', Lit ''services'', Wild]\<rparr>,
         \<lambda>cs. on_config (delete_service (hd cs)))]"

definition web_mux :: "server_env \<Rightarrow> mux" where
  "web_mux env =
     [(\<lparr>mp_method = [], mp_segs = [Lit ''dashboard'']\<rparr>,
         \<lambda>_ req cfg. (cfg, Page (full_page cfg (se_providers env) (se_now env)))),
      (\<lparr>mp_method = [], mp_segs = [Lit ''dashboard'', Lit ''partials'', Lit ''stats'']\<rparr>,
         \<lambda>_ req cfg. (cfg, Page (partial_stats cfg (se_providers env) (se_now env)))),
      (\<lparr>mp_method = [], mp_segs = [Lit ''dashboard'', Lit ''partials'', Lit ''services'']\<rparr>,
         \<lambda>_ req cfg. (cfg, Page (partial_services cfg (se_providers env) (se_now env)))),
      (\<lparr>mp_method = ''POST'', mp_segs = [Lit ''dashboard'', Lit ''services'']\<rparr>,
         \<lambda>_ req cfg. (case web_add_service (se_providers env) (se_now env) (hr_form req ''name'')
             (hr_form req ''repo'') (hr_form req ''registry'') cfg of (cfg', r) \<Rightarrow> (cfg', Page r))),
      (\<lparr>mp_method = ''DELETE'', mp_segs = [Lit ''dashboard'', Lit ''services'', Wild]\<rparr>,
         \<lambda>cs req cfg. (case web_delete_service (se_providers env) (se_now env) (hd cs) cfg of
             (cfg', r) \<Rightarrow> (cfg', Page r)))]"

text \<open>The middleware of \<open>internal/api/middleware.go\<close> on answers; what \<open>Logging\<close> logs is not modelled.\<close>

definition with_headers :: "(string \<times> string) list \<Rightarrow> answer \<Rightarrow> answer" where
  "with_headers hs a = (case a of Answer r \<Rightarrow> Answer (r\<lparr>rs_headers := hs @ rs_headers r\<rparr>) | _ \<Rightarrow> a)"

definition cors_handler :: "handler \<Rightarrow> handler" where
  "cors_handler next req cfg =
     (if hr_method req = ''OPTIONS''
      then (cfg, Answer \<lparr>rs_status = 204, rs_headers = cors_headers, rs_body = JNull\<rparr>)
      else case next req cfg of (cfg', a) \<Rightarrow> (cfg', with_headers cors_headers a))"

definition api_logging :: "handler \<Rightarrow> handler" where
  "api_logging next req cfg = next req cfg"

lemma api_logging_id [simp]: "api_logging h = h"
  by (intro ext) (simp add: api_logging_def)

section \<open>The outer mux\<close>

definition extra_routes :: "string \<Rightarrow> string \<times> handler \<Rightarrow> mux" where
  "extra_routes api_key ph =
     (case ph of (pattern, h) \<Rightarrow>
       [(\<lparr>mp_method = [], mp_segs = map Lit (path_segs pattern) @ [Rest]\<rparr>,
           \<lambda>_. strip_prefix pattern (api_key_auth api_key h)),
        (\<lparr>mp_method = [], mp_segs = map Lit (path_segs pattern)\<rparr>, \<lambda>_. api_key_auth api_key h)])"

definition outer_mux :: "string \<Rightarrow> (string \<times> handler) list \<Rightarrow> mux" where
  "outer_mux api_key extra =
     [(\<lparr>mp_method = [], mp_segs = [Lit ''health'']\<rparr>, \<lambda>_. pure_handler HealthOk),
      (\<lparr>mp_method = [], mp_segs = [Lit ''metrics'']\<rparr>, \<lambda>_. pure_handler Prometheus)] @
     concat (map (extra_routes api_key) extra) @
     [(\<lparr>mp_method = [], mp_segs = [Rest]\<rparr>, \<lambda>_. api_key_auth api_key (pure_handler McpEndpoint))]"

definition start_with_handlers :: "string \<Rightarrow> (string \<times> handler) list \<Rightarrow> handler" where
  "start_with_handlers api_key extra = serve_mux (outer_mux api_key extra)"

text \<open>\<open>serve --transport=sse\<close>; the key is read from the configuration when the server starts.\<close>

definition server :: "server_env \<Rightarrow> string \<Rightarrow> handler" where
  "server env api_key = start_with_handlers api_key
     [(''/dashboard'', serve_mux (web_mux env)),
      (''/api'', cors_handler (api_logging (serve_mux (api_mux env))))]"

section \<open>Metrics\<close>

definition normalize_path :: "string \<Rightarrow> string" where
  "normalize_path p =
     (if has_prefix ''/api/'' p then
        let parts = split_on CHR ''/'' p in
        if 5 \<le> length parts \<and> parts ! 2 = ''v1'' \<and> parts ! 3 = ''services''
        then join_with ''/'' (parts[4 := ''{name}'']) else p
      else if has_prefix ''/sse'' p then ''/sse''
      else if has_prefix ''/message'' p then ''/message''
      else if has_prefix ''/dashboard'' p then ''/dashboard''
      else
        let parts = split_n 5 CHR ''/'' p in
        if 4 < length parts then join_with ''/'' (take 4 parts) else p)"

section \<open>Which handler a request reaches\<close>

lemma path_segs_not_Nil [simp]: "path_segs p \<noteq> []"
  by (simp add: path_segs_def)

lemma path_segs_literals [simp]:
  "path_segs ''/dashboard'' = [''dashboard'']" "path_segs ''/api'' = [''api'']"
  by (simp_all add: path_segs_def)

lemma path_segs_under:
  "CHR ''/'' \<notin> set d \<Longrightarrow> path_segs (CHR ''/'' # d @ CHR ''/'' # rest) = d # path_segs (CHR ''/'' # rest)"
  by (simp add: path_segs_def split_on_append)

definition route :: "server_env \<Rightarrow> string \<Rightarrow> string list \<Rightarrow> handler" where
  "route env key segs =
     (if segs = [''health''] then pure_handler HealthOk
      else if segs = [''metrics''] then pure_handler Prometheus
      else if segs = [''dashboard''] then api_key_auth key (serve_mux (web_mux env))
      else if hd segs = ''dashboard'' then
        strip_prefix ''/dashboard'' (api_key_auth key (serve_mux (web_mux env)))
      else if segs = [''api''] then api_key_auth key (cors_handler (serve_mux (api_mux env)))
      else if hd segs = ''api'' then
        strip_prefix ''/api'' (api_key_auth key (cors_handler (serve_mux (api_mux env))))
      else api_key_auth key (pure_handler McpEndpoint))"

lemma outer_find:
  assumes "segs \<noteq> []"
  shows "mux_find (outer_mux key [(''/dashboard'', serve_mux (web_mux env)),
      (''/api'', cors_handler (serve_mux (api_mux env)))]) m segs = Some (route env key segs)"
proof -
  obtain s ss where segs: "segs = s # ss" using assms by (cases segs) auto
  show ?thesis
    by (cases ss) (auto simp: segs outer_mux_def extra_routes_def method_ok_def route_def)
qed

lemma server_eq:
  "server env key req cfg =
     (if \<not> is_clean (hr_path req) \<and> hr_method req \<noteq> ''CONNECT'' then (cfg, CleanRedirect)
      else route env key (path_segs (hr_path req)) req cfg)"
  by (simp add: server_def start_with_handlers_def serve_mux_def outer_find)

lemma request_key_path [simp]: "request_key (req\<lparr>hr_path := p\<rparr>) = request_key req"
  by (simp add: request_key_def Let_def)

text \<open>A handler behind the check: without the right key it changes nothing.\<close>

lemma auth_refuses:
  "key \<noteq> [] \<Longrightarrow> request_key req \<noteq> key \<Longrightarrow>
     api_key_auth key h req cfg =
       (cfg, unauthorized (if request_key req = [] then ''missing API key'' else ''invalid API key''))"
  by (simp add: api_key_auth_def)

lemma auth_admits: "key = [] \<or> request_key req = key \<Longrightarrow> api_key_auth key h req cfg = h req cfg"
  by (auto simp: api_key_auth_def)


definition demo_request :: "string \<Rightarrow> string \<Rightarrow> http_request" where
  "demo_request m p = \<lparr>hr_method = m, hr_path = p, hr_header = (\<lambda>_. []), hr_form = (\<lambda>_. []), hr_body = []\<rparr>"

definition demo_server :: server_env where
  "demo_server = \<lparr>se_providers = Map.empty, se_store = None, se_parse = (\<lambda>_. None),
     se_jtime = (\<lambda>_. []), se_tkey = instant, se_now = zero_time\<rparr>"


section \<open>The routes below a prefix\<close>

lemma path_segs_slash: "path_segs (CHR ''/'' # p) = split_on CHR ''/'' p"
  by (simp add: path_segs_def)

lemma path_segs_step:
  "CHR ''/'' \<notin> set d \<Longrightarrow> path_segs (c # d @ CHR ''/'' # rest) = d # path_segs (CHR ''/'' # rest)"
  by (simp add: path_segs_def split_on_append)

lemma is_clean_under:
  "is_clean (CHR ''/'' # d @ CHR ''/'' # rest) \<Longrightarrow> CHR ''/'' \<notin> set d \<Longrightarrow> is_clean (CHR ''/'' # rest)"
  by (simp add: is_clean_def path_segs_step)

lemma server_dashboard:
  assumes "key = [] \<or> request_key req = key" "hr_path req = ''/dashboard/'' @ rest"
    "is_clean (''/dashboard/'' @ rest)"
  shows "server env key req cfg = serve_mux (web_mux env) (req\<lparr>hr_path := CHR ''/'' # rest\<rparr>) cfg"
proof -
  have "path_segs (''/dashboard/'' @ rest) = ''dashboard'' # path_segs (CHR ''/'' # rest)"
    using path_segs_step [of "''dashboard''" "CHR ''/''" rest] by simp
  moreover have "trim_prefix ''/dashboard'' (''/dashboard/'' @ rest) = CHR ''/'' # rest"
    using trim_prefix_append [of "''/dashboard''" "CHR ''/'' # rest"] by simp
  ultimately show ?thesis
    using assms has_prefix_append [of "''/dashboard''" "CHR ''/'' # rest"]
    by (simp add: server_eq route_def strip_prefix_def auth_admits)
qed

lemma server_api:
  assumes "key = [] \<or> request_key req = key" "hr_path req = ''/api/'' @ rest"
    "is_clean (''/api/'' @ rest)"
  shows "server env key req cfg =
    cors_handler (serve_mux (api_mux env)) (req\<lparr>hr_path := CHR ''/'' # rest\<rparr>) cfg"
proof -
  have "path_segs (''/api/'' @ rest) = ''api'' # path_segs (CHR ''/'' # rest)"
    using path_segs_step [of "''api''" "CHR ''/''" rest] by simp
  moreover have "trim_prefix ''/api'' (''/api/'' @ rest) = CHR ''/'' # rest"
    using trim_prefix_append [of "''/api''" "CHR ''/'' # rest"] by simp
  ultimately show ?thesis
    using assms has_prefix_append [of "''/api''" "CHR ''/'' # rest"]
    by (simp add: server_eq route_def strip_prefix_def auth_admits)
qed

lemma web_find:
  "hd segs \<noteq> ''dashboard'' \<Longrightarrow> mux_find (web_mux env) m segs = None \<and>
     \<not> list_ex (\<lambda>(p, h). match_segs (mp_segs p) segs \<noteq> None) (web_mux env)"
  by (cases segs) (simp_all add: web_mux_def)

text \<open>
  C15. Of the dashboard only the full page can be reached.  The dashboard's mux registers its
  other four routes with the prefix \<open>/dashboard\<close>, but below \<open>/dashboard/\<close> the server strips
  this prefix: every request under \<open>/dashboard/\<close>, the partials the page polls and the
  forms of adding and deleting services included, is answered by 404 without an effect,
  unless it repeats the prefix.
\<close>

theorem dashboard_routes_are_shadowed:
  assumes "key = [] \<or> request_key req = key" "hr_path req = ''/dashboard/'' @ rest"
    "is_clean (''/dashboard/'' @ rest)"
  shows "(hd (path_segs (CHR ''/'' # rest)) \<noteq> ''dashboard'' \<longrightarrow> server env key req cfg = (cfg, NotFound)) \<and>
    server env key (req\<lparr>hr_path := ''/dashboard''\<rparr>) cfg =
      (cfg, Page (full_page cfg (se_providers env) (se_now env))) \<and>
    server env key (req\<lparr>hr_path := ''/dashboard/dashboard/partials/stats''\<rparr>) cfg =
      (cfg, Page (partial_stats cfg (se_providers env) (se_now env)))"
proof -
  have clean: "is_clean (CHR ''/'' # rest)"
    using assms(3) is_clean_under [of "''dashboard''" rest] by simp
  have "server env key req cfg = (cfg, NotFound)" if "hd (path_segs (CHR ''/'' # rest)) \<noteq> ''dashboard''"
    using server_dashboard [OF assms, of env cfg] web_find [OF that, of env "hr_method req"] clean
    by (simp add: serve_mux_def)
  moreover have "server env key (req\<lparr>hr_path := ''/dashboard''\<rparr>) cfg =
      (cfg, Page (full_page cfg (se_providers env) (se_now env)))"
    using assms(1)
    by (auto simp: server_eq route_def auth_admits is_clean_def serve_mux_def web_mux_def method_ok_def)
  moreover have "server env key (req\<lparr>hr_path := ''/dashboard/dashboard/partials/stats''\<rparr>) cfg =
      (cfg, Page (partial_stats cfg (se_providers env) (se_now env)))"
    using server_dashboard [of key "req\<lparr>hr_path := ''/dashboard/dashboard/partials/stats''\<rparr>"
        "''dashboard/partials/stats''" env cfg] assms(1)
    by (simp add: is_clean_def path_segs_def serve_mux_def web_mux_def method_ok_def)
  ultimately show ?thesis by blast
qed

theorem dashboard_routes_are_shadowed_witness:
  "server demo_server [] (demo_request ''POST'' ''/dashboard/services'') default_config =
     (default_config, NotFound)"
proof -
  have "is_clean (''/dashboard/'' @ ''services'')" "hd (path_segs (CHR ''/'' # ''services'')) \<noteq> ''dashboard''"
    by (simp_all add: is_clean_def path_segs_def)
  with dashboard_routes_are_shadowed [of "[]" "demo_request ''POST'' ''/dashboard/services''" "''services''"]
  show ?thesis by (simp add: demo_request_def)
qed

text \<open>
  C14. The REST API is served under \<open>/api/v1\<close>: an authenticated request reaches the handler
  its method and path name, with the path's service name as its argument, and the answer
  carries the CORS headers.
\<close>

theorem api_routes_reach_handlers:
  assumes "key = [] \<or> request_key req = key"
    and "name \<noteq> []" "CHR ''/'' \<notin> set name" "name \<noteq> ''.''" "name \<noteq> ''..''"
  shows "server env key (req\<lparr>hr_method := ''GET'', hr_path := ''/api/v1/services''\<rparr>) cfg =
      (cfg, with_headers cors_headers (Answer (list_services cfg (se_providers env)))) \<and>
    server env key (req\<lparr>hr_method := ''GET'', hr_path := ''/api/v1/services/'' @ name @ ''/releases''\<rparr>) cfg =
      (cfg, with_headers cors_headers
        (Answer (get_service_releases (se_tkey env) (se_jtime env) (se_store env) name))) \<and>
    server env key (req\<lparr>hr_method := ''GET'', hr_path := ''/api/v1/timeline''\<rparr>) cfg =
      (cfg, with_headers cors_headers (Answer (get_timeline (se_tkey env) (se_jtime env) cfg (se_store env)))) \<and>
    server env key (req\<lparr>hr_method := ''POST'', hr_path := ''/api/v1/services''\<rparr>) cfg =
      map_prod id (with_headers cors_headers \<circ> Answer) (add_service (se_parse env) (hr_body req) cfg) \<and>
    server env key (req\<lparr>hr_method := ''DELETE'', hr_path := ''/api/v1/services/'' @ name\<rparr>) cfg =
      map_prod id (with_headers cors_headers \<circ> Answer) (delete_service name cfg)"
proof -
  have "request_key (req\<lparr>hr_method := m, hr_path := p\<rparr>) = request_key req" for m p
    by (simp add: request_key_def Let_def)
  with assms(1) have auth: "key = [] \<or> request_key (req\<lparr>hr_method := m, hr_path := p\<rparr>) = key" for m p
    by simp
  have segs: "path_segs (''/api/v1/services/'' @ name) = [''api'', ''v1'', ''services'', name]"
    "path_segs (''/v1/services/'' @ name) = [''v1'', ''services'', name]"
    "path_segs (''/api/v1/services/'' @ name @ ''/releases'') = [''api'', ''v1'', ''services'', name, ''releases'']"
    "path_segs (''/v1/services/'' @ name @ ''/releases'') = [''v1'', ''services'', name, ''releases'']"
    using split_on_no_sep [OF assms(3)] split_on_append [OF assms(3), of "''releases''"]
    by (simp_all add: path_segs_def)
  note facts = is_clean_def path_segs_def serve_mux_def api_mux_def method_ok_def cors_handler_def
    on_config_def split_beta map_prod_def
  show ?thesis
  proof (intro conjI)
    show "server env key (req\<lparr>hr_method := ''GET'', hr_path := ''/api/v1/services''\<rparr>) cfg =
        (cfg, with_headers cors_headers (Answer (list_services cfg (se_providers env))))"
      using server_api [OF auth [where m = "''GET''" and p = "''/api/v1/services''"], of "''v1/services''"]
      by (simp add: facts)
    show "server env key (req\<lparr>hr_method := ''GET'', hr_path := ''/api/v1/timeline''\<rparr>) cfg =
        (cfg, with_headers cors_headers (Answer (get_timeline (se_tkey env) (se_jtime env) cfg (se_store env))))"
      using server_api [OF auth [where m = "''GET''" and p = "''/api/v1/timeline''"], of "''v1/timeline''"]
      by (simp add: facts)
    show "server env key (req\<lparr>hr_method := ''POST'', hr_path := ''/api/v1/services''\<rparr>) cfg =
        map_prod id (with_headers cors_headers \<circ> Answer) (add_service (se_parse env) (hr_body req) cfg)"
      using server_api [OF auth [where m = "''POST''" and p = "''/api/v1/services''"], of "''v1/services''"]
      by (simp add: facts)
    show "server env key (req\<lparr>hr_method := ''GET'', hr_path := ''/api/v1/services/'' @ name @ ''/releases''\<rparr>) cfg =
        (cfg, with_headers cors_headers
          (Answer (get_service_releases (se_tkey env) (se_jtime env) (se_store env) name)))"
      using server_api [OF auth [where m = "''GET''" and p = "''/api/v1/services/'' @ name @ ''/releases''"], of "''v1/services/'' @ name @ ''/releases''"] segs assms
      by (simp add: is_clean_def serve_mux_def api_mux_def method_ok_def cors_handler_def)
    show "server env key (req\<lparr>hr_method := ''DELETE'', hr_path := ''/api/v1/services/'' @ name\<rparr>) cfg =
        map_prod id (with_headers cors_headers \<circ> Answer) (delete_service name cfg)"
      using server_api [OF auth [where m = "''DELETE''" and p = "''/api/v1/services/'' @ name"], of "''v1/services/'' @ name"]
        segs assms
      by (simp add: is_clean_def serve_mux_def api_mux_def method_ok_def cors_handler_def
          on_config_def split_beta map_prod_def)
  qed
qed

theorem api_routes_reach_handlers_witness:
  "server demo_server [] (demo_request ''DELETE'' ''/api/v1/services/api'') default_config =
     map_prod id (with_headers cors_headers \<circ> Answer) (delete_service ''api'' default_config)"
  using api_routes_reach_handlers [of "[]" "demo_request ''DELETE'' ''/api/v1/services/api''" "''api''"
      demo_server default_config]
  by (simp add: demo_request_def)

text \<open>
  Authentication comes before CORS.  When an API key is configured, the preflight request
  a browser sends without credentials is answered by 401 without any CORS header, so a page
  of another origin cannot call the API although every origin is allowed; without a key the
  preflight is answered by 204 with the headers.
\<close>

theorem preflight_needs_the_key:
  assumes "is_clean (''/api/'' @ rest)" "hr_path req = ''/api/'' @ rest" "hr_method req = ''OPTIONS''"
    "request_key req = []"
  shows "(key \<noteq> [] \<longrightarrow> server env key req cfg =
      (cfg, Answer \<lparr>rs_status = 401, rs_headers = [(''Content-Type'', ''application/json'')],
         rs_body = json_error ''missing API key''\<rparr>)) \<and>
    server env [] req cfg = (cfg, Answer \<lparr>rs_status = 204, rs_headers = cors_headers, rs_body = JNull\<rparr>)"
proof -
  have segs: "path_segs (''/api/'' @ rest) = ''api'' # path_segs (CHR ''/'' # rest)"
    using path_segs_step [of "''api''" "CHR ''/''" rest] by simp
  have "server env key req cfg = (cfg, unauthorized ''missing API key'')" if "key \<noteq> []"
    using assms segs that has_prefix_append [of "''/api''" "CHR ''/'' # rest"]
    by (simp add: server_eq route_def strip_prefix_def auth_refuses)
  moreover have "server env [] req cfg =
      (cfg, Answer \<lparr>rs_status = 204, rs_headers = cors_headers, rs_body = JNull\<rparr>)"
    using server_api [of "[]" req rest env cfg] assms by (simp add: cors_handler_def)
  ultimately show ?thesis by (simp add: unauthorized_def write_json_def)
qed

theorem preflight_needs_the_key_witness:
  "snd (server demo_server ''secret'' (demo_request ''OPTIONS'' ''/api/v1/services'') default_config) =
     Answer \<lparr>rs_status = 401, rs_headers = [(''Content-Type'', ''application/json'')],
         rs_body = json_error ''missing API key''\<rparr>"
proof -
  have "is_clean (''/api/'' @ ''v1/services'')" by (simp add: is_clean_def path_segs_def)
  with preflight_needs_the_key [of "''v1/services''" "demo_request ''OPTIONS'' ''/api/v1/services''" "''secret''"]
  show ?thesis by (simp add: demo_request_def request_key_def)
qed

section \<open>A server without a configuration file\<close>

text \<open>
  C13. A server started without a configuration file is open.  \<open>Load\<close> then returns before it
  reads \<open>RELEASEWAVE_API_KEY\<close>: although the key is set, a \<open>DELETE\<close> without credentials is
  carried out, while the same start with an empty configuration file refuses it.
\<close>

theorem missing_file_disables_auth:
  assumes "env ''RELEASEWAVE_API_KEY'' \<noteq> []" "request_key req = []"
    and "hr_method req = ''DELETE''" "hr_path req = ''/api/v1/services/api''"
    and "path \<noteq> []" "yaml [] = Inr zero_config"
  shows "\<exists>open_cfg closed_cfg.
      load home (\<lambda>_. FileMissing) yaml env path = Inr open_cfg \<and>
      load home (\<lambda>_. FileData []) yaml env path = Inr closed_cfg \<and>
      (\<forall>cfg. server senv (srv_api_key (cfg_server open_cfg)) req cfg =
         map_prod id (with_headers cors_headers \<circ> Answer) (delete_service ''api'' cfg)) \<and>
      (\<forall>cfg. server senv (srv_api_key (cfg_server closed_cfg)) req cfg =
         (cfg, unauthorized ''missing API key''))"
proof -
  have "validate (apply_defaults zero_config) = None"
    using validate_default_config by (simp add: default_config_def)
  then have loads: "load home (\<lambda>_. FileMissing) yaml env path = Inr default_config"
    "load home (\<lambda>_. FileData []) yaml env path = Inr (override_env env default_config)"
    using assms(5,6) by (simp_all add: load_def default_config_def)
  have keys: "srv_api_key (cfg_server default_config) = []"
    "srv_api_key (cfg_server (override_env env default_config)) = env ''RELEASEWAVE_API_KEY''"
    using assms(1)
    by (simp_all add: default_config_def apply_defaults_def zero_config_def override_env_def env_or_def)
  have req: "server senv [] req cfg =
      map_prod id (with_headers cors_headers \<circ> Answer) (delete_service ''api'' cfg)" for cfg
    using server_api [of "[]" req "''v1/services/api''" senv cfg] assms(3,4)
    by (simp add: is_clean_def path_segs_def serve_mux_def api_mux_def method_ok_def cors_handler_def
        on_config_def split_beta map_prod_def)
  have refused: "server senv key req cfg = (cfg, unauthorized ''missing API key'')" if "key \<noteq> []" for key cfg
    using that assms(2-4)
    by (simp add: server_eq is_clean_def path_segs_def route_def strip_prefix_def auth_refuses)
  have "server senv (srv_api_key (cfg_server default_config)) req cfg =
        map_prod id (with_headers cors_headers \<circ> Answer) (delete_service ''api'' cfg) \<and>
      server senv (srv_api_key (cfg_server (override_env env default_config))) req cfg =
        (cfg, unauthorized ''missing API key'')" for cfg
    unfolding keys using req refused [OF assms(1)] by blast
  with loads show ?thesis by blast
qed

theorem missing_file_disables_auth_witness:
  "\<exists>open_cfg. load (Inr ''/root'') (\<lambda>_. FileMissing) (\<lambda>_. Inr zero_config) (\<lambda>_. ''secret'') ''c.yaml'' = Inr open_cfg \<and>
     (\<forall>cfg. server demo_server (srv_api_key (cfg_server open_cfg)) (demo_request ''DELETE'' ''/api/v1/services/api'') cfg =
       map_prod id (with_headers cors_headers \<circ> Answer) (delete_service ''api'' cfg))"
  using missing_file_disables_auth [of "\<lambda>_. ''secret''" "demo_request ''DELETE'' ''/api/v1/services/api''"
      "''c.yaml''" "\<lambda>_. Inr zero_config" "Inr ''/root''" demo_server]
  by (auto simp: demo_request_def request_key_def)

section \<open>Metric labels\<close>

lemma count_join_take:
  "\<forall>p \<in> set ps. c \<notin> set p \<Longrightarrow> count_list (join_with [c] ps) c = length ps - 1"
proof (induction ps)
  case (Cons p ps)
  then show ?case by (cases ps) (simp_all add: join_with_Cons count_notin)
qed simp

text \<open>
  The path label of the HTTP metrics does not grow with the services: the label of a path
  under \<open>/api/v1/services/<name>\<close> is independent of the name, and every path outside \<open>/api/\<close>
  is reduced to at most three separators.  A path below \<open>/api/\<close> that is not under
  \<open>v1/services\<close> is its own label, so these labels, and the number of time series, are not
  bounded.
\<close>

theorem metric_labels_bounded:
  assumes "CHR ''/'' \<notin> set name" "CHR ''/'' \<notin> set other" "CHR ''/'' \<notin> set seg" "seg \<noteq> ''v1''"
  shows "normalize_path (''/api/v1/services/'' @ name) = ''/api/v1/services/{name}'' \<and>
    normalize_path (''/api/v1/services/'' @ name @ CHR ''/'' # rest) =
      normalize_path (''/api/v1/services/'' @ other @ CHR ''/'' # rest) \<and>
    (\<not> has_prefix ''/api/'' p \<longrightarrow> count_list (normalize_path p) CHR ''/'' \<le> 3) \<and>
    normalize_path (''/api/'' @ seg @ CHR ''/'' # rest) = ''/api/'' @ seg @ CHR ''/'' # rest"
proof -
  have named: "normalize_path (''/api/v1/services/'' @ n @ t) =
      join_with ''/'' ([[], ''api'', ''v1'', ''services'', ''{name}''] @ tl (split_on CHR ''/'' (n @ t)))" for n t
    by (cases "split_on CHR ''/'' (n @ t)") (simp_all add: normalize_path_def)
  have few: "count_list (normalize_path p) CHR ''/'' \<le> 3" if "\<not> has_prefix ''/api/'' p"
  proof (cases "4 < length (split_n 5 CHR ''/'' p)")
    case True
    then have five: "4 < length (split_on CHR ''/'' p)"
      by (auto simp: split_n_def Let_def split: if_splits)
    then have "take 4 (split_n 5 CHR ''/'' p) = take 4 (split_on CHR ''/'' p)"
      by (auto simp: split_n_def Let_def)
    moreover have "count_list (join_with ''/'' (take 4 (split_on CHR ''/'' p))) CHR ''/'' \<le> 3"
    proof -
      have "\<forall>q \<in> set (take 4 (split_on CHR ''/'' p)). CHR ''/'' \<notin> set q"
        by (auto dest: in_set_takeD split_on_pieces)
      from count_join_take [OF this] show ?thesis by simp
    qed
    ultimately show ?thesis using that True by (simp add: normalize_path_def)
  next
    case False
    then have "length (split_on CHR ''/'' p) \<le> 4"
      by (auto simp: split_n_def Let_def split: if_splits)
    with False that show ?thesis
      by (simp add: normalize_path_def length_split_on)
  qed
  have rest: "normalize_path (''/api/'' @ seg @ CHR ''/'' # rest) = ''/api/'' @ seg @ CHR ''/'' # rest"
    using assms(4) by (simp add: normalize_path_def split_on_append [OF assms(3)])
  show ?thesis
    using rest named [of name "[]"] named [of name "CHR ''/'' # rest"] named [of other "CHR ''/'' # rest"]
      few assms(1,2)
    by (simp add: split_on_no_sep split_on_append)
qed

theorem metric_labels_bounded_witness:
  "normalize_path ''/api/v1/services/web'' = ''/api/v1/services/{name}'' \<and>
   normalize_path ''/api/v2/x1'' = ''/api/v2/x1''"
  using metric_labels_bounded [of "''web''" "''web''" "''v2''" "''x1''"] by simp

end
