(* ===== verification/Wiring.thy ===== *)
theory Wiring
  imports Server Cli
begin

text \<open>
  How the program is put together (\<open>cmd/releasewave/root.go\<close>, \<open>serve.go\<close>, \<open>daemon.go\<close>,
  \<open>internal/mcpserver/server.go\<close>, \<open>internal/logging/logging.go\<close>, \<open>internal/ratelimit/ratelimit.go\<close>): the start of every command, the construction of the server,
  its transports and its shutdown, and the daemon command.  Opening a database, the transports
  and the token bucket are parameters.
\<close>

section \<open>Logging, limiter and the start of a command\<close>

datatype log_threshold = LevelDebug | LevelInfo | LevelWarn | LevelError

definition log_threshold_of :: "string \<Rightarrow> log_threshold" where
  "log_threshold_of level =
     (let l = fold_lower level in
      if l = ''debug'' then LevelDebug
      else if l = ''warn'' \<or> l = ''warning'' then LevelWarn
      else if l = ''error'' then LevelError
      else LevelInfo)"

text \<open>The levels are ordered, and a handler drops the lines below its threshold.\<close>

fun level_value :: "log_threshold \<Rightarrow> int" where
  "level_value LevelDebug = - 4"
| "level_value LevelInfo = 0"
| "level_value LevelWarn = 4"
| "level_value LevelError = 8"

instantiation log_threshold :: linorder
begin

definition less_eq_log_threshold :: "log_threshold \<Rightarrow> log_threshold \<Rightarrow> bool" where
  "less_eq_log_threshold a b \<longleftrightarrow> level_value a \<le> level_value b"

definition less_log_threshold :: "log_threshold \<Rightarrow> log_threshold \<Rightarrow> bool" where
  "less_log_threshold a b \<longleftrightarrow> level_value a < level_value b"

instance
proof
  fix a b c :: log_threshold
  show "a < b \<longleftrightarrow> a \<le> b \<and> \<not> b \<le> a" "a \<le> a" "a \<le> b \<or> b \<le> a"
    by (auto simp: less_eq_log_threshold_def less_log_threshold_def)
  show "a \<le> b \<Longrightarrow> b \<le> c \<Longrightarrow> a \<le> c"
    by (simp add: less_eq_log_threshold_def)
  show "a \<le> b \<Longrightarrow> b \<le> a \<Longrightarrow> a = b"
    by (cases a; cases b) (simp_all add: less_eq_log_threshold_def)
qed

end

definition log_enabled :: "log_threshold \<Rightarrow> log_threshold \<Rightarrow> bool" where
  "log_enabled threshold level \<longleftrightarrow> threshold \<le> level"

lemma errors_are_always_logged: "log_enabled (log_threshold_of level) LevelError"
  by (cases "log_threshold_of level") (simp_all add: log_enabled_def less_eq_log_threshold_def)

text \<open>The threshold and whether lines are JSON.\<close>

definition log_setup :: "string \<Rightarrow> string \<Rightarrow> log_threshold \<times> bool" where
  "log_setup level format = (log_threshold_of level, fold_lower format = ''json'')"

text \<open>\<open>Limiter.Wait\<close>: a nil limiter, or one without a bucket, never waits.\<close>

definition limiter_wait :: "(go_error option) option option \<Rightarrow> go_error option" where
  "limiter_wait l =
     (case l of
        None \<Rightarrow> None
      | Some bucket \<Rightarrow> (case bucket of None \<Rightarrow> None | Some waited \<Rightarrow> waited))"

definition pre_run ::
  "string result \<Rightarrow> (string \<Rightarrow> file_content) \<Rightarrow> (string \<Rightarrow> config result) \<Rightarrow> (string \<Rightarrow> string) \<Rightarrow>
   string \<Rightarrow> string \<Rightarrow> string \<Rightarrow> (log_threshold \<times> bool) \<times> (load_error + config)" where
  "pre_run home read_file yaml env cfg_file level format =
     (log_setup level format, load home read_file yaml env cfg_file)"

section \<open>The server\<close>

text \<open>
  What \<open>New\<close> builds: both clients behind one cache, and the store when a path is configured.
  A call of a cached client is \<open>cached_call\<close> of the theory of providers.
\<close>

record server_parts =
  sp_config :: config
  sp_cache :: "cached_value cache"
  sp_clients :: providers
  sp_store :: "store option"

definition mcp_new :: "cli_env \<Rightarrow> (string \<Rightarrow> store result) \<Rightarrow> config \<Rightarrow> server_parts result" where
  "mcp_new env open_store cfg =
     (let parts = \<lparr>sp_config = cfg, sp_cache = cache_new (ttl_duration (cfg_cache cfg)),
                   sp_clients = cmd_providers env cfg, sp_store = None\<rparr> in
      if st_path (cfg_storage cfg) = [] then Inr parts
      else case open_store (st_path (cfg_storage cfg)) of
        Inl e \<Rightarrow> Inl (Wrapf ''open store'' e)
      | Inr st \<Rightarrow> Inr (parts\<lparr>sp_store := Some st\<rparr>))"

definition server_info :: "config \<Rightarrow> string" where
  "server_info cfg = join_with newline
     [''ReleaseWave MCP Server'',
      ''Tools: list_releases, get_latest_release, list_tags, check_services, find_outdated,'',
      ''       list_image_tags, compare_image_tags, list_k8s_deployments,'',
      ''       compare_release_vs_deployed, changelog_between_versions,'',
      ''       security_advisories, release_timeline, get_repo_file,'',
      ''       dependency_matrix, upgrade_plan, watch_releases,'',
      ''       service_graph, discover_services,'',
      ''       release_diff, release_history'',
      ''Providers: github, gitlab'',
      ''Services configured: '' @ show_int (int (length (cfg_services cfg))),
      []]"

text \<open>The transport that \<open>serve\<close> starts; the handler of the HTTP server is the composed one.\<close>

datatype served = ServeStdio | ServeHttp string handler

text \<open>\<open>web.Handler\<close> fails when the embedded template does not parse.\<close>

definition dashboard_error :: "go_error option \<Rightarrow> go_error option" where
  "dashboard_error parsed = map_option (Wrapf ''web: failed to parse embedded template'') parsed"

text \<open>What is printed on the standard error, and the outcome.\<close>

definition serve_cmd ::
  "cli_env \<Rightarrow> (string \<Rightarrow> store result) \<Rightarrow> go_error option \<Rightarrow> (server_parts \<Rightarrow> server_env) \<Rightarrow> string \<Rightarrow> int \<Rightarrow>
   config \<Rightarrow> printed list \<times> served result" where
  "serve_cmd env open_store template handlers transport port cfg =
     (case mcp_new env open_store cfg of
        Inl e \<Rightarrow> ([], Inl (Wrapf ''create server'' e))
      | Inr parts \<Rightarrow>
          if transport = ''stdio'' then ([], Inr ServeStdio)
          else if transport = ''sse'' then
            (let addr = '':'' @ show_int (if port = 0 then srv_port (cfg_server cfg) else port) in
             ([println (server_info cfg), println (''Dashboard: http://localhost'' @ addr @ ''/dashboard'')],
              case dashboard_error template of
                Some e \<Rightarrow> Inl (Wrapf ''web dashboard'' e)
              | None \<Rightarrow> Inr (ServeHttp addr (server (handlers parts) (srv_api_key (cfg_server cfg))))))
          else ([], Inl (Plain (''unknown transport '' @ quote transport @ '' (supported: stdio, sse)''))))"

text \<open>
  \<open>Shutdown\<close>: each part is \<open>None\<close> when the server has none, else what its closing returns.
\<close>

definition closing_error :: "string \<Rightarrow> go_error option option \<Rightarrow> go_error list" where
  "closing_error what part =
     (case part of Some (Some e) \<Rightarrow> [Wrapf what e] | _ \<Rightarrow> [])"

definition shutdown ::
  "go_error option option \<Rightarrow> go_error option option \<Rightarrow> go_error option option \<Rightarrow> go_error option" where
  "shutdown http sse st =
     join_errors (closing_error ''http server'' http @ closing_error ''sse server'' sse @ closing_error ''store'' st)"

lemma shutdown_reports_all:
  "(shutdown http sse st = None \<longleftrightarrow> (\<forall>part \<in> {http, sse, st}. part \<noteq> None \<longrightarrow> part = Some None)) \<and>
   (\<forall>part \<in> {http, sse, st}. \<forall>e t. part = Some (Some e) \<longrightarrow> errors_is t e \<longrightarrow>
      (\<exists>err. shutdown http sse st = Some err \<and> errors_is t err))"
  by (auto simp: shutdown_def closing_error_def join_errors_def split: option.splits)

section \<open>The daemon command\<close>

definition config_notifier :: "config \<Rightarrow> notifier option" where
  "config_notifier cfg =
     (if nc_enabled (cfg_notifications cfg) then
        from_config (nc_webhook_url (cfg_notifications cfg)) (slack_webhook_url (nc_slack (cfg_notifications cfg)))
          (discord_webhook_url (nc_discord (cfg_notifications cfg)))
      else None)"

definition daemon_of :: "cli_env \<Rightarrow> poster \<Rightarrow> config \<Rightarrow> daemon_env" where
  "daemon_of env post cfg =
     \<lparr>de_services = cfg_services cfg, de_providers = cmd_providers env cfg, de_notifier = config_notifier cfg,
      de_post = post\<rparr>"

text \<open>
  \<open>daemon --once\<close>: one cycle of a new daemon, and the store closed.  Without the flag it runs
  until it is stopped; the theory of processes goes on from there.  The text of the interval is
  an argument.
\<close>

datatype daemon_run = NothingToDo | DaemonFailed go_error | RanOnce daemon | Running daemon_env daemon

definition close_daemon_store :: "daemon \<Rightarrow> daemon" where
  "close_daemon_store d = d\<lparr>d_store := map_option store_close (d_store d)\<rparr>"

definition daemon_cmd ::
  "cli_env \<Rightarrow> poster \<Rightarrow> (string \<Rightarrow> store result) \<Rightarrow> string \<Rightarrow> bool \<Rightarrow> config \<Rightarrow> printed list \<times> daemon_run" where
  "daemon_cmd env post open_store interval once cfg =
     (if cfg_services cfg = [] then ([println ''No services configured.''], NothingToDo)
      else
        case (if st_path (cfg_storage cfg) = [] then Inr None
              else map_sum id Some (open_store (st_path (cfg_storage cfg)))) of
          Inl e \<Rightarrow> ([], DaemonFailed (Wrapf ''open store'' e))
        | Inr st \<Rightarrow>
            if once then
              ([], RanOnce (close_daemon_store (run_once (daemon_of env post cfg) (ci_now env) (daemon_new st))))
            else
              ([println (''Daemon watching '' @ show_int (int (length (cfg_services cfg))) @ '' services (interval: '' @
                  interval @ '')'')],
               Running (daemon_of env post cfg) (daemon_new st)))"

end
