(* ===== verification/Tools.thy ===== *)
theory Tools
  imports Service_Graph Wiring
begin

text \<open>
  The registration of the MCP tools (\<open>registerTools\<close> in \<open>internal/mcpserver/server.go\<close>,
  \<open>registerExtendedTools\<close> in \<open>internal/mcpserver/tools_extended.go\<close>): the declared arguments of every
  tool beside the handler that reads them.  The protocol library shows the declarations to a
  client and hands a call to the handler of its name; it neither checks that a required
  argument is there nor fills in a default.
\<close>

section \<open>Declarations\<close>

record tool_param =
  tp_name :: string
  tp_about :: string
  tp_number :: bool
  tp_required :: bool
  tp_default :: "string option"
  tp_enum :: "string list"

definition default_param :: "string \<Rightarrow> string \<Rightarrow> string \<Rightarrow> tool_param" where
  "default_param name about d =
     \<lparr>tp_name = name, tp_about = about, tp_number = False, tp_required = False, tp_default = Some d, tp_enum = []\<rparr>"

definition required_param :: "string \<Rightarrow> string \<Rightarrow> tool_param" where
  "required_param name about =
     \<lparr>tp_name = name, tp_about = about, tp_number = False, tp_required = True, tp_default = None, tp_enum = []\<rparr>"

definition number_param :: "string \<Rightarrow> string \<Rightarrow> tool_param" where
  "number_param name about =
     \<lparr>tp_name = name, tp_about = about, tp_number = True, tp_required = False, tp_default = None, tp_enum = []\<rparr>"

definition platform_param :: tool_param where
  "platform_param = (default_param ''platform'' ''Git platform'' ''github'')\<lparr>tp_enum := [''github'', ''gitlab'']\<rparr>"

type_synonym tool_handler = "mcp_server \<Rightarrow> tool_request \<Rightarrow> mcp_server \<times> sent list \<times> tool_result"

record tool =
  tl_name :: string
  tl_about :: string
  tl_params :: "tool_param list"
  tl_run :: tool_handler

definition add_tool :: "string \<Rightarrow> string \<Rightarrow> tool_param list \<Rightarrow> tool_handler \<Rightarrow> tool" where
  "add_tool name about params run = \<lparr>tl_name = name, tl_about = about, tl_params = params, tl_run = run\<rparr>"

text \<open>The handlers that change nothing on the server and send nothing.\<close>

definition reads :: "(mcp_server \<Rightarrow> tool_request \<Rightarrow> tool_result) \<Rightarrow> tool_handler" where
  "reads h s req = (s, [], h s req)"

record tools_env =
  te_tools :: tool_env
  te_jtime :: "gotime \<Rightarrow> string"
  te_tkey :: "gotime \<Rightarrow> int"
  te_keys :: "(string, string) gomap \<Rightarrow> string list"

definition server_tools :: "tools_env \<Rightarrow> tool list" where
  "server_tools env =
     [add_tool ''list_releases'' ''List releases for a repository. Returns release tags, names, dates, and release notes.''
        [required_param ''owner'' ''Repository owner (org or user)'',
         required_param ''repo'' ''Repository name'',
         platform_param]
        (reads (handle_list_releases (te_jtime env))),
      add_tool ''get_latest_release'' ''Get the latest release for a repository. Returns tag, name, date, URL, and release notes.''
        [required_param ''owner'' ''Repository owner (org or user)'',
         required_param ''repo'' ''Repository name'',
         platform_param]
        (reads (handle_get_latest_release (te_jtime env))),
      add_tool ''list_tags'' ''List git tags for a repository. Returns tag names and commit SHAs.''
        [required_param ''owner'' ''Repository owner (org or user)'',
         required_param ''repo'' ''Repository name'',
         platform_param]
        (reads handle_list_tags),
      add_tool ''check_services'' ''Check latest versions of all configured microservices. Returns service names, platforms, and their latest release tags.''
        []
        (reads (\<lambda>s req. handle_check_services s)),
      add_tool ''find_outdated'' ''Find services that may be outdated by comparing configured services. Returns a summary of each service's latest release.''
        []
        (reads (\<lambda>s req. handle_find_outdated s))]"

definition extended_tools :: "tools_env \<Rightarrow> tool list" where
  "extended_tools env =
     [add_tool ''list_image_tags'' ''List container image tags from any OCI-compatible registry (Docker Hub, GHCR, GitLab Registry, ECR, etc.).''
        [required_param ''image'' ''Full image reference, e.g. ghcr.io/org/app, docker.io/library/nginx'']
        (reads (\<lambda>s. handle_list_image_tags (te_tools env))),
      add_tool ''compare_image_tags'' ''Check if two image tags point to the same digest (same build).''
        [required_param ''image'' ''Image reference'',
         required_param ''tag1'' ''First tag to compare'',
         required_param ''tag2'' ''Second tag to compare'']
        (reads (\<lambda>s. handle_compare_image_tags (te_tools env))),
      add_tool ''list_k8s_deployments'' ''List deployments and statefulsets running in a Kubernetes cluster with their image versions.''
        [default_param ''namespace'' ''Kubernetes namespace (empty for all namespaces)'' [],
         default_param ''kubeconfig'' ''Path to kubeconfig file (default: ~/.kube/config)'' [],
         default_param ''context'' ''Kubernetes context to use (default: current context)'' []]
        (reads (\<lambda>s. handle_list_k8s_deployments (te_keys env) (te_tools env))),
      add_tool ''compare_release_vs_deployed'' ''Compare the latest release version against what's deployed in Kubernetes for configured services.''
        [default_param ''namespace'' ''Kubernetes namespace'' ''default'',
         default_param ''kubeconfig'' ''Path to kubeconfig'' [],
         default_param ''context'' ''Kubernetes context'' []]
        (reads (handle_compare_release_vs_deployed (te_tools env))),
      add_tool ''changelog_between_versions'' ''Get aggregated release notes between two versions of a repository.''
        [required_param ''owner'' ''Repository owner'',
         required_param ''repo'' ''Repository name'',
         required_param ''from'' ''Starting version tag (older)'',
         required_param ''to'' ''Ending version tag (newer)'',
         platform_param]
        (reads handle_changelog_between_versions),
      add_tool ''security_advisories'' ''Check for known security vulnerabilities (CVEs) affecting a package version using the OSV.dev database.''
        [required_param ''ecosystem'' ''Package ecosystem: Go, npm, PyPI, Maven, crates.io, NuGet'',
         required_param ''package'' ''Package name (e.g. golang.org/x/net, express, django)'',
         required_param ''version'' ''Version to check'']
        (reads (\<lambda>s. handle_security_advisories (te_tools env))),
      add_tool ''release_timeline'' ''Show a timeline of recent releases across all configured services, sorted by date.''
        [number_param ''days'' ''Number of days to look back'']
        (reads (handle_release_timeline (te_tools env))),
      add_tool ''get_repo_file'' ''Fetch the contents of a file from a repository. Useful for reading dependency files like go.mod, package.json, or requirements.txt.''
        [required_param ''owner'' ''Repository owner (org or user)'',
         required_param ''repo'' ''Repository name'',
         required_param ''path'' ''File path within the repository (e.g. go.mod, package.json)'',
         platform_param]
        (reads handle_get_repo_file),
      add_tool ''dependency_matrix'' ''Analyze shared dependencies across configured services by checking their go.mod, package.json, or requirements.txt files.''
        []
        (reads (\<lambda>s req. handle_dependency_matrix s)),
      add_tool ''upgrade_plan'' ''Generate an upgrade plan for outdated services, suggesting an order based on release dates and semantic versioning.''
        [default_param ''namespace'' ''Kubernetes namespace to check deployed versions'' ''default'',
         default_param ''kubeconfig'' ''Path to kubeconfig file'' [],
         default_param ''context'' ''Kubernetes context'' []]
        (reads (handle_upgrade_plan (te_tools env))),
      add_tool ''watch_releases'' ''Check for new releases and send notifications for configured services.''
        []
        (\<lambda>s req. handle_watch_releases (te_tools env) s),
      add_tool ''service_graph'' ''Build a dependency graph of configured services by analyzing their dependency files. Shows which services share common libraries and their versions.''
        []
        (reads (\<lambda>s req. handle_service_graph (tv_parse (te_tools env)) s)),
      add_tool ''release_diff'' ''Compare a service's deployed version (from K8s) against the latest release, showing the changelog between them.''
        [required_param ''service'' ''Service name (must be in config)'',
         default_param ''namespace'' ''Kubernetes namespace'' ''default'',
         default_param ''kubeconfig'' ''Path to kubeconfig'' [],
         default_param ''context'' ''Kubernetes context'' []]
        (reads (handle_release_diff (te_tools env))),
      add_tool ''release_history'' ''Query local release history for a service from the SQLite database.''
        [required_param ''service'' ''Service name'',
         number_param ''limit'' ''Maximum number of releases to return'']
        (reads (handle_release_history (te_tkey env) (te_jtime env))),
      add_tool ''discover_services'' ''Auto-discover services from a Kubernetes cluster using annotations or image names.''
        [default_param ''namespace'' ''Kubernetes namespace (empty for all namespaces)'' [],
         default_param ''kubeconfig'' ''Path to kubeconfig file (default: ~/.kube/config)'' [],
         default_param ''context'' ''Kubernetes context to use (default: current context)'' []]
        (reads (\<lambda>s. handle_discover_services (te_tools env)))]"

definition registered_tools :: "tools_env \<Rightarrow> tool list" where
  "registered_tools env = server_tools env @ extended_tools env"

section \<open>Calls\<close>

text \<open>The arguments of a call, as the library's readers give them to a handler.\<close>

definition string_arg :: "(string, string) gomap \<Rightarrow> string \<Rightarrow> string \<Rightarrow> string" where
  "string_arg strs k d = (case strs k of Some v \<Rightarrow> v | None \<Rightarrow> d)"

definition number_arg :: "(string, int) gomap \<Rightarrow> string \<Rightarrow> int \<Rightarrow> int" where
  "number_arg nums k d = (case nums k of Some v \<Rightarrow> v | None \<Rightarrow> d)"

definition args_request :: "(string, string) gomap \<Rightarrow> (string, int) gomap \<Rightarrow> tool_request" where
  "args_request strs nums = \<lparr>tq_string = string_arg strs, tq_int = number_arg nums\<rparr>"

definition call_tool ::
  "tools_env \<Rightarrow> mcp_server \<Rightarrow> string \<Rightarrow> tool_request \<Rightarrow> (mcp_server \<times> sent list \<times> tool_result) option" where
  "call_tool env s name req =
     map_option (\<lambda>t. tl_run t s req) (List.find (\<lambda>t. tl_name t = name) (registered_tools env))"

text \<open>
  The arguments as declared: the ones without a declaration left out, and the declared default
  in place of a missing one.
\<close>

definition declared_strings :: "tool_param list \<Rightarrow> (string, string) gomap \<Rightarrow> (string, string) gomap" where
  "declared_strings ps strs k =
     (case List.find (\<lambda>p. tp_name p = k \<and> \<not> tp_number p) ps of
        None \<Rightarrow> None
      | Some p \<Rightarrow> (case strs k of Some v \<Rightarrow> Some v | None \<Rightarrow> tp_default p))"

definition declared_numbers :: "tool_param list \<Rightarrow> (string, int) gomap \<Rightarrow> (string, int) gomap" where
  "declared_numbers ps nums k =
     (if list_ex (\<lambda>p. tp_name p = k \<and> tp_number p) ps then nums k else None)"

lemmas param_defs = default_param_def required_param_def number_param_def platform_param_def

lemma args_request_sel [simp]:
  "tq_string (args_request strs nums) = string_arg strs" "tq_int (args_request strs nums) = number_arg nums"
  by (simp_all add: args_request_def)

lemma string_arg_declared:
  "List.find (\<lambda>p. tp_name p = k \<and> \<not> tp_number p) ps = Some p \<Longrightarrow> tp_default p = None \<or> tp_default p = Some d \<Longrightarrow>
   string_arg (declared_strings ps strs) k d = string_arg strs k d"
  by (auto simp: string_arg_def declared_strings_def split: option.splits)

lemma number_arg_declared:
  "list_ex (\<lambda>p. tp_name p = k \<and> tp_number p) ps \<Longrightarrow>
   number_arg (declared_numbers ps nums) k d = number_arg nums k d"
  by (simp add: number_arg_def declared_numbers_def)

definition respects_declaration :: "tool \<Rightarrow> bool" where
  "respects_declaration t \<longleftrightarrow> (\<forall>s strs nums. tl_run t s (args_request strs nums) =
     tl_run t s (args_request (declared_strings (tl_params t) strs) (declared_numbers (tl_params t) nums)))"

lemmas handler_defs =
  handle_list_releases_def handle_get_latest_release_def handle_list_tags_def handle_get_repo_file_def
  handle_list_image_tags_def handle_compare_image_tags_def handle_list_k8s_deployments_def
  handle_compare_release_vs_deployed_def handle_changelog_between_versions_def handle_security_advisories_def
  handle_release_timeline_def handle_upgrade_plan_def handle_release_diff_def handle_release_history_def
  handle_discover_services_def with_repository_def deployed_in_def reads_def

lemma server_tools_respect: "list_all respects_declaration (server_tools env)"
  unfolding server_tools_def list.pred_inject respects_declaration_def add_tool_def tool.select_convs
  by (simp add: handler_defs string_arg_declared number_arg_declared param_defs Let_def
      cong del: option.case_cong_weak sum.case_cong_weak if_weak_cong)

lemma extended_tools_respect: "list_all respects_declaration (extended_tools env)"
  unfolding extended_tools_def list.pred_inject respects_declaration_def add_tool_def tool.select_convs
  by (simp add: handler_defs string_arg_declared number_arg_declared param_defs Let_def
      cong del: option.case_cong_weak sum.case_cong_weak if_weak_cong)

lemma tools_respect: "list_all respects_declaration (registered_tools env)"
  by (simp add: registered_tools_def server_tools_respect extended_tools_respect)

definition checks_required :: "tool \<Rightarrow> bool" where
  "checks_required t \<longleftrightarrow> (\<forall>s strs nums. list_all (\<lambda>p. tp_required p \<longrightarrow> string_arg strs (tp_name p) [] = [] \<longrightarrow>
     (\<exists>msg. tl_run t s (args_request strs nums) = (s, [], ToolError msg))) (tl_params t))"

lemma server_tools_check: "list_all checks_required (server_tools env)"
  unfolding server_tools_def list.pred_inject checks_required_def add_tool_def tool.select_convs
  by (simp add: handler_defs param_defs Let_def)

lemma extended_tools_check: "list_all checks_required (extended_tools env)"
  unfolding extended_tools_def list.pred_inject checks_required_def add_tool_def tool.select_convs
  by (simp add: handler_defs param_defs Let_def)

lemma tool_names: "distinct (map tl_name (registered_tools env))"
  by (simp add: registered_tools_def server_tools_def extended_tools_def add_tool_def)

lemma find_distinct:
  "distinct (map f xs) \<Longrightarrow> x \<in> set xs \<Longrightarrow> List.find (\<lambda>y. f y = f x) xs = Some x"
  by (induction xs) (auto simp: image_iff)

lemma call_registered:
  "t \<in> set (registered_tools env) \<Longrightarrow> call_tool env s (tl_name t) req = Some (tl_run t s req)"
  by (simp add: call_tool_def find_distinct [OF tool_names])

text \<open>Every tool but \<open>watch_releases\<close> leaves the server as it is and sends nothing.\<close>

lemma tools_change_nothing:
  "list_all (\<lambda>t. tl_name t = ''watch_releases'' \<or> (\<exists>r. tl_run t s req = (s, [], r))) (registered_tools env)"
  unfolding registered_tools_def server_tools_def extended_tools_def list_all_append list.pred_inject add_tool_def
    tool.select_convs
  by (simp add: reads_def)

section \<open>The declarations are what the handlers do\<close>


text \<open>
  A call without a required argument, or with an empty one, is answered with an error text and
  changes nothing, whichever of the tool's required arguments it is: the handlers check what the
  protocol library does not.
\<close>

theorem required_arguments_are_checked:
  assumes "t \<in> set (registered_tools env)" "p \<in> set (tl_params t)" "tp_required p"
    and "string_arg strs (tp_name p) [] = []"
  shows "\<exists>msg. call_tool env s (tl_name t) (args_request strs nums) = Some (s, [], ToolError msg)"
proof -
  have "checks_required t"
    using assms(1) server_tools_check extended_tools_check
    by (auto simp: registered_tools_def list_all_iff)
  then show ?thesis
    using assms(2-4) by (auto simp: checks_required_def list_all_iff call_registered [OF assms(1)])
qed

definition quiet_server :: mcp_server where
  "quiet_server = \<lparr>ms_config = default_config, ms_providers = Map.empty, ms_store = None, ms_known = Map.empty\<rparr>"

theorem required_arguments_are_checked_witness:
  "\<forall>env :: tools_env. \<exists>msg. call_tool env quiet_server ''release_history'' (args_request Map.empty Map.empty) =
     Some (quiet_server, [], ToolError msg)"
proof
  fix env :: tools_env
  let ?p = "required_param ''service'' ''Service name''"
  let ?t = "add_tool ''release_history'' ''Query local release history for a service from the SQLite database.''
    [?p, number_param ''limit'' ''Maximum number of releases to return'']
    (reads (handle_release_history (te_tkey env) (te_jtime env)))"
  have "?t \<in> set (registered_tools env)"
    by (simp add: registered_tools_def extended_tools_def)
  moreover have "?p \<in> set (tl_params ?t)" "tp_required ?p" "tl_name ?t = ''release_history''"
    by (simp_all add: add_tool_def required_param_def)
  ultimately show "\<exists>msg. call_tool env quiet_server ''release_history'' (args_request Map.empty Map.empty) =
     Some (quiet_server, [], ToolError msg)"
    using required_arguments_are_checked [of ?t env ?p Map.empty quiet_server Map.empty]
    by (simp add: string_arg_def)
qed

end
