(* ===== verification/Processes.thy ===== *)
theory Processes
  imports Daemon_Life Wiring
begin

text \<open>
  The long-running commands as processes: \<open>daemon\<close> and \<open>serve\<close> from their start to the exit code
  (\<open>cmd/releasewave/daemon.go\<close>, \<open>serve.go\<close>, \<open>main.go\<close>), with the goroutine that waits for a signal, the
  deferred calls and what Go's HTTP server does when it is shut down.  A process is a state with a
  step relation; after its exit it has no step.
\<close>

section \<open>The exit of the program\<close>

text \<open>\<open>main\<close>: an error of the command is printed on the standard error and gives the code 1.\<close>

definition main_exit :: "go_error option \<Rightarrow> string \<times> int" where
  "main_exit err =
     (case err of None \<Rightarrow> ([], 0) | Some e \<Rightarrow> (error_text e @ newline, 1))"

section \<open>The daemon process\<close>

datatype signal_pc = AwaitSignal | InStop | CallCancel | SignalDone

datatype main_pc = BeforeStart | InStart | CloseStore | Exited int

text \<open>
  \<open>dp_ticker\<close>: \<open>time.NewTicker\<close> has been called, which happens once, after the first cycle.  The
  goroutine of the signal is caller number 0 of \<open>Stop\<close>.
\<close>

record daemon_proc =
  dp_life :: life
  dp_ticker :: bool
  dp_signal :: signal_pc
  dp_main :: main_pc
  dp_daemon :: daemon

definition daemon_proc_init :: "store option \<Rightarrow> daemon_proc" where
  "daemon_proc_init st =
     \<lparr>dp_life = life_init, dp_ticker = False, dp_signal = AwaitSignal, dp_main = BeforeStart,
      dp_daemon = daemon_new st\<rparr>"

text \<open>The outside world of one cycle: the providers answer anew each time.\<close>

definition cycle_env :: "daemon_env \<Rightarrow> providers \<Rightarrow> daemon_env" where
  "cycle_env env ps = env\<lparr>de_providers := ps\<rparr>"

inductive daemon_proc_step :: "daemon_env \<Rightarrow> int \<Rightarrow> daemon_proc \<Rightarrow> daemon_proc \<Rightarrow> bool" for env interval where
  enters_start: "dp_main p = BeforeStart \<Longrightarrow> daemon_proc_step env interval p
     (p\<lparr>dp_main := InStart, dp_daemon := load_known_versions env (dp_daemon p),
        dp_life := (dp_life p)\<lparr>starts := Suc (starts (dp_life p)), loop := Polling\<rparr>\<rparr>)"
| cycle_ends: "loop (dp_life p) = Polling \<Longrightarrow> dp_ticker p \<or> 0 < interval \<Longrightarrow> daemon_proc_step env interval p
     (p\<lparr>dp_ticker := True, dp_daemon := poll (cycle_env env ps) t (dp_daemon p),
        dp_life := (dp_life p)\<lparr>loop := Selecting\<rparr>\<rparr>)"
| ticker_panics: "loop (dp_life p) = Polling \<Longrightarrow> \<not> dp_ticker p \<Longrightarrow> interval \<le> 0 \<Longrightarrow> daemon_proc_step env interval p
     (p\<lparr>dp_main := Exited 2, dp_daemon := close_daemon_store (poll (cycle_env env ps) t (dp_daemon p)),
        dp_life := (leave_loop (dp_life p))\<lparr>ctx_done := True\<rparr>\<rparr>)"
| tick: "loop (dp_life p) = Selecting \<Longrightarrow> daemon_proc_step env interval p
     (p\<lparr>dp_life := (dp_life p)\<lparr>loop := Polling\<rparr>\<rparr>)"
| loop_stops: "loop (dp_life p) = Selecting \<Longrightarrow> stop_closed (dp_life p) \<Longrightarrow>
     daemon_proc_step env interval p (p\<lparr>dp_life := leave_loop (dp_life p)\<rparr>)"
| loop_cancelled: "loop (dp_life p) = Selecting \<Longrightarrow> ctx_done (dp_life p) \<Longrightarrow>
     daemon_proc_step env interval p (p\<lparr>dp_life := leave_loop (dp_life p)\<rparr>)"
| start_returns: "dp_main p = InStart \<Longrightarrow> loop (dp_life p) = NotRunning \<Longrightarrow> daemon_proc_step env interval p
     (p\<lparr>dp_main := CloseStore, dp_life := (dp_life p)\<lparr>ctx_done := True\<rparr>\<rparr>)"
| store_closes: "dp_main p = CloseStore \<Longrightarrow> daemon_proc_step env interval p
     (p\<lparr>dp_main := Exited (snd (main_exit None)), dp_daemon := close_daemon_store (dp_daemon p)\<rparr>)"
| signal_comes: "dp_signal p = AwaitSignal \<Longrightarrow> dp_main p \<notin> range Exited \<Longrightarrow> daemon_proc_step env interval p
     (p\<lparr>dp_signal := InStop,
        dp_life := (close_stop_once (dp_life p))\<lparr>stops := (stops (dp_life p))(0 := AwaitStopped)\<rparr>\<rparr>)"
| stop_ends: "dp_signal p = InStop \<Longrightarrow> stopped_closed (dp_life p) \<Longrightarrow> dp_main p \<notin> range Exited \<Longrightarrow>
     daemon_proc_step env interval p
     (p\<lparr>dp_signal := CallCancel, dp_life := (dp_life p)\<lparr>stops := (stops (dp_life p))(0 := StopReturned)\<rparr>\<rparr>)"
| signal_cancels: "dp_signal p = CallCancel \<Longrightarrow> dp_main p \<notin> range Exited \<Longrightarrow> daemon_proc_step env interval p
     (p\<lparr>dp_signal := SignalDone, dp_life := (dp_life p)\<lparr>ctx_done := True\<rparr>\<rparr>)"

inductive daemon_process :: "daemon_env \<Rightarrow> int \<Rightarrow> store option \<Rightarrow> daemon_proc \<Rightarrow> bool" for env interval st where
  booted: "daemon_process env interval st (daemon_proc_init st)"
| stepped: "daemon_process env interval st p \<Longrightarrow> daemon_proc_step env interval p p' \<Longrightarrow>
     daemon_process env interval st p'"

definition cycles :: "daemon_env \<Rightarrow> (providers \<times> gotime) list \<Rightarrow> daemon \<Rightarrow> daemon" where
  "cycles env cs d = fold (\<lambda>(ps, t). poll (cycle_env env ps) t) cs d"

text \<open>
  The calls of \<open>Stop\<close>, the context and the place of the main goroutine.
\<close>

definition signal_ok :: "daemon_proc \<Rightarrow> bool" where
  "signal_ok p \<longleftrightarrow> (dp_signal p = AwaitSignal \<longleftrightarrow> stops (dp_life p) 0 = NotCalled) \<and>
     (dp_signal p = CallCancel \<or> dp_signal p = SignalDone \<longrightarrow> stops (dp_life p) 0 = StopReturned)"

definition place_ok :: "daemon_proc \<Rightarrow> bool" where
  "place_ok p \<longleftrightarrow>
     starts (dp_life p) = (if dp_main p = BeforeStart then 0 else 1) \<and>
     (ctx_done (dp_life p) \<or> dp_main p = CloseStore \<or> dp_main p \<in> range Exited \<longrightarrow>
        starts (dp_life p) = 1 \<and> loop (dp_life p) = NotRunning)"

definition proc_inv :: "daemon_proc \<Rightarrow> bool" where
  "proc_inv p \<longleftrightarrow> life_inv (dp_life p) \<and> signal_ok p \<and> place_ok p"

lemma proc_inv_init: "proc_inv (daemon_proc_init st)"
  by (simp add: proc_inv_def signal_ok_def place_ok_def daemon_proc_init_def life_inv_init)
     (simp add: life_init_def image_iff)

lemma proc_inv_step:
  assumes "daemon_proc_step env interval p p'" "proc_inv p"
  shows "proc_inv p'"
  using assms
  by (induction rule: daemon_proc_step.induct)
    (auto simp: proc_inv_def signal_ok_def place_ok_def life_inv_def leave_loop_def close_stop_once_def main_exit_def
      split: if_splits)

lemma process_inv: "daemon_process env interval st p \<Longrightarrow> proc_inv p"
  by (induction rule: daemon_process.induct) (auto intro: proc_inv_init proc_inv_step)

text \<open>What the daemon has done: the loading of the versions and the cycles \<open>cs\<close>, one after the other.\<close>

definition history_ok :: "daemon_env \<Rightarrow> int \<Rightarrow> store option \<Rightarrow> (providers \<times> gotime) list \<Rightarrow> daemon_proc \<Rightarrow> bool" where
  "history_ok env interval st cs p \<longleftrightarrow>
     (let d = cycles env cs (load_known_versions env (daemon_new st)) in
      (case dp_main p of
         BeforeStart \<Rightarrow> dp_daemon p = daemon_new st \<and> cs = []
       | Exited code \<Rightarrow> dp_daemon p = close_daemon_store d \<and> cs \<noteq> [] \<and> code = (if 0 < interval then 0 else 2)
       | _ \<Rightarrow> dp_daemon p = d)) \<and>
     (dp_main p \<notin> range Exited \<longrightarrow> (cs \<noteq> [] \<longleftrightarrow> dp_ticker p)) \<and>
     (dp_ticker p \<longrightarrow> 0 < interval) \<and>
     (loop (dp_life p) = Selecting \<or> dp_main p = InStart \<and> loop (dp_life p) = NotRunning \<or> dp_main p = CloseStore
        \<longrightarrow> dp_ticker p)"

lemma history_init: "history_ok env interval st [] (daemon_proc_init st)"
  by (simp add: history_ok_def daemon_proc_init_def life_init_def)

lemma cycles_snoc: "cycles env (cs @ [(ps, t)]) d = poll (cycle_env env ps) t (cycles env cs d)"
  by (simp add: cycles_def)

text \<open>What a step that runs no cycle keeps of the history.\<close>

lemma history_same:
  assumes "history_ok env interval st cs p" "dp_daemon p' = dp_daemon p" "dp_ticker p' = dp_ticker p"
    and "dp_main p' = dp_main p \<or> dp_main p = InStart \<and> dp_main p' = CloseStore \<and> loop (dp_life p) = NotRunning"
    and "loop (dp_life p') = Selecting \<or> loop (dp_life p') = NotRunning \<longrightarrow>
      loop (dp_life p) = Selecting \<or> loop (dp_life p) = NotRunning \<and> loop (dp_life p') = NotRunning"
  shows "history_ok env interval st cs p'"
  using assms by (cases "dp_main p") (auto simp: history_ok_def Let_def)

lemma running_main: "proc_inv p \<Longrightarrow> loop (dp_life p) = Polling \<Longrightarrow> dp_main p = InStart"
  by (cases "dp_main p") (auto simp: proc_inv_def place_ok_def life_inv_def)

lemma history_step:
  assumes "daemon_proc_step env interval p p'" "proc_inv p" "history_ok env interval st cs p"
  shows "\<exists>cs'. history_ok env interval st cs' p'"
  using assms
proof (induction rule: daemon_proc_step.induct)
  case (enters_start p)
  then show ?case by (intro exI [of _ "[]"]) (auto simp: history_ok_def cycles_def)
next
  case (cycle_ends p ps t)
  with running_main [OF cycle_ends(3,1)] show ?case
    by (intro exI [of _ "cs @ [(ps, t)]"]) (auto simp: history_ok_def cycles_snoc)
next
  case (ticker_panics p ps t)
  with running_main [OF ticker_panics(4,1)] show ?case
    by (intro exI [of _ "cs @ [(ps, t)]"]) (auto simp: history_ok_def cycles_snoc leave_loop_def)
next
  case (store_closes p)
  then show ?case by (intro exI [of _ cs]) (auto simp: history_ok_def main_exit_def)
qed (rule exI [of _ cs], erule history_same; simp add: leave_loop_def close_stop_once_def)+

lemma process_history: "daemon_process env interval st p \<Longrightarrow> \<exists>cs. history_ok env interval st cs p"
proof (induction rule: daemon_process.induct)
  case booted
  show ?case using history_init by blast
next
  case (stepped p p')
  then show ?case using history_step process_inv by blast
qed


definition signalled_run :: "daemon_env \<Rightarrow> daemon_proc \<Rightarrow> bool" where
  "signalled_run env p \<longleftrightarrow> dp_main p = Exited 0 \<and> dp_signal p = InStop"

lemma signalled_run_exists: "\<exists>p. daemon_process env 60 st p \<and> signalled_run env p"
proof -
  note a = daemon_process.stepped [OF daemon_process.booted daemon_proc_step.enters_start]
  note b = daemon_process.stepped [OF a daemon_proc_step.signal_comes]
  note c = daemon_process.stepped [OF b daemon_proc_step.cycle_ends [where ps = Map.empty and t = zero_time]]
  note d = daemon_process.stepped [OF c daemon_proc_step.loop_stops]
  note e = daemon_process.stepped [OF d daemon_proc_step.start_returns]
  note f = daemon_process.stepped [OF e daemon_proc_step.store_closes]
  show ?thesis
    by (intro exI conjI, rule f)
      (simp_all add: daemon_proc_init_def life_init_def leave_loop_def close_stop_once_def image_iff main_exit_def
        signalled_run_def)
qed


section \<open>The server process\<close>

text \<open>
  \<open>serve --transport sse\<close>.  \<open>http.Server.Shutdown\<close> closes the listener, and from then on
  \<open>ListenAndServe\<close> returns \<open>ErrServerClosed\<close> at once; \<open>Shutdown\<close> itself goes on until no request
  is in flight or its context of five seconds ends.  The requests count the open event streams.
\<close>

datatype closing_pc = NotClosing | ClosingHttp | ClosingSse | ClosingStore | AllClosed

datatype serve_pc = Serving | ServeReturned go_error | ServeExited int

record serve_proc =
  vp_main :: serve_pc
  vp_listening :: bool
  vp_requests :: nat
  vp_closing :: closing_pc
  vp_store :: "store option"

definition serve_proc_init :: "store option \<Rightarrow> serve_proc" where
  "serve_proc_init st =
     \<lparr>vp_main = Serving, vp_listening = True, vp_requests = 0, vp_closing = NotClosing, vp_store = st\<rparr>"

definition server_closed :: go_error where
  "server_closed = Plain ''http: Server closed''"

definition alive :: "serve_proc \<Rightarrow> bool" where
  "alive p \<longleftrightarrow> (case vp_main p of ServeExited code \<Rightarrow> False | _ \<Rightarrow> True)"

inductive serve_step :: "serve_proc \<Rightarrow> serve_proc \<Rightarrow> bool" where
  request_comes: "alive p \<Longrightarrow> vp_listening p \<Longrightarrow> serve_step p (p\<lparr>vp_requests := Suc (vp_requests p)\<rparr>)"
| request_done: "alive p \<Longrightarrow> 0 < vp_requests p \<Longrightarrow> serve_step p (p\<lparr>vp_requests := vp_requests p - 1\<rparr>)"
| shutdown_begins: "alive p \<Longrightarrow> vp_closing p = NotClosing \<Longrightarrow>
     serve_step p (p\<lparr>vp_closing := ClosingHttp, vp_listening := False\<rparr>)"
| http_drained: "alive p \<Longrightarrow> vp_closing p = ClosingHttp \<Longrightarrow> vp_requests p = 0 \<Longrightarrow>
     serve_step p (p\<lparr>vp_closing := ClosingSse\<rparr>)"
| http_deadline: "alive p \<Longrightarrow> vp_closing p = ClosingHttp \<Longrightarrow> serve_step p (p\<lparr>vp_closing := ClosingSse\<rparr>)"
| sse_closes: "alive p \<Longrightarrow> vp_closing p = ClosingSse \<Longrightarrow> serve_step p (p\<lparr>vp_closing := ClosingStore\<rparr>)"
| db_closes: "alive p \<Longrightarrow> vp_closing p = ClosingStore \<Longrightarrow>
     serve_step p (p\<lparr>vp_closing := AllClosed, vp_store := map_option store_close (vp_store p)\<rparr>)"
| listen_returns: "vp_main p = Serving \<Longrightarrow> vp_closing p \<noteq> NotClosing \<Longrightarrow>
     serve_step p (p\<lparr>vp_main := ServeReturned server_closed\<rparr>)"
| listen_fails: "vp_main p = Serving \<Longrightarrow>
     serve_step p (p\<lparr>vp_main := ServeReturned e, vp_listening := False\<rparr>)"
| program_exits: "vp_main p = ServeReturned e \<Longrightarrow>
     serve_step p (p\<lparr>vp_main := ServeExited (snd (main_exit (Some e)))\<rparr>)"

inductive_simps step_after_exit: "serve_step (p\<lparr>vp_main := ServeExited code\<rparr>) p'"

inductive serve_process :: "store option \<Rightarrow> serve_proc \<Rightarrow> bool" for st where
  serve_booted: "serve_process st (serve_proc_init st)"
| serve_stepped: "serve_process st p \<Longrightarrow> serve_step p p' \<Longrightarrow> serve_process st p'"

definition exit_ok :: "serve_proc \<Rightarrow> bool" where
  "exit_ok p \<longleftrightarrow> (\<forall>code. vp_main p = ServeExited code \<longrightarrow> code = 1)"

lemma exit_ok_step: "serve_step p p' \<Longrightarrow> exit_ok p \<Longrightarrow> exit_ok p'"
  by (induction rule: serve_step.induct) (auto simp: exit_ok_def main_exit_def alive_def)

lemma process_exit_ok: "serve_process st p \<Longrightarrow> exit_ok p"
  by (induction rule: serve_process.induct)
    (auto simp: exit_ok_def serve_proc_init_def intro: exit_ok_step [unfolded exit_ok_def, rule_format])

lemma no_step_after_exit: "vp_main p = ServeExited code \<Longrightarrow> \<not> serve_step p p'"
  using step_after_exit [where p = p and code = code and p' = p'] by (cases p) (simp add: alive_def)

text \<open>The shortest way out: the signal, the return of \<open>ListenAndServe\<close>, the exit.\<close>

definition exited :: "serve_proc \<Rightarrow> serve_proc" where
  "exited p = p\<lparr>vp_main := ServeExited 1\<rparr>"

lemma exit_from_return: "vp_main p = ServeReturned e \<Longrightarrow> serve_step p (exited p)"
  using serve_step.program_exits [of p e] by (simp add: exited_def main_exit_def)

lemma exit_from_closing:
  assumes "vp_main p = Serving" "vp_closing p \<noteq> NotClosing"
  shows "serve_step\<^sup>*\<^sup>* p (exited p)"
proof -
  let ?q = "p\<lparr>vp_main := ServeReturned server_closed\<rparr>"
  have "serve_step p ?q" by (rule serve_step.listen_returns [OF assms])
  moreover have "serve_step ?q (exited ?q)" by (rule exit_from_return) simp
  ultimately show ?thesis by (simp add: exited_def converse_rtranclp_into_rtranclp)
qed

lemma exit_reachable:
  assumes "alive p"
  shows "\<exists>q. serve_step\<^sup>*\<^sup>* p q \<and> vp_main q = ServeExited 1 \<and> vp_requests q = vp_requests p \<and> vp_store q = vp_store p"
proof (cases "vp_main p")
  case Serving
  show ?thesis
  proof (cases "vp_closing p = NotClosing")
    case True
    let ?q = "p\<lparr>vp_closing := ClosingHttp, vp_listening := False\<rparr>"
    have "serve_step p ?q" by (rule serve_step.shutdown_begins [OF assms True])
    moreover have "serve_step\<^sup>*\<^sup>* ?q (exited ?q)" using Serving by (intro exit_from_closing) simp_all
    ultimately have "serve_step\<^sup>*\<^sup>* p (exited ?q)" by (rule converse_rtranclp_into_rtranclp)
    then show ?thesis by (intro exI [of _ "exited ?q"]) (simp add: exited_def)
  next
    case False
    then show ?thesis
      using exit_from_closing [OF Serving] by (intro exI [of _ "exited p"]) (simp add: exited_def)
  qed
next
  case (ServeReturned e)
  then show ?thesis
    using exit_from_return by (intro exI [of _ "exited p"]) (auto simp: exited_def)
next
  case (ServeExited code)
  with assms show ?thesis by (simp add: alive_def)
qed



end
