(* ===== verification/Server_Runs.thy ===== *)
theory Server_Runs
  imports Server
begin

text \<open>
  Runs of the server: any sequence of HTTP requests, on the routes of the REST API, the dashboard
  and the rest, from a configuration on.  A request is served whole before the next one; the
  reads the dashboard makes while another request runs are in the theory of the dashboard.
\<close>

section \<open>Laws of handlers\<close>

text \<open>
  A law relates the configuration a request finds to what the handler makes of it.  When the
  leaves of the server obey it and CORS keeps it, so does the whole server: the muxes, the
  prefixes and the middleware only choose among the leaves.
\<close>

definition obeys :: "(config \<Rightarrow> config \<times> answer \<Rightarrow> bool) \<Rightarrow> handler \<Rightarrow> bool" where
  "obeys P h \<longleftrightarrow> (\<forall>req cfg. P cfg (h req cfg))"

lemma mux_find_obeys:
  "list_all (\<lambda>(p, h). \<forall>cs. obeys P (h cs)) mux \<Longrightarrow> mux_find mux m segs = Some h \<Longrightarrow> obeys P h"
  by (induction mux m segs rule: mux_find.induct) (auto split: option.splits if_splits)

definition plain_answers :: "answer set" where
  "plain_answers = {HealthOk, Prometheus, McpEndpoint, NotFound, NotAllowed, CleanRedirect,
     unauthorized ''missing API key'', unauthorized ''invalid API key'',
     Answer \<lparr>rs_status = 204, rs_headers = cors_headers, rs_body = JNull\<rparr>}"

locale handler_law =
  fixes P :: "config \<Rightarrow> config \<times> answer \<Rightarrow> bool"
  assumes plain: "a \<in> plain_answers \<Longrightarrow> P cfg (cfg, a)"
    and with_headers: "P cfg (cfg', a) \<Longrightarrow> P cfg (cfg', with_headers hs a)"
    and list: "P cfg (cfg, Answer (list_services cfg ps))"
    and releases: "P cfg (cfg, Answer (get_service_releases (tkey :: gotime \<Rightarrow> int) jtime st name))"
    and timeline: "P cfg (cfg, Answer (get_timeline (tkey :: gotime \<Rightarrow> int) jtime cfg st))"
    and add: "P cfg (on_config (add_service parse body) req cfg)"
    and delete: "P cfg (on_config (delete_service name) req cfg)"
    and page: "P cfg (cfg, Page (page template cfg ps now))"
    and web_add: "P cfg (map_prod id Page (web_add_service ps now name repo registry cfg))"
    and web_delete: "P cfg (map_prod id Page (web_delete_service ps now name cfg))"
begin

lemma mux_obeys: "list_all (\<lambda>(p, h). \<forall>cs. obeys P (h cs)) mux \<Longrightarrow> obeys P (serve_mux mux)"
  using mux_find_obeys [of P mux]
  by (auto simp: obeys_def serve_mux_def plain plain_answers_def split: option.splits)

lemma cors_obeys: "obeys P h \<Longrightarrow> obeys P (cors_handler h)"
  unfolding obeys_def cors_handler_def split_def
  by (auto simp: plain plain_answers_def intro!: with_headers)

lemma wrapped_obeys:
  assumes "obeys P h"
  shows "obeys P (api_key_auth key h)" "obeys P (strip_prefix prefix h)"
    "obeys P (strip_prefix prefix (api_key_auth key h))"
  using assms by (auto simp: obeys_def api_key_auth_def strip_prefix_def plain plain_answers_def)

lemma pure_obeys: "a \<in> plain_answers \<Longrightarrow> obeys P (pure_handler a)"
  by (simp add: obeys_def pure_handler_def plain)

lemma api_obeys: "obeys P (serve_mux (api_mux env))"
  using list releases timeline add delete
  by (intro mux_obeys) (simp add: api_mux_def obeys_def)

lemma web_obeys: "obeys P (serve_mux (web_mux env))"
  using page web_add web_delete
  by (intro mux_obeys)
    (simp add: web_mux_def obeys_def full_page_def partial_stats_def partial_services_def map_prod_def split_def)

lemma server_obeys: "obeys P (server env key)"
  unfolding server_def start_with_handlers_def
  by (rule mux_obeys)
    (simp add: outer_mux_def extra_routes_def wrapped_obeys cors_obeys pure_obeys api_obeys web_obeys plain_answers_def)

end

section \<open>The configuration\<close>

definition keeps_config :: "config \<Rightarrow> config \<times> answer \<Rightarrow> bool" where
  "keeps_config cfg out \<longleftrightarrow> (validate cfg = None \<longrightarrow>
     validate (fst out) = None \<and> (fst out)\<lparr>cfg_services := []\<rparr> = cfg\<lparr>cfg_services := []\<rparr>)"

lemma web_keeps_config:
  assumes "validate cfg = None"
  shows "validate (fst (web_add_service ps now name repo registry cfg)) = None"
    "(fst (web_add_service ps now name repo registry cfg))\<lparr>cfg_services := []\<rparr> = cfg\<lparr>cfg_services := []\<rparr>"
    "validate (fst (web_delete_service ps now name cfg)) = None"
    "(fst (web_delete_service ps now name cfg))\<lparr>cfg_services := []\<rparr> = cfg\<lparr>cfg_services := []\<rparr>"
proof -
  have ok: "services_ok (cfg_services cfg)" by (rule validate_services_ok [OF assms])
  have add: "fst (web_add_service ps now name repo registry cfg) =
      cfg\<lparr>cfg_services := snd (web_add name repo registry (cfg_services cfg))\<rparr>"
    by (subst web_add_service_eq) (simp add: Let_def)
  show "validate (fst (web_add_service ps now name repo registry cfg)) = None"
    "(fst (web_add_service ps now name repo registry cfg))\<lparr>cfg_services := []\<rparr> = cfg\<lparr>cfg_services := []\<rparr>"
    unfolding add by (simp_all add: validate_with_services [OF assms] web_reg.add_keeps_ok [OF ok])
  show "validate (fst (web_delete_service ps now name cfg)) = None"
    "(fst (web_delete_service ps now name cfg))\<lparr>cfg_services := []\<rparr> = cfg\<lparr>cfg_services := []\<rparr>"
    unfolding web_delete_service_eq
    by (simp_all add: validate_with_services [OF assms] web_reg.del_keeps_ok [OF ok])
qed

interpretation config_law: handler_law keeps_config
  using api_keeps_config web_keeps_config
  by unfold_locales (simp_all add: keeps_config_def on_config_def split_def map_prod_def)

section \<open>The answers\<close>

text \<open>A status code that ends the header of a response.\<close>

definition final_code :: "int \<Rightarrow> bool" where
  "final_code c \<longleftrightarrow> 200 \<le> c \<and> c \<le> 999"

definition final_answer :: "config \<Rightarrow> config \<times> answer \<Rightarrow> bool" where
  "final_answer cfg out \<longleftrightarrow> (case snd out of
      Answer r \<Rightarrow> final_code (rs_status r)
    | Page (Some (WebError r)) \<Rightarrow> final_code (rs_status r)
    | _ \<Rightarrow> True)"

interpretation answer_law: handler_law final_answer
proof unfold_locales
  fix cfg cfg' a hs assume "final_answer cfg (cfg', a)"
  then show "final_answer cfg (cfg', with_headers hs a)"
    by (simp add: final_answer_def with_headers_def split: answer.splits)
next
  fix cfg parse body req show "final_answer cfg (on_config (add_service parse body) req cfg)"
    by (simp add: final_answer_def on_config_def add_service_def final_code_def write_json_def Let_def
        split: sum.splits)
next
  fix cfg name req show "final_answer cfg (on_config (delete_service name) req cfg)"
    by (simp add: final_answer_def on_config_def delete_service_def final_code_def write_json_def Let_def
        split: prod.splits)
next
  fix cfg ps now name repo registry
  show "final_answer cfg (map_prod id Page (web_add_service ps now name repo registry cfg))"
    by (auto simp: final_answer_def web_add_service_def web_error_def page_def final_code_def write_json_def
        Let_def split: option.splits)
next
  fix cfg ps now name
  show "final_answer cfg (map_prod id Page (web_delete_service ps now name cfg))"
    by (auto simp: final_answer_def web_delete_service_def web_error_def page_def final_code_def write_json_def
        Let_def split: option.splits prod.splits)
next
  fix cfg and tkey :: "gotime \<Rightarrow> int" and jtime st name
  show "final_answer cfg (cfg, Answer (get_service_releases tkey jtime st name))"
    "final_answer cfg (cfg, Answer (get_timeline tkey jtime cfg st))"
    by (simp_all add: final_answer_def get_service_releases_def get_timeline_def final_code_def write_json_def
        Let_def split: option.splits sum.splits)
qed (auto simp: final_answer_def plain_answers_def unauthorized_def list_services_def page_def final_code_def
      write_json_def Let_def split: option.splits)

section \<open>A run\<close>

fun server_run :: "server_env \<Rightarrow> string \<Rightarrow> http_request list \<Rightarrow> config \<Rightarrow> config \<times> answer list" where
  "server_run env key [] cfg = (cfg, [])"
| "server_run env key (req # reqs) cfg =
     (case server env key req cfg of (cfg', a) \<Rightarrow>
        (case server_run env key reqs cfg' of (cfg'', as) \<Rightarrow> (cfg'', a # as)))"

lemma server_run_keeps:
  assumes "validate cfg = None"
  shows "validate (fst (server_run env key reqs cfg)) = None \<and>
    (fst (server_run env key reqs cfg))\<lparr>cfg_services := []\<rparr> = cfg\<lparr>cfg_services := []\<rparr>"
  using assms
proof (induction env key reqs cfg rule: server_run.induct)
  case (2 env key req reqs cfg)
  have "validate (fst (server env key req cfg)) = None \<and>
      (fst (server env key req cfg))\<lparr>cfg_services := []\<rparr> = cfg\<lparr>cfg_services := []\<rparr>"
    using config_law.server_obeys [of env key] 2(2) by (simp add: obeys_def keeps_config_def)
  with 2(1) show ?case by (cases "server env key req cfg") (simp add: split_def)
qed simp

lemma server_run_answers: "length (snd (server_run env key reqs cfg)) = length reqs"
  by (induction reqs arbitrary: cfg) (simp_all add: split_def)

lemma server_keyless:
  "key \<noteq> [] \<Longrightarrow> request_key req \<noteq> key \<Longrightarrow> fst (server env key req cfg) = cfg"
  by (simp add: server_eq route_def strip_prefix_def pure_handler_def auth_refuses)

lemma server_run_keyless:
  "key \<noteq> [] \<Longrightarrow> (\<forall>req\<in>set reqs. request_key req \<noteq> key) \<Longrightarrow> fst (server_run env key reqs cfg) = cfg"
  by (induction reqs arbitrary: cfg) (simp_all add: split_def server_keyless)



end
