(* ===== verification/Request_Metrics.thy ===== *)
theory Request_Metrics
  imports Server_Runs
begin

text \<open>
  The metrics middleware (\<open>internal/middleware/metrics.go\<close>): a handler writes its answer through
  a \<open>statusRecorder\<close>, and the request is counted under the status recorded there.  The writer
  below it is the one of Go's \<open>net/http\<close>, which sends the first final status it is given, and
  200 when the body starts without one.  The calls by which library handlers write their answers
  are a parameter, as is what executing a template writes before it ends or fails.
\<close>

section \<open>Writers\<close>

datatype writer_call = WriteHeader int | Write | Flush

record net_writer =
  nw_status :: "int option"
  nw_flusher :: bool

text \<open>\<open>None\<close> is the panic of \<open>net/http\<close> on a code that is not of three digits.\<close>

definition net_write_header :: "int \<Rightarrow> net_writer \<Rightarrow> net_writer option" where
  "net_write_header code w =
     (if nw_status w \<noteq> None then Some w
      else if code < 100 \<or> 999 < code then None
      else if code \<le> 199 \<and> code \<noteq> 101 then Some w
      else Some (w\<lparr>nw_status := Some code\<rparr>))"

definition net_send_header :: "net_writer \<Rightarrow> net_writer" where
  "net_send_header w = (if nw_status w = None then w\<lparr>nw_status := Some 200\<rparr> else w)"

record status_recorder =
  rec_writer :: net_writer
  rec_status :: int

definition recorder_write_header :: "int \<Rightarrow> status_recorder \<Rightarrow> status_recorder option" where
  "recorder_write_header code r =
     (let r = r\<lparr>rec_status := code\<rparr> in
      map_option (\<lambda>w. r\<lparr>rec_writer := w\<rparr>) (net_write_header code (rec_writer r)))"

definition recorder_flush :: "status_recorder \<Rightarrow> status_recorder" where
  "recorder_flush r =
     (if nw_flusher (rec_writer r) then r\<lparr>rec_writer := net_send_header (rec_writer r)\<rparr> else r)"

text \<open>\<open>Write\<close> is the promoted method of the embedded writer.\<close>

definition recorder_call :: "writer_call \<Rightarrow> status_recorder \<Rightarrow> status_recorder option" where
  "recorder_call c r =
     (case c of
        WriteHeader code \<Rightarrow> recorder_write_header code r
      | Write \<Rightarrow> Some (r\<lparr>rec_writer := net_send_header (rec_writer r)\<rparr>)
      | Flush \<Rightarrow> Some (recorder_flush r))"

fun run_calls :: "writer_call list \<Rightarrow> status_recorder \<Rightarrow> status_recorder option" where
  "run_calls [] r = Some r"
| "run_calls (c # cs) r = (case recorder_call c r of None \<Rightarrow> None | Some r' \<Rightarrow> run_calls cs r')"

definition new_recorder :: "bool \<Rightarrow> status_recorder" where
  "new_recorder flusher = \<lparr>rec_writer = \<lparr>nw_status = None, nw_flusher = flusher\<rparr>, rec_status = 200\<rparr>"

text \<open>What the client sees once the handler has returned.\<close>

definition sent_status :: "status_recorder \<Rightarrow> int" where
  "sent_status r = (case nw_status (rec_writer r) of None \<Rightarrow> 200 | Some code \<Rightarrow> code)"

section \<open>How answers are written\<close>

definition response_calls :: "response \<Rightarrow> writer_call list" where
  "response_calls r = WriteHeader (rs_status r) # (if rs_body r = JNull then [] else [Write])"

type_synonym renderer = "string \<Rightarrow> dashboard_data \<Rightarrow> nat \<times> bool"

definition page_calls :: "renderer \<Rightarrow> string \<Rightarrow> dashboard_data \<Rightarrow> writer_call list" where
  "page_calls render template d =
     (case render template d of (writes, ok) \<Rightarrow>
        replicate writes Write @
        (if ok \<or> template \<noteq> ''dashboard.html'' then [] else [WriteHeader 500, Write]))"

text \<open>The calls of a handler for an answer; \<open>None\<close> when it panics.\<close>

definition answer_calls :: "(answer \<Rightarrow> writer_call list) \<Rightarrow> renderer \<Rightarrow> answer \<Rightarrow> writer_call list option" where
  "answer_calls lib render a =
     (case a of
        Answer r \<Rightarrow> Some (response_calls r)
      | Page None \<Rightarrow> None
      | Page (Some (WebError r)) \<Rightarrow> Some (response_calls r)
      | Page (Some (Partial template d)) \<Rightarrow> Some (page_calls render template d)
      | HealthOk \<Rightarrow> Some [Write]
      | _ \<Rightarrow> Some (lib a))"

section \<open>The middleware\<close>

type_synonym request_counts = "string \<times> string \<times> int \<Rightarrow> nat"

text \<open>A request whose handler panics is not counted; the recorder is what is left of its answer.\<close>

definition with_metrics ::
  "(answer \<Rightarrow> writer_call list) \<Rightarrow> renderer \<Rightarrow> bool \<Rightarrow> handler \<Rightarrow> http_request \<Rightarrow> config \<times> request_counts \<Rightarrow>
     (config \<times> request_counts) \<times> answer \<times> status_recorder option" where
  "with_metrics lib render flusher next req = (\<lambda>(cfg, counts).
     case next req cfg of
       (cfg', a) \<Rightarrow>
         (case Option.bind (answer_calls lib render a) (\<lambda>calls. run_calls calls (new_recorder flusher)) of
            None \<Rightarrow> ((cfg', counts), a, None)
          | Some rec \<Rightarrow>
              (let key = (hr_method req, normalize_path (hr_path req), rec_status rec) in
               ((cfg', counts(key := counts key + 1)), a, Some rec))))"

section \<open>Recorded and sent\<close>

lemmas writer_defs = recorder_call_def recorder_write_header_def recorder_flush_def net_write_header_def
  net_send_header_def new_recorder_def sent_status_def

lemma run_calls_append:
  "run_calls (cs @ ds) r = Option.bind (run_calls cs r) (run_calls ds)"
  by (induction cs arbitrary: r) (auto split: option.splits)

text \<open>Calls that name a status once at most, at the start.\<close>

definition header_first :: "writer_call list \<Rightarrow> bool" where
  "header_first cs \<longleftrightarrow> (case cs of
      WriteHeader code # rest \<Rightarrow> final_code code \<and> list_all (\<lambda>c. c \<in> {Write, Flush}) rest
    | _ \<Rightarrow> list_all (\<lambda>c. c \<in> {Write, Flush}) cs)"

lemma body_call:
  "c \<in> {Write, Flush} \<Longrightarrow>
     \<exists>r1. recorder_call c r = Some r1 \<and> rec_status r1 = rec_status r \<and> sent_status r1 = sent_status r"
  by (rule exI [of _ "the (recorder_call c r)"]) (auto simp: writer_defs split: option.splits if_splits)

lemma run_body:
  "list_all (\<lambda>c. c \<in> {Write, Flush}) cs \<Longrightarrow>
     \<exists>r'. run_calls cs r = Some r' \<and> rec_status r' = rec_status r \<and> sent_status r' = sent_status r"
proof (induction cs arbitrary: r)
  case (Cons c cs)
  then obtain r1 where "recorder_call c r = Some r1" "rec_status r1 = rec_status r" "sent_status r1 = sent_status r"
    using body_call [of c r] by auto
  with Cons.IH [of r1] Cons.prems show ?case by simp
qed simp

lemma run_header_first:
  assumes "header_first cs"
  shows "\<exists>r. run_calls cs (new_recorder fl) = Some r \<and> rec_status r = sent_status r"
proof (cases "\<exists>code rest. cs = WriteHeader code # rest")
  case True
  then obtain code rest where cs: "cs = WriteHeader code # rest" by blast
  let ?r = "\<lparr>rec_writer = \<lparr>nw_status = Some code, nw_flusher = fl\<rparr>, rec_status = code\<rparr>"
  have "recorder_call (WriteHeader code) (new_recorder fl) = Some ?r"
    using assms cs by (simp add: writer_defs header_first_def final_code_def)
  moreover have "\<exists>r'. run_calls rest ?r = Some r' \<and> rec_status r' = code \<and> sent_status r' = code"
    using run_body [of rest ?r] assms cs by (simp add: header_first_def sent_status_def)
  ultimately show ?thesis using cs by auto
next
  case False
  then have "list_all (\<lambda>c. c \<in> {Write, Flush}) cs"
    using assms by (auto simp: header_first_def split: list.splits writer_call.splits)
  from run_body [OF this, of "new_recorder fl"] show ?thesis by (auto simp: writer_defs)
qed

lemma response_header_first: "final_code (rs_status r) \<Longrightarrow> header_first (response_calls r)"
  by (simp add: header_first_def response_calls_def)

lemma run_writes:
  "run_calls (replicate n Write) (new_recorder fl) =
     Some (if n = 0 then new_recorder fl
           else \<lparr>rec_writer = \<lparr>nw_status = Some 200, nw_flusher = fl\<rparr>, rec_status = 200\<rparr>)"
proof -
  have "run_calls (replicate m Write) r = Some r" if "nw_status (rec_writer r) = Some code" for m r code
    using that by (induction m) (simp_all add: writer_defs)
  then show ?thesis by (cases n) (simp_all add: writer_defs)
qed

text \<open>A page that starts to be sent and then fails.\<close>

definition broken_page :: "renderer \<Rightarrow> answer \<Rightarrow> bool" where
  "broken_page render a \<longleftrightarrow> (case a of
      Page (Some (Partial template d)) \<Rightarrow>
        template = ''dashboard.html'' \<and> 0 < fst (render template d) \<and> \<not> snd (render template d)
    | _ \<Rightarrow> False)"

lemma run_page:
  "\<exists>r. run_calls (page_calls render template d) (new_recorder fl) = Some r \<and>
     (rec_status r, sent_status r) =
       (if broken_page render (Page (Some (Partial template d))) then (500, 200)
        else if template = ''dashboard.html'' \<and> \<not> snd (render template d) then (500, 500) else (200, 200))"
proof (cases "render template d")
  case (Pair n ok)
  show ?thesis
  proof (cases "ok \<or> template \<noteq> ''dashboard.html''")
    case True
    then show ?thesis
      using run_body [of "replicate n Write" "new_recorder fl"]
      by (auto simp: Pair page_calls_def broken_page_def sent_status_def new_recorder_def list_all_iff)
  next
    case False
    then have "run_calls (page_calls render template d) (new_recorder fl) =
        Some \<lparr>rec_writer = \<lparr>nw_status = Some (if n = 0 then 500 else 200), nw_flusher = fl\<rparr>, rec_status = 500\<rparr>"
      unfolding page_calls_def Pair prod.case run_calls_append run_writes by (simp add: writer_defs)
    moreover have "render ''dashboard.html'' d = (n, ok)" using Pair False by simp
    ultimately show ?thesis using False by (simp add: broken_page_def sent_status_def)
  qed
qed

lemma run_answer:
  assumes "final_answer cfg (cfg', a)" "a \<noteq> Page None" "\<forall>a. header_first (lib a)"
  shows "\<exists>calls r. answer_calls lib render a = Some calls \<and> run_calls calls (new_recorder fl) = Some r \<and>
    (if broken_page render a then rec_status r = 500 \<and> sent_status r = 200 else rec_status r = sent_status r)"
proof (cases "\<exists>template d. a = Page (Some (Partial template d))")
  case True
  then obtain template d where a: "a = Page (Some (Partial template d))" by blast
  show ?thesis
    using run_page [of render template d fl] unfolding a by (auto simp: answer_calls_def split: if_splits)
next
  case False
  then obtain calls where "answer_calls lib render a = Some calls" "header_first calls"
    using assms by (auto simp: answer_calls_def final_answer_def response_header_first header_first_def [of "[Write]"]
        split: answer.splits option.splits web_reply.splits)
  moreover have "\<not> broken_page render a"
    using False by (auto simp: broken_page_def split: answer.splits option.splits web_reply.splits)
  ultimately show ?thesis using run_header_first by auto
qed

text \<open>
  C31. Requests are counted as they are sent.  The middleware changes neither what a request does
  nor its answer; it counts every request whose handler returns, once, under its method, the
  label of its path and a status, which is the one sent to the client.  The exception is a full
  page of the dashboard whose template fails after it has begun to write: the client has then
  got 200, and 500 is counted.
\<close>

theorem requests_are_counted_as_sent:
  assumes "\<forall>a. header_first (lib a)"
    and "with_metrics lib render flusher (server env key) req (cfg, counts) = ((cfg', counts'), a, rec)"
  shows "(cfg', a) = server env key req cfg \<and>
    (a = Page None \<longrightarrow> rec = None \<and> counts' = counts) \<and>
    (a \<noteq> Page None \<longrightarrow> (\<exists>r. rec = Some r \<and>
       counts' = (let k = (hr_method req, normalize_path (hr_path req), rec_status r)
         in counts(k := counts k + 1)) \<and>
       (if broken_page render a then rec_status r = 500 \<and> sent_status r = 200
        else rec_status r = sent_status r)))"
proof -
  obtain cfg1 a1 where out: "server env key req cfg = (cfg1, a1)" by fastforce
  have final: "final_answer cfg (cfg1, a1)"
    using answer_law.server_obeys [of env key] out by (simp add: obeys_def) (metis out)
  show ?thesis
  proof (cases "a1 = Page None")
    case True
    then show ?thesis using assms(2) out by (simp add: with_metrics_def answer_calls_def)
  next
    case False
    then obtain calls r where r: "answer_calls lib render a1 = Some calls"
        "run_calls calls (new_recorder flusher) = Some r"
        "if broken_page render a1 then rec_status r = 500 \<and> sent_status r = 200 else rec_status r = sent_status r"
      using run_answer [OF final _ assms(1), where render = render and fl = flusher] by blast
    have "with_metrics lib render flusher (server env key) req (cfg, counts) =
        (let k = (hr_method req, normalize_path (hr_path req), rec_status r)
         in ((cfg1, counts(k := counts k + 1)), a1, Some r))"
      by (simp add: with_metrics_def out r(1,2))
    with r(3) False out assms(2) show ?thesis by (auto simp: Let_def)
  qed
qed

theorem requests_are_counted_as_sent_witness:
  "\<exists>out a r. with_metrics (\<lambda>_. [Write]) (\<lambda>_ _. (1, False)) True (server demo_server [])
     (demo_request ''GET'' ''/dashboard'') (default_config, \<lambda>_. 0) = (out, a, Some r) \<and>
     snd out (''GET'', ''/dashboard'', 500) = 1 \<and> sent_status r = 200"
proof -
  let ?req = "demo_request ''GET'' ''/dashboard''"
  obtain d where d: "full_page default_config Map.empty zero_time = Some (Partial ''dashboard.html'' d)"
    by (auto simp: full_page_def page_def fetch_alone)
  have ans: "server demo_server [] ?req default_config = (default_config, Page (Some (Partial ''dashboard.html'' d)))"
    using d by (simp add: server_eq is_clean_def path_segs_def route_def auth_admits serve_mux_def web_mux_def
        demo_request_def demo_server_def method_ok_def)
  obtain cfg' counts' a r where run: "with_metrics (\<lambda>_. [Write]) (\<lambda>_ _. (1, False)) True
      (server demo_server []) ?req (default_config, \<lambda>_. 0) = ((cfg', counts'), a, r)"
    by (metis prod.collapse)
  have "header_first [Write]" by (simp add: header_first_def)
  then have "\<forall>a :: answer. header_first [Write]" by simp
  from requests_are_counted_as_sent [OF this run] show ?thesis
    unfolding run using ans
    by (auto simp: broken_page_def Let_def demo_request_def normalize_path_def)
qed

end
