(* ===== verification/Spec2Isabelle.thy ===== *)
theory Spec2Isabelle
  imports Daemon_Concurrent Daemon_Life Service_Graph Tenant Webhook Clients Cli_Files Cli_Tenants Github_App Tools Processes Request_Metrics
begin

text \<open>
  ReleaseWave (Go, \<open>src/\<close>) watches the releases of a list of services.  A configuration file
  lists the services; providers for GitHub and GitLab answer what a repository's releases, tags
  and files are, behind a cache; a daemon polls them, remembers the last tag of each service,
  stores new releases and notifies webhooks; a server offers the same look-ups as MCP tools, a
  REST API and a dashboard; tenants, API keys and GitHub webhooks stand beside it.

  Theories, in the order they build on each other, with the code they model
  (\<open>internal/\<close> unless said otherwise):

  \<^item> \<open>Prelude\<close>: Go's strings (byte lists), \<open>Split\<close>, \<open>Index\<close>, \<open>HasPrefix\<close>, numbers, and the
    locale \<open>slice_sorter\<close>, the contract of \<open>sort.Slice\<close>, interpreted by the insertion sort
    the model computes with.  Where the order of equal elements is open in Go, the properties
    use the contract only.
  \<^item> \<open>Go_Errors\<close> (\<open>errors/errors.go\<close>): errors with wrapping, \<open>errors.Is\<close>, \<open>errors.As\<close>, the classes of
    HTTP statuses.  A fallible function returns \<open>go_error + 'a\<close>.
  \<^item> \<open>Model\<close> (\<open>model/model.go\<close>): services, releases, tags, and times with their formats.
  \<^item> \<open>Duration\<close>, \<open>Config\<close> (\<open>config/config.go\<close>): defaults, validation, environment overrides,
    \<open>Load\<close>, \<open>ParseRepo\<close>.  Reading the file and the YAML is a parameter.
  \<^item> \<open>Cache\<close> (\<open>cache/cache.go\<close>): entries with expiry, the janitor, keys; concurrent calls are a step
    relation at the granularity of the locks.
  \<^item> \<open>Provider\<close> (\<open>provider/provider.go\<close>, \<open>provider/cached.go\<close>): the interface as a record of functions and
    the caching decorator, a refinement of the inner provider.
  \<^item> \<open>Json\<close>: JSON values and what \<open>encoding/json\<close> stores into the fields of a struct.
  \<^item> \<open>Clients\<close> (\<open>provider/github/github.go\<close>, \<open>provider/gitlab/gitlab.go\<close>): every method of both
    clients over a network parameter, with Base64.
  \<^item> \<open>Store\<close> (\<open>store/store.go\<close>): the tables and every operation, closed database included.
  \<^item> \<open>Notify\<close> (\<open>notify/notify.go\<close>): webhook, Slack, Discord and multi notifiers over a parameter that
    posts; each channel interprets the locale \<open>notification_channel\<close>.
  \<^item> \<open>Daemon\<close> (\<open>daemon/daemon.go\<close>): a poll, service by service; \<open>Daemon_Concurrent\<close>: the goroutines of a
    poll as a step relation whose every run ends as the sequential poll does; \<open>Daemon_Life\<close>:
    \<open>Start\<close> and \<open>Stop\<close>, safe in every run and live in every fair one.
  \<^item> \<open>Services\<close>: what API and dashboard share, with the locale \<open>service_registry\<close>, the contract of a
    pair of add and delete handlers.  \<open>Api\<close> (\<open>api/api.go\<close>) and \<open>Web\<close> (\<open>web/web.go\<close>) interpret it on their
    handlers.
  \<^item> \<open>Server\<close> (\<open>mcpserver/server.go\<close>, \<open>middleware/\<close>, \<open>api/middleware.go\<close>, \<open>cmd/releasewave/serve.go\<close>):
    \<open>ServeMux\<close>, \<open>StripPrefix\<close>, authentication, CORS and the composed server.  \<open>Server_Runs\<close>: the locale
    \<open>handler_law\<close>, what holds of every answer once it holds of the leaves, interpreted for the
    configuration and for the status codes, and any sequence of requests.
  \<^item> \<open>Request_Metrics\<close> (\<open>middleware/metrics.go\<close>): the recorder of statuses and the counted requests.
  \<^item> \<open>Kubernetes\<close> (\<open>k8s/k8s.go\<close>, \<open>discovery/discovery.go\<close>), \<open>Registry\<close> (\<open>registry/registry.go\<close>), \<open>Osv\<close>
    (\<open>security/osv.go\<close>): over a cluster, a registry and an HTTP parameter.
  \<^item> \<open>Mcp\<close>, \<open>Analysis\<close>, \<open>Planning\<close> (\<open>mcpserver/server.go\<close>, \<open>mcpserver/tools_extended.go\<close>): the MCP tools.
    The protocol library reads the arguments, so a request is a pair of argument readers.
  \<^item> \<open>Deps\<close>, \<open>Service_Graph\<close> (\<open>parseDeps\<close>, \<open>handleDependencyMatrix\<close>, \<open>handleServiceGraph\<close>): reading
    dependency files, the matrix of them and the graph of the services that share them.
  \<^item> \<open>Sha256\<close>, \<open>Webhook\<close> (\<open>githubapp/webhook.go\<close>): SHA-256 and HMAC on 32-bit words, the
    signature check and the dispatch of GitHub's events.
  \<^item> \<open>Tenant\<close> (\<open>tenant/tenant.go\<close>, \<open>tenant/apikey.go\<close>): the tables with their constraints and
    every operation.
  \<^item> \<open>Github_App\<close> (\<open>githubapp/app.go\<close>): the App's claims and its calls; signing is a parameter.
  \<^item> \<open>Cli\<close>, \<open>Cli_Files\<close>, \<open>Cli_Tenants\<close> (\<open>cmd/releasewave/\<close>): the commands that look things up, the ones
    that change files and the ones on tenants, each giving what it prints, how it ends and the
    files or tables it leaves.
  \<^item> \<open>Wiring\<close> (\<open>cmd/releasewave/root.go\<close>, \<open>serve.go\<close>, \<open>daemon.go\<close>, \<open>logging/logging.go\<close>,
    \<open>ratelimit/ratelimit.go\<close>): how a command starts, how the server is built,
    served and shut down, and the daemon command.
  \<^item> \<open>Tools\<close> (\<open>registerTools\<close>, \<open>registerExtendedTools\<close>): the declared arguments of every MCP tool beside
    its handler, and the dispatch of a call.
  \<^item> \<open>Processes\<close> (\<open>cmd/releasewave/daemon.go\<close>, \<open>serve.go\<close>, \<open>main.go\<close>): the daemon and the server as
    processes, from the start over signals and deferred calls to the exit code.

  State is passed explicitly: the configuration through the handlers, the cache, the database
  and the daemon through their operations.  Concurrency is a step relation where the code's
  result depends on it (cache, poll, \<open>Stop\<close>, dashboard); goroutines that write disjoint elements
  of a slice are a map over the services, and the ones that append to a shared slice do it in the
  order of the services.

  Bounds.  Every recursion is structural or has a measure; no definition uses fuel.  The poll's
  measure is four steps for each service.  SHA-256 is on 32-bit words; times and durations are
  integers, with the wrap-around of \<open>time.Duration\<close> written out where it is parsed.

  Not modelled: the text syntax of YAML and JSON, HTTP, SQL, the token bucket and the MCP protocol
  (libraries, parameters here); log lines; the HTML templates; the columns of \<open>text/tabwriter\<close>;
  the registration of commands and flags; the latency histograms;
  deadlines of requests.
\<close>

end
